(* ===== verification/Prelude.thy ===== *)
theory Prelude
  imports Main "HOL-Library.Sublist"
begin

text \<open>
  Generic layer of the development: the string operations of JavaScript that the services use,
  outcomes of asynchronous code (\<open>js_error + 'a\<close>), keyed tables, and the named collections that
  the component theories feed to the simplifier.

  Strings are lists of bytes (\<open>char list\<close>); case mapping and white space are those of ASCII.
\<close>

section \<open>Collections\<close>

named_theorems handler_defs \<open>definitions unfolded when a request handler is evaluated\<close>
named_theorems frame_simps \<open>what an operation leaves unchanged\<close>

section \<open>Exceptions\<close>

text \<open>What a promise can be rejected with. An asynchronous request handler that rejects sends no
  response.\<close>

datatype db_error =
    InvalidUuid
  | InvalidArray
  | UniqueViolation
  | ForeignKeyViolation
  | ValueTooLong

datatype js_error =
    TypeError
  | SyntaxError
  | RangeError
  | DbError db_error
  | LibError string

section \<open>Strings\<close>

definition is_ws :: "char \<Rightarrow> bool" where
  "is_ws c \<longleftrightarrow> of_char c \<in> {9, 10, 11, 12, 13, 32 :: nat}"

definition js_trim :: "string \<Rightarrow> string" where
  "js_trim s = rev (dropWhile is_ws (rev (dropWhile is_ws s)))"

definition lower_char :: "char \<Rightarrow> char" where
  "lower_char c =
     (if 65 \<le> (of_char c :: nat) \<and> (of_char c :: nat) \<le> 90 then char_of (of_char c + 32 :: nat) else c)"

definition js_lower :: "string \<Rightarrow> string" where
  "js_lower s = map lower_char s"

text \<open>The number of characters of a text: the bytes that do not continue one.\<close>

definition chars :: "string \<Rightarrow> nat" where
  "chars s = length (filter (\<lambda>c. (of_char c :: nat) < 128 \<or> 192 \<le> (of_char c :: nat)) s)"

definition upper_char :: "char \<Rightarrow> char" where
  "upper_char c =
     (if 97 \<le> (of_char c :: nat) \<and> (of_char c :: nat) \<le> 122 then char_of (of_char c - 32 :: nat) else c)"

definition js_upper :: "string \<Rightarrow> string" where
  "js_upper s = map upper_char s"

definition starts_with :: "string \<Rightarrow> string \<Rightarrow> bool" where
  "starts_with p s \<longleftrightarrow> take (length p) s = p"

definition ends_with :: "string \<Rightarrow> string \<Rightarrow> bool" where
  "ends_with p s \<longleftrightarrow> length p \<le> length s \<and> drop (length s - length p) s = p"

text \<open>\<open>s.split(c)\<close> for a one-character separator.\<close>

fun js_split :: "char \<Rightarrow> string \<Rightarrow> string list" where
  "js_split c [] = [[]]"
| "js_split c (x # xs) =
     (if x = c then [] # js_split c xs
      else (case js_split c xs of [] \<Rightarrow> [[x]] | w # ws \<Rightarrow> (x # w) # ws))"

definition nth_opt :: "'a list \<Rightarrow> nat \<Rightarrow> 'a option" where
  "nth_opt xs i = (if i < length xs then Some (xs ! i) else None)"

subsection \<open>Decimal digits\<close>

fun nat_to_string :: "nat \<Rightarrow> string" where
  "nat_to_string n =
     (if n < 10 then [char_of (48 + n)] else nat_to_string (n div 10) @ [char_of (48 + n mod 10)])"

declare nat_to_string.simps [simp del]

definition int_to_string :: "int \<Rightarrow> string" where
  "int_to_string i = (if i < 0 then ''-'' @ nat_to_string (nat (- i)) else nat_to_string (nat i))"

subsection \<open>Dates\<close>

text \<open>\<open>new Date(ms).toISOString()\<close> for the years 0 to 9999: the civil date of a day number counted
  from 1970-01-01, in the proleptic Gregorian calendar.\<close>

definition civil_from_days :: "int \<Rightarrow> int \<times> int \<times> int" where
  "civil_from_days n =
     (let z = n + 719468; era = z div 146097; doe = z mod 146097;
          yoe = (doe - doe div 1460 + doe div 36524 - doe div 146096) div 365;
          doy = doe - (365 * yoe + yoe div 4 - yoe div 100);
          mp = (5 * doy + 2) div 153;
          d = doy - (153 * mp + 2) div 5 + 1;
          m = (if mp < 10 then mp + 3 else mp - 9)
      in (yoe + era * 400 + (if m \<le> 2 then 1 else 0), m, d))"

definition pad_int :: "nat \<Rightarrow> int \<Rightarrow> string" where
  "pad_int w i = (let s = int_to_string i in replicate (w - length s) CHR ''0'' @ s)"

definition toISOString :: "int \<Rightarrow> string" where
  "toISOString ms =
     (let (y, m, d) = civil_from_days (ms div 86400000); t = ms mod 86400000
      in pad_int 4 y @ ''-'' @ pad_int 2 m @ ''-'' @ pad_int 2 d @ ''T'' @
         pad_int 2 (t div 3600000) @ '':'' @ pad_int 2 (t div 60000 mod 60) @ '':'' @
         pad_int 2 (t div 1000 mod 60) @ ''.'' @ pad_int 3 (t mod 1000) @ ''Z'')"

lemma toISOString_example: "toISOString 1772053742123 = ''2026-02-25T21:09:02.123Z''"
  by code_simp

section \<open>Lemmas on strings\<close>

lemma js_trim_Nil [simp]: "js_trim [] = []"
  by (simp add: js_trim_def)

lemma set_js_trim: "set (js_trim s) \<subseteq> set s"
  unfolding js_trim_def by (metis set_dropWhileD set_rev subsetI)

lemma dropWhile_not_hd: "xs \<noteq> [] \<Longrightarrow> \<not> P (hd xs) \<Longrightarrow> dropWhile P xs = xs"
  by (cases xs) auto

lemma dropWhile_none: "(\<And>c. c \<in> set s \<Longrightarrow> \<not> P c) \<Longrightarrow> dropWhile P s = s"
  by (cases s) auto

lemma js_trim_id: "(\<And>c. c \<in> set s \<Longrightarrow> \<not> is_ws c) \<Longrightarrow> js_trim s = s"
  using dropWhile_none [of s is_ws] dropWhile_none [of "rev s" is_ws] by (simp add: js_trim_def)

lemma hd_js_trim:
  assumes "js_trim s \<noteq> []"
  shows "\<not> is_ws (hd (js_trim s)) \<and> \<not> is_ws (last (js_trim s))"
proof -
  let ?a = "dropWhile is_ws s"
  have ne: "dropWhile is_ws (rev ?a) \<noteq> []" using assms by (simp add: js_trim_def)
  then have "?a \<noteq> []" by (cases "?a") simp_all
  then have hd_a: "\<not> is_ws (hd ?a)" by (simp add: hd_dropWhile)
  obtain us where us: "rev ?a = us @ dropWhile is_ws (rev ?a)"
    by (metis takeWhile_dropWhile_id)
  then have "?a = rev (dropWhile is_ws (rev ?a)) @ rev us"
    by (metis rev_append rev_rev_ident)
  then have "hd ?a = hd (js_trim s)"
    using ne by (metis hd_append2 js_trim_def rev_is_Nil_conv)
  moreover have "\<not> is_ws (hd (dropWhile is_ws (rev ?a)))"
    using ne by (rule hd_dropWhile)
  ultimately show ?thesis using hd_a ne by (simp add: js_trim_def last_rev)
qed

lemma js_trim_idem [simp]: "js_trim (js_trim s) = js_trim s"
proof (cases "js_trim s = []")
  case False
  let ?t = "js_trim s"
  have "dropWhile is_ws ?t = ?t" and "dropWhile is_ws (rev ?t) = rev ?t"
    using False hd_js_trim [OF False] by (simp_all add: dropWhile_not_hd hd_rev)
  then show ?thesis by (metis js_trim_def rev_rev_ident)
qed simp

lemma lower_char_idem [simp]: "lower_char (lower_char c) = lower_char c"
  by (simp add: lower_char_def)

lemma chars_le: "chars s \<le> length s"
  by (simp add: chars_def)

lemma chars_Nil [simp]: "chars [] = 0"
  by (simp add: chars_def)

lemma js_lower_idem [simp]: "js_lower (js_lower s) = js_lower s"
  by (simp add: js_lower_def)

lemma is_ws_lower_char [simp]: "is_ws (lower_char c) = is_ws c"
  by (auto simp: is_ws_def lower_char_def)

lemma js_lower_trim: "js_lower (js_trim s) = js_trim (js_lower s)"
  by (simp add: js_lower_def js_trim_def dropWhile_map rev_map comp_def)

lemma js_lower_eq_Nil [simp]: "js_lower s = [] \<longleftrightarrow> s = []"
  by (simp add: js_lower_def)

lemma starts_with_append [simp]: "starts_with p (p @ s)"
  by (simp add: starts_with_def)

lemma starts_with_iff: "starts_with p s \<longleftrightarrow> (\<exists>r. s = p @ r)"
  unfolding starts_with_def by (metis append_eq_conv_conj append_take_drop_id)

lemma js_split_nonempty [simp]: "js_split c s \<noteq> []"
  by (cases s) (auto split: list.splits)

section \<open>Sums\<close>

lemma map_sum_eq_Inr:
  "map_sum id f x = Inr y \<longleftrightarrow> (\<exists>z. x = Inr z \<and> y = f z)"
  "Inr y = map_sum id f x \<longleftrightarrow> (\<exists>z. x = Inr z \<and> y = f z)"
  by (cases x; auto)+

section \<open>Keyed tables\<close>

text \<open>A database table is a list of rows; the primary key is a selector.\<close>

lemma find_Some_iff_distinct:
  assumes "distinct (map f xs)"
  shows "find (\<lambda>x. f x = k) xs = Some y \<longleftrightarrow> y \<in> set xs \<and> f y = k"
  using assms by (induction xs) force+

lemma find_SomeD: "find P xs = Some y \<Longrightarrow> y \<in> set xs \<and> P y"
  by (induction xs) (auto split: if_splits)

lemma find_NoneD: "find P xs = None \<Longrightarrow> x \<in> set xs \<Longrightarrow> \<not> P x"
  by (induction xs) (auto split: if_splits)

lemma distinct_map_filter_key: "distinct (map f xs) \<Longrightarrow> distinct (map f (filter P xs))"
  by (induction xs) auto

lemma map_key_update:
  assumes "\<And>x. f (g x) = f x"
  shows "map f (map (\<lambda>x. if P x then g x else x) xs) = map f xs"
  using assms by (induction xs) auto

end
