(* ===== verification/Json.thy ===== *)
theory Json
  imports Prelude Complex_Main
begin

text \<open>
  JSON values as JavaScript sees them after \<open>JSON.parse\<close>, the conversions of the language the
  services apply to them (property access, truthiness, \<open>??\<close>, template strings), and
  \<open>JSON.parse\<close> itself on byte strings. Numbers are exact rationals: no rounding is modelled.
\<close>

section \<open>Values\<close>

datatype json =
    JNull
  | JBool bool
  | JNum rat
  | JStr string
  | JArr "json list"
  | JObj "(string \<times> json) list"

text \<open>\<open>undefined\<close> is \<open>None\<close>; \<open>jobj\<close> is an object literal as \<open>JSON.stringify\<close> sees it, without the
  properties whose value is \<open>undefined\<close>.\<close>

definition jobj :: "(string \<times> json option) list \<Rightarrow> json" where
  "jobj ps = JObj (List.map_filter (\<lambda>(k, v). map_option (Pair k) v) ps)"

text \<open>\<open>v.k\<close>: reading a property of \<open>null\<close> throws; other values have no such own property, but
  for \<open>length\<close> of strings and arrays.\<close>

fun js_prop :: "json \<Rightarrow> string \<Rightarrow> js_error + json option" where
  "js_prop JNull k = Inl TypeError"
| "js_prop (JObj kvs) k = Inr (map_of kvs k)"
| "js_prop (JStr s) k =
     Inr (if k = ''length'' then Some (JNum (of_nat (length s))) else None)"
| "js_prop (JArr xs) k =
     Inr (if k = ''length'' then Some (JNum (of_nat (length xs))) else None)"
| "js_prop _ k = Inr None"

fun js_prop_opt :: "json option \<Rightarrow> string \<Rightarrow> js_error + json option" where
  "js_prop_opt None k = Inl TypeError"
| "js_prop_opt (Some v) k = js_prop v k"

fun js_nullish :: "json option \<Rightarrow> json \<Rightarrow> json" where
  "js_nullish None d = d"
| "js_nullish (Some JNull) d = d"
| "js_nullish (Some v) d = v"

fun js_truthy :: "json \<Rightarrow> bool" where
  "js_truthy JNull = False"
| "js_truthy (JBool b) = b"
| "js_truthy (JNum r) = (r \<noteq> 0)"
| "js_truthy (JStr s) = (s \<noteq> [])"
| "js_truthy (JArr _) = True"
| "js_truthy (JObj _) = True"

text \<open>\<open>v.trim()\<close>: only strings have the method.\<close>

fun js_trim_method :: "json \<Rightarrow> js_error + string" where
  "js_trim_method (JStr s) = Inr (js_trim s)"
| "js_trim_method _ = Inl TypeError"

subsection \<open>String conversion\<close>

fun frac_digits :: "nat \<Rightarrow> rat \<Rightarrow> string" where
  "frac_digits 0 r = []"
| "frac_digits (Suc n) r =
     (if r = 0 then [] else nat_to_string (nat \<lfloor>10 * r\<rfloor>) @ frac_digits n (frac (10 * r)))"

definition num_to_string :: "rat \<Rightarrow> string" where
  "num_to_string r =
     (let a = \<bar>r\<bar>; s = int_to_string \<lfloor>a\<rfloor>;
          t = (if frac a = 0 then s else s @ ''.'' @ frac_digits 20 (frac a))
      in if r < 0 then ''-'' @ t else t)"

fun intercalate :: "string \<Rightarrow> string list \<Rightarrow> string" where
  "intercalate d [] = []"
| "intercalate d [s] = s"
| "intercalate d (s # t # ss) = s @ d @ intercalate d (t # ss)"

fun js_to_string :: "json \<Rightarrow> string" where
  "js_to_string JNull = ''null''"
| "js_to_string (JBool b) = (if b then ''true'' else ''false'')"
| "js_to_string (JNum r) = num_to_string r"
| "js_to_string (JStr s) = s"
| "js_to_string (JArr vs) =
     intercalate '','' (map (\<lambda>v. if v = JNull then [] else js_to_string v) vs)"
| "js_to_string (JObj _) = ''[object Object]''"

section \<open>JSON.stringify\<close>

definition hex_char :: "nat \<Rightarrow> char" where
  "hex_char n = char_of (if n < 10 then 48 + n else 87 + n)"

definition quote_char :: "char \<Rightarrow> string" where
  "quote_char c =
     (let n = of_char c :: nat in
      if n = 34 then [CHR 0x5C, CHR 0x22]
      else if n = 92 then [CHR 0x5C, CHR 0x5C]
      else if n = 8 then [CHR 0x5C, CHR ''b'']
      else if n = 12 then [CHR 0x5C, CHR ''f'']
      else if n = 10 then [CHR 0x5C, CHR ''n'']
      else if n = 13 then [CHR 0x5C, CHR ''r'']
      else if n = 9 then [CHR 0x5C, CHR ''t'']
      else if n < 32 then [CHR 0x5C, CHR ''u'', CHR ''0'', CHR ''0'', hex_char (n div 16), hex_char (n mod 16)]
      else [c])"

definition JSON_quote :: "string \<Rightarrow> string" where
  "JSON_quote s = CHR 0x22 # concat (map quote_char s) @ [CHR 0x22]"

fun JSON_stringify :: "json \<Rightarrow> string" where
  "JSON_stringify JNull = ''null''"
| "JSON_stringify (JBool b) = (if b then ''true'' else ''false'')"
| "JSON_stringify (JNum r) = num_to_string r"
| "JSON_stringify (JStr s) = JSON_quote s"
| "JSON_stringify (JArr vs) = ''['' @ intercalate '','' (map JSON_stringify vs) @ '']''"
| "JSON_stringify (JObj kvs) =
     ''{'' @ intercalate '','' (map (\<lambda>(k, v). JSON_quote k @ '':'' @ JSON_stringify v) kvs) @ ''}''"

section \<open>JSON.parse\<close>

definition is_digit :: "char \<Rightarrow> bool" where
  "is_digit c \<longleftrightarrow> 48 \<le> (of_char c :: nat) \<and> (of_char c :: nat) \<le> 57"

definition json_ws :: "char \<Rightarrow> bool" where
  "json_ws c \<longleftrightarrow> of_char c \<in> {9, 10, 13, 32 :: nat}"

definition skip_ws :: "string \<Rightarrow> string" where
  "skip_ws s = dropWhile json_ws s"

definition hex_digit :: "char \<Rightarrow> nat option" where
  "hex_digit c =
     (let n = of_char c :: nat in
      if 48 \<le> n \<and> n \<le> 57 then Some (n - 48)
      else if 97 \<le> n \<and> n \<le> 102 then Some (n - 87)
      else if 65 \<le> n \<and> n \<le> 70 then Some (n - 55)
      else None)"

definition hex4 :: "char \<Rightarrow> char \<Rightarrow> char \<Rightarrow> char \<Rightarrow> nat option" where
  "hex4 a b c d =
     (case (hex_digit a, hex_digit b, hex_digit c, hex_digit d) of
        (Some w, Some x, Some y, Some z) \<Rightarrow> Some (((w * 16 + x) * 16 + y) * 16 + z)
      | _ \<Rightarrow> None)"

definition utf8 :: "nat \<Rightarrow> string" where
  "utf8 n =
     (if n < 128 then [char_of n]
      else if n < 2048 then [char_of (192 + n div 64), char_of (128 + n mod 64)]
      else if n < 65536 then
        [char_of (224 + n div 4096), char_of (128 + n div 64 mod 64), char_of (128 + n mod 64)]
      else
        [char_of (240 + n div 262144), char_of (128 + n div 4096 mod 64),
         char_of (128 + n div 64 mod 64), char_of (128 + n mod 64)])"

text \<open>The text of a string literal: plain bytes and escaped UTF-16 code units; two adjacent
  surrogates make one code point.\<close>

datatype piece = Plain char | Unit nat

fun assemble :: "piece list \<Rightarrow> string" where
  "assemble [] = []"
| "assemble (Plain c # ps) = c # assemble ps"
| "assemble (Unit n # Unit m # ps) =
     (if 55296 \<le> n \<and> n < 56320 \<and> 56320 \<le> m \<and> m < 57344
      then utf8 (65536 + (n - 55296) * 1024 + (m - 56320)) @ assemble ps
      else utf8 n @ assemble (Unit m # ps))"
| "assemble (Unit n # ps) = utf8 n @ assemble ps"

definition escape_char :: "char \<Rightarrow> char option" where
  "escape_char e =
     map_of [(CHR 0x22, CHR 0x22), (CHR 0x5C, CHR 0x5C), (CHR ''/'', CHR ''/''),
             (CHR ''b'', CHR 0x08), (CHR ''f'', CHR 0x0C), (CHR ''n'', CHR 0x0A),
             (CHR ''r'', CHR 0x0D), (CHR ''t'', CHR 0x09)] e"

fun parse_pieces :: "string \<Rightarrow> (piece list \<times> string) option" where
  "parse_pieces [] = None"
| "parse_pieces (c # cs) =
     (if c = CHR 0x22 then Some ([], cs)
      else if c = CHR 0x5C then
        (case cs of
           [] \<Rightarrow> None
         | e # r \<Rightarrow>
             if e = CHR ''u'' then
               (case r of
                  w # x # y # z # r' \<Rightarrow>
                    (case hex4 w x y z of
                       None \<Rightarrow> None
                     | Some n \<Rightarrow> map_option (\<lambda>(ps, q). (Unit n # ps, q)) (parse_pieces r'))
                | _ \<Rightarrow> None)
             else
               (case escape_char e of
                  None \<Rightarrow> None
                | Some d \<Rightarrow> map_option (\<lambda>(ps, q). (Plain d # ps, q)) (parse_pieces r)))
      else if (of_char c :: nat) < 32 then None
      else map_option (\<lambda>(ps, q). (Plain c # ps, q)) (parse_pieces cs))"

definition parse_string :: "string \<Rightarrow> (string \<times> string) option" where
  "parse_string s = map_option (\<lambda>(ps, q). (assemble ps, q)) (parse_pieces s)"

definition digits_value :: "string \<Rightarrow> nat" where
  "digits_value ds = foldl (\<lambda>n d. 10 * n + (of_char d - 48)) 0 ds"

text \<open>The optional fraction and exponent of a number: \<open>None\<close> is a syntax error.\<close>

definition parse_fraction :: "string \<Rightarrow> (string \<times> string) option" where
  "parse_fraction s =
     (case s of
        c # r \<Rightarrow>
          if c = CHR ''.'' then
            (if takeWhile is_digit r = [] then None
             else Some (takeWhile is_digit r, dropWhile is_digit r))
          else Some ([], s)
      | [] \<Rightarrow> Some ([], []))"

definition parse_exponent :: "string \<Rightarrow> (int \<times> string) option" where
  "parse_exponent s =
     (case s of
        c # r \<Rightarrow>
          if c = CHR ''e'' \<or> c = CHR ''E'' then
            (let (sg, r') = (case r of
                    d # r'' \<Rightarrow> if d = CHR ''-'' then (-1, r'') else if d = CHR ''+'' then (1, r'')
                              else (1, r)
                  | [] \<Rightarrow> (1, []))
             in if takeWhile is_digit r' = [] then None
                else Some (sg * int (digits_value (takeWhile is_digit r')), dropWhile is_digit r'))
          else Some (0, s)
      | [] \<Rightarrow> Some (0, []))"

definition parse_number :: "string \<Rightarrow> (json \<times> string) option" where
  "parse_number s =
     (let neg = (s \<noteq> [] \<and> hd s = CHR ''-''); s1 = (if neg then tl s else s);
          ip = takeWhile is_digit s1; s2 = dropWhile is_digit s1
      in if ip = [] \<or> (hd ip = CHR ''0'' \<and> 1 < length ip) then None
         else case parse_fraction s2 of
           None \<Rightarrow> None
         | Some (fp, s3) \<Rightarrow>
             (case parse_exponent s3 of
                None \<Rightarrow> None
              | Some (e, s4) \<Rightarrow>
                  let m = of_nat (digits_value (ip @ fp)) / 10 ^ length fp;
                      v = (if 0 \<le> e then m * 10 ^ nat e else m / 10 ^ nat (- e))
                  in Some (JNum (if neg then - v else v), s4)))"

text \<open>\<open>JSON.parse\<close> keeps the last value of a repeated key, at the key's first position.\<close>

fun obj_put :: "string \<Rightarrow> json \<Rightarrow> (string \<times> json) list \<Rightarrow> (string \<times> json) list" where
  "obj_put k v [] = [(k, v)]"
| "obj_put k v ((k', v') # kvs) = (if k = k' then (k, v) # kvs else (k', v') # obj_put k v kvs)"

definition obj_of :: "(string \<times> json) list \<Rightarrow> (string \<times> json) list" where
  "obj_of kvs = foldl (\<lambda>acc (k, v). obj_put k v acc) [] kvs"

definition literal :: "string \<Rightarrow> json \<Rightarrow> string \<Rightarrow> (json \<times> string) option" where
  "literal w v s = (if starts_with w s then Some (v, drop (length w) s) else None)"

text \<open>The recursive descent spends one unit of fuel per call; \<open>JSON_parse\<close> supplies more than
  any input can use (\<open>JSON_parse_fuel\<close>).\<close>

fun parse_value :: "nat \<Rightarrow> string \<Rightarrow> (json \<times> string) option"
and parse_elems :: "nat \<Rightarrow> string \<Rightarrow> (json list \<times> string) option"
and parse_members :: "nat \<Rightarrow> string \<Rightarrow> ((string \<times> json) list \<times> string) option" where
  "parse_value 0 s = None"
| "parse_value (Suc f) s =
     (case skip_ws s of
        [] \<Rightarrow> None
      | c # cs \<Rightarrow>
          if c = CHR ''{'' then
            (case skip_ws cs of
               [] \<Rightarrow> None
             | d # ds \<Rightarrow>
                 if d = CHR ''}'' then Some (JObj [], ds)
                 else map_option (\<lambda>(kvs, r). (JObj (obj_of kvs), r)) (parse_members f (d # ds)))
          else if c = CHR ''['' then
            (case skip_ws cs of
               [] \<Rightarrow> None
             | d # ds \<Rightarrow>
                 if d = CHR '']'' then Some (JArr [], ds)
                 else map_option (\<lambda>(vs, r). (JArr vs, r)) (parse_elems f (d # ds)))
          else if c = CHR 0x22 then map_option (\<lambda>(t, r). (JStr t, r)) (parse_string cs)
          else if c = CHR ''t'' then literal ''true'' (JBool True) (c # cs)
          else if c = CHR ''f'' then literal ''false'' (JBool False) (c # cs)
          else if c = CHR ''n'' then literal ''null'' JNull (c # cs)
          else parse_number (c # cs))"
| "parse_elems 0 s = None"
| "parse_elems (Suc f) s =
     (case parse_value f s of
        None \<Rightarrow> None
      | Some (v, r) \<Rightarrow>
          (case skip_ws r of
             [] \<Rightarrow> None
           | d # ds \<Rightarrow>
               if d = CHR '','' then map_option (\<lambda>(vs, q). (v # vs, q)) (parse_elems f ds)
               else if d = CHR '']'' then Some ([v], ds)
               else None))"
| "parse_members 0 s = None"
| "parse_members (Suc f) s =
     (case skip_ws s of
        [] \<Rightarrow> None
      | c # cs \<Rightarrow>
          if c = CHR 0x22 then
            (case parse_string cs of
               None \<Rightarrow> None
             | Some (k, r) \<Rightarrow>
                 (case skip_ws r of
                    [] \<Rightarrow> None
                  | d # ds \<Rightarrow>
                      if d = CHR '':'' then
                        (case parse_value f ds of
                           None \<Rightarrow> None
                         | Some (v, r') \<Rightarrow>
                             (case skip_ws r' of
                                [] \<Rightarrow> None
                              | e # es \<Rightarrow>
                                  if e = CHR '','' then
                                    map_option (\<lambda>(kvs, q). ((k, v) # kvs, q)) (parse_members f es)
                                  else if e = CHR ''}'' then Some ([(k, v)], es)
                                  else None))
                      else None))
          else None)"

definition JSON_parse :: "string \<Rightarrow> json option" where
  "JSON_parse s =
     (case parse_value (2 * length s + 2) s of
        None \<Rightarrow> None
      | Some (v, r) \<Rightarrow> if skip_ws r = [] then Some v else None)"

section \<open>The parser returns on every input\<close>

text \<open>Every parser consumes at least one byte, so fuel linear in the input's length is enough:
  any larger amount gives the same answer.\<close>

lemma length_dropWhile_less: "takeWhile P xs \<noteq> [] \<Longrightarrow> length (dropWhile P xs) < length xs"
  by (cases xs) (auto simp: length_dropWhile_le le_imp_less_Suc split: if_splits)

lemma length_skip_ws: "skip_ws s = c # cs \<Longrightarrow> length cs < length s"
  unfolding skip_ws_def by (metis Suc_le_eq length_Cons length_dropWhile_le)

lemma parse_pieces_length: "parse_pieces s = Some (ps, q) \<Longrightarrow> length q < length s"
proof (induction s arbitrary: ps q rule: parse_pieces.induct)
  case (2 c cs)
  then show ?case
    by (fastforce split: if_splits list.splits option.splits)
qed simp

lemma parse_string_length: "parse_string s = Some (t, q) \<Longrightarrow> length q < length s"
  by (auto simp: parse_string_def dest: parse_pieces_length)

lemma parse_fraction_length: "parse_fraction s = Some (fp, q) \<Longrightarrow> length q \<le> length s"
  by (auto simp: parse_fraction_def length_dropWhile_le le_SucI split: list.splits if_splits)

lemma parse_exponent_length: "parse_exponent s = Some (e, q) \<Longrightarrow> length q \<le> length s"
  by (auto simp: parse_exponent_def Let_def length_dropWhile_le le_SucI split: list.splits if_splits)

lemma parse_number_length:
  assumes "parse_number s = Some (v, q)"
  shows "length q < length s"
proof -
  let ?s1 = "if s \<noteq> [] \<and> hd s = CHR ''-'' then tl s else s"
  have ip: "takeWhile is_digit ?s1 \<noteq> []" using assms
    by (auto simp: parse_number_def Let_def split: if_splits)
  obtain fp s3 e where f: "parse_fraction (dropWhile is_digit ?s1) = Some (fp, s3)"
      and e: "parse_exponent s3 = Some (e, q)"
    using assms by (auto simp: parse_number_def Let_def split: if_splits option.splits)
  have "length q \<le> length (dropWhile is_digit ?s1)"
    using parse_fraction_length [OF f] parse_exponent_length [OF e] by simp
  also have "\<dots> < length ?s1" by (rule length_dropWhile_less [OF ip])
  also have "\<dots> \<le> length s" by simp
  finally show ?thesis .
qed

lemma literal_length: "literal w v s = Some (x, q) \<Longrightarrow> w \<noteq> [] \<Longrightarrow> length q < length s"
  by (auto simp: literal_def starts_with_iff split: if_splits)

lemma parse_length:
  "parse_value f s = Some (v, q) \<Longrightarrow> length q < length s"
  "parse_elems f s = Some (vs, q) \<Longrightarrow> length q < length s"
  "parse_members f s = Some (kvs, q) \<Longrightarrow> length q < length s"
proof (induction f s and f s and f s arbitrary: v q and vs q and kvs q
    rule: parse_value_parse_elems_parse_members.induct)
  case (2 f s)
  then show ?case
    by (fastforce split: list.splits if_splits
        dest: length_skip_ws parse_string_length parse_number_length literal_length)
next
  case (4 f s)
  then show ?case
    by (fastforce split: list.splits if_splits option.splits dest: length_skip_ws)
next
  case (6 f s)
  then show ?case
    by (fastforce split: list.splits if_splits option.splits
        dest: length_skip_ws parse_string_length)
qed simp_all

lemma parse_fuel_step:
  "2 * length s + 1 \<le> f \<Longrightarrow> parse_value (Suc f) s = parse_value f s"
  "2 * length s + 2 \<le> f \<Longrightarrow> parse_elems (Suc f) s = parse_elems f s"
  "2 * length s + 1 \<le> f \<Longrightarrow> parse_members (Suc f) s = parse_members f s"
proof (induction f arbitrary: s)
  case (Suc f)
  {
    case 1
    show ?case
    proof (cases "skip_ws s")
      case (Cons c cs)
      show ?thesis
      proof (cases "skip_ws cs")
        case (Cons d ds)
        have "length (d # ds) < length s"
          using length_skip_ws [OF \<open>skip_ws s = c # cs\<close>] length_skip_ws [OF Cons] by simp
        then have "parse_elems (Suc f) (d # ds) = parse_elems f (d # ds)"
          and "parse_members (Suc f) (d # ds) = parse_members f (d # ds)"
          using Suc.IH(2,3) [of "d # ds"] 1 by simp_all
        then show ?thesis using Cons \<open>skip_ws s = c # cs\<close>
          by (subst (1 2) parse_value.simps) (simp only: list.case if_cancel)
      qed (simp add: Cons)
    qed simp
  next
    case 2
    have v: "parse_value (Suc f) s = parse_value f s" using Suc.IH(1) [of s] 2 by simp
    have e: "parse_elems (Suc f) ds = parse_elems f ds"
      if "parse_value f s = Some (w, r)" "skip_ws r = d # ds" for w r d ds
      using parse_length(1) [OF that(1)] length_skip_ws [OF that(2)] Suc.IH(2) [of ds] 2 by simp
    show ?case by (subst (1 2) parse_elems.simps) (auto simp only: v e split: option.split list.split)
  next
    case 3
    have v: "parse_value (Suc f) ds = parse_value f ds"
      if "skip_ws s = c # cs" "parse_string cs = Some (k, r)" "skip_ws r = d # ds" for c cs k r d ds
      using length_skip_ws [OF that(1)] parse_string_length [OF that(2)] length_skip_ws [OF that(3)]
        Suc.IH(1) [of ds] 3 by simp
    have m: "parse_members (Suc f) es = parse_members f es"
      if "skip_ws s = c # cs" "parse_string cs = Some (k, r)" "skip_ws r = d # ds"
        "parse_value f ds = Some (w, r')" "skip_ws r' = e # es" for c cs k r d ds w r' e es
      using length_skip_ws [OF that(1)] parse_string_length [OF that(2)] length_skip_ws [OF that(3)]
        parse_length(1) [OF that(4)] length_skip_ws [OF that(5)] Suc.IH(3) [of es] 3 by simp
    show ?case
      by (subst (1 2) parse_members.simps) (auto simp only: v m split: option.split list.split)
  }
qed auto

lemma parse_value_fuel:
  assumes "2 * length s + 1 \<le> f"
  shows "parse_value f s = parse_value (2 * length s + 1) s"
  using assms by (induction f rule: dec_induct) (simp_all add: parse_fuel_step(1) del: parse_value.simps)

lemma JSON_parse_fuel:
  "2 * length s + 1 \<le> f \<Longrightarrow>
    JSON_parse s = (case parse_value f s of None \<Rightarrow> None | Some (v, r) \<Rightarrow> if skip_ws r = [] then Some v else None)"
  using parse_value_fuel [of s f] parse_value_fuel [of s "2 * length s + 2"]
  by (simp add: JSON_parse_def del: parse_value.simps)

end
