(* ===== verification/TokenStore.thy ===== *)
theory TokenStore
  imports Prelude
begin

text \<open>
  The contract shared by the three kinds of one-time secret of the auth service (verification
  tokens, exchange codes, WebAuthn challenges): a secret can be put with a lifetime, and taken at
  most once before it expires. The clients' facts are proved here from the contract alone; the
  providers interpret it in \<open>Redis\<close> and \<open>AuthDb\<close>. Times are milliseconds.
\<close>

datatype ('k, 'v) store_op = Put int 'k 'v | Take int 'k

fun op_puts :: "'k \<Rightarrow> ('k, 'v) store_op \<Rightarrow> bool" where
  "op_puts k (Put _ k' _) = (k' = k)"
| "op_puts k (Take _ _) = False"

locale one_time_store =
  fixes put :: "int \<Rightarrow> 'k \<Rightarrow> 'v \<Rightarrow> 's \<Rightarrow> 's"
    and take :: "int \<Rightarrow> 'k \<Rightarrow> 's \<Rightarrow> 'v option \<times> 's"
    and ttl :: int
    and fresh :: "'k \<Rightarrow> 'v \<Rightarrow> 's \<Rightarrow> bool"
    and inv :: "'s \<Rightarrow> bool"
  assumes ttl_pos: "0 < ttl"
    and inv_put: "inv s \<Longrightarrow> inv (put now k v s)"
    and inv_take: "inv s \<Longrightarrow> inv (snd (take now k s))"
    and take_put: "inv s \<Longrightarrow> fresh k v s \<Longrightarrow> now \<le> t \<Longrightarrow> t < now + ttl \<Longrightarrow>
      fst (take t k (put now k v s)) = Some v"
    and take_put_expired: "inv s \<Longrightarrow> fresh k v s \<Longrightarrow> now + ttl \<le> t \<Longrightarrow>
      fst (take t k (put now k v s)) = None"
    and take_put_other: "inv s \<Longrightarrow> k' \<noteq> k \<Longrightarrow>
      fst (take t k' (put now k v s)) = fst (take t k' s)"
    and take_take: "inv s \<Longrightarrow> t \<le> t' \<Longrightarrow> fst (take t' k (snd (take t k s))) = None"
    and take_take_other: "inv s \<Longrightarrow> k' \<noteq> k \<Longrightarrow>
      fst (take t' k' (snd (take t k s))) = fst (take t' k' s)"
    and take_None_later: "inv s \<Longrightarrow> fst (take t k s) = None \<Longrightarrow> t \<le> t' \<Longrightarrow>
      fst (take t' k s) = None"
    and take_keeps_None: "inv s \<Longrightarrow> fst (take t' k s) = None \<Longrightarrow>
      fst (take t' k (snd (take t k s))) = None"
begin

fun apply_op :: "('k, 'v) store_op \<Rightarrow> 's \<Rightarrow> 's" where
  "apply_op (Put now k v) s = put now k v s"
| "apply_op (Take now k) s = snd (take now k s)"

definition run :: "('k, 'v) store_op list \<Rightarrow> 's \<Rightarrow> 's" where
  "run ops s = fold apply_op ops s"

definition gone :: "int \<Rightarrow> 'k \<Rightarrow> 's \<Rightarrow> bool" where
  "gone t k s \<longleftrightarrow> inv s \<and> (\<forall>t' \<ge> t. fst (take t' k s) = None)"

lemma gone_taken: "inv s \<Longrightarrow> gone t k (snd (take t k s))"
  by (simp add: gone_def inv_take take_take)

lemma gone_None: "inv s \<Longrightarrow> fst (take t k s) = None \<Longrightarrow> gone t k s"
  by (auto simp: gone_def intro: take_None_later)

lemma gone_step: "gone t k s \<Longrightarrow> \<not> op_puts k op \<Longrightarrow> gone t k (apply_op op s)"
proof (cases op)
  case (Take now k')
  then show "gone t k s \<Longrightarrow> gone t k (apply_op op s)"
    by (cases "k' = k") (auto simp: gone_def inv_take take_keeps_None take_take_other)
qed (auto simp: gone_def inv_put take_put_other)

lemma gone_run: "gone t k s \<Longrightarrow> \<forall>op \<in> set ops. \<not> op_puts k op \<Longrightarrow> gone t k (run ops s)"
  by (induction ops arbitrary: s) (auto simp: run_def gone_step)

text \<open>A secret is redeemed at most once, whatever happens to the store in between, unless it is
  issued again.\<close>

lemma single_use:
  assumes "inv s" and "t \<le> t'" and "\<forall>op \<in> set ops. \<not> op_puts k op"
  shows "fst (take t' k (run ops (snd (take t k s)))) = None"
  using gone_run [OF gone_taken [OF assms(1)] assms(3)] assms(2) by (simp add: gone_def)

text \<open>A secret is not redeemed once its lifetime is over.\<close>

lemma expires:
  assumes "inv s" and "fresh k v s" and "now + ttl \<le> t" and "\<forall>op \<in> set ops. \<not> op_puts k op"
  shows "fst (take t k (run ops (put now k v s))) = None"
proof -
  have "gone t k (put now k v s)"
    using assms by (simp add: gone_None inv_put take_put_expired)
  then show ?thesis using gone_run [OF _ assms(4)] by (auto simp: gone_def)
qed

text \<open>Within its lifetime a secret is redeemable, whatever happens to other secrets.\<close>

fun op_key :: "('k, 'v) store_op \<Rightarrow> 'k" where
  "op_key (Put _ k _) = k"
| "op_key (Take _ k) = k"

lemma run_other:
  assumes "inv s" and "\<forall>op \<in> set ops. op_key op \<noteq> k"
  shows "inv (run ops s) \<and> fst (take t k (run ops s)) = fst (take t k s)"
  using assms
proof (induction ops arbitrary: s)
  case (Cons op ops)
  have "inv (apply_op op s)" and "fst (take t k (apply_op op s)) = fst (take t k s)"
    using Cons.prems by (cases op; simp add: inv_put inv_take take_put_other take_take_other)+
  then show ?case using Cons by (simp add: run_def)
qed (simp add: run_def)

lemma redeemable:
  assumes "inv s" and "fresh k v s" and "now \<le> t" and "t < now + ttl"
    and "\<forall>op \<in> set ops. op_key op \<noteq> k"
  shows "fst (take t k (run ops (put now k v s))) = Some v"
  using run_other [OF inv_put [OF assms(1)] assms(5)] assms by (simp add: take_put)

end

end
