(* ===== verification/AuthDb.thy ===== *)
theory AuthDb
  imports Json TokenStore
begin

text \<open>
  The auth database: the three tables of \<open>auth-db/init.sql\<close>, with their keys and references, and the
  queries of \<open>auth-service/index.ts\<close> as functions over them. A query that violates a constraint is
  rejected with a \<open>db_error\<close> and changes nothing. The one thing PostgreSQL decides that the
  repository does not show, which texts it reads as a \<open>UUID\<close> and how it prints them back, is the
  parameter \<open>uuid_in\<close>. Times are milliseconds; the database's \<open>NOW()\<close> and the service's
  \<open>Date.now()\<close> are one clock.
\<close>

section \<open>Players\<close>

record player_row =
  r_id :: string
  r_email :: string
  r_name :: string
  r_verified :: bool
  r_created_at :: int
  r_passkey_enrolled :: "bool option"  \<comment> \<open>\<open>None\<close>: the column is not there yet\<close>

record player =
  p_id :: string
  p_email :: string
  p_name :: string
  p_verified :: bool
  p_passkeyEnrolled :: bool
  p_createdAt :: int

definition rowToPlayer :: "player_row \<Rightarrow> player" where
  "rowToPlayer r =
     \<lparr>p_id = r_id r, p_email = r_email r, p_name = r_name r, p_verified = r_verified r,
      p_passkeyEnrolled = (case r_passkey_enrolled r of None \<Rightarrow> False | Some b \<Rightarrow> b),
      p_createdAt = r_created_at r\<rparr>"

section \<open>Passkey credentials\<close>

record stored_credential =
  c_credentialId :: string
  c_playerId :: string
  c_publicKey :: string
  c_counter :: int
  c_deviceType :: string
  c_backedUp :: bool
  c_transports :: "string list"

record credential_row =
  k_credential_id :: string
  k_player_id :: string
  k_public_key :: string
  k_counter :: int
  k_device_type :: string
  k_backed_up :: bool
  k_transports :: "string list option"

definition rowToCredential :: "credential_row \<Rightarrow> stored_credential" where
  "rowToCredential r =
     \<lparr>c_credentialId = k_credential_id r, c_playerId = k_player_id r, c_publicKey = k_public_key r,
      c_counter = k_counter r, c_deviceType = k_device_type r, c_backedUp = k_backed_up r,
      c_transports = (case k_transports r of None \<Rightarrow> [] | Some ts \<Rightarrow> ts)\<rparr>"

section \<open>WebAuthn challenges\<close>

datatype ceremony = Registration | Authentication

record challenge_row =
  w_challenge :: string
  w_player_id :: "string option"
  w_type :: ceremony
  w_expires_at :: int

record auth_db =
  players :: "player_row list"
  passkey_credentials :: "credential_row list"
  webauthn_challenges :: "challenge_row list"

section \<open>Queries\<close>

text \<open>A parameter compared with a \<open>UUID\<close> column: \<open>NULL\<close> matches nothing, a text that is no
  \<open>UUID\<close> fails the query.\<close>

definition uuid_param ::
  "(string \<Rightarrow> string option) \<Rightarrow> string option \<Rightarrow> js_error + string option" where
  "uuid_param uuid_in v =
     (case v of
        None \<Rightarrow> Inr None
      | Some s \<Rightarrow> (case uuid_in s of None \<Rightarrow> Inl (DbError InvalidUuid) | Some u \<Rightarrow> Inr (Some u)))"

definition findPlayerByEmail :: "string \<Rightarrow> auth_db \<Rightarrow> player option" where
  "findPlayerByEmail email db = map_option rowToPlayer (find (\<lambda>r. r_email r = email) (players db))"

definition findPlayerById ::
  "(string \<Rightarrow> string option) \<Rightarrow> string option \<Rightarrow> auth_db \<Rightarrow> js_error + player option" where
  "findPlayerById uuid_in i db =
     (case uuid_param uuid_in i of
        Inl e \<Rightarrow> Inl e
      | Inr None \<Rightarrow> Inr None
      | Inr (Some u) \<Rightarrow> Inr (map_option rowToPlayer (find (\<lambda>r. r_id r = u) (players db))))"

definition createPlayer ::
  "(string \<Rightarrow> string option) \<Rightarrow> int \<Rightarrow> string \<Rightarrow> string \<Rightarrow> string \<Rightarrow> auth_db
    \<Rightarrow> js_error + player \<times> auth_db" where
  "createPlayer uuid_in now i email name db =
     (case uuid_in i of
        None \<Rightarrow> Inl (DbError InvalidUuid)
      | Some u \<Rightarrow>
          if 255 < chars email \<or> 50 < chars name then Inl (DbError ValueTooLong)
          else if u \<in> r_id ` set (players db) \<or> email \<in> r_email ` set (players db)
          then Inl (DbError UniqueViolation)
          else
            (let row = \<lparr>r_id = u, r_email = email, r_name = name, r_verified = False,
                        r_created_at = now, r_passkey_enrolled = Some False\<rparr>
             in Inr (rowToPlayer row, db\<lparr>players := players db @ [row]\<rparr>)))"

definition update_player ::
  "(string \<Rightarrow> string option) \<Rightarrow> string \<Rightarrow> (player_row \<Rightarrow> player_row) \<Rightarrow> auth_db \<Rightarrow> js_error + auth_db"
where
  "update_player uuid_in i f db =
     (case uuid_in i of
        None \<Rightarrow> Inl (DbError InvalidUuid)
      | Some u \<Rightarrow>
          Inr (db\<lparr>players := map (\<lambda>r. if r_id r = u then f r else r) (players db)\<rparr>))"

definition markPlayerVerified ::
  "(string \<Rightarrow> string option) \<Rightarrow> string \<Rightarrow> auth_db \<Rightarrow> js_error + auth_db" where
  "markPlayerVerified uuid_in i db = update_player uuid_in i (\<lambda>r. r\<lparr>r_verified := True\<rparr>) db"

definition markPasskeyEnrolled ::
  "(string \<Rightarrow> string option) \<Rightarrow> string \<Rightarrow> auth_db \<Rightarrow> js_error + auth_db" where
  "markPasskeyEnrolled uuid_in i db =
     update_player uuid_in i (\<lambda>r. r\<lparr>r_passkey_enrolled := Some True\<rparr>) db"

definition getCredentialsByPlayerId :: "string \<Rightarrow> auth_db \<Rightarrow> stored_credential list" where
  "getCredentialsByPlayerId i db =
     map rowToCredential (filter (\<lambda>r. k_player_id r = i) (passkey_credentials db))"

definition getCredentialById :: "string option \<Rightarrow> auth_db \<Rightarrow> stored_credential option" where
  "getCredentialById i db =
     (case i of
        None \<Rightarrow> None
      | Some s \<Rightarrow>
          map_option rowToCredential (find (\<lambda>r. k_credential_id r = s) (passkey_credentials db)))"

definition saveCredential :: "stored_credential \<Rightarrow> auth_db \<Rightarrow> js_error + auth_db" where
  "saveCredential c db =
     (if 32 < length (c_deviceType c) then Inl (DbError ValueTooLong)
      else if c_credentialId c \<in> k_credential_id ` set (passkey_credentials db)
      then Inr (db\<lparr>passkey_credentials :=
             map (\<lambda>r. if k_credential_id r = c_credentialId c then r\<lparr>k_counter := c_counter c\<rparr> else r)
               (passkey_credentials db)\<rparr>)
      else if c_playerId c \<notin> r_id ` set (players db) then Inl (DbError ForeignKeyViolation)
      else Inr (db\<lparr>passkey_credentials := passkey_credentials db @
             [\<lparr>k_credential_id = c_credentialId c, k_player_id = c_playerId c,
               k_public_key = c_publicKey c, k_counter = c_counter c,
               k_device_type = c_deviceType c, k_backed_up = c_backedUp c,
               k_transports = Some (c_transports c)\<rparr>]\<rparr>))"

definition updateCredentialCounter :: "string \<Rightarrow> int \<Rightarrow> auth_db \<Rightarrow> auth_db" where
  "updateCredentialCounter i n db =
     db\<lparr>passkey_credentials :=
       map (\<lambda>r. if k_credential_id r = i then r\<lparr>k_counter := n\<rparr> else r) (passkey_credentials db)\<rparr>"

definition CHALLENGE_TTL :: int where
  "CHALLENGE_TTL = 5 * 60 * 1000"

definition storeChallenge ::
  "int \<Rightarrow> string \<Rightarrow> string option \<Rightarrow> ceremony \<Rightarrow> auth_db \<Rightarrow> js_error + auth_db" where
  "storeChallenge now ch pid ty db =
     (if ch \<in> w_challenge ` set (webauthn_challenges db) then Inl (DbError UniqueViolation)
      else if (case pid of None \<Rightarrow> False | Some p \<Rightarrow> p \<notin> r_id ` set (players db))
      then Inl (DbError ForeignKeyViolation)
      else Inr (db\<lparr>webauthn_challenges := webauthn_challenges db @
             [\<lparr>w_challenge = ch, w_player_id = pid, w_type = ty,
               w_expires_at = now + CHALLENGE_TTL\<rparr>]\<rparr>))"

definition challenge_matches :: "int \<Rightarrow> string \<Rightarrow> ceremony \<Rightarrow> challenge_row \<Rightarrow> bool" where
  "challenge_matches now ch ty r \<longleftrightarrow> w_challenge r = ch \<and> w_type r = ty \<and> now < w_expires_at r"

definition consumeChallenge ::
  "int \<Rightarrow> string option \<Rightarrow> ceremony \<Rightarrow> auth_db \<Rightarrow> string option \<times> auth_db" where
  "consumeChallenge now ch ty db =
     (case ch of
        None \<Rightarrow> (None, db)
      | Some c \<Rightarrow>
          (case find (challenge_matches now c ty) (webauthn_challenges db) of
             None \<Rightarrow> None
           | Some r \<Rightarrow> w_player_id r,
           db\<lparr>webauthn_challenges :=
             filter (\<lambda>r. \<not> challenge_matches now c ty r) (webauthn_challenges db)\<rparr>))"

text \<open>The three statements of \<open>/dev/reset\<close>; \<open>CASCADE\<close> empties the referring tables too.\<close>

definition truncate_all :: "auth_db \<Rightarrow> auth_db" where
  "truncate_all db =
     (let db1 = db\<lparr>webauthn_challenges := []\<rparr>;
          db2 = db1\<lparr>passkey_credentials := []\<rparr>
      in db2\<lparr>players := [], passkey_credentials := [], webauthn_challenges := []\<rparr>)"

text \<open>The idempotent migration run at startup.\<close>

definition migrate :: "auth_db \<Rightarrow> auth_db" where
  "migrate db =
     db\<lparr>players :=
       map (\<lambda>r. case r_passkey_enrolled r of
                  None \<Rightarrow> r\<lparr>r_passkey_enrolled := Some False\<rparr> | Some _ \<Rightarrow> r) (players db)\<rparr>"

section \<open>The table constraints\<close>

definition player_ids :: "auth_db \<Rightarrow> string set" where
  "player_ids db = set (map r_id (players db))"

definition db_inv :: "auth_db \<Rightarrow> bool" where
  "db_inv db \<longleftrightarrow>
     distinct (map r_id (players db)) \<and> distinct (map r_email (players db)) \<and>
     distinct (map k_credential_id (passkey_credentials db)) \<and>
     distinct (map w_challenge (webauthn_challenges db)) \<and>
     (\<forall>p \<in> set (map k_player_id (passkey_credentials db)). p \<in> player_ids db) \<and>
     (\<forall>v \<in> set (map w_player_id (webauthn_challenges db)). \<forall>p \<in> set_option v. p \<in> player_ids db)"

lemma db_inv_cong:
  assumes "map r_id (players db') = map r_id (players db)"
    and "map r_email (players db') = map r_email (players db)"
    and "map k_credential_id (passkey_credentials db') = map k_credential_id (passkey_credentials db)"
    and "map k_player_id (passkey_credentials db') = map k_player_id (passkey_credentials db)"
    and "map w_challenge (webauthn_challenges db') = map w_challenge (webauthn_challenges db)"
    and "map w_player_id (webauthn_challenges db') = map w_player_id (webauthn_challenges db)"
  shows "db_inv db' = db_inv db"
  by (simp only: db_inv_def player_ids_def assms)

named_theorems db_queries \<open>the queries, unfolded\<close>

lemmas [db_queries] = findPlayerByEmail_def findPlayerById_def createPlayer_def update_player_def
  markPlayerVerified_def markPasskeyEnrolled_def getCredentialsByPlayerId_def getCredentialById_def
  saveCredential_def updateCredentialCounter_def storeChallenge_def consumeChallenge_def
  truncate_all_def uuid_param_def

lemma update_player_frame [frame_simps]:
  assumes "update_player u i f db = Inr db'" and "\<And>r. r_id (f r) = r_id r" and "\<And>r. r_email (f r) = r_email r"
  shows "map r_id (players db') = map r_id (players db)"
    and "map r_email (players db') = map r_email (players db)"
    and "passkey_credentials db' = passkey_credentials db"
    and "webauthn_challenges db' = webauthn_challenges db"
  using assms by (auto simp: update_player_def split: option.splits)

lemma player_ids_update_player:
  assumes "update_player u i f db = Inr db'" and "\<And>r. r_id (f r) = r_id r" and "\<And>r. r_email (f r) = r_email r"
  shows "player_ids db' = player_ids db"
  unfolding player_ids_def update_player_frame(1) [OF assms] ..

lemma db_inv_update_player:
  assumes "update_player u i f db = Inr db'" and "\<And>r. r_id (f r) = r_id r"
    and "\<And>r. r_email (f r) = r_email r"
  shows "db_inv db' = db_inv db"
  using update_player_frame [OF assms] by (intro db_inv_cong) simp_all

lemma db_inv_createPlayer:
  "db_inv db \<Longrightarrow> createPlayer u now i e n db = Inr (p, db') \<Longrightarrow> db_inv db'"
  by (auto simp: db_inv_def player_ids_def createPlayer_def Let_def split: option.splits if_splits) 

lemma db_inv_markPlayerVerified: "markPlayerVerified u i db = Inr db' \<Longrightarrow> db_inv db' = db_inv db"
  unfolding markPlayerVerified_def by (erule db_inv_update_player) simp_all

lemma db_inv_markPasskeyEnrolled: "markPasskeyEnrolled u i db = Inr db' \<Longrightarrow> db_inv db' = db_inv db"
  unfolding markPasskeyEnrolled_def by (erule db_inv_update_player) simp_all

lemma set_counter_frame:
  "map k_credential_id (map (\<lambda>r. if P r then r\<lparr>k_counter := n\<rparr> else r) xs) = map k_credential_id xs"
  by (rule map_key_update) simp

lemma set_counter_frame2:
  "map k_player_id (map (\<lambda>r. if P r then r\<lparr>k_counter := n\<rparr> else r) xs) = map k_player_id xs"
  by (rule map_key_update) simp

lemma db_inv_set_counter:
  "db_inv (db\<lparr>passkey_credentials :=
      map (\<lambda>r. if P r then r\<lparr>k_counter := n\<rparr> else r) (passkey_credentials db)\<rparr>) = db_inv db"
  by (rule db_inv_cong) (simp_all add: set_counter_frame set_counter_frame2 del: map_map)

lemma db_inv_updateCredentialCounter [simp]: "db_inv (updateCredentialCounter i n db) = db_inv db"
  by (simp add: updateCredentialCounter_def db_inv_set_counter)

lemma db_inv_saveCredential: "db_inv db \<Longrightarrow> saveCredential c db = Inr db' \<Longrightarrow> db_inv db'"
  by (auto simp: saveCredential_def db_inv_set_counter split: if_splits)
    (auto simp: db_inv_def player_ids_def)

lemma db_inv_storeChallenge: "db_inv db \<Longrightarrow> storeChallenge now ch p ty db = Inr db' \<Longrightarrow> db_inv db'"
  by (auto simp: storeChallenge_def db_inv_def player_ids_def split: if_splits option.splits)

lemma db_inv_consumeChallenge: "db_inv db \<Longrightarrow> db_inv (snd (consumeChallenge now ch ty db))"
  by (auto simp: consumeChallenge_def db_inv_def player_ids_def distinct_map_filter_key split: option.splits)

lemma db_inv_truncate_all [simp]: "db_inv (truncate_all db)"
  by (simp add: db_inv_def player_ids_def truncate_all_def Let_def)

definition add_enrolled_column :: "player_row \<Rightarrow> player_row" where
  "add_enrolled_column r =
     (case r_passkey_enrolled r of None \<Rightarrow> r\<lparr>r_passkey_enrolled := Some False\<rparr> | Some _ \<Rightarrow> r)"

lemma add_enrolled_column_frame [simp]:
  "r_id (add_enrolled_column r) = r_id r" "r_email (add_enrolled_column r) = r_email r"
  by (simp_all add: add_enrolled_column_def split: option.splits)

lemma migrate_eq: "migrate db = db\<lparr>players := map add_enrolled_column (players db)\<rparr>"
  by (simp add: migrate_def add_enrolled_column_def)

lemma db_inv_migrate [simp]: "db_inv (migrate db) = db_inv db"
  by (rule db_inv_cong) (simp_all add: migrate_eq)

lemma db_inv_empty [simp]:
  "db_inv (d\<lparr>players := [], passkey_credentials := [], webauthn_challenges := []\<rparr>)"
  by (simp add: db_inv_def)

lemma storeChallenge_frame [frame_simps]:
  "storeChallenge now ch p ty d = Inr d' \<Longrightarrow>
    players d' = players d \<and> passkey_credentials d' = passkey_credentials d"
  by (auto simp: storeChallenge_def split: if_splits)

lemma consumeChallenge_frame [simp]:
  "players (snd (consumeChallenge now ch ty d)) = players d"
  "passkey_credentials (snd (consumeChallenge now ch ty d)) = passkey_credentials d"
  by (simp_all add: consumeChallenge_def split: option.splits)

section \<open>Challenges are one-time secrets\<close>

definition put_challenge :: "int \<Rightarrow> string \<times> ceremony \<Rightarrow> string \<Rightarrow> auth_db \<Rightarrow> auth_db" where
  "put_challenge now k pid db =
     (case storeChallenge now (fst k) (Some pid) (snd k) db of Inl _ \<Rightarrow> db | Inr db' \<Rightarrow> db')"

definition take_challenge :: "int \<Rightarrow> string \<times> ceremony \<Rightarrow> auth_db \<Rightarrow> string option \<times> auth_db" where
  "take_challenge now k db = consumeChallenge now (Some (fst k)) (snd k) db"

definition challenge_fresh :: "string \<times> ceremony \<Rightarrow> string \<Rightarrow> auth_db \<Rightarrow> bool" where
  "challenge_fresh k pid db \<longleftrightarrow>
     fst k \<notin> w_challenge ` set (webauthn_challenges db) \<and> pid \<in> r_id ` set (players db)"

definition challenges_distinct :: "auth_db \<Rightarrow> bool" where
  "challenges_distinct db \<longleftrightarrow> distinct (map w_challenge (webauthn_challenges db))"

lemma find_append_none: "(\<And>x. x \<in> set xs \<Longrightarrow> \<not> P x) \<Longrightarrow> find P (xs @ ys) = find P ys"
  by (induction xs) auto

lemma find_filter_other: "(\<And>x. P x \<Longrightarrow> Q x) \<Longrightarrow> find P (filter Q xs) = find P xs"
  by (induction xs) auto

lemma find_append_not: "\<not> P y \<Longrightarrow> find P (xs @ [y]) = find P xs"
  by (induction xs) auto

lemma find_None_filter: "find P xs = None \<Longrightarrow> find P (filter Q xs) = None"
  by (auto simp: find_None_iff)

lemma take_challenge_fst:
  "fst (take_challenge t k db) =
     Option.bind (find (challenge_matches t (fst k) (snd k)) (webauthn_challenges db)) w_player_id"
  by (auto simp: take_challenge_def consumeChallenge_def split: option.splits)

lemma take_challenge_snd:
  "webauthn_challenges (snd (take_challenge t k db)) =
     filter (\<lambda>r. \<not> challenge_matches t (fst k) (snd k) r) (webauthn_challenges db)"
  by (simp add: take_challenge_def consumeChallenge_def)

lemma find_distinct_key:
  assumes "distinct (map f xs)" and "y \<in> set xs" and "P y" and "\<And>x. P x \<Longrightarrow> f x = f y"
  shows "find P xs = Some y"
  using assms
proof (induction xs)
  case (Cons x xs)
  show ?case
  proof (cases "P x")
    case True
    then have "f x = f y" by (rule Cons.prems(4))
    then have "y \<notin> set xs" using Cons.prems(1) by (metis distinct.simps(2) image_eqI list.set_map list.simps(9))
    then show ?thesis using True Cons.prems(2) by simp
  next
    case False
    have "distinct (map f xs)" and "y \<in> set xs" using Cons.prems(1-3) False by auto
    from this Cons.prems(3,4) have "find P xs = Some y" by (rule Cons.IH)
    then show ?thesis using False by simp
  qed
qed simp

lemma put_challenge_fresh:
  "challenge_fresh k pid db \<Longrightarrow>
    webauthn_challenges (put_challenge now k pid db) = webauthn_challenges db @
      [\<lparr>w_challenge = fst k, w_player_id = Some pid, w_type = snd k, w_expires_at = now + CHALLENGE_TTL\<rparr>]"
  by (auto simp: put_challenge_def storeChallenge_def challenge_fresh_def)

lemma find_challenge_append:
  "c \<notin> w_challenge ` set cs \<Longrightarrow>
    find (challenge_matches t c ty) (cs @ ys) = find (challenge_matches t c ty) ys"
  by (rule find_append_none) (auto simp: challenge_matches_def)

interpretation challenge: one_time_store put_challenge take_challenge CHALLENGE_TTL challenge_fresh
  challenges_distinct
proof (unfold_locales, goal_cases)
  case 1 show ?case by (simp add: CHALLENGE_TTL_def)
next
  case (2 db now k v)
  then show ?case
    by (auto simp: challenges_distinct_def put_challenge_def storeChallenge_def)
next
  case (3 db now k)
  then show ?case
    by (simp add: challenges_distinct_def take_challenge_snd distinct_map_filter_key)
next
  case (4 db k v now t)
  then show ?case
    by (simp add: take_challenge_fst put_challenge_fresh find_challenge_append challenge_fresh_def
        challenge_matches_def [of t])
next
  case (5 db k v now t)
  then show ?case
    by (simp add: take_challenge_fst put_challenge_fresh find_challenge_append challenge_fresh_def
        challenge_matches_def [of t])
next
  case (6 db k' k t now v)
  then show ?case
    by (auto simp: take_challenge_fst put_challenge_def storeChallenge_def challenge_matches_def
        prod_eq_iff find_append_not)
next
  case (7 db t t' k)
  have "find (challenge_matches t' (fst k) (snd k)) (webauthn_challenges (snd (take_challenge t k db))) = None"
    using \<open>t \<le> t'\<close> by (auto simp: take_challenge_snd find_None_iff challenge_matches_def)
  then show ?case by (simp add: take_challenge_fst)
next
  case (8 db k' k t' t)
  have "find (challenge_matches t' (fst k') (snd k')) (webauthn_challenges (snd (take_challenge t k db))) =
        find (challenge_matches t' (fst k') (snd k')) (webauthn_challenges db)"
    unfolding take_challenge_snd using \<open>k' \<noteq> k\<close>
    by (intro find_filter_other) (auto simp: challenge_matches_def prod_eq_iff)
  then show ?case by (simp add: take_challenge_fst)
next
  case (9 db t k t')
  show ?case
  proof (cases "find (challenge_matches t' (fst k) (snd k)) (webauthn_challenges db)")
    case (Some r)
    then have "find (challenge_matches t (fst k) (snd k)) (webauthn_challenges db) = Some r"
      using 9 find_SomeD [OF Some]
      by (intro find_distinct_key [where f = w_challenge])
        (auto simp: challenges_distinct_def challenge_matches_def)
    then show ?thesis using 9 Some by (simp add: take_challenge_fst)
  qed (simp add: take_challenge_fst)
next
  case (10 db t' k t)
  let ?P = "challenge_matches t' (fst k) (snd k)"
  let ?cs = "webauthn_challenges db" and ?cs' = "webauthn_challenges (snd (take_challenge t k db))"
  show ?case
  proof (cases "find ?P ?cs'")
    case (Some r)
    then have "r \<in> set ?cs" and "?P r"
      using find_SomeD [OF Some] by (auto simp: take_challenge_snd)
    then have "find ?P ?cs = Some r"
      using 10 by (intro find_distinct_key [where f = w_challenge])
        (auto simp: challenges_distinct_def challenge_matches_def)
    then show ?thesis using 10 Some by (simp add: take_challenge_fst)
  qed (simp add: take_challenge_fst)
qed
end
