(* ===== verification/Redis.thy ===== *)
theory Redis
  imports TokenStore
begin

text \<open>
  The Redis service as the auth service uses it. Redis is not part of the repository: its four
  commands are a parameter (a record of operations over an abstract store), and the laws of the
  locale \<open>redis_service\<close> are their documented behaviour. \<open>ttl_redis\<close> is a reference store that
  satisfies them; it is used to interpret the locale and to run the model on concrete inputs.
  Times are milliseconds, lifetimes seconds, as in \<open>SETEX\<close>.
\<close>

record 'r redis_ops =
  rd_setex :: "int \<Rightarrow> string \<Rightarrow> int \<Rightarrow> string \<Rightarrow> 'r \<Rightarrow> 'r"
  rd_get :: "int \<Rightarrow> string \<Rightarrow> 'r \<Rightarrow> string option"
  rd_getdel :: "int \<Rightarrow> string \<Rightarrow> 'r \<Rightarrow> string option \<times> 'r"
  rd_flushdb :: "'r \<Rightarrow> 'r"

locale redis_service =
  fixes R :: "'r redis_ops"
  assumes get_setex: "0 < secs \<Longrightarrow> now \<le> t \<Longrightarrow>
      rd_get R t k (rd_setex R now k secs v r) = (if t < now + 1000 * secs then Some v else None)"
    and get_setex_other: "k' \<noteq> k \<Longrightarrow>
      rd_get R t k' (rd_setex R now k secs v r) = rd_get R t k' r"
    and getdel_fst: "fst (rd_getdel R t k r) = rd_get R t k r"
    and get_getdel: "t \<le> t' \<Longrightarrow> rd_get R t' k (snd (rd_getdel R t k r)) = None"
    and get_getdel_other: "k' \<noteq> k \<Longrightarrow>
      rd_get R t' k' (snd (rd_getdel R t k r)) = rd_get R t' k' r"
    and get_later: "t \<le> t' \<Longrightarrow> rd_get R t k r = None \<Longrightarrow> rd_get R t' k r = None"
    and getdel_keeps_None: "rd_get R t' k r = None \<Longrightarrow>
      rd_get R t' k (snd (rd_getdel R t k r)) = None"
    and get_flushdb: "rd_get R t k (rd_flushdb R r) = None"
begin

lemma get_Some_earlier:
  "rd_get R t' k r = Some v \<Longrightarrow> t \<le> t' \<Longrightarrow> \<exists>w. rd_get R t k r = Some w"
  using get_later [of t t' k r] by (cases "rd_get R t k r") auto

text \<open>Keys under a fixed prefix, written with one lifetime and read with \<open>GETDEL\<close>, are a store of
  one-time secrets.\<close>

lemma prefixed_store:
  assumes "0 < secs"
  shows "one_time_store (\<lambda>now k v r. rd_setex R now (pfx @ k) secs v r)
           (\<lambda>t k r. rd_getdel R t (pfx @ k) r) (1000 * secs) (\<lambda>_ _ _. True) (\<lambda>_. True)"
  by (unfold_locales)
    (use assms in \<open>auto simp: getdel_fst get_setex get_setex_other get_getdel get_getdel_other
        getdel_keeps_None intro: get_later\<close>)

end

section \<open>A reference store\<close>

text \<open>The entries of the store with their value and the time they expire; at most one per key.\<close>

type_synonym ttl_store = "(string \<times> string \<times> int) list"

definition ttl_get :: "int \<Rightarrow> string \<Rightarrow> ttl_store \<Rightarrow> string option" where
  "ttl_get t k m = (case map_of m k of None \<Rightarrow> None | Some (v, e) \<Rightarrow> if t < e then Some v else None)"

definition ttl_delete :: "string \<Rightarrow> ttl_store \<Rightarrow> ttl_store" where
  "ttl_delete k m = filter (\<lambda>e. fst e \<noteq> k) m"

definition ttl_redis :: "ttl_store redis_ops" where
  "ttl_redis =
     \<lparr>rd_setex = (\<lambda>now k secs v m. (k, v, now + 1000 * secs) # ttl_delete k m),
      rd_get = ttl_get,
      rd_getdel = (\<lambda>t k m. (ttl_get t k m, ttl_delete k m)),
      rd_flushdb = (\<lambda>_. [])\<rparr>"

lemma map_of_ttl_delete: "map_of (ttl_delete k m) k' = (if k' = k then None else map_of m k')"
  by (induction m) (auto simp: ttl_delete_def)

interpretation ttl: redis_service ttl_redis
  by unfold_locales
    (auto simp: ttl_redis_def ttl_get_def map_of_ttl_delete split: option.splits if_splits)

end
