(* ===== verification/AuthPlatform.thy ===== *)
theory AuthPlatform
  imports AuthDb Redis
begin

text \<open>
  What the auth service stands on: its configuration from the environment, the packages it calls
  (\<open>jsonwebtoken\<close>, \<open>@simplewebauthn/server\<close>, the drivers of Redis and PostgreSQL) as a record of
  parameters, and its state. Then the helpers of \<open>auth-service/index.ts\<close> below the request
  handlers: tokens, sessions, outbound calls, responses, header and body decoding.
\<close>

section \<open>Configuration\<close>

record config =
  JWT_SECRET :: string
  EMAIL_URL :: string
  BANK_URL :: string
  GATEWAY_URL :: string
  UI_URL :: string
  RP_NAME :: string
  RP_ID :: string
  ORIGIN :: string

definition env_or :: "(string \<Rightarrow> string option) \<Rightarrow> string \<Rightarrow> string \<Rightarrow> string" where
  "env_or env k d = (case env k of None \<Rightarrow> d | Some v \<Rightarrow> v)"

definition load_config :: "(string \<Rightarrow> string option) \<Rightarrow> config" where
  "load_config env =
     \<lparr>JWT_SECRET = env_or env ''JWT_SECRET'' ''tca-blackjack-dev-secret-change-in-production'',
      EMAIL_URL = env_or env ''EMAIL_URL'' ''http://email-service:3008'',
      BANK_URL = env_or env ''BANK_URL'' ''https://bank-service:3005'',
      GATEWAY_URL = env_or env ''GATEWAY_URL'' ''http://localhost:8021'',
      UI_URL = env_or env ''UI_URL'' ''http://localhost:8021'',
      RP_NAME = env_or env ''WEBAUTHN_RP_NAME'' ''TCA Blackjack'',
      RP_ID = env_or env ''WEBAUTHN_RP_ID'' ''localhost'',
      ORIGIN = env_or env ''WEBAUTHN_ORIGIN'' ''http://localhost:8021''\<rparr>"

definition SERVICE :: string where
  "SERVICE = ''auth-service''"

definition JWT_EXPIRES_IN :: int where
  "JWT_EXPIRES_IN = 3600"

section \<open>Packages\<close>

text \<open>The payload of a token; absent claims are \<open>None\<close>. \<open>exp\<close> is in seconds.\<close>

record jwt_claims =
  cl_sub :: "string option"
  cl_email :: "string option"
  cl_name :: "string option"
  cl_scope :: "string option"
  cl_sessionId :: "string option"
  cl_iss :: "string option"
  cl_exp :: "int option"

text \<open>What \<open>@simplewebauthn/server\<close> returns or throws.\<close>

record reg_info =
  ri_credentialID :: string
  ri_credentialPublicKey :: string
  ri_counter :: int
  ri_credentialDeviceType :: string
  ri_credentialBackedUp :: bool

datatype reg_outcome = RegThrows string | RegResult bool "reg_info option"

datatype auth_outcome = AuthThrows string | AuthResult bool int

record authenticator =
  au_credentialID :: string
  au_credentialPublicKey :: string
  au_counter :: int
  au_transports :: "string list"

record reg_options_args =
  ro_rpName :: string
  ro_rpID :: string
  ro_userName :: string
  ro_userDisplayName :: string
  ro_attestationType :: string
  ro_excludeCredentials :: "(string \<times> string list) list"
  ro_residentKey :: string
  ro_userVerification :: string

record auth_options_args =
  ao_rpID :: string
  ao_allowCredentials :: "(string \<times> string list) list"
  ao_userVerification :: string

text \<open>
  The parameters. Random draws are numbered: the \<open>n\<close>-th draw of the process yields
  \<open>randomUUID P n\<close>, or the challenge of the options generated with it.
  \<^item> \<open>uuid_in\<close>: PostgreSQL's reading of a text as a \<open>UUID\<close>, in its canonical form.
  \<^item> \<open>jwt_sign P payload secret expiresIn now\<close> and \<open>jwt_verify P token secret now\<close>.
  \<^item> \<open>http_post\<close>: the body of another service's answer, or \<open>None\<close> on a network error.
  \<^item> \<open>error_message\<close> is the \<open>message\<close> of an exception; the three after it convert values of
    unexpected types; \<open>db_up\<close> and \<open>redis_ready\<close> are what a health check finds.
\<close>

record 'r platform =
  redis_of :: "'r redis_ops"
  uuid_in :: "string \<Rightarrow> string option"
  randomUUID :: "nat \<Rightarrow> string"
  jwt_sign :: "jwt_claims \<Rightarrow> string \<Rightarrow> int \<Rightarrow> int \<Rightarrow> string"
  jwt_verify :: "string \<Rightarrow> string \<Rightarrow> int \<Rightarrow> jwt_claims option"
  generateRegistrationOptions :: "nat \<Rightarrow> reg_options_args \<Rightarrow> string \<times> json"
  generateAuthenticationOptions :: "nat \<Rightarrow> auth_options_args \<Rightarrow> string \<times> json"
  verifyRegistrationResponse :: "json \<Rightarrow> string \<Rightarrow> string \<Rightarrow> string \<Rightarrow> reg_outcome"
  verifyAuthenticationResponse ::
    "json \<Rightarrow> string \<Rightarrow> string \<Rightarrow> string \<Rightarrow> authenticator \<Rightarrow> auth_outcome"
  http_post :: "string \<Rightarrow> json \<Rightarrow> string option"
  error_message :: "js_error \<Rightarrow> string"
  buffer_from_other :: "json \<Rightarrow> js_error + string"
  pg_text_other :: "json \<Rightarrow> string"
  pg_text_array :: "json \<Rightarrow> string list option"
  db_up :: bool
  redis_ready :: bool

section \<open>State\<close>

text \<open>The two stores, the number of random draws so far, and the HTTP requests the service has made,
  newest first.\<close>

record 'r auth_state =
  db :: auth_db
  redis :: 'r
  rand :: nat
  outbox :: "(string \<times> json) list"

definition draw :: "'r platform \<Rightarrow> 'r auth_state \<Rightarrow> string \<times> 'r auth_state" where
  "draw P s = (randomUUID P (rand s), s\<lparr>rand := Suc (rand s)\<rparr>)"

definition setex ::
  "'r platform \<Rightarrow> int \<Rightarrow> string \<Rightarrow> int \<Rightarrow> string \<Rightarrow> 'r auth_state \<Rightarrow> 'r auth_state" where
  "setex P now k secs v s = s\<lparr>redis := rd_setex (redis_of P) now k secs v (redis s)\<rparr>"

definition getdel ::
  "'r platform \<Rightarrow> int \<Rightarrow> string \<Rightarrow> 'r auth_state \<Rightarrow> string option \<times> 'r auth_state" where
  "getdel P now k s =
     (fst (rd_getdel (redis_of P) now k (redis s)),
      s\<lparr>redis := snd (rd_getdel (redis_of P) now k (redis s))\<rparr>)"

section \<open>Tokens and sessions\<close>

definition issueBootstrapJWT :: "'r platform \<Rightarrow> config \<Rightarrow> int \<Rightarrow> player \<Rightarrow> string" where
  "issueBootstrapJWT P cfg now p =
     jwt_sign P
       \<lparr>cl_sub = Some (p_id p), cl_email = Some (p_email p), cl_name = Some (p_name p),
        cl_scope = Some ''enroll'', cl_sessionId = None, cl_iss = Some ''tca-blackjack'',
        cl_exp = None\<rparr>
       (JWT_SECRET cfg) 300 now"

definition issueSessionJWT :: "'r platform \<Rightarrow> config \<Rightarrow> int \<Rightarrow> player \<Rightarrow> string \<Rightarrow> string" where
  "issueSessionJWT P cfg now p sessionId =
     jwt_sign P
       \<lparr>cl_sub = Some (p_id p), cl_email = Some (p_email p), cl_name = Some (p_name p),
        cl_scope = Some ''session'', cl_sessionId = Some sessionId,
        cl_iss = Some ''tca-blackjack'', cl_exp = None\<rparr>
       (JWT_SECRET cfg) JWT_EXPIRES_IN now"

definition verifyJWT :: "'r platform \<Rightarrow> config \<Rightarrow> int \<Rightarrow> string \<Rightarrow> jwt_claims option" where
  "verifyJWT P cfg now token = jwt_verify P token (JWT_SECRET cfg) now"

text \<open>The three families of Redis keys.\<close>

definition verify_key :: "string \<Rightarrow> string" where
  "verify_key token = ''verify:'' @ token"

definition exchange_key :: "string \<Rightarrow> string" where
  "exchange_key code = ''exchange:'' @ code"

definition session_key :: "string \<Rightarrow> string \<Rightarrow> string" where
  "session_key playerId sessionId = ''session:'' @ playerId @ '':'' @ sessionId"

definition createSession ::
  "'r platform \<Rightarrow> int \<Rightarrow> string \<Rightarrow> 'r auth_state \<Rightarrow> string \<times> 'r auth_state" where
  "createSession P now playerId s =
     (let (sessionId, s1) = draw P s
      in (sessionId,
          setex P now (session_key playerId sessionId) (JWT_EXPIRES_IN * 4)
            (JSON_stringify (JObj [(''playerId'', JStr playerId), (''createdAt'', JStr (toISOString now))]))
            s1))"

text \<open>A missing claim is interpolated into the key as the text \<open>undefined\<close>.\<close>

definition undefined_text :: "string option \<Rightarrow> string" where
  "undefined_text v = (case v of None \<Rightarrow> ''undefined'' | Some t \<Rightarrow> t)"

definition validateSession ::
  "'r platform \<Rightarrow> int \<Rightarrow> string option \<Rightarrow> string option \<Rightarrow> 'r auth_state \<Rightarrow> bool" where
  "validateSession P now playerId sessionId s \<longleftrightarrow>
     rd_get (redis_of P) now (session_key (undefined_text playerId) (undefined_text sessionId)) (redis s)
       \<noteq> None"

section \<open>Outbound calls\<close>

definition mtlsPost ::
  "'r platform \<Rightarrow> string \<Rightarrow> json \<Rightarrow> 'r auth_state \<Rightarrow> json \<times> 'r auth_state" where
  "mtlsPost P url body s =
     (case http_post P url body of
        None \<Rightarrow> JNull
      | Some buf \<Rightarrow> (case JSON_parse buf of None \<Rightarrow> JNull | Some v \<Rightarrow> v),
      s\<lparr>outbox := (url, body) # outbox s\<rparr>)"

definition ensureBankAccount :: "'r platform \<Rightarrow> config \<Rightarrow> player \<Rightarrow> 'r auth_state \<Rightarrow> 'r auth_state" where
  "ensureBankAccount P cfg p s =
     snd (mtlsPost P (BANK_URL cfg @ ''/account'')
       (JObj [(''playerId'', JStr (p_id p)), (''startingBalance'', JStr ''1000.00'')]) s)"

definition email_envelope :: "string \<Rightarrow> string \<Rightarrow> string \<Rightarrow> string \<Rightarrow> string \<Rightarrow> json \<Rightarrow> json" where
  "email_envelope request_id tier message_type rtype rvalue payload =
     JObj [(''caller'', JObj [(''service'', JStr SERVICE), (''request_id'', JStr request_id)]),
           (''tier'', JStr tier), (''message_type'', JStr message_type),
           (''recipient'', JObj [(''type'', JStr rtype), (''value'', JStr rvalue)]),
           (''payload'', payload), (''options'', JObj [])]"

definition sendVerificationEmail ::
  "'r platform \<Rightarrow> config \<Rightarrow> int \<Rightarrow> player \<Rightarrow> 'r auth_state \<Rightarrow> 'r auth_state" where
  "sendVerificationEmail P cfg now p s =
     (let (verifyToken, s1) = draw P s;
          s2 = setex P now (verify_key verifyToken) 86400 (p_id p) s1;
          verificationUrl = GATEWAY_URL cfg @ ''/verify?token='' @ verifyToken;
          (request_id, s3) = draw P s2;
          body = email_envelope request_id ''system'' ''verify_email'' ''email'' (p_email p)
            (JObj [(''verification_url'', JStr verificationUrl), (''expires_in'', JStr ''24h'')])
      in s3\<lparr>outbox := (EMAIL_URL cfg @ ''/send'', body) # outbox s3\<rparr>)"

record tx_data =
  tx_transactionId :: "json option"
  tx_amount :: "json option"
  tx_type :: "json option"
  tx_timestamp :: "json option"
  tx_balanceAfter :: "json option"

definition sendTransactionReceipt ::
  "'r platform \<Rightarrow> config \<Rightarrow> player \<Rightarrow> tx_data \<Rightarrow> 'r auth_state \<Rightarrow> 'r auth_state" where
  "sendTransactionReceipt P cfg p tx s =
     (let (request_id, s1) = draw P s;
          body = email_envelope request_id ''restricted'' ''transaction_receipt'' ''user_id'' (p_id p)
            (jobj [(''transaction_id'', tx_transactionId tx), (''amount'', tx_amount tx),
                   (''type'', tx_type tx), (''timestamp'', tx_timestamp tx),
                   (''balance_after'', tx_balanceAfter tx)])
      in s1\<lparr>outbox := (EMAIL_URL cfg @ ''/send'', body) # outbox s1\<rparr>)"

section \<open>Requests and responses\<close>

text \<open>A request after URL parsing: \<open>rq_query\<close> are the search parameters in order, \<open>rq_body\<close> is the
  text \<open>readBody\<close> resolves with.\<close>

record request =
  rq_method :: string
  rq_path :: string
  rq_query :: "(string \<times> string) list"
  rq_authorization :: "string option"
  rq_body :: string

datatype body = JsonBody json | HtmlBody string | NoBody

text \<open>The response, or \<open>Rejected\<close>: the handler's promise is rejected and no response is sent.\<close>

datatype reply = Reply nat "(string \<times> string) list" body | Rejected js_error

definition cors_headers :: "(string \<times> string) list" where
  "cors_headers =
     [(''Access-Control-Allow-Origin'', ''*''),
      (''Access-Control-Allow-Methods'', ''GET, POST, OPTIONS''),
      (''Access-Control-Allow-Headers'', ''Content-Type, Authorization'')]"

definition jsonResponse :: "nat \<Rightarrow> json \<Rightarrow> reply" where
  "jsonResponse status b =
     Reply status ((''Content-Type'', ''application/json'') # cors_headers) (JsonBody b)"

definition htmlResponse :: "nat \<Rightarrow> string \<Rightarrow> reply" where
  "htmlResponse status html =
     Reply status [(''Content-Type'', ''text/html; charset=utf-8'')] (HtmlBody html)"

definition error_reply :: "nat \<Rightarrow> string \<Rightarrow> reply" where
  "error_reply status msg = jsonResponse status (JObj [(''error'', JStr msg)])"

definition getBearerToken :: "request \<Rightarrow> string option" where
  "getBearerToken rq =
     (let auth = (case rq_authorization rq of None \<Rightarrow> [] | Some a \<Rightarrow> a)
      in if starts_with ''Bearer '' auth then Some (drop 7 auth) else None)"

text \<open>\<open>JSON.parse(body || '{}')\<close>.\<close>

definition parse_body :: "string \<Rightarrow> json option" where
  "parse_body b = JSON_parse (if b = [] then ''{}'' else b)"

subsection \<open>base64url\<close>

text \<open>\<open>Buffer.from(s, 'base64url')\<close>: both alphabets are accepted, decoding stops at \<open>=\<close>, other
  characters are skipped, and left-over bits are dropped.\<close>

definition sextet :: "char \<Rightarrow> nat option" where
  "sextet c =
     (let n = of_char c :: nat in
      if 65 \<le> n \<and> n \<le> 90 then Some (n - 65)
      else if 97 \<le> n \<and> n \<le> 122 then Some (n - 71)
      else if 48 \<le> n \<and> n \<le> 57 then Some (n + 4)
      else if n = 45 \<or> n = 43 then Some 62
      else if n = 95 \<or> n = 47 then Some 63
      else None)"

fun sextets_to_bytes :: "nat list \<Rightarrow> string" where
  "sextets_to_bytes (a # b # c # d # r) =
     char_of (a * 4 + b div 16) # char_of (b mod 16 * 16 + c div 4) # char_of (c mod 4 * 64 + d) #
     sextets_to_bytes r"
| "sextets_to_bytes [a, b, c] = [char_of (a * 4 + b div 16), char_of (b mod 16 * 16 + c div 4)]"
| "sextets_to_bytes [a, b] = [char_of (a * 4 + b div 16)]"
| "sextets_to_bytes _ = []"

definition base64url_decode :: "string \<Rightarrow> string" where
  "base64url_decode s =
     sextets_to_bytes (List.map_filter sextet (takeWhile (\<lambda>c. c \<noteq> CHR ''='') s))"

definition decodeClientDataChallenge :: "'r platform \<Rightarrow> json option \<Rightarrow> js_error + json option" where
  "decodeClientDataChallenge P clientDataJSON =
     (case (case clientDataJSON of
              None \<Rightarrow> Inl TypeError
            | Some (JStr t) \<Rightarrow> Inr (base64url_decode t)
            | Some v \<Rightarrow> buffer_from_other P v) of
        Inl e \<Rightarrow> Inl e
      | Inr bytes \<Rightarrow>
          (case JSON_parse bytes of
             None \<Rightarrow> Inl SyntaxError
           | Some v \<Rightarrow> js_prop v ''challenge''))"

text \<open>A JSON value passed to the database as a \<open>TEXT\<close> parameter.\<close>

definition pg_text :: "'r platform \<Rightarrow> json option \<Rightarrow> string option" where
  "pg_text P v =
     (case v of
        None \<Rightarrow> None
      | Some JNull \<Rightarrow> None
      | Some (JStr t) \<Rightarrow> Some t
      | Some w \<Rightarrow> Some (pg_text_other P w))"

end
