(* ===== verification/AuthService.thy ===== *)
theory AuthService
  imports AuthPlatform
begin

text \<open>
  The request handlers of \<open>auth-service/index.ts\<close>, one definition per route, and their dispatch. A
  handler takes the platform, the configuration, the time of the request, the request and the
  state, and returns the response with the new state. Each runs without interleaving. The guards
  and early returns are in the source's order; an exception outside a \<open>try\<close> rejects the handler's
  promise after the state changes made so far.
\<close>

type_synonym 'r handler =
  "'r platform \<Rightarrow> config \<Rightarrow> int \<Rightarrow> request \<Rightarrow> 'r auth_state \<Rightarrow> reply \<times> 'r auth_state"

text \<open>Continue with a value, or reject.\<close>

definition await ::
  "js_error + 'a \<Rightarrow> 'r auth_state \<Rightarrow> ('a \<Rightarrow> reply \<times> 'r auth_state) \<Rightarrow> reply \<times> 'r auth_state" where
  "await r s k = (case r of Inl e \<Rightarrow> (Rejected e, s) | Inr x \<Rightarrow> k x)"

section \<open>Error page\<close>

definition errorPage :: "string \<Rightarrow> string \<Rightarrow> string" where
  "errorPage message uiUrl = intercalate [CHR 0x0A]
    [''<!DOCTYPE html>'',
     ''<html>'',
     ''<head>'',
     ''  <meta charset=\"utf-8\">'',
     ''  <title>Verification Error '' @ [CHR 0xE2, CHR 0x80, CHR 0x94] @ '' TCA Blackjack</title>'',
     ''  <style>'',
     ''    body { background:#0d1117; color:#e6edf3; font-family:system-ui,sans-serif;'',
     ''           display:flex; align-items:center; justify-content:center; min-height:100vh; margin:0; }'',
     ''    .box { background:#161b22; border:1px solid #e53e3e; border-radius:12px;'',
     ''           padding:32px 40px; max-width:420px; text-align:center; }'',
     ''    h2 { color:#fc8181; margin:0 0 16px; }'',
     ''    p  { color:#8b949e; line-height:1.6; margin:0 0 24px; }'',
     ''    a  { display:inline-block; padding:10px 24px; background:#1f6feb;'',
     ''         color:#fff; text-decoration:none; border-radius:8px; font-weight:600; }'',
     ''  </style>'',
     ''</head>'',
     ''<body>'',
     ''  <div class=\"box\">'',
     ''    <h2>Verification Failed</h2>'',
     ''    <p>'' @ message @ ''</p>'',
     ''    <a href=\"'' @ uiUrl @ ''\">Back to Game</a>'',
     ''  </div>'',
     ''</body>'',
     ''</html>'']"

section \<open>Service queries\<close>

definition handle_options :: "'r auth_state \<Rightarrow> reply \<times> 'r auth_state" where
  "handle_options s = (Reply 204 cors_headers NoBody, s)"

definition handle_health :: "'r handler" where
  "handle_health P cfg now rq s =
     (jsonResponse 200
        (JObj [(''status'', JStr ''healthy''), (''service'', JStr SERVICE),
               (''language'', JStr ''TypeScript''),
               (''redis'', JStr (if redis_ready P then ''connected'' else ''disconnected'')),
               (''db'', JStr (if db_up P then ''connected'' else ''disconnected'')),
               (''webauthn'', JObj [(''rpId'', JStr (RP_ID cfg)), (''rpName'', JStr (RP_NAME cfg)),
                                    (''origin'', JStr (ORIGIN cfg))])]),
      s)"

definition handle_user_email :: "'r handler" where
  "handle_user_email P cfg now rq s =
     await (findPlayerById (uuid_in P) (nth_opt (js_split CHR ''/'' (rq_path rq)) 2) (db s)) s (\<lambda>found.
       case found of
         None \<Rightarrow> (error_reply 404 ''player not found'', s)
       | Some p \<Rightarrow>
           (jsonResponse 200 (JObj [(''playerId'', JStr (p_id p)), (''email'', JStr (p_email p))]), s))"

section \<open>Registration\<close>

text \<open>The expression \<open>/^[^\s@]+@[^\s@]+\.[^\s@]+$/\<close>: positions \<open>i\<close> of the at sign and \<open>j\<close> of a dot
  with a non-empty run of the class on each side.\<close>

definition email_char :: "char \<Rightarrow> bool" where
  "email_char c \<longleftrightarrow> \<not> is_ws c \<and> c \<noteq> CHR ''@''"

definition class_plus :: "string \<Rightarrow> bool" where
  "class_plus s \<longleftrightarrow> s \<noteq> [] \<and> list_all email_char s"

definition email_regex :: "string \<Rightarrow> bool" where
  "email_regex s \<longleftrightarrow>
     list_ex (\<lambda>i. s ! i = CHR ''@'' \<and> class_plus (take i s) \<and>
       list_ex (\<lambda>j. s ! j = CHR ''.'' \<and> class_plus (drop (i + 1) (take j s)) \<and> class_plus (drop (j + 1) s))
         [i + 1 ..< length s])
       [0 ..< length s]"

definition handle_register :: "'r handler" where
  "handle_register P cfg now rq s =
     (case parse_body (rq_body rq) of
        None \<Rightarrow> (error_reply 400 ''invalid JSON'', s)
      | Some data \<Rightarrow>
          await (js_prop data ''email'') s (\<lambda>email_v.
          await (js_trim_method (js_nullish email_v (JStr []))) s (\<lambda>email_t.
          await (js_prop data ''name'') s (\<lambda>name_v.
          await (js_trim_method (js_nullish name_v (JStr []))) s (\<lambda>name.
            let email = js_lower email_t in
            if email = [] \<or> name = [] then (error_reply 400 ''email and name required'', s)
            else if \<not> email_regex email then (error_reply 400 ''invalid email address'', s)
            else if findPlayerByEmail email (db s) \<noteq> None
            then (error_reply 409 ''email already registered'', s)
            else
              (let (i, s1) = draw P s in
               await (createPlayer (uuid_in P) now i email name (db s1)) s1 (\<lambda>(p, db').
                 let s2 = s1\<lparr>db := db'\<rparr>;
                     s3 = ensureBankAccount P cfg p s2;
                     s4 = sendVerificationEmail P cfg now p s3
                 in (jsonResponse 201
                       (JObj [(''registered'', JBool True),
                              (''message'', JStr ''Verification email sent. Check your inbox and click the link to activate your account.''),
                              (''email'', JStr (p_email p))]), s4))))))))"

definition handle_verify_token :: "'r handler" where
  "handle_verify_token P cfg now rq s =
     (case map_of (rq_query rq) ''token'' of
        None \<Rightarrow> (htmlResponse 400 (errorPage ''Missing verification token.'' (UI_URL cfg)), s)
      | Some token \<Rightarrow>
          if token = [] then (htmlResponse 400 (errorPage ''Missing verification token.'' (UI_URL cfg)), s)
          else
            (let (taken, s1) = getdel P now (verify_key token) s in
             case taken of
               None \<Rightarrow>
                 (htmlResponse 400
                    (errorPage ''Verification link is invalid or has already been used.'' (UI_URL cfg)), s1)
             | Some playerId \<Rightarrow>
                 if playerId = [] then
                   (htmlResponse 400
                      (errorPage ''Verification link is invalid or has already been used.'' (UI_URL cfg)), s1)
                 else
                   await (findPlayerById (uuid_in P) (Some playerId) (db s1)) s1 (\<lambda>found.
                     case found of
                       None \<Rightarrow> (htmlResponse 400 (errorPage ''Account not found.'' (UI_URL cfg)), s1)
                     | Some _ \<Rightarrow>
                         await (markPlayerVerified (uuid_in P) playerId (db s1)) s1 (\<lambda>db'.
                           let s2 = s1\<lparr>db := db'\<rparr>;
                               (code, s3) = draw P s2;
                               s4 = setex P now (exchange_key code) 60 playerId s3
                           in (Reply 302 [(''Location'', UI_URL cfg @ ''?exchange='' @ code)] NoBody, s4)))))"

definition handle_exchange :: "'r handler" where
  "handle_exchange P cfg now rq s =
     (case parse_body (rq_body rq) of
        None \<Rightarrow> (error_reply 400 ''invalid JSON'', s)
      | Some data \<Rightarrow>
          await (js_prop data ''code'') s (\<lambda>code.
            let (taken, s1) = getdel P now (exchange_key (js_to_string (js_nullish code (JStr [])))) s in
            case taken of
              None \<Rightarrow> (error_reply 401 ''invalid or expired exchange code'', s1)
            | Some playerId \<Rightarrow>
                if playerId = [] then (error_reply 401 ''invalid or expired exchange code'', s1)
                else
                  await (findPlayerById (uuid_in P) (Some playerId) (db s1)) s1 (\<lambda>found.
                    case found of
                      None \<Rightarrow> (error_reply 404 ''player not found'', s1)
                    | Some p \<Rightarrow>
                        (jsonResponse 200
                           (JObj [(''bootstrapToken'', JStr (issueBootstrapJWT P cfg now p)),
                                  (''requiresEnrollment'', JBool True),
                                  (''playerId'', JStr (p_id p)), (''playerName'', JStr (p_name p)),
                                  (''email'', JStr (p_email p))]), s1))))"

section \<open>Passkey registration\<close>

text \<open>The checks shared by the two registration endpoints: a valid token, its scope, its player.\<close>

definition require_enroll_scope ::
  "'r platform \<Rightarrow> config \<Rightarrow> int \<Rightarrow> request \<Rightarrow> 'r auth_state
    \<Rightarrow> (string option \<Rightarrow> player \<Rightarrow> reply \<times> 'r auth_state) \<Rightarrow> reply \<times> 'r auth_state" where
  "require_enroll_scope P cfg now rq s k =
     (case Option.bind (getBearerToken rq) (\<lambda>t. if t = [] then None else verifyJWT P cfg now t) of
        None \<Rightarrow> (error_reply 401 ''authentication required'', s)
      | Some payload \<Rightarrow>
          if cl_scope payload \<noteq> Some ''enroll'' \<and> cl_scope payload \<noteq> Some ''session''
          then (error_reply 403 ''invalid token scope for passkey registration'', s)
          else
            await (findPlayerById (uuid_in P) (cl_sub payload) (db s)) s (\<lambda>found.
              case found of
                None \<Rightarrow> (error_reply 404 ''player not found'', s)
              | Some p \<Rightarrow> k (cl_scope payload) p))"

definition handle_passkey_register_begin :: "'r handler" where
  "handle_passkey_register_begin P cfg now rq s =
     require_enroll_scope P cfg now rq s (\<lambda>scope p.
       let existingCreds = getCredentialsByPlayerId (p_id p) (db s);
           (challenge, options) = generateRegistrationOptions P (rand s)
             \<lparr>ro_rpName = RP_NAME cfg, ro_rpID = RP_ID cfg, ro_userName = p_email p,
              ro_userDisplayName = p_name p, ro_attestationType = ''none'',
              ro_excludeCredentials = map (\<lambda>c. (c_credentialId c, c_transports c)) existingCreds,
              ro_residentKey = ''preferred'', ro_userVerification = ''preferred''\<rparr>;
           s1 = s\<lparr>rand := Suc (rand s)\<rparr>
       in await (storeChallenge now challenge (Some (p_id p)) Registration (db s1)) s1 (\<lambda>db'.
            (jsonResponse 200 options, s1\<lparr>db := db'\<rparr>)))"

definition session_reply :: "(string \<times> json) list \<Rightarrow> string \<Rightarrow> player \<Rightarrow> reply" where
  "session_reply extra token p =
     jsonResponse 200
       (JObj (extra @ [(''accessToken'', JStr token), (''expiresIn'', JNum (of_int JWT_EXPIRES_IN)),
              (''playerId'', JStr (p_id p)), (''playerName'', JStr (p_name p)),
              (''email'', JStr (p_email p))]))"

text \<open>The body of the \<open>try\<close> block: every exception in it is answered with 400.\<close>

definition complete_registration ::
  "'r platform \<Rightarrow> config \<Rightarrow> int \<Rightarrow> string option \<Rightarrow> player \<Rightarrow> json \<Rightarrow> json option \<Rightarrow> string
    \<Rightarrow> 'r auth_state \<Rightarrow> reply \<times> 'r auth_state" where
  "complete_registration P cfg now scope p credential response challenge s =
     (case verifyRegistrationResponse P credential challenge (ORIGIN cfg) (RP_ID cfg) of
        RegThrows m \<Rightarrow> (error_reply 400 m, s)
      | RegResult verified None \<Rightarrow> (error_reply 400 ''passkey verification failed'', s)
      | RegResult verified (Some info) \<Rightarrow>
          if \<not> verified then (error_reply 400 ''passkey verification failed'', s)
          else
            (case js_prop_opt response ''transports'' of
               Inl e \<Rightarrow> (error_reply 400 (error_message P e), s)
             | Inr tv \<Rightarrow>
                 (case pg_text_array P (js_nullish tv (JArr [])) of
                    None \<Rightarrow> (error_reply 400 (error_message P (DbError InvalidArray)), s)
                  | Some transports \<Rightarrow>
                      (case saveCredential
                              \<lparr>c_credentialId = ri_credentialID info, c_playerId = p_id p,
                               c_publicKey = ri_credentialPublicKey info, c_counter = ri_counter info,
                               c_deviceType = ri_credentialDeviceType info,
                               c_backedUp = ri_credentialBackedUp info, c_transports = transports\<rparr>
                              (db s) of
                         Inl e \<Rightarrow> (error_reply 400 (error_message P e), s)
                       | Inr db1 \<Rightarrow>
                           (let s1 = s\<lparr>db := db1\<rparr> in
                            case markPasskeyEnrolled (uuid_in P) (p_id p) (db s1) of
                              Inl e \<Rightarrow> (error_reply 400 (error_message P e), s1)
                            | Inr db2 \<Rightarrow>
                                (let s2 = s1\<lparr>db := db2\<rparr> in
                                 if scope = Some ''enroll'' then
                                   (let (sessionId, s3) = createSession P now (p_id p) s2
                                    in (session_reply [(''verified'', JBool True)]
                                          (issueSessionJWT P cfg now p sessionId) p, s3))
                                 else (jsonResponse 200 (JObj [(''verified'', JBool True)]), s2)))))))"

definition handle_passkey_register_complete :: "'r handler" where
  "handle_passkey_register_complete P cfg now rq s =
     require_enroll_scope P cfg now rq s (\<lambda>scope p.
       case JSON_parse (rq_body rq) of
         None \<Rightarrow> (error_reply 400 ''invalid JSON'', s)
       | Some credential \<Rightarrow>
           await (js_prop credential ''response'') s (\<lambda>response.
           await (js_prop_opt response ''clientDataJSON'') s (\<lambda>cdj.
           await (decodeClientDataChallenge P cdj) s (\<lambda>challenge.
             let (storedPlayer, db1) = consumeChallenge now (pg_text P challenge) Registration (db s);
                 s1 = s\<lparr>db := db1\<rparr>
             in if storedPlayer \<noteq> Some (p_id p) \<or> storedPlayer = Some []
                then (error_reply 400 ''invalid or expired challenge'', s1)
                else complete_registration P cfg now scope p credential response
                       (case pg_text P challenge of None \<Rightarrow> [] | Some c \<Rightarrow> c) s1))))"

section \<open>Passkey login\<close>

definition handle_passkey_login_begin :: "'r handler" where
  "handle_passkey_login_begin P cfg now rq s =
     (case parse_body (rq_body rq) of
        None \<Rightarrow> (error_reply 400 ''invalid JSON'', s)
      | Some data \<Rightarrow>
          await (js_prop data ''email'') s (\<lambda>email_v.
          await (js_trim_method (js_nullish email_v (JStr []))) s (\<lambda>email_t.
            let email = js_lower email_t;
                found = (if email = [] then None else findPlayerByEmail email (db s));
                allowCredentials =
                  (case found of
                     None \<Rightarrow> []
                   | Some p \<Rightarrow> map (\<lambda>c. (c_credentialId c, c_transports c))
                                 (getCredentialsByPlayerId (p_id p) (db s)));
                (challenge, options) = generateAuthenticationOptions P (rand s)
                  \<lparr>ao_rpID = RP_ID cfg, ao_allowCredentials = allowCredentials,
                   ao_userVerification = ''preferred''\<rparr>;
                s1 = s\<lparr>rand := Suc (rand s)\<rparr>
            in await (storeChallenge now challenge (map_option p_id found) Authentication (db s1)) s1
                 (\<lambda>db'. (jsonResponse 200 options, s1\<lparr>db := db'\<rparr>)))))"

definition complete_login ::
  "'r platform \<Rightarrow> config \<Rightarrow> int \<Rightarrow> player \<Rightarrow> stored_credential \<Rightarrow> json \<Rightarrow> string
    \<Rightarrow> 'r auth_state \<Rightarrow> reply \<times> 'r auth_state" where
  "complete_login P cfg now p cred assertion challenge s =
     (case verifyAuthenticationResponse P assertion challenge (ORIGIN cfg) (RP_ID cfg)
             \<lparr>au_credentialID = c_credentialId cred, au_credentialPublicKey = c_publicKey cred,
              au_counter = c_counter cred, au_transports = c_transports cred\<rparr> of
        AuthThrows m \<Rightarrow> (error_reply 401 m, s)
      | AuthResult verified newCounter \<Rightarrow>
          if \<not> verified then (error_reply 401 ''passkey verification failed'', s)
          else
            (let s1 = s\<lparr>db := updateCredentialCounter (c_credentialId cred) newCounter (db s)\<rparr>;
                 (sessionId, s2) = createSession P now (p_id p) s1
             in (session_reply [] (issueSessionJWT P cfg now p sessionId) p, s2)))"

definition handle_passkey_login_complete :: "'r handler" where
  "handle_passkey_login_complete P cfg now rq s =
     (case JSON_parse (rq_body rq) of
        None \<Rightarrow> (error_reply 400 ''invalid JSON'', s)
      | Some assertion \<Rightarrow>
          await (js_prop assertion ''response'') s (\<lambda>response.
          await (js_prop_opt response ''clientDataJSON'') s (\<lambda>cdj.
          await (decodeClientDataChallenge P cdj) s (\<lambda>challenge.
            let (taken, db1) = consumeChallenge now (pg_text P challenge) Authentication (db s);
                s1 = s\<lparr>db := db1\<rparr>
            in case taken of
                 None \<Rightarrow> (error_reply 400 ''invalid or expired challenge'', s1)
               | Some playerId \<Rightarrow>
                   if playerId = [] then (error_reply 400 ''invalid or expired challenge'', s1)
                   else
                     await (js_prop assertion ''id'') s1 (\<lambda>cred_id.
                       case getCredentialById (pg_text P cred_id) (db s1) of
                         None \<Rightarrow>
                           (error_reply 401 ''credential not found or belongs to different account'', s1)
                       | Some cred \<Rightarrow>
                           if c_playerId cred \<noteq> playerId then
                             (error_reply 401 ''credential not found or belongs to different account'', s1)
                           else
                             await (findPlayerById (uuid_in P) (Some playerId) (db s1)) s1 (\<lambda>found.
                               case found of
                                 None \<Rightarrow> (error_reply 404 ''player not found'', s1)
                               | Some p \<Rightarrow>
                                   complete_login P cfg now p cred assertion
                                     (case pg_text P challenge of None \<Rightarrow> [] | Some c \<Rightarrow> c) s1))))))"

section \<open>Sessions, notifications, policy\<close>

definition handle_validate :: "'r handler" where
  "handle_validate P cfg now rq s =
     (case parse_body (rq_body rq) of
        None \<Rightarrow> (error_reply 400 ''invalid JSON'', s)
      | Some data \<Rightarrow>
          await (js_prop data ''token'') s (\<lambda>token_v.
            case (case js_nullish token_v (JStr []) of JStr t \<Rightarrow> verifyJWT P cfg now t | _ \<Rightarrow> None) of
              None \<Rightarrow> (error_reply 401 ''invalid or expired token'', s)
            | Some payload \<Rightarrow>
                if \<not> validateSession P now (cl_sub payload) (cl_sessionId payload) s
                then (error_reply 401 ''session expired or revoked'', s)
                else
                  (jsonResponse 200
                     (jobj [(''valid'', Some (JBool True)),
                            (''playerId'', map_option JStr (cl_sub payload)),
                            (''email'', map_option JStr (cl_email payload)),
                            (''name'', map_option JStr (cl_name payload)),
                            (''scope'', Some (JStr (case cl_scope payload of None \<Rightarrow> ''session'' | Some c \<Rightarrow> c))),
                            (''expiresAt'', Some (JStr (toISOString
                               ((case cl_exp payload of None \<Rightarrow> 0 | Some e \<Rightarrow> e) * 1000))))]), s)))"

definition handle_notify_transaction :: "'r handler" where
  "handle_notify_transaction P cfg now rq s =
     (case parse_body (rq_body rq) of
        None \<Rightarrow> (error_reply 400 ''invalid JSON'', s)
      | Some data \<Rightarrow>
          await (js_prop data ''playerId'') s (\<lambda>pid.
          await (case js_nullish pid (JStr []) of
                   JStr i \<Rightarrow> findPlayerById (uuid_in P) (Some i) (db s)
                 | _ \<Rightarrow> Inl (DbError InvalidUuid)) s (\<lambda>found.
            case found of
              None \<Rightarrow> (error_reply 404 ''player not found'', s)
            | Some p \<Rightarrow>
                await (js_prop data ''transactionId'') s (\<lambda>t1.
                await (js_prop data ''amount'') s (\<lambda>t2.
                await (js_prop data ''type'') s (\<lambda>t3.
                await (js_prop data ''timestamp'') s (\<lambda>t4.
                await (js_prop data ''balanceAfter'') s (\<lambda>t5.
                  (jsonResponse 202 (JObj [(''queued'', JBool True)]),
                   sendTransactionReceipt P cfg p
                     \<lparr>tx_transactionId = t1, tx_amount = t2, tx_type = t3, tx_timestamp = t4,
                      tx_balanceAfter = t5\<rparr> s))))))))) "

definition handle_policy_check :: "'r handler" where
  "handle_policy_check P cfg now rq s =
     (case parse_body (rq_body rq) of
        None \<Rightarrow> (Rejected SyntaxError, s)
      | Some data \<Rightarrow>
          await (js_prop data ''playerId'') s (\<lambda>pid.
          await (js_prop data ''action'') s (\<lambda>action.
            (jsonResponse 200
               (jobj [(''allowed'', Some (JBool True)), (''playerId'', pid), (''action'', action),
                      (''stub'', Some (JBool True))]), s))))"

section \<open>Development endpoints\<close>

definition DEMO_PLAYER_ID :: string where
  "DEMO_PLAYER_ID = ''player-00000000-0000-0000-0000-000000000001''"

definition handle_demo_token :: "'r handler" where
  "handle_demo_token P cfg now rq s =
     (let token = jwt_sign P
            \<lparr>cl_sub = Some DEMO_PLAYER_ID, cl_email = Some ''demo@tca-blackjack.local'',
             cl_name = Some ''Player 1'', cl_scope = Some ''session'',
             cl_sessionId = Some ''demo-session'', cl_iss = Some ''tca-blackjack'', cl_exp = None\<rparr>
            (JWT_SECRET cfg) (24 * 60 * 60) now
      in (jsonResponse 200
            (JObj [(''accessToken'', JStr token), (''playerId'', JStr DEMO_PLAYER_ID)]), s))"

definition handle_dev_reset :: "'r handler" where
  "handle_dev_reset P cfg now rq s =
     (jsonResponse 200 (JObj [(''reset'', JBool True), (''service'', JStr SERVICE)]),
      s\<lparr>db := truncate_all (db s), redis := rd_flushdb (redis_of P) (redis s)\<rparr>)"

section \<open>Dispatch\<close>

definition requestHandler :: "'r handler" where
  "requestHandler P cfg now rq s =
     (let m = rq_method rq; p = rq_path rq in
      if m = ''OPTIONS'' then handle_options s
      else if m = ''GET'' \<and> p = ''/health'' then handle_health P cfg now rq s
      else if m = ''GET'' \<and> starts_with ''/users/'' p \<and> ends_with ''/email'' p
      then handle_user_email P cfg now rq s
      else if m = ''POST'' \<and> p = ''/register'' then handle_register P cfg now rq s
      else if m = ''GET'' \<and> p = ''/verify-token'' then handle_verify_token P cfg now rq s
      else if m = ''POST'' \<and> p = ''/exchange'' then handle_exchange P cfg now rq s
      else if m = ''POST'' \<and> p = ''/passkey/register/begin''
      then handle_passkey_register_begin P cfg now rq s
      else if m = ''POST'' \<and> p = ''/passkey/register/complete''
      then handle_passkey_register_complete P cfg now rq s
      else if m = ''POST'' \<and> p = ''/passkey/login/begin'' then handle_passkey_login_begin P cfg now rq s
      else if m = ''POST'' \<and> p = ''/passkey/login/complete''
      then handle_passkey_login_complete P cfg now rq s
      else if m = ''POST'' \<and> p = ''/validate'' then handle_validate P cfg now rq s
      else if m = ''POST'' \<and> p = ''/notify/transaction'' then handle_notify_transaction P cfg now rq s
      else if m = ''POST'' \<and> p = ''/policy/check'' then handle_policy_check P cfg now rq s
      else if m = ''GET'' \<and> p = ''/dev/demo-token'' then handle_demo_token P cfg now rq s
      else if m = ''POST'' \<and> p = ''/dev/reset'' then handle_dev_reset P cfg now rq s
      else (error_reply 404 ''not found'', s))"

end
