(* ===== verification/AuthInv.thy ===== *)
theory AuthInv
  imports AuthService
begin

text \<open>
  The invariant of the auth service.
  \<open>platform_ok\<close> states the documented behaviour of the packages the proofs rely on. \<open>auth_inv\<close> is
  the invariant of a state; \<open>good P now s0 s\<close> says that \<open>s\<close> satisfies it and was reached from \<open>s0\<close>
  by steps that keep what earlier tokens and keys rely on. Each state change of the handlers has a
  rule \<open>good_\<dots>\<close>; a handler's proof splits its branches and chains these rules. Invariant and rules have
  a weaker form, \<open>inv_of False\<close> and \<open>good_of False\<close>, for requests that interleave.
\<close>

section \<open>Documented behaviour of the platform\<close>

definition SEED_PLAYER_ID :: string where
  "SEED_PLAYER_ID = ''00000000-0000-0000-0000-000000000001''"

text \<open>Random UUIDs are distinct version 4 identifiers, which PostgreSQL prints as they are; the seed
  player's is not one (its version is 0), nor are the fixed texts used for session identifiers.\<close>

definition uuid_laws :: "'r platform \<Rightarrow> bool" where
  "uuid_laws P \<longleftrightarrow>
     inj (randomUUID P) \<and>
     (\<forall>n. uuid_in P (randomUUID P n) = Some (randomUUID P n)) \<and>
     (\<forall>n. CHR '':'' \<notin> set (randomUUID P n) \<and>
        randomUUID P n \<notin> {[], SEED_PLAYER_ID, ''undefined'', ''demo-session''}) \<and>
     uuid_in P SEED_PLAYER_ID = Some SEED_PLAYER_ID \<and>
     uuid_in P DEMO_PLAYER_ID = None"

text \<open>A signed token verifies under its secret until it expires, with its payload and expiry.\<close>

definition jwt_laws :: "'r platform \<Rightarrow> bool" where
  "jwt_laws P \<longleftrightarrow>
     (\<forall>c k e t0 t. jwt_verify P (jwt_sign P c k e t0) k t =
        (if t div 1000 < t0 div 1000 + e then Some (c\<lparr>cl_exp := Some (t0 div 1000 + e)\<rparr>) else None))"

text \<open>The WebAuthn options are objects of the standard's own members.\<close>

definition options_laws :: "'r platform \<Rightarrow> bool" where
  "options_laws P \<longleftrightarrow>
     (\<forall>n a k. k \<in> {''accessToken'', ''bootstrapToken''} \<longrightarrow>
        js_prop (snd (generateRegistrationOptions P n a)) k = Inr None) \<and>
     (\<forall>n a k. k \<in> {''accessToken'', ''bootstrapToken''} \<longrightarrow>
        js_prop (snd (generateAuthenticationOptions P n a)) k = Inr None)"

definition platform_ok :: "'r platform \<Rightarrow> bool" where
  "platform_ok P \<longleftrightarrow>
     redis_service (redis_of P) \<and> uuid_laws P \<and> jwt_laws P \<and> options_laws P"

section \<open>The invariant\<close>

definition known :: "'r platform \<Rightarrow> 'r auth_state \<Rightarrow> string \<Rightarrow> bool" where
  "known P s i \<longleftrightarrow> i = SEED_PLAYER_ID \<or> (\<exists>k < rand s. i = randomUUID P k)"

definition cleared :: "'r auth_state \<Rightarrow> string \<Rightarrow> bool" where
  "cleared s i \<longleftrightarrow> (\<forall>r \<in> set (players (db s)). r_id r = i \<longrightarrow> r_verified r)"

definition enrolled :: "'r auth_state \<Rightarrow> string \<Rightarrow> bool" where
  "enrolled s i \<longleftrightarrow>
     (\<forall>r \<in> set (players (db s)). r_id r = i \<longrightarrow> r_verified r \<and> r_passkey_enrolled r = Some True)"

definition rget :: "'r platform \<Rightarrow> int \<Rightarrow> string \<Rightarrow> 'r auth_state \<Rightarrow> string option" where
  "rget P t k s = rd_get (redis_of P) t k (redis s)"

definition drawn :: "'r platform \<Rightarrow> 'r auth_state \<Rightarrow> string \<Rightarrow> bool" where
  "drawn P s x \<longleftrightarrow> (\<exists>k < rand s. x = randomUUID P k)"

text \<open>What a key of Redis and its value stand for: a verification token names a known player, an
  exchange code one whose address is verified, a session key ends in a drawn session id.\<close>

definition key_ok :: "'r platform \<Rightarrow> 'r auth_state \<Rightarrow> string \<Rightarrow> string \<Rightarrow> bool" where
  "key_ok P s key v \<longleftrightarrow>
     (\<forall>x. key = verify_key x \<longrightarrow> known P s v \<and> drawn P s x) \<and>
     (\<forall>x. key = exchange_key x \<longrightarrow> known P s v \<and> cleared s v \<and> drawn P s x) \<and>
     (\<forall>x y. key = session_key x y \<longrightarrow> (\<exists>p z. drawn P s z \<and> key = session_key p z))"

text \<open>What holds of the owner of a stored credential: enrolled while requests run one at a time
  (\<open>auth_inv\<close>), and only cleared when they interleave, since the credential is saved before its owner is
  marked (\<open>inv_of False\<close>).\<close>

definition owner_ok :: "bool \<Rightarrow> 'r auth_state \<Rightarrow> string \<Rightarrow> bool" where
  "owner_ok e s i = (if e then enrolled s i else cleared s i)"

lemma owner_ok_simps [simp]: "owner_ok True = enrolled" "owner_ok False = cleared"
  by (simp_all add: fun_eq_iff owner_ok_def)

definition inv_of :: "bool \<Rightarrow> 'r platform \<Rightarrow> int \<Rightarrow> 'r auth_state \<Rightarrow> bool" where
  "inv_of e P t s \<longleftrightarrow>
     db_inv (db s) \<and>
     (\<forall>i \<in> player_ids (db s). known P s i) \<and>
     (\<forall>c \<in> set (passkey_credentials (db s)). owner_ok e s (k_player_id c)) \<and>
     (\<forall>u \<ge> t. \<forall>key v. rget P u key s = Some v \<longrightarrow> key_ok P s key v)"

abbreviation auth_inv :: "'r platform \<Rightarrow> int \<Rightarrow> 'r auth_state \<Rightarrow> bool" where
  "auth_inv \<equiv> inv_of True"

lemma auth_inv_def:
  "auth_inv P t s \<longleftrightarrow>
     db_inv (db s) \<and>
     (\<forall>i \<in> player_ids (db s). known P s i) \<and>
     (\<forall>c \<in> set (passkey_credentials (db s)). enrolled s (k_player_id c)) \<and>
     (\<forall>u \<ge> t. \<forall>key v. rget P u key s = Some v \<longrightarrow> key_ok P s key v)"
  by (simp add: inv_of_def)

text \<open>A key that only draws from \<open>n\<close> on can have produced.\<close>

definition fresh_key :: "'r platform \<Rightarrow> nat \<Rightarrow> string \<Rightarrow> bool" where
  "fresh_key P n key \<longleftrightarrow>
     (\<exists>k \<ge> n. key = verify_key (randomUUID P k) \<or> key = exchange_key (randomUUID P k) \<or>
        (\<exists>p. key = session_key p (randomUUID P k)))"

definition stable :: "'r platform \<Rightarrow> int \<Rightarrow> 'r auth_state \<Rightarrow> 'r auth_state \<Rightarrow> bool" where
  "stable P now s0 s \<longleftrightarrow>
     rand s0 \<le> rand s \<and>
     (\<forall>i. known P s0 i \<longrightarrow> cleared s0 i \<longrightarrow> cleared s i) \<and>
     (\<forall>i. known P s0 i \<longrightarrow> enrolled s0 i \<longrightarrow> enrolled s i) \<and>
     (\<forall>u \<ge> now. \<forall>key v. rget P u key s = Some v \<longrightarrow>
        rget P u key s0 = Some v \<or> fresh_key P (rand s0) key)"

definition good_of :: "bool \<Rightarrow> 'r platform \<Rightarrow> int \<Rightarrow> 'r auth_state \<Rightarrow> 'r auth_state \<Rightarrow> bool" where
  "good_of e P now s0 s \<longleftrightarrow> inv_of e P now s \<and> stable P now s0 s"

abbreviation good :: "'r platform \<Rightarrow> int \<Rightarrow> 'r auth_state \<Rightarrow> 'r auth_state \<Rightarrow> bool" where
  "good \<equiv> good_of True"

lemma good_def: "good P now s0 s \<longleftrightarrow> auth_inv P now s \<and> stable P now s0 s"
  by (simp add: good_of_def)

text \<open>What a token entitles to is true of its player from \<open>t\<close> on.\<close>

definition claims_of :: "bool \<Rightarrow> 'r platform \<Rightarrow> 'r auth_state \<Rightarrow> jwt_claims \<Rightarrow> bool" where
  "claims_of e P s c \<longleftrightarrow>
     (cl_sub c = Some DEMO_PLAYER_ID \<and> cl_sessionId c = Some ''demo-session'') \<or>
     (\<exists>i. cl_sub c = Some i \<and> known P s i \<and> cleared s i \<and>
        (cl_scope c = Some ''session'' \<longrightarrow> owner_ok e s i) \<and>
        (\<forall>x. cl_sessionId c = Some x \<longrightarrow> drawn P s x))"

abbreviation claims_ok :: "'r platform \<Rightarrow> 'r auth_state \<Rightarrow> jwt_claims \<Rightarrow> bool" where
  "claims_ok \<equiv> claims_of True"

definition token_of :: "bool \<Rightarrow> 'r platform \<Rightarrow> config \<Rightarrow> int \<Rightarrow> 'r auth_state \<Rightarrow> string \<Rightarrow> bool" where
  "token_of e P cfg t s tok \<longleftrightarrow>
     (\<forall>u \<ge> t. \<forall>c. verifyJWT P cfg u tok = Some c \<longrightarrow> claims_of e P s c)"

abbreviation token_ok :: "'r platform \<Rightarrow> config \<Rightarrow> int \<Rightarrow> 'r auth_state \<Rightarrow> string \<Rightarrow> bool" where
  "token_ok \<equiv> token_of True"

text \<open>The bearer token of a request entitles to nothing untrue.\<close>

definition bearer_of :: "bool \<Rightarrow> 'r platform \<Rightarrow> config \<Rightarrow> int \<Rightarrow> 'r auth_state \<Rightarrow> request \<Rightarrow> bool" where
  "bearer_of e P cfg now s rq \<longleftrightarrow>
     (\<forall>tok c. getBearerToken rq = Some tok \<longrightarrow> verifyJWT P cfg now tok = Some c \<longrightarrow> claims_of e P s c)"

abbreviation bearer_ok :: "'r platform \<Rightarrow> config \<Rightarrow> int \<Rightarrow> 'r auth_state \<Rightarrow> request \<Rightarrow> bool" where
  "bearer_ok \<equiv> bearer_of True"

lemma claims_ok_def:
  "claims_ok P s c \<longleftrightarrow>
     (cl_sub c = Some DEMO_PLAYER_ID \<and> cl_sessionId c = Some ''demo-session'') \<or>
     (\<exists>i. cl_sub c = Some i \<and> known P s i \<and> cleared s i \<and>
        (cl_scope c = Some ''session'' \<longrightarrow> enrolled s i) \<and>
        (\<forall>x. cl_sessionId c = Some x \<longrightarrow> drawn P s x))"
  by (simp add: claims_of_def)

lemmas token_ok_def = token_of_def [of True] and bearer_ok_def = bearer_of_def [of True]

fun reply_tokens :: "reply \<Rightarrow> string list" where
  "reply_tokens (Reply _ _ (JsonBody j)) =
     List.map_filter (\<lambda>k. case js_prop j k of Inr (Some (JStr t)) \<Rightarrow> Some t | _ \<Rightarrow> None)
       [''accessToken'', ''bootstrapToken'']"
| "reply_tokens _ = []"

section \<open>Rules for the state changes\<close>

lemma key_families [simp]:
  "verify_key x = verify_key y \<longleftrightarrow> x = y" "exchange_key x = exchange_key y \<longleftrightarrow> x = y"
  "verify_key x \<noteq> exchange_key y" "exchange_key y \<noteq> verify_key x"
  "verify_key x \<noteq> session_key p z" "session_key p z \<noteq> verify_key x"
  "exchange_key x \<noteq> session_key p z" "session_key p z \<noteq> exchange_key x"
  by (simp_all add: verify_key_def exchange_key_def session_key_def)

lemma known_mono: "known P s i \<Longrightarrow> rand s \<le> rand s' \<Longrightarrow> known P s' i"
  by (auto simp: known_def intro: order_less_le_trans)

lemma drawn_mono: "drawn P s x \<Longrightarrow> rand s \<le> rand s' \<Longrightarrow> drawn P s' x"
  by (auto simp: drawn_def intro: order_less_le_trans)

lemma uuid_inj: "uuid_laws P \<Longrightarrow> inj (randomUUID P)"
  by (simp add: uuid_laws_def)

lemma uuid_not_fixed:
  "uuid_laws P \<Longrightarrow> randomUUID P n \<notin> {[], SEED_PLAYER_ID, ''undefined'', ''demo-session''}"
  "uuid_laws P \<Longrightarrow> CHR '':'' \<notin> set (randomUUID P n)"
  unfolding uuid_laws_def by blast+

lemma known_uuid: "uuid_laws P \<Longrightarrow> known P s i \<Longrightarrow> uuid_in P i = Some i"
  by (auto simp: known_def uuid_laws_def)

lemma known_not_demo: "uuid_laws P \<Longrightarrow> known P s i \<Longrightarrow> i \<noteq> DEMO_PLAYER_ID"
  using known_uuid [of P s i] by (auto simp: uuid_laws_def)

lemma known_not_next: "uuid_laws P \<Longrightarrow> known P s i \<Longrightarrow> i \<noteq> randomUUID P (rand s)"
  using uuid_inj [of P] uuid_not_fixed [of P] by (auto simp: known_def dest: injD)

lemma enrolled_cleared: "enrolled s i \<Longrightarrow> cleared s i"
  by (auto simp: enrolled_def cleared_def)

lemma enrolled_owner: "enrolled s i \<Longrightarrow> owner_ok e s i"
  by (simp add: owner_ok_def enrolled_cleared)

lemma owner_cleared: "owner_ok e s i \<Longrightarrow> cleared s i"
  by (auto simp: owner_ok_def enrolled_cleared split: if_splits)

lemma stable_refl [simp]: "stable P now s s"
  by (simp add: stable_def)

lemma good_refl: "inv_of e P t s \<Longrightarrow> t \<le> now \<Longrightarrow> good_of e P now s s"
  unfolding good_of_def inv_of_def by (meson order_trans stable_refl)

text \<open>The one rule behind the others.\<close>

lemma good_step:
  assumes g: "good_of e P now s0 s" and d: "db_inv (db s')" and le: "rand s \<le> rand s'"
    and pl: "\<And>i. known P s i \<Longrightarrow> cleared s i \<Longrightarrow> cleared s' i"
      "\<And>i. known P s i \<Longrightarrow> enrolled s i \<Longrightarrow> enrolled s' i"
    and ids: "\<And>i. i \<in> player_ids (db s') \<Longrightarrow> i \<in> player_ids (db s) \<or> known P s' i"
    and cr: "\<And>c. c \<in> set (passkey_credentials (db s')) \<Longrightarrow>
      k_player_id c \<in> k_player_id ` set (passkey_credentials (db s)) \<or> owner_ok e s' (k_player_id c)"
    and rd: "\<And>u key v. now \<le> u \<Longrightarrow> rget P u key s' = Some v \<Longrightarrow>
      rget P u key s = Some v \<or> key_ok P s' key v \<and> fresh_key P (rand s0) key"
  shows "good_of e P now s0 s'"
proof -
  have inv: "inv_of e P now s" and st: "stable P now s0 s" using g by (simp_all add: good_of_def)
  have key: "key_ok P s' key v" if "key_ok P s key v" for key v
    using that pl(1) unfolding key_ok_def by (metis known_mono [OF _ le] drawn_mono [OF _ le])
  have "known P s' i" if "i \<in> player_ids (db s')" for i
    using ids [OF that] inv by (auto simp: inv_of_def intro: known_mono [OF _ le])
  moreover have "owner_ok e s' (k_player_id c)" if "c \<in> set (passkey_credentials (db s'))" for c
  proof -
    have "known P s (k_player_id c')" "owner_ok e s (k_player_id c')" if "c' \<in> set (passkey_credentials (db s))" for c'
      using inv that by (auto simp: inv_of_def db_inv_def)
    then have "owner_ok e s' (k_player_id c')" if "c' \<in> set (passkey_credentials (db s))" for c'
      using that pl by (auto simp: owner_ok_def)
    then show ?thesis using cr [OF that] by fastforce
  qed
  moreover have "key_ok P s' key v" if "now \<le> u" "rget P u key s' = Some v" for u key v
    using rd [OF that] inv key that(1) by (auto simp: inv_of_def)
  ultimately have "inv_of e P now s'" using d by (simp add: inv_of_def)
  moreover have "stable P now s0 s'"
  proof -
    have "known P s i" if "known P s0 i" for i
      using that st by (auto simp: stable_def intro: known_mono)
    then show ?thesis using st pl rd le unfolding stable_def by (metis order_trans)
  qed
  ultimately show ?thesis by (simp add: good_of_def)
qed

lemma field_frames [simp]:
  "known P (s\<lparr>db := d\<rparr>) = known P s" "known P (s\<lparr>redis := q\<rparr>) = known P s"
  "known P (s\<lparr>outbox := b\<rparr>) = known P s"
  "drawn P (s\<lparr>db := d\<rparr>) = drawn P s" "drawn P (s\<lparr>redis := q\<rparr>) = drawn P s"
  "drawn P (s\<lparr>outbox := b\<rparr>) = drawn P s"
  "cleared (s\<lparr>redis := q\<rparr>) = cleared s" "cleared (s\<lparr>rand := n\<rparr>) = cleared s"
  "cleared (s\<lparr>outbox := b\<rparr>) = cleared s"
  "enrolled (s\<lparr>redis := q\<rparr>) = enrolled s" "enrolled (s\<lparr>rand := n\<rparr>) = enrolled s"
  "enrolled (s\<lparr>outbox := b\<rparr>) = enrolled s"
  "rget P u k (s\<lparr>db := d\<rparr>) = rget P u k s" "rget P u k (s\<lparr>rand := n\<rparr>) = rget P u k s"
  "rget P u k (s\<lparr>outbox := b\<rparr>) = rget P u k s"
  by (simp_all add: fun_eq_iff known_def drawn_def cleared_def enrolled_def rget_def)

lemma good_db_inv: "good_of e P now s0 s \<Longrightarrow> db_inv (db s)"
  by (simp add: good_of_def inv_of_def)

lemma good_rand: "good_of e P now s0 s \<Longrightarrow> rand s0 \<le> rand s"
  by (simp add: good_of_def stable_def)

lemma good_draw: "good_of e P now s0 s \<Longrightarrow> good_of e P now s0 (s\<lparr>rand := Suc (rand s)\<rparr>)"
  by (rule good_step [where s = s]) (auto simp: good_db_inv)

lemma good_outbox: "good_of e P now s0 s \<Longrightarrow> good_of e P now s0 (s\<lparr>outbox := b\<rparr>)"
  by (rule good_step [where s = s]) (auto simp: good_db_inv)

lemma good_db:
  assumes "good_of e P now s0 s" and "db_inv d" and "players d = players (db s)"
    and "k_player_id ` set (passkey_credentials d) \<subseteq> k_player_id ` set (passkey_credentials (db s))"
  shows "good_of e P now s0 (s\<lparr>db := d\<rparr>)"
  by (rule good_step [OF assms(1)]) (use assms in \<open>auto simp: cleared_def enrolled_def player_ids_def\<close>)

lemma good_setex:
  assumes "redis_service (redis_of P)" and "good_of e P now s0 s" and "0 < secs"
    and "key_ok P s key v" and "fresh_key P (rand s0) key"
  shows "good_of e P now s0 (setex P now key secs v s)"
proof (rule good_step [OF assms(2)])
  fix u key' w assume "now \<le> u" and w: "rget P u key' (setex P now key secs v s) = Some w"
  show "rget P u key' s = Some w \<or>
      key_ok P (setex P now key secs v s) key' w \<and> fresh_key P (rand s0) key'"
  proof (cases "key' = key")
    case True
    then have "w = v" using w \<open>now \<le> u\<close> redis_service.get_setex [OF assms(1,3)]
      by (auto simp: rget_def setex_def split: if_splits)
    then show ?thesis using True assms(4,5) by (simp add: key_ok_def setex_def)
  next
    case False
    then show ?thesis using w redis_service.get_setex_other [OF assms(1)]
      by (auto simp: rget_def setex_def)
  qed
qed (auto simp: setex_def good_db_inv [OF assms(2)])

lemma good_getdel:
  assumes "redis_service (redis_of P)" and "good_of e P now s0 s"
  shows "good_of e P now s0 (snd (getdel P now key s))"
proof (rule good_step [OF assms(2)])
  fix u key' w assume "now \<le> u" and w: "rget P u key' (snd (getdel P now key s)) = Some w"
  then show "rget P u key' s = Some w \<or>
      key_ok P (snd (getdel P now key s)) key' w \<and> fresh_key P (rand s0) key'"
    using redis_service.get_getdel [OF assms(1)] redis_service.get_getdel_other [OF assms(1)]
    by (cases "key' = key") (auto simp: rget_def getdel_def)
qed (auto simp: getdel_def good_db_inv [OF assms(2)])

text \<open>Registration draws an identifier no token or key can name yet.\<close>

lemma good_createPlayer:
  assumes "uuid_laws P" and "good_of e P now s0 s"
    and c: "createPlayer (uuid_in P) now (randomUUID P (rand s)) email n (db s) = Inr (p, d)"
  shows "good_of e P now s0 (s\<lparr>rand := Suc (rand s), db := d\<rparr>) \<and> p_id p = randomUUID P (rand s)"
proof -
  let ?i = "randomUUID P (rand s)"
  have u: "uuid_in P ?i = Some ?i" using assms(1) by (simp add: uuid_laws_def)
  obtain r where d: "d = (db s)\<lparr>players := players (db s) @ [r]\<rparr>" "r_id r = ?i" "p = rowToPlayer r"
    using c by (auto simp: createPlayer_def u Let_def split: if_splits)
  have "good_of e P now s0 (s\<lparr>rand := Suc (rand s), db := d\<rparr>)"
  proof (rule good_step [OF assms(2)])
    show "db_inv (db (s\<lparr>rand := Suc (rand s), db := d\<rparr>))"
      using db_inv_createPlayer [OF good_db_inv [OF assms(2)] c] by simp
  qed (use d known_not_next [OF assms(1)] in
      \<open>auto simp: cleared_def enrolled_def player_ids_def known_def\<close>)
  then show ?thesis by (simp add: d rowToPlayer_def)
qed

lemma update_player_eq:
  "uuid_in P i = Some i \<Longrightarrow> update_player (uuid_in P) i f d = Inr d' \<longleftrightarrow>
    d' = d\<lparr>players := map (\<lambda>r. if r_id r = i then f r else r) (players d)\<rparr>"
  by (auto simp: update_player_def)

lemma good_markPlayerVerified:
  assumes "uuid_laws P" and "good_of e P now s0 s" and "known P s i"
    and m: "markPlayerVerified (uuid_in P) i (db s) = Inr d"
  shows "good_of e P now s0 (s\<lparr>db := d\<rparr>) \<and> cleared (s\<lparr>db := d\<rparr>) i"
proof -
  have d: "d = (db s)\<lparr>players := map (\<lambda>r. if r_id r = i then r\<lparr>r_verified := True\<rparr> else r) (players (db s))\<rparr>"
    using m known_uuid [OF assms(1,3)] by (simp add: markPlayerVerified_def update_player_eq)
  have "good_of e P now s0 (s\<lparr>db := d\<rparr>)"
    by (rule good_step [OF assms(2)])
      (use db_inv_markPlayerVerified [OF m] good_db_inv [OF assms(2)] in
        \<open>auto simp: d cleared_def enrolled_def player_ids_def\<close>)
  moreover have "cleared (s\<lparr>db := d\<rparr>) i"
    by (auto simp: d cleared_def simp del: if_image_distrib)
  ultimately show ?thesis ..
qed

text \<open>Saving a credential and marking its player enrolled, for a player with a verified address.\<close>

lemma saveCredential_owner:
  assumes "saveCredential c d = Inr d'" and "k \<in> set (passkey_credentials d')"
  shows "k_player_id k \<in> insert (c_playerId c) (k_player_id ` set (passkey_credentials d))"
    and "players d' = players d"
  using assms by (auto simp: saveCredential_def split: if_splits)

lemma good_enroll:
  assumes "uuid_laws P" and g: "good_of e P now s0 s" and "known P s i" and "cleared s i"
    and sv: "saveCredential c (db s) = Inr d1" and "c_playerId c = i"
    and mk: "markPasskeyEnrolled (uuid_in P) i d1 = Inr d2"
  shows "good_of e P now s0 (s\<lparr>db := d2\<rparr>) \<and> enrolled (s\<lparr>db := d2\<rparr>) i"
proof -
  have d2: "d2 = d1\<lparr>players := map (\<lambda>r. if r_id r = i then r\<lparr>r_passkey_enrolled := Some True\<rparr> else r) (players d1)\<rparr>"
    using mk known_uuid [OF assms(1,3)] by (simp add: markPasskeyEnrolled_def update_player_eq)
  have p1: "players d1 = players (db s)" using sv by (auto simp: saveCredential_def split: if_splits)
  have inv: "db_inv d2"
    using db_inv_markPasskeyEnrolled [OF mk] db_inv_saveCredential [OF good_db_inv [OF g] sv] by simp
  have e: "enrolled (s\<lparr>db := d2\<rparr>) i"
    using assms(4) by (simp add: d2 p1 enrolled_def cleared_def del: if_image_distrib)
  have "good_of e P now s0 (s\<lparr>db := d2\<rparr>)"
  proof (rule good_step [OF g])
    fix k assume "k \<in> set (passkey_credentials (db (s\<lparr>db := d2\<rparr>)))"
    then show "k_player_id k \<in> k_player_id ` set (passkey_credentials (db s)) \<or>
        owner_ok e (s\<lparr>db := d2\<rparr>) (k_player_id k)"
      using saveCredential_owner(1) [OF sv, of k] enrolled_owner [OF e] assms(6) by (auto simp: d2)
  qed (use inv in \<open>auto simp: d2 p1 cleared_def enrolled_def player_ids_def simp del: if_image_distrib\<close>)
  then show ?thesis using e by simp
qed

text \<open>The two statements apart, as they run when requests interleave.\<close>

lemma good_saveCredential:
  assumes g: "good_of False P now s0 s" and "cleared s (c_playerId c)"
    and sv: "saveCredential c (db s) = Inr d"
  shows "good_of False P now s0 (s\<lparr>db := d\<rparr>) \<and> players d = players (db s)"
proof -
  have p: "players d = players (db s)" using sv by (auto simp: saveCredential_def split: if_splits)
  have "good_of False P now s0 (s\<lparr>db := d\<rparr>)"
  proof (rule good_step [OF g])
    fix k assume "k \<in> set (passkey_credentials (db (s\<lparr>db := d\<rparr>)))"
    then show "k_player_id k \<in> k_player_id ` set (passkey_credentials (db s)) \<or>
        owner_ok False (s\<lparr>db := d\<rparr>) (k_player_id k)"
      using saveCredential_owner(1) [OF sv, of k] assms(2) by (auto simp: cleared_def p)
  qed (use db_inv_saveCredential [OF good_db_inv [OF g] sv] in
      \<open>auto simp: p cleared_def enrolled_def player_ids_def\<close>)
  then show ?thesis using p by simp
qed

lemma good_markPasskeyEnrolled:
  assumes "uuid_laws P" and "good_of e P now s0 s" and "known P s i"
    and m: "markPasskeyEnrolled (uuid_in P) i (db s) = Inr d"
  shows "good_of e P now s0 (s\<lparr>db := d\<rparr>)"
proof -
  have d: "d = (db s)\<lparr>players := map (\<lambda>r. if r_id r = i then r\<lparr>r_passkey_enrolled := Some True\<rparr> else r) (players (db s))\<rparr>"
    using m known_uuid [OF assms(1,3)] by (simp add: markPasskeyEnrolled_def update_player_eq)
  show ?thesis
    by (rule good_step [OF assms(2)])
      (use db_inv_markPasskeyEnrolled [OF m] good_db_inv [OF assms(2)] in
        \<open>auto simp: d cleared_def enrolled_def player_ids_def\<close>)
qed

lemma good_reset:
  assumes "redis_service (redis_of P)" and "good_of e P now s0 s"
  shows "good_of e P now s0 (s\<lparr>db := truncate_all (db s), redis := rd_flushdb (redis_of P) (redis s)\<rparr>)"
  by (rule good_step [OF assms(2)])
    (auto simp: cleared_def enrolled_def player_ids_def truncate_all_def Let_def rget_def
      redis_service.get_flushdb [OF assms(1)] db_inv_truncate_all [unfolded truncate_all_def Let_def])

text \<open>Challenges touch no player.\<close>

lemma good_storeChallenge:
  assumes "good_of e P now s0 s" and "storeChallenge t ch p ty (db s) = Inr d"
  shows "good_of e P now s0 (s\<lparr>db := d\<rparr>)"
  using storeChallenge_frame [OF assms(2)] db_inv_storeChallenge [OF good_db_inv [OF assms(1)] assms(2)]
  by (intro good_db [OF assms(1)]) simp_all

lemma good_consumeChallenge:
  "good_of e P now s0 s \<Longrightarrow> good_of e P now s0 (s\<lparr>db := snd (consumeChallenge t ch ty (db s))\<rparr>)"
  by (rule good_db) (simp_all add: db_inv_consumeChallenge good_db_inv)

lemma good_updateCredentialCounter:
  "good_of e P now s0 s \<Longrightarrow> good_of e P now s0 (s\<lparr>db := updateCredentialCounter i n (db s)\<rparr>)"
  by (rule good_db) (auto simp: good_db_inv, auto simp: updateCredentialCounter_def)

section \<open>Rules for the helpers\<close>

lemma good_ensureBankAccount: "good_of e P now s0 s \<Longrightarrow> good_of e P now s0 (ensureBankAccount P cfg p s)"
  by (simp add: ensureBankAccount_def mtlsPost_def good_outbox)

lemma good_sendVerificationEmail:
  assumes "redis_service (redis_of P)" and "good_of e P now s0 s" and "known P s (p_id p)"
  shows "good_of e P now s0 (sendVerificationEmail P cfg now p s)"
proof -
  let ?s1 = "s\<lparr>rand := Suc (rand s)\<rparr>"
  let ?key = "verify_key (randomUUID P (rand s))"
  have "known P ?s1 (p_id p)" and "drawn P ?s1 (randomUUID P (rand s))"
    using assms(3) by (auto simp: known_def drawn_def less_Suc_eq)
  then have "good_of e P now s0 (setex P now ?key 86400 (p_id p) ?s1)"
    using good_rand [OF assms(2)]
    by (intro good_setex [OF assms(1) good_draw [OF assms(2)]]) (auto simp: key_ok_def fresh_key_def)
  then show ?thesis
    by (auto simp: sendVerificationEmail_def draw_def Let_def dest!: good_draw intro!: good_outbox)
qed

lemma good_sendTransactionReceipt:
  "good_of e P now s0 s \<Longrightarrow> good_of e P now s0 (sendTransactionReceipt P cfg p tx s)"
  by (auto simp: sendTransactionReceipt_def draw_def Let_def intro!: good_outbox good_draw)

lemma createSession_state:
  "createSession P now i s = (sid, s') \<Longrightarrow>
    sid = randomUUID P (rand s) \<and> db s' = db s \<and> rand s' = Suc (rand s) \<and> outbox s' = outbox s"
  by (auto simp: createSession_def draw_def setex_def)

lemma good_createSession:
  assumes "redis_service (redis_of P)" and "good_of e P now s0 s" and "createSession P now i s = (sid, s')"
  shows "good_of e P now s0 s'"
proof -
  let ?s1 = "s\<lparr>rand := Suc (rand s)\<rparr>" and ?x = "randomUUID P (rand s)"
  have "drawn P ?s1 ?x" by (auto simp: drawn_def)
  then have "key_ok P ?s1 (session_key i ?x) v" for v unfolding key_ok_def by (metis key_families)
  moreover have "fresh_key P (rand s0) (session_key i ?x)"
    using good_rand [OF assms(2)] by (auto simp: fresh_key_def)
  ultimately have "good_of e P now s0 (setex P now (session_key i ?x) (JWT_EXPIRES_IN * 4) v ?s1)" for v
    by (intro good_setex [OF assms(1) good_draw [OF assms(2)]]) (auto simp: JWT_EXPIRES_IN_def)
  then show ?thesis using assms(3) by (auto simp: createSession_def draw_def)
qed

lemma verify_signed:
  "jwt_laws P \<Longrightarrow> verifyJWT P cfg u (jwt_sign P c (JWT_SECRET cfg) e t) = Some d \<Longrightarrow>
    cl_sub d = cl_sub c \<and> cl_scope d = cl_scope c \<and> cl_sessionId d = cl_sessionId c"
  by (auto simp: jwt_laws_def verifyJWT_def split: if_splits)

lemma token_ok_bootstrap:
  assumes "jwt_laws P" and "known P s (p_id p)" and "cleared s (p_id p)"
  shows "token_of e P cfg t s (issueBootstrapJWT P cfg now p)"
  using assms(2,3) verify_signed [OF assms(1)]
  by (force simp: token_of_def claims_of_def issueBootstrapJWT_def)

lemma token_ok_session:
  assumes "jwt_laws P" and "known P s (p_id p)" and "owner_ok e s (p_id p)" and "drawn P s sid"
  shows "token_of e P cfg t s (issueSessionJWT P cfg now p sid)"
  using assms(2-4) owner_cleared [OF assms(3)] verify_signed [OF assms(1)]
  by (force simp: token_of_def claims_of_def issueSessionJWT_def)

lemma findPlayerById_SomeD:
  "findPlayerById ui (Some i) d = Inr (Some p) \<Longrightarrow> ui i = Some (p_id p) \<and> p_id p \<in> player_ids d"
  by (auto simp: findPlayerById_def uuid_param_def rowToPlayer_def player_ids_def
      split: option.splits dest!: find_SomeD)

lemma findPlayerById_param: "findPlayerById ui v d = Inr (Some p) \<Longrightarrow> \<exists>i. v = Some i"
  by (auto simp: findPlayerById_def uuid_param_def split: option.splits)

lemma findPlayerById_known:
  assumes "findPlayerById (uuid_in P) (Some i) (db s) = Inr (Some p)" and "good_of e P now s0 s"
  shows "known P s (p_id p)" and "known P s i \<Longrightarrow> uuid_laws P \<Longrightarrow> p_id p = i"
  using findPlayerById_SomeD [OF assms(1)] assms(2) known_uuid [of P s i]
  by (auto simp: good_of_def inv_of_def)

end
