(* ===== verification/AuthPreserve.thy ===== *)
theory AuthPreserve
  imports AuthInv
begin

text \<open>
  Every request preserves the invariant of the auth service, when requests run one at a time: one lemma
  per route, then the dispatcher. \<open>outcome_ok\<close> also says that the tokens of the response entitle to nothing
  untrue.
\<close>

section \<open>Every request preserves the invariant\<close>

definition outcome_ok ::
  "'r platform \<Rightarrow> config \<Rightarrow> int \<Rightarrow> 'r auth_state \<Rightarrow> reply \<times> 'r auth_state \<Rightarrow> bool" where
  "outcome_ok P cfg now s0 out \<longleftrightarrow>
     good P now s0 (snd out) \<and>
     (\<forall>tok \<in> set (reply_tokens (fst out)). token_ok P cfg now (snd out) tok)"

lemma await_split:
  "Q (await r s k) \<longleftrightarrow> (\<forall>e. r = Inl e \<longrightarrow> Q (Rejected e, s)) \<and> (\<forall>x. r = Inr x \<longrightarrow> Q (k x))"
  by (simp add: await_def split: sum.split)

lemma await_split_asm:
  "Q (await r s k) \<longleftrightarrow>
    \<not> ((\<exists>e. r = Inl e \<and> \<not> Q (Rejected e, s)) \<or> (\<exists>x. r = Inr x \<and> \<not> Q (k x)))"
  by (simp add: await_def split: sum.split)

lemma reply_tokens_error [simp]:
  "reply_tokens (error_reply n m) = []" "reply_tokens (htmlResponse n h) = []"
  "reply_tokens (Rejected e) = []" "reply_tokens (Reply n hs NoBody) = []"
  by (simp_all add: error_reply_def jsonResponse_def htmlResponse_def List.map_filter_def)

lemma outcome_same: "good P now s0 s \<Longrightarrow> reply_tokens rep = [] \<Longrightarrow> outcome_ok P cfg now s0 (rep, s)"
  by (simp add: outcome_ok_def)

lemma outcome_plain [simp]:
  "outcome_ok P cfg now s0 (error_reply n m, s) = good P now s0 s"
  "outcome_ok P cfg now s0 (htmlResponse n h, s) = good P now s0 s"
  "outcome_ok P cfg now s0 (Rejected e, s) = good P now s0 s"
  by (simp_all add: outcome_ok_def)

lemma register_ok:
  assumes P: "platform_ok P" and g: "good P now s s"
  shows "outcome_ok P cfg now s (handle_register P cfg now rq s)"
proof -
  have L: "redis_service (redis_of P)" "uuid_laws P" using P by (simp_all add: platform_ok_def)
  have "good P now s (sendVerificationEmail P cfg now p (ensureBankAccount P cfg p
          (s\<lparr>rand := Suc (rand s), db := d\<rparr>)))"
    if "createPlayer (uuid_in P) now (randomUUID P (rand s)) e n (db s) = Inr (p, d)" for e n p d
    using good_createPlayer [OF L(2) g that]
    by (intro good_sendVerificationEmail good_ensureBankAccount L)
      (auto simp: known_def ensureBankAccount_def mtlsPost_def)
  then show ?thesis
    using good_draw [OF g] g
    by (auto simp: handle_register_def draw_def Let_def jsonResponse_def List.map_filter_def
        intro!: outcome_same split: await_split option.split)
qed

text \<open>A taken secret means what its key stands for.\<close>

lemma getdel_taken:
  assumes "redis_service (redis_of P)" and "good P now s0 s" and "getdel P now key s = (taken, s1)"
  shows "good P now s0 s1" and "db s1 = db s" and "rand s1 = rand s"
    and "taken = Some v \<Longrightarrow> key_ok P s1 key v"
proof -
  have s1: "s1 = snd (getdel P now key s)" and "taken = fst (getdel P now key s)"
    using assms(3) by simp_all
  then show "good P now s0 s1" "db s1 = db s" "rand s1 = rand s"
    using good_getdel [OF assms(1,2)] by (simp_all add: getdel_def)
  show "key_ok P s1 key v" if "taken = Some v"
  proof -
    have "rget P now key s = Some v"
      using that assms(3) by (auto simp: getdel_def rget_def redis_service.getdel_fst [OF assms(1)])
    then have "key_ok P s key v" using assms(2) by (auto simp: good_def auth_inv_def)
    then show ?thesis by (simp add: s1 getdel_def key_ok_def)
  qed
qed

lemma issue_exchange_ok:
  assumes P: "platform_ok P" and g: "good P now s0 s" and k: "known P s i"
    and m: "markPlayerVerified (uuid_in P) i (db s) = Inr d"
  shows "good P now s0 (setex P now (exchange_key (randomUUID P (rand s))) 60 i
           (s\<lparr>db := d, rand := Suc (rand s)\<rparr>))"
proof -
  have L: "redis_service (redis_of P)" "uuid_laws P" using P by (simp_all add: platform_ok_def)
  let ?s2 = "s\<lparr>db := d, rand := Suc (rand s)\<rparr>" and ?x = "randomUUID P (rand s)"
  have v: "good P now s0 (s\<lparr>db := d\<rparr>)" "cleared (s\<lparr>db := d\<rparr>) i"
    using good_markPlayerVerified [OF L(2) g k m] by simp_all
  have "known P ?s2 i" "cleared ?s2 i" "drawn P ?s2 ?x"
    using known_mono [OF k, of ?s2] v(2) by (auto simp: drawn_def cleared_def)
  then have "key_ok P ?s2 (exchange_key ?x) i" by (auto simp: key_ok_def)
  moreover have "fresh_key P (rand s0) (exchange_key ?x)"
    using good_rand [OF g] by (auto simp: fresh_key_def)
  ultimately show ?thesis using good_draw [OF v(1)] by (intro good_setex [OF L(1)]) simp_all
qed

lemma verify_token_ok:
  assumes P: "platform_ok P" and g: "good P now s s"
  shows "outcome_ok P cfg now s (handle_verify_token P cfg now rq s)"
proof -
  have L: "redis_service (redis_of P)" using P by (simp add: platform_ok_def)
  note taken = getdel_taken [OF L g]
  show ?thesis
    using g
    by (auto simp: handle_verify_token_def draw_def Let_def key_ok_def
        intro!: outcome_same issue_exchange_ok [OF P] dest: taken
        split: await_split option.split prod.split)
qed

lemma exchange_ok:
  assumes P: "platform_ok P" and g: "good P now s s"
  shows "outcome_ok P cfg now s (handle_exchange P cfg now rq s)"
proof -
  have L: "redis_service (redis_of P)" "jwt_laws P" "uuid_laws P" using P by (simp_all add: platform_ok_def)
  note taken = getdel_taken [OF L(1) g]
  have "outcome_ok P cfg now s
      (jsonResponse 200 (JObj [(''bootstrapToken'', JStr (issueBootstrapJWT P cfg now p)),
                               (''requiresEnrollment'', JBool True),
                               (''playerId'', JStr (p_id p)), (''playerName'', JStr (p_name p)),
                               (''email'', JStr (p_email p))]), s1)"
    if "getdel P now (exchange_key x) s = (Some i, s1)"
      and "findPlayerById (uuid_in P) (Some i) (db s1) = Inr (Some p)" for x i s1 p
  proof -
    have "known P s1 i" "cleared s1 i" using taken(4) [OF that(1)] by (auto simp: key_ok_def)
    moreover have "p_id p = i" using findPlayerById_known(2) [OF that(2) taken(1) [OF that(1)]] calculation L(3) by simp
    ultimately show ?thesis
      using taken(1) [OF that(1)] token_ok_bootstrap [OF L(2), of s1 p]
      by (simp add: outcome_ok_def jsonResponse_def List.map_filter_def)
  qed
  then show ?thesis
    using g
    by (auto simp: handle_exchange_def Let_def
        intro!: outcome_same dest: taken(1)
        split: await_split option.split prod.split)
qed

subsection \<open>Passkeys\<close>

text \<open>The player a registration endpoint works for: known, and cleared by the token it presents.\<close>

lemma require_enroll_scope_ok:
  assumes P: "platform_ok P" and g: "good P now s s" and b: "bearer_ok P cfg now s rq"
    and k: "\<And>scope p. known P s (p_id p) \<Longrightarrow> cleared s (p_id p) \<Longrightarrow> outcome_ok P cfg now s (k scope p)"
  shows "outcome_ok P cfg now s (require_enroll_scope P cfg now rq s k)"
proof -
  have U: "uuid_laws P" using P by (simp add: platform_ok_def)
  have "outcome_ok P cfg now s (k scope p)"
    if t: "getBearerToken rq = Some tok" "verifyJWT P cfg now tok = Some c"
      and f: "findPlayerById (uuid_in P) (cl_sub c) (db s) = Inr (Some p)" for tok c p scope
  proof -
    obtain i where i: "cl_sub c = Some i" using findPlayerById_param [OF f] by blast
    have "i \<noteq> DEMO_PLAYER_ID" using findPlayerById_SomeD [OF f [unfolded i]] U by (auto simp: uuid_laws_def)
    then have "known P s i" "cleared s i" using b t i by (auto simp: bearer_ok_def claims_ok_def)
    moreover have "p_id p = i" using findPlayerById_known(2) [OF f [unfolded i] g] calculation U by simp
    ultimately show ?thesis by (intro k) simp_all
  qed
  then show ?thesis
    using g by (auto simp: require_enroll_scope_def bind_eq_Some_conv
        intro!: outcome_same split: await_split option.split if_splits)
qed

lemma passkey_register_begin_ok:
  assumes P: "platform_ok P" and g: "good P now s s" and b: "bearer_ok P cfg now s rq"
  shows "outcome_ok P cfg now s (handle_passkey_register_begin P cfg now rq s)"
proof -
  have O: "reply_tokens (jsonResponse 200 (snd (generateRegistrationOptions P n a))) = []" for n a
    using P by (simp add: platform_ok_def options_laws_def jsonResponse_def List.map_filter_def)
  have St: "good P now s (s\<lparr>rand := Suc (rand s), db := d\<rparr>)"
    if "storeChallenge now c i ty (db s) = Inr d" for c i ty d
    using good_storeChallenge [OF good_draw [OF g], of now c i ty d] that by simp
  show ?thesis
    unfolding handle_passkey_register_begin_def
    by (rule require_enroll_scope_ok [OF P g b])
      (auto simp: Let_def split_beta O
        intro!: outcome_same St good_draw [OF g] split: await_split)
qed

lemma session_outcome:
  assumes P: "platform_ok P" and c: "createSession P now (p_id p) s2 = (sid, s')"
    and ge: "good P now s0 s2 \<and> enrolled s2 (p_id p)" and k: "known P s2 (p_id p)"
    and x: "map_of x ''accessToken'' = None" "map_of x ''bootstrapToken'' = None"
  shows "outcome_ok P cfg now s0 (session_reply x (issueSessionJWT P cfg now p sid) p, s')"
proof -
  have L: "redis_service (redis_of P)" "jwt_laws P" using P by (simp_all add: platform_ok_def)
  have "enrolled s' (p_id p)" "known P s' (p_id p)" "drawn P s' sid"
    using createSession_state [OF c] ge known_mono [OF k, of s'] by (auto simp: enrolled_def drawn_def)
  then show ?thesis
    using good_createSession [OF L(1) _ c] ge token_ok_session [OF L(2)] x
    by (simp add: outcome_ok_def session_reply_def jsonResponse_def List.map_filter_def
        map_add_def split: option.split)
qed

lemma complete_registration_ok:
  assumes P: "platform_ok P" and g: "good P now s0 s" and k: "known P s (p_id p)" "cleared s (p_id p)"
  shows "outcome_ok P cfg now s0 (complete_registration P cfg now scope p cr resp ch s)"
proof -
  have U: "uuid_laws P" using P by (simp add: platform_ok_def)
  have saved: "good P now s0 (s\<lparr>db := d1\<rparr>)"
    if "saveCredential c (db s) = Inr d1" "markPasskeyEnrolled (uuid_in P) (p_id p) d1 = Inl e" for c d1 e
    using that known_uuid [OF U k(1)] by (auto simp: markPasskeyEnrolled_def update_player_def)
  have verified: "outcome_ok P cfg now s0 (jsonResponse 200 (JObj [(''verified'', JBool True)]), s\<lparr>db := d2\<rparr>)"
    if "saveCredential c (db s) = Inr d1" "c_playerId c = p_id p"
      "markPasskeyEnrolled (uuid_in P) (p_id p) d1 = Inr d2" for c d1 d2
    using good_enroll [OF U g k that] by (simp add: outcome_ok_def jsonResponse_def List.map_filter_def)
  have session: "outcome_ok P cfg now s0
      (session_reply [(''verified'', JBool True)] (issueSessionJWT P cfg now p sid) p, s')"
    if "saveCredential c (db s) = Inr d1" "c_playerId c = p_id p"
      "markPasskeyEnrolled (uuid_in P) (p_id p) d1 = Inr d2"
      "createSession P now (p_id p) (s\<lparr>db := d2\<rparr>) = (sid, s')" for c d1 d2 sid s'
    using good_enroll [OF U g k that(1-3)] k by (intro session_outcome [OF P that(4)]) simp_all
  show ?thesis
    using g
    by (auto simp: complete_registration_def Let_def
        intro: session verified saved
        split: reg_outcome.split option.split sum.split prod.split if_splits)
qed

lemma passkey_register_complete_ok:
  assumes P: "platform_ok P" and g: "good P now s s" and b: "bearer_ok P cfg now s rq"
  shows "outcome_ok P cfg now s (handle_passkey_register_complete P cfg now rq s)"
proof -
  have "good P now s (s\<lparr>db := d\<rparr>) \<and> cleared (s\<lparr>db := d\<rparr>) j = cleared s j"
    if "consumeChallenge now c ty (db s) = (i, d)" for c ty i d j
    using good_consumeChallenge [OF g, of now c ty] consumeChallenge_frame(1) [of now c ty "db s"] that
    by (simp add: cleared_def)
  then show ?thesis
    unfolding handle_passkey_register_complete_def
    by (intro require_enroll_scope_ok [OF P g b])
      (auto simp: Let_def g intro!: complete_registration_ok [OF P]
        split: await_split option.split prod.split)
qed

lemma complete_login_ok:
  assumes P: "platform_ok P" and g: "good P now s0 s" and k: "known P s (p_id p)" "enrolled s (p_id p)"
  shows "outcome_ok P cfg now s0 (complete_login P cfg now p cred asr ch s)"
proof -
  let ?d = "updateCredentialCounter (c_credentialId cred)"
  have "good P now s0 (s\<lparr>db := ?d n (db s)\<rparr>) \<and> enrolled (s\<lparr>db := ?d n (db s)\<rparr>) (p_id p)" for n
    using good_updateCredentialCounter [OF g] k by (simp add: enrolled_def updateCredentialCounter_def)
  then show ?thesis
    using g k
    by (auto simp: complete_login_def Let_def
        intro!: session_outcome [OF P] split: auth_outcome.split prod.split)
qed

lemma getCredentialById_SomeD:
  assumes "getCredentialById v (db s) = Some c" and "good P now s0 s"
  shows "known P s (c_playerId c)" and "enrolled s (c_playerId c)"
proof -
  obtain r where "r \<in> set (passkey_credentials (db s))" "c_playerId c = k_player_id r"
    using assms(1) by (auto simp: getCredentialById_def rowToCredential_def split: option.splits dest!: find_SomeD)
  then show "known P s (c_playerId c)" and "enrolled s (c_playerId c)"
    using assms(2) by (auto simp: good_def auth_inv_def db_inv_def)
qed

lemma passkey_login_complete_ok:
  assumes P: "platform_ok P" and g: "good P now s s"
  shows "outcome_ok P cfg now s (handle_passkey_login_complete P cfg now rq s)"
proof -
  have U: "uuid_laws P" using P by (simp add: platform_ok_def)
  have "good P now s (s\<lparr>db := d\<rparr>)" if "consumeChallenge now c ty (db s) = (i, d)" for c ty i d
    using good_consumeChallenge [OF g, of now c ty] that by simp
  moreover have "outcome_ok P cfg now s (complete_login P cfg now p c asr ch s1)"
    if "getCredentialById v (db s1) = Some c" "good P now s s1"
      "findPlayerById (uuid_in P) (Some (c_playerId c)) (db s1) = Inr (Some p)" for v s1 c p asr ch
    using getCredentialById_SomeD [OF that(1,2)] findPlayerById_known [OF that(3,2)] U
    by (intro complete_login_ok [OF P that(2)]) simp_all
  ultimately show ?thesis
    using g by (fastforce simp: handle_passkey_login_complete_def Let_def
        split: await_split option.split prod.split)
qed

lemma passkey_login_begin_ok:
  assumes P: "platform_ok P" and g: "good P now s s"
  shows "outcome_ok P cfg now s (handle_passkey_login_begin P cfg now rq s)"
proof -
  have O: "reply_tokens (jsonResponse 200 (snd (generateAuthenticationOptions P n a))) = []" for n a
    using P by (simp add: platform_ok_def options_laws_def jsonResponse_def List.map_filter_def)
  have St: "good P now s (s\<lparr>rand := Suc (rand s), db := d\<rparr>)"
    if "storeChallenge now c i ty (db s) = Inr d" for c i ty d
    using good_storeChallenge [OF good_draw [OF g], of now c i ty d] that by simp
  show ?thesis
    using g by (auto simp: handle_passkey_login_begin_def Let_def split_beta O
        intro!: outcome_same St good_draw [OF g] split: await_split option.split)
qed

subsection \<open>The remaining endpoints\<close>

lemma user_email_ok: "good P now s s \<Longrightarrow> outcome_ok P cfg now s (handle_user_email P cfg now rq s)"
  by (auto simp: handle_user_email_def jsonResponse_def List.map_filter_def
      intro!: outcome_same split: await_split option.split)

lemma validate_ok: "good P now s s \<Longrightarrow> outcome_ok P cfg now s (handle_validate P cfg now rq s)"
  by (auto simp: handle_validate_def jsonResponse_def jobj_def List.map_filter_def
      intro!: outcome_same split: await_split option.split json.split)

lemma notify_transaction_ok:
  "good P now s s \<Longrightarrow> outcome_ok P cfg now s (handle_notify_transaction P cfg now rq s)"
  by (auto simp: handle_notify_transaction_def jsonResponse_def List.map_filter_def
      intro!: outcome_same good_sendTransactionReceipt split: await_split option.split json.split)

lemma policy_check_ok: "good P now s s \<Longrightarrow> outcome_ok P cfg now s (handle_policy_check P cfg now rq s)"
  by (auto simp: handle_policy_check_def jsonResponse_def jobj_def List.map_filter_def
      intro!: outcome_same split: await_split option.split)

lemma demo_token_ok:
  assumes "jwt_laws P" and "good P now s s"
  shows "outcome_ok P cfg now s (handle_demo_token P cfg now rq s)"
  using assms verify_signed [OF assms(1)]
  by (fastforce simp: handle_demo_token_def outcome_ok_def jsonResponse_def List.map_filter_def
      token_ok_def claims_ok_def)

lemma dev_reset_ok:
  "redis_service (redis_of P) \<Longrightarrow> good P now s s \<Longrightarrow>
    outcome_ok P cfg now s (handle_dev_reset P cfg now rq s)"
  by (auto simp: handle_dev_reset_def jsonResponse_def List.map_filter_def
      intro!: outcome_same good_reset)

lemma health_ok: "good P now s s \<Longrightarrow> outcome_ok P cfg now s (handle_health P cfg now rq s)"
  by (auto simp: handle_health_def jsonResponse_def List.map_filter_def intro!: outcome_same)

lemmas handlers_ok = health_ok user_email_ok register_ok verify_token_ok exchange_ok
  passkey_register_begin_ok passkey_register_complete_ok passkey_login_begin_ok
  passkey_login_complete_ok validate_ok notify_transaction_ok policy_check_ok

lemma requestHandler_ok:
  assumes P: "platform_ok P" and i: "auth_inv P t s" and t: "t \<le> now" and b: "bearer_ok P cfg now s rq"
  shows "outcome_ok P cfg now s (requestHandler P cfg now rq s)"
proof -
  have g: "good P now s s" by (rule good_refl [OF i t])
  have L: "redis_service (redis_of P)" "jwt_laws P" using P by (simp_all add: platform_ok_def)
  have if_outcome: "outcome_ok P cfg now s (if c then x else y)"
    if "outcome_ok P cfg now s x" "outcome_ok P cfg now s y" for c x y
    using that by simp
  have "outcome_ok P cfg now s (handle_options s)"
    by (simp add: handle_options_def outcome_same g)
  then show ?thesis
    unfolding requestHandler_def Let_def
    by (intro if_outcome handlers_ok dev_reset_ok demo_token_ok P g b L) (simp_all add: g)
qed

end
