(* ===== verification/AuthSystem.thy ===== *)
theory AuthSystem
  imports AuthPreserve
begin

text \<open>
  The auth service as a running system: startup, then requests in any order and at any times, with
  restarts in between. A client may send any request; the one thing it cannot do is present a
  bearer token that verifies and that the service never issued. The invariant of \<open>AuthInv\<close> holds in
  every reachable state.
\<close>

section \<open>Startup\<close>

text \<open>\<open>ready i\<close>: the \<open>i\<close>-th attempt reaches the database. The result is the number of the attempt
  that did, with the milliseconds slept before it.\<close>

definition MAX_ATTEMPTS :: nat where
  "MAX_ATTEMPTS = 15"

fun wait_from :: "(nat \<Rightarrow> bool) \<Rightarrow> nat \<Rightarrow> nat \<Rightarrow> string + nat \<times> nat" where
  "wait_from ready 0 i = Inl ''PostgreSQL unavailable after 15 attempts''"
| "wait_from ready (Suc n) i = (if ready i then Inr (i, 2000 * i) else wait_from ready n (Suc i))"

definition waitForDb :: "(nat \<Rightarrow> bool) \<Rightarrow> string + nat \<times> nat" where
  "waitForDb ready = wait_from ready MAX_ATTEMPTS 0"

datatype startup = Exit int | Listening auth_db

definition main :: "(nat \<Rightarrow> bool) \<Rightarrow> auth_db \<Rightarrow> startup" where
  "main ready d = (case waitForDb ready of Inl _ \<Rightarrow> Exit 1 | Inr _ \<Rightarrow> Listening (migrate d))"

text \<open>What \<open>init.sql\<close> leaves, at time \<open>t\<close>: the seed player, before the migration.\<close>

definition init_db :: "int \<Rightarrow> auth_db" where
  "init_db t =
     \<lparr>players = [\<lparr>r_id = SEED_PLAYER_ID, r_email = ''demo@swarm.local'', r_name = ''Demo Player'',
                  r_verified = True, r_created_at = t, r_passkey_enrolled = None\<rparr>],
      passkey_credentials = [], webauthn_challenges = []\<rparr>"

lemma first_from:
  fixes i k :: nat
  shows "i \<le> k \<and> ready k \<and> (\<forall>j. i \<le> j \<longrightarrow> j < k \<longrightarrow> \<not> ready j) \<longleftrightarrow>
    (if ready i then k = i else Suc i \<le> k \<and> ready k \<and> (\<forall>j. Suc i \<le> j \<longrightarrow> j < k \<longrightarrow> \<not> ready j))"
proof (cases "ready i")
  case True
  then show ?thesis using le_less by auto
next
  case False
  then have "(\<forall>j. i \<le> j \<longrightarrow> j < k \<longrightarrow> \<not> ready j) \<longleftrightarrow> (\<forall>j. Suc i \<le> j \<longrightarrow> j < k \<longrightarrow> \<not> ready j)"
    by (metis Suc_leD Suc_leI le_neq_implies_less)
  then show ?thesis using False by (metis Suc_leD Suc_leI le_neq_implies_less)
qed

lemma wait_from_Inr:
  "wait_from ready n i = Inr (k, ms) \<longleftrightarrow>
    k < i + n \<and> (i \<le> k \<and> ready k \<and> (\<forall>j. i \<le> j \<longrightarrow> j < k \<longrightarrow> \<not> ready j)) \<and> ms = 2000 * k"
proof (induction n arbitrary: i)
  case (Suc n)
  show ?case unfolding first_from [of i k ready] using Suc.IH [of "Suc i"] by auto
qed auto

lemma first_least: "ready k \<and> (\<forall>j. j < k \<longrightarrow> \<not> ready j) \<longleftrightarrow> ready k \<and> k = (LEAST j :: nat. ready j)"
  by (metis Least_le LeastI leD le_neq_implies_less not_less_Least)

lemma waitForDb_Inr:
  "waitForDb ready = Inr (k, ms) \<longleftrightarrow> k < 15 \<and> ready k \<and> k = (LEAST j. ready j) \<and> ms = 2000 * k"
  using first_least [of ready k] by (auto simp: waitForDb_def MAX_ATTEMPTS_def wait_from_Inr)


section \<open>The transition system\<close>

text \<open>\<open>minted\<close>: every token a response has carried.\<close>

record 'r sys =
  svc :: "'r auth_state"
  clock :: int
  minted :: "string list"

definition unforged :: "'r platform \<Rightarrow> config \<Rightarrow> int \<Rightarrow> request \<Rightarrow> 'r sys \<Rightarrow> bool" where
  "unforged P cfg now rq y \<longleftrightarrow>
     (case getBearerToken rq of
        None \<Rightarrow> True
      | Some tok \<Rightarrow> verifyJWT P cfg now tok = None \<or> tok \<in> set (minted y))"

definition serve :: "'r platform \<Rightarrow> config \<Rightarrow> int \<Rightarrow> request \<Rightarrow> 'r sys \<Rightarrow> 'r sys" where
  "serve P cfg now rq y =
     (let (rep, s) = requestHandler P cfg now rq (svc y)
      in \<lparr>svc = s, clock = now, minted = reply_tokens rep @ minted y\<rparr>)"

definition restart :: "'r sys \<Rightarrow> 'r sys" where
  "restart y = y\<lparr>svc := (svc y)\<lparr>db := migrate (db (svc y))\<rparr>\<rparr>"

inductive sys_step :: "'r platform \<Rightarrow> config \<Rightarrow> 'r sys \<Rightarrow> 'r sys \<Rightarrow> bool" for P cfg where
  request: "clock y \<le> now \<Longrightarrow> unforged P cfg now rq y \<Longrightarrow> sys_step P cfg y (serve P cfg now rq y)"
| restarted: "sys_step P cfg y (restart y)"

inductive later :: "'r platform \<Rightarrow> config \<Rightarrow> 'r sys \<Rightarrow> 'r sys \<Rightarrow> bool" for P cfg where
  now: "later P cfg y y"
| step: "later P cfg y y' \<Longrightarrow> sys_step P cfg y' y'' \<Longrightarrow> later P cfg y y''"

definition boot :: "int \<Rightarrow> 'r \<Rightarrow> 'r sys" where
  "boot t r = \<lparr>svc = \<lparr>db = migrate (init_db t), redis = r, rand = 0, outbox = []\<rparr>, clock = t, minted = []\<rparr>"

definition reachable :: "'r platform \<Rightarrow> config \<Rightarrow> 'r sys \<Rightarrow> bool" where
  "reachable P cfg y \<longleftrightarrow>
     (\<exists>t r. (\<forall>u k. rd_get (redis_of P) u k r = None) \<and> later P cfg (boot t r) y)"

inductive_cases sys_stepE: "sys_step P cfg y y'"

section \<open>The invariant of the system\<close>

definition sys_inv :: "'r platform \<Rightarrow> config \<Rightarrow> 'r sys \<Rightarrow> bool" where
  "sys_inv P cfg y \<longleftrightarrow>
     auth_inv P (clock y) (svc y) \<and>
     (\<forall>tok \<in> set (minted y). token_ok P cfg (clock y) (svc y) tok)"

lemma fresh_key_mono: "fresh_key P n key \<Longrightarrow> m \<le> n \<Longrightarrow> fresh_key P m key"
proof -
  assume "fresh_key P n key" and "m \<le> n"
  then obtain k where "n \<le> k" and "key = verify_key (randomUUID P k) \<or> key = exchange_key (randomUUID P k) \<or>
        (\<exists>p. key = session_key p (randomUUID P k))"
    unfolding fresh_key_def by blast
  moreover have "m \<le> k" using \<open>m \<le> n\<close> \<open>n \<le> k\<close> by simp
  ultimately show "fresh_key P m key" unfolding fresh_key_def by blast
qed

lemma stable_trans:
  assumes a: "stable P t s0 s1" and b: "stable P u s1 s2" and "t \<le> u"
  shows "stable P u s0 s2"
proof -
  have k: "known P s1 i" if "known P s0 i" for i
    using known_mono [OF that] a by (simp add: stable_def)
  have r: "rget P v key s0 = Some w \<or> fresh_key P (rand s0) key"
    if "u \<le> v" "rget P v key s2 = Some w" for v key w
  proof -
    have "rget P v key s1 = Some w \<or> fresh_key P (rand s1) key"
      using that b by (simp add: stable_def)
    moreover have "t \<le> v" and "rand s0 \<le> rand s1" using that(1) a \<open>t \<le> u\<close> by (simp_all add: stable_def)
    ultimately show ?thesis
      using a fresh_key_mono [of P "rand s1" key "rand s0"] unfolding stable_def by blast
  qed
  show ?thesis using a b k r unfolding stable_def by (meson order_trans)
qed

lemma claims_of_stable:
  assumes "claims_of e P s c" and st: "stable P u s s'"
  shows "claims_of e P s' c"
proof -
  have "rand s \<le> rand s'" and "\<And>i. known P s i \<Longrightarrow> cleared s i \<Longrightarrow> cleared s' i"
    and "\<And>i. known P s i \<Longrightarrow> owner_ok e s i \<Longrightarrow> owner_ok e s' i"
    using st by (auto simp: stable_def owner_ok_def)
  then show ?thesis
    using assms(1) known_mono [of P s _ s'] drawn_mono [of P s _ s'] unfolding claims_of_def by meson
qed

lemma token_of_stable:
  assumes "token_of e P cfg t s tok" and st: "stable P u s s'" and "t \<le> u"
  shows "token_of e P cfg u s' tok"
  using assms claims_of_stable [OF _ st] unfolding token_of_def by (meson order_trans)

lemmas token_ok_stable = token_of_stable [of True]

lemma bearer_unforged:
  assumes "sys_inv P cfg y" and "clock y \<le> now" and "unforged P cfg now rq y"
  shows "bearer_ok P cfg now (svc y) rq"
  using assms by (auto simp: sys_inv_def bearer_ok_def token_ok_def unforged_def split: option.splits)

lemma serve_ok:
  assumes "platform_ok P" and i: "sys_inv P cfg y" and t: "clock y \<le> now" and "unforged P cfg now rq y"
  shows "sys_inv P cfg (serve P cfg now rq y) \<and> stable P now (svc y) (svc (serve P cfg now rq y))"
proof -
  obtain rep s where r: "requestHandler P cfg now rq (svc y) = (rep, s)" by fastforce
  have "outcome_ok P cfg now (svc y) (rep, s)"
    using requestHandler_ok [OF assms(1) _ t bearer_unforged [OF i t assms(4)]] i by (simp add: sys_inv_def r)
  then show ?thesis
    using i by (auto simp: outcome_ok_def good_def sys_inv_def serve_def r intro: token_ok_stable [OF _ _ t])
qed

lemma migrate_flags:
  "\<forall>r \<in> set (players (migrate d)). \<exists>r' \<in> set (players d). r_id r = r_id r' \<and> r_verified r = r_verified r' \<and>
     (r_passkey_enrolled r' = Some True \<longrightarrow> r_passkey_enrolled r = Some True)"
  by (auto simp: migrate_def split: option.splits)

lemma good_restart:
  assumes "good_of e P t s s"
  shows "good_of e P t s (s\<lparr>db := migrate (db s)\<rparr>)"
proof (rule good_step [OF assms])
  show "db_inv (db (s\<lparr>db := migrate (db s)\<rparr>))" using good_db_inv [OF assms] by simp
qed (use migrate_flags [of "db s"] in
    \<open>auto simp: cleared_def enrolled_def player_ids_def migrate_eq, (metis add_enrolled_column_frame)?\<close>)

lemma restart_ok:
  assumes i: "sys_inv P cfg y"
  shows "sys_inv P cfg (restart y) \<and> stable P (clock y) (svc y) (svc (restart y))"
proof -
  have "good P (clock y) (svc y) ((svc y)\<lparr>db := migrate (db (svc y))\<rparr>)"
    using i by (intro good_restart good_refl) (auto simp: sys_inv_def)
  then show ?thesis
    using i by (auto simp: good_def sys_inv_def restart_def intro: token_ok_stable)
qed

lemma later_ok:
  assumes "later P cfg y y'" and "platform_ok P" and "sys_inv P cfg y"
  shows "sys_inv P cfg y' \<and> clock y \<le> clock y' \<and> stable P (clock y') (svc y) (svc y')"
  using assms(1,3)
proof induction
  case (step y y' y'')
  note IH = step.IH [OF step.prems]
  from step.hyps(2) show ?case
  proof (rule sys_stepE)
    fix now rq assume y: "y'' = serve P cfg now rq y'" "clock y' \<le> now" "unforged P cfg now rq y'"
    have "clock y'' = now" by (simp add: y(1) serve_def split_beta Let_def)
    then show ?thesis
      using serve_ok [OF assms(2) _ y(2,3)] IH y stable_trans [of P "clock y'" "svc y" "svc y'" now] by auto
  next
    assume y: "y'' = restart y'"
    have "clock y'' = clock y'" by (simp add: y restart_def)
    then show ?thesis
      using restart_ok [of P cfg y'] IH y stable_trans [of P "clock y'" "svc y" "svc y'" "clock y'"] by auto
  qed
qed simp

lemma boot_ok:
  assumes "\<forall>u k. rd_get (redis_of P) u k r = None"
  shows "sys_inv P cfg (boot t r)"
  using assms
  by (auto simp: sys_inv_def boot_def auth_inv_def init_db_def db_inv_def player_ids_def migrate_def
      known_def rget_def)

lemma reachable_inv: "reachable P cfg y \<Longrightarrow> platform_ok P \<Longrightarrow> sys_inv P cfg y"
  unfolding reachable_def by (auto dest: later_ok intro: boot_ok)

lemma later_trans: "later P cfg y' y'' \<Longrightarrow> later P cfg y y' \<Longrightarrow> later P cfg y y''"
  by (induction rule: later.induct) (auto intro: later.intros)

lemma reachable_later: "reachable P cfg y \<Longrightarrow> later P cfg y y' \<Longrightarrow> reachable P cfg y'"
  unfolding reachable_def by (meson later_trans)

end
