(* ===== verification/RefPlatform.thy ===== *)
theory RefPlatform
  imports AuthSystem
begin

text \<open>
  A reference platform: concrete, executable functions in place of the packages, which satisfy
  \<open>platform_ok\<close>. It shows that the documented behaviour is consistent, and lets the model run on
  concrete requests. Its tokens are not secret, but the model never relies on that: what a client
  cannot do is the condition \<open>unforged\<close> of the transition system.
\<close>

section \<open>Self-delimiting encodings\<close>

fun enc_str :: "string \<Rightarrow> string" where
  "enc_str [] = ''.''"
| "enc_str (c # s) = CHR ''+'' # c # enc_str s"

fun dec_str :: "string \<Rightarrow> (string \<times> string) option" where
  "dec_str [] = None"
| "dec_str (x # r) =
     (if x = CHR ''.'' then Some ([], r)
      else case r of
             [] \<Rightarrow> None
           | c # r' \<Rightarrow> (case dec_str r' of None \<Rightarrow> None | Some (s, q) \<Rightarrow> Some (c # s, q)))"

function enc_bits :: "int \<Rightarrow> string" where
  "enc_bits n = (if n \<le> 0 then ''.'' else (if even n then CHR ''0'' else CHR ''1'') # enc_bits (n div 2))"
  by auto
termination by (relation "measure nat") auto

fun dec_bits :: "string \<Rightarrow> (int \<times> string) option" where
  "dec_bits [] = None"
| "dec_bits (x # r) =
     (if x = CHR ''.'' then Some (0, r)
      else (case dec_bits r of
              None \<Rightarrow> None
            | Some (n, q) \<Rightarrow> Some (2 * n + (if x = CHR ''1'' then 1 else 0), q)))"

definition enc_int :: "int \<Rightarrow> string" where
  "enc_int i = (if i < 0 then CHR ''-'' # enc_bits (- i) else CHR ''+'' # enc_bits i)"

fun dec_int :: "string \<Rightarrow> (int \<times> string) option" where
  "dec_int [] = None"
| "dec_int (x # r) =
     (case dec_bits r of
        None \<Rightarrow> None
      | Some (n, q) \<Rightarrow> Some (if x = CHR ''-'' then - n else n, q))"

fun enc_claim :: "string option \<Rightarrow> string" where
  "enc_claim None = ''0''"
| "enc_claim (Some s) = CHR ''1'' # enc_str s"

fun dec_claim :: "string \<Rightarrow> (string option \<times> string) option" where
  "dec_claim [] = None"
| "dec_claim (x # r) =
     (if x = CHR ''0'' then Some (None, r)
      else (case dec_str r of None \<Rightarrow> None | Some (s, q) \<Rightarrow> Some (Some s, q)))"

declare enc_bits.simps [simp del]

lemma dec_enc_str [simp]: "dec_str (enc_str s @ r) = Some (s, r)"
  by (induction s) simp_all

lemma dec_enc_bits [simp]: "0 \<le> n \<Longrightarrow> dec_bits (enc_bits n @ r) = Some (n, r)"
proof (induction n rule: enc_bits.induct)
  case (1 n)
  have "2 * (n div 2) + (if even n then 0 else 1) = n" by presburger
  then show ?case using 1 by (subst enc_bits.simps) (auto simp: pos_imp_zdiv_nonneg_iff)
qed

lemma dec_enc_int [simp]: "dec_int (enc_int i @ r) = Some (i, r)"
  by (simp add: enc_int_def)

lemma dec_enc_claim [simp]: "dec_claim (enc_claim c @ r) = Some (c, r)"
  by (cases c) simp_all

section \<open>Tokens\<close>

definition ref_sign :: "jwt_claims \<Rightarrow> string \<Rightarrow> int \<Rightarrow> int \<Rightarrow> string" where
  "ref_sign c secret e now =
     enc_int (now div 1000 + e) @ enc_str secret @ enc_claim (cl_sub c) @ enc_claim (cl_email c) @
     enc_claim (cl_name c) @ enc_claim (cl_scope c) @ enc_claim (cl_sessionId c) @ enc_claim (cl_iss c)"

definition ref_verify :: "string \<Rightarrow> string \<Rightarrow> int \<Rightarrow> jwt_claims option" where
  "ref_verify tok secret now =
     Option.bind (dec_int tok) (\<lambda>(ex, r0).
     Option.bind (dec_str r0) (\<lambda>(k, r1).
     Option.bind (dec_claim r1) (\<lambda>(sub, r2).
     Option.bind (dec_claim r2) (\<lambda>(email, r3).
     Option.bind (dec_claim r3) (\<lambda>(name, r4).
     Option.bind (dec_claim r4) (\<lambda>(scope, r5).
     Option.bind (dec_claim r5) (\<lambda>(sid, r6).
     Option.bind (dec_claim r6) (\<lambda>(iss, r7).
       if k = secret \<and> now div 1000 < ex
       then Some \<lparr>cl_sub = sub, cl_email = email, cl_name = name, cl_scope = scope,
                  cl_sessionId = sid, cl_iss = iss, cl_exp = Some ex\<rparr>
       else None))))))))"

lemma ref_verify_sign:
  "ref_verify (ref_sign c k e t0) k t =
     (if t div 1000 < t0 div 1000 + e then Some (c\<lparr>cl_exp := Some (t0 div 1000 + e)\<rparr>) else None)"
proof -
  have "dec_claim (enc_claim v) = Some (v, [])" for v using dec_enc_claim [of v "[]"] by simp
  then show ?thesis by (cases c) (simp add: ref_verify_def ref_sign_def)
qed

section \<open>The platform\<close>

definition ref_uuid :: "nat \<Rightarrow> string" where
  "ref_uuid n = ''uuid-'' @ replicate n CHR ''a''"

definition ref_uuid_in :: "string \<Rightarrow> string option" where
  "ref_uuid_in s = (if s = SEED_PLAYER_ID \<or> starts_with ''uuid-'' s then Some s else None)"

definition str_prop :: "json \<Rightarrow> string \<Rightarrow> string" where
  "str_prop j k = (case js_prop j k of Inr (Some (JStr s)) \<Rightarrow> s | _ \<Rightarrow> [])"

text \<open>An authenticator's response is genuine when its member \<open>sig\<close> says \<open>good\<close>.\<close>

definition ref_platform :: "ttl_store platform" where
  "ref_platform =
     \<lparr>redis_of = ttl_redis, uuid_in = ref_uuid_in, randomUUID = ref_uuid,
      jwt_sign = ref_sign, jwt_verify = ref_verify,
      generateRegistrationOptions =
        (\<lambda>n a. (replicate n CHR ''r'', JObj [(''challenge'', JStr (replicate n CHR ''r''))])),
      generateAuthenticationOptions =
        (\<lambda>n a. (replicate n CHR ''l'', JObj [(''challenge'', JStr (replicate n CHR ''l''))])),
      verifyRegistrationResponse = (\<lambda>cr ch og rp.
        if str_prop cr ''sig'' = ''good''
        then RegResult True (Some \<lparr>ri_credentialID = str_prop cr ''id'', ri_credentialPublicKey = ''key'',
               ri_counter = 0, ri_credentialDeviceType = ''singleDevice'', ri_credentialBackedUp = False\<rparr>)
        else RegResult False None),
      verifyAuthenticationResponse = (\<lambda>as ch og rp au.
        if str_prop as ''sig'' = ''good'' then AuthResult True (au_counter au + 1)
        else AuthThrows ''bad signature''),
      http_post = (\<lambda>url body. Some ''{}''), error_message = (\<lambda>e. ''error''),
      buffer_from_other = (\<lambda>j. Inl TypeError), pg_text_other = JSON_stringify,
      pg_text_array = (\<lambda>j. Some []), db_up = True, redis_ready = True\<rparr>"

lemma replicate_no_colon: "CHR '':'' \<notin> set (ref_uuid n)"
  by (auto simp: ref_uuid_def)

lemma ref_uuid_laws: "uuid_laws ref_platform"
proof -
  have "inj ref_uuid" by (rule injI) (simp add: ref_uuid_def)
  moreover have "ref_uuid_in (ref_uuid n) = Some (ref_uuid n)" for n
    by (simp add: ref_uuid_in_def ref_uuid_def starts_with_def)
  ultimately show ?thesis
    unfolding uuid_laws_def
    by (auto simp: ref_platform_def replicate_no_colon)
      (auto simp: ref_uuid_def SEED_PLAYER_ID_def ref_uuid_in_def DEMO_PLAYER_ID_def starts_with_def)
qed

lemma ref_platform_ok: "platform_ok ref_platform"
  using ref_uuid_laws ref_verify_sign ttl.redis_service_axioms
  by (auto simp: platform_ok_def jwt_laws_def options_laws_def ref_platform_def)

end
