(* ===== verification/DemoRun.thy ===== *)
theory DemoRun
  imports RefPlatform
begin

text \<open>
  A concrete run of the auth service on the reference platform: one player registers, follows the
  link of the email, exchanges the code, enrols a passkey and logs in with it. The states are
  written out, and each step is evaluated. The witnesses of the properties use this run.
\<close>

definition demo_cfg :: config where
  "demo_cfg =
     \<lparr>JWT_SECRET = ''k'', EMAIL_URL = ''http://email'', BANK_URL = ''https://bank'',
      GATEWAY_URL = ''http://gw'', UI_URL = ''http://ui'', RP_NAME = ''TCA Blackjack'',
      RP_ID = ''localhost'', ORIGIN = ''http://ui''\<rparr>"

abbreviation demo_serve :: "int \<Rightarrow> request \<Rightarrow> ttl_store sys \<Rightarrow> ttl_store sys" where
  "demo_serve \<equiv> serve ref_platform demo_cfg"

section \<open>Requests\<close>

definition get_req :: "string \<Rightarrow> (string \<times> string) list \<Rightarrow> request" where
  "get_req p q = \<lparr>rq_method = ''GET'', rq_path = p, rq_query = q, rq_authorization = None, rq_body = []\<rparr>"

definition post_req :: "string \<Rightarrow> string option \<Rightarrow> json \<Rightarrow> request" where
  "post_req p tok b =
     \<lparr>rq_method = ''POST'', rq_path = p, rq_query = [],
      rq_authorization = map_option (\<lambda>t. ''Bearer '' @ t) tok, rq_body = JSON_stringify b\<rparr>"

definition register_req :: request where
  "register_req = post_req ''/register'' None
     (JObj [(''email'', JStr '' Ann@Example.com ''), (''name'', JStr ''Ann'')])"

definition verify_req :: request where
  "verify_req = get_req ''/verify-token'' [(''token'', ''uuid-a'')]"

definition exchange_req :: request where
  "exchange_req = post_req ''/exchange'' None (JObj [(''code'', JStr ''uuid-aaa'')])"

definition demo_bootstrap :: string where
  "demo_bootstrap = ref_sign
     \<lparr>cl_sub = Some ''uuid-'', cl_email = Some ''ann@example.com'', cl_name = Some ''Ann'',
      cl_scope = Some ''enroll'', cl_sessionId = None, cl_iss = Some ''tca-blackjack'', cl_exp = None\<rparr>
     ''k'' 300 3000"

definition demo_session :: "string \<Rightarrow> int \<Rightarrow> string" where
  "demo_session sid t = ref_sign
     \<lparr>cl_sub = Some ''uuid-'', cl_email = Some ''ann@example.com'', cl_name = Some ''Ann'',
      cl_scope = Some ''session'', cl_sessionId = Some sid, cl_iss = Some ''tca-blackjack'', cl_exp = None\<rparr>
     ''k'' 3600 t"

definition enroll_begin_req :: request where
  "enroll_begin_req = post_req ''/passkey/register/begin'' (Some demo_bootstrap) (JObj [])"

definition passkey :: "string \<Rightarrow> json" where
  "passkey cdj = JObj [(''id'', JStr ''cred''), (''sig'', JStr ''good''),
     (''response'', JObj [(''clientDataJSON'', JStr cdj)])]"

text \<open>The client data are \<open>{"challenge":"rrrr"}\<close> and \<open>{"challenge":"llllll"}\<close> in base64url.\<close>

definition enroll_complete_req :: request where
  "enroll_complete_req = post_req ''/passkey/register/complete'' (Some demo_bootstrap)
     (passkey ''eyJjaGFsbGVuZ2UiOiJycnJyIn0='')"

definition login_begin_req :: request where
  "login_begin_req = post_req ''/passkey/login/begin'' None
     (JObj [(''email'', JStr ''ann@example.com'')])"

definition login_complete_req :: request where
  "login_complete_req = post_req ''/passkey/login/complete'' None
     (passkey ''eyJjaGFsbGVuZ2UiOiJsbGxsbGwifQ'')"

section \<open>States\<close>

definition demo_players :: "(bool \<times> bool) list \<Rightarrow> player_row list" where
  "demo_players fs =
     \<lparr>r_id = SEED_PLAYER_ID, r_email = ''demo@swarm.local'', r_name = ''Demo Player'',
      r_verified = True, r_created_at = 0, r_passkey_enrolled = Some False\<rparr> #
     map (\<lambda>(v, e). \<lparr>r_id = ''uuid-'', r_email = ''ann@example.com'', r_name = ''Ann'', r_verified = v,
                      r_created_at = 1000, r_passkey_enrolled = Some e\<rparr>) fs"

definition demo_outbox :: "(string \<times> json) list" where
  "demo_outbox =
     [(''http://email/send'',
       email_envelope ''uuid-aa'' ''system'' ''verify_email'' ''email'' ''ann@example.com''
         (JObj [(''verification_url'', JStr ''http://gw/verify?token=uuid-a''),
                (''expires_in'', JStr ''24h'')])),
      (''https://bank/account'',
       JObj [(''playerId'', JStr ''uuid-''), (''startingBalance'', JStr ''1000.00'')])]"

definition demo_credential :: "int \<Rightarrow> credential_row" where
  "demo_credential n =
     \<lparr>k_credential_id = ''cred'', k_player_id = ''uuid-'', k_public_key = ''key'', k_counter = n,
      k_device_type = ''singleDevice'', k_backed_up = False, k_transports = Some []\<rparr>"

definition demo_session_entry :: "string \<Rightarrow> int \<Rightarrow> string \<times> string \<times> int" where
  "demo_session_entry sid t =
     (''session:uuid-:'' @ sid,
      JSON_stringify (JObj [(''playerId'', JStr ''uuid-''), (''createdAt'', JStr (toISOString t))]),
      t + 14400000)"

definition booted :: "ttl_store sys" where
  "booted = boot 0 []"

definition registered :: "ttl_store sys" where
  "registered =
     \<lparr>svc = \<lparr>db = \<lparr>players = demo_players [(False, False)], passkey_credentials = [],
                    webauthn_challenges = []\<rparr>,
             redis = [(''verify:uuid-a'', ''uuid-'', 86401000)], rand = 3, outbox = demo_outbox\<rparr>,
      clock = 1000, minted = []\<rparr>"

definition verified :: "ttl_store sys" where
  "verified =
     \<lparr>svc = \<lparr>db = \<lparr>players = demo_players [(True, False)], passkey_credentials = [],
                    webauthn_challenges = []\<rparr>,
             redis = [(''exchange:uuid-aaa'', ''uuid-'', 62000)], rand = 4, outbox = demo_outbox\<rparr>,
      clock = 2000, minted = []\<rparr>"

definition exchanged :: "ttl_store sys" where
  "exchanged =
     \<lparr>svc = \<lparr>db = \<lparr>players = demo_players [(True, False)], passkey_credentials = [],
                    webauthn_challenges = []\<rparr>,
             redis = [], rand = 4, outbox = demo_outbox\<rparr>,
      clock = 3000, minted = [demo_bootstrap]\<rparr>"

definition begun :: "ttl_store sys" where
  "begun =
     \<lparr>svc = \<lparr>db = \<lparr>players = demo_players [(True, False)], passkey_credentials = [],
                    webauthn_challenges =
                      [\<lparr>w_challenge = ''rrrr'', w_player_id = Some ''uuid-'', w_type = Registration,
                        w_expires_at = 304000\<rparr>]\<rparr>,
             redis = [], rand = 5, outbox = demo_outbox\<rparr>,
      clock = 4000, minted = [demo_bootstrap]\<rparr>"

definition joined :: "ttl_store sys" where
  "joined =
     \<lparr>svc = \<lparr>db = \<lparr>players = demo_players [(True, True)], passkey_credentials = [demo_credential 0],
                    webauthn_challenges = []\<rparr>,
             redis = [demo_session_entry ''uuid-aaaaa'' 5000], rand = 6, outbox = demo_outbox\<rparr>,
      clock = 5000, minted = [demo_session ''uuid-aaaaa'' 5000, demo_bootstrap]\<rparr>"

definition challenged :: "ttl_store sys" where
  "challenged =
     \<lparr>svc = \<lparr>db = \<lparr>players = demo_players [(True, True)], passkey_credentials = [demo_credential 0],
                    webauthn_challenges =
                      [\<lparr>w_challenge = ''llllll'', w_player_id = Some ''uuid-'', w_type = Authentication,
                        w_expires_at = 306000\<rparr>]\<rparr>,
             redis = [demo_session_entry ''uuid-aaaaa'' 5000], rand = 7, outbox = demo_outbox\<rparr>,
      clock = 6000, minted = [demo_session ''uuid-aaaaa'' 5000, demo_bootstrap]\<rparr>"

definition logged_in :: "ttl_store sys" where
  "logged_in =
     \<lparr>svc = \<lparr>db = \<lparr>players = demo_players [(True, True)], passkey_credentials = [demo_credential 1],
                    webauthn_challenges = []\<rparr>,
             redis = [demo_session_entry ''uuid-aaaaaaa'' 7000, demo_session_entry ''uuid-aaaaa'' 5000],
             rand = 8, outbox = demo_outbox\<rparr>,
      clock = 7000,
      minted = [demo_session ''uuid-aaaaaaa'' 7000, demo_session ''uuid-aaaaa'' 5000, demo_bootstrap]\<rparr>"

section \<open>Steps\<close>

lemma step_register: "demo_serve 1000 register_req booted = registered" by code_simp
lemma step_verify: "demo_serve 2000 verify_req registered = verified" by code_simp
lemma step_exchange: "demo_serve 3000 exchange_req verified = exchanged" by code_simp
lemma step_begin: "demo_serve 4000 enroll_begin_req exchanged = begun" by code_simp
lemma step_complete: "demo_serve 5000 enroll_complete_req begun = joined" by code_simp
lemma step_login_begin: "demo_serve 6000 login_begin_req joined = challenged" by code_simp
lemma step_login_complete: "demo_serve 7000 login_complete_req challenged = logged_in" by code_simp

end
