(* ===== verification/AuthClaims.thy ===== *)
theory AuthClaims
  imports DemoRun
begin

text \<open>
  What the properties of the auth service share: the fields of requests and replies they speak about,
  when \<open>/exchange\<close> and \<open>/validate\<close> refuse, which keys of Redis can come back, and that the states of
  \<open>DemoRun\<close> are reachable.
\<close>

section \<open>Requests by route\<close>

definition posts :: "string \<Rightarrow> request \<Rightarrow> bool" where
  "posts p rq \<longleftrightarrow> rq_method rq = ''POST'' \<and> rq_path rq = p"

fun status :: "reply \<Rightarrow> nat option" where
  "status (Reply n _ _) = Some n"
| "status (Rejected _) = None"

definition body_text :: "string \<Rightarrow> request \<Rightarrow> json option" where
  "body_text k rq =
     (case parse_body (rq_body rq) of
        None \<Rightarrow> None
      | Some d \<Rightarrow> (case js_prop d k of Inl _ \<Rightarrow> None | Inr v \<Rightarrow> Some (js_nullish v (JStr []))))"

text \<open>The code an exchange request presents, and the token a validation request does.\<close>

definition exchange_code :: "request \<Rightarrow> string option" where
  "exchange_code rq = map_option js_to_string (body_text ''code'' rq)"

definition validate_token :: "request \<Rightarrow> string option" where
  "validate_token rq = (case body_text ''token'' rq of Some (JStr t) \<Rightarrow> Some t | _ \<Rightarrow> None)"

lemma status_simps [simp]:
  "status (jsonResponse n b) = Some n" "status (error_reply n m) = Some n"
  "status (htmlResponse n h) = Some n"
  by (simp_all add: jsonResponse_def error_reply_def htmlResponse_def)

lemma dispatch:
  "posts ''/exchange'' rq \<Longrightarrow> requestHandler P cfg now rq s = handle_exchange P cfg now rq s"
  "posts ''/validate'' rq \<Longrightarrow> requestHandler P cfg now rq s = handle_validate P cfg now rq s"
  "posts ''/dev/reset'' rq \<Longrightarrow> requestHandler P cfg now rq s = handle_dev_reset P cfg now rq s"
  "posts ''/register'' rq \<Longrightarrow> requestHandler P cfg now rq s = handle_register P cfg now rq s"
  "posts ''/passkey/login/complete'' rq \<Longrightarrow>
    requestHandler P cfg now rq s = handle_passkey_login_complete P cfg now rq s"
  "posts ''/passkey/register/complete'' rq \<Longrightarrow>
    requestHandler P cfg now rq s = handle_passkey_register_complete P cfg now rq s"
  by (simp_all add: posts_def requestHandler_def)

lemma exchange_refused:
  assumes "redis_service (redis_of P)" and "exchange_code rq = Some x"
    and "rget P now (exchange_key x) s = None"
  shows "fst (handle_exchange P cfg now rq s) = error_reply 401 ''invalid or expired exchange code''"
  using assms(2,3)
  by (auto simp: handle_exchange_def exchange_code_def body_text_def await_def getdel_def rget_def
      redis_service.getdel_fst [OF assms(1)] split: option.splits sum.splits)

lemma exchange_redeems:
  assumes "redis_service (redis_of P)" and "exchange_code rq = Some x"
    and "status (fst (handle_exchange P cfg now rq s)) = Some 200"
  shows "(\<exists>i. rget P now (exchange_key x) s = Some i) \<and>
    snd (handle_exchange P cfg now rq s) = snd (getdel P now (exchange_key x) s)"
  using assms(2,3)
  by (auto simp: handle_exchange_def exchange_code_def body_text_def await_def getdel_def rget_def
      redis_service.getdel_fst [OF assms(1)] split: option.splits sum.splits if_splits)

definition live_key :: "jwt_claims \<Rightarrow> string" where
  "live_key c = session_key (undefined_text (cl_sub c)) (undefined_text (cl_sessionId c))"

lemma validate_refused:
  assumes "validate_token rq = Some tok"
    and "\<And>c. verifyJWT P cfg now tok = Some c \<Longrightarrow> rget P now (live_key c) s = None"
  shows "status (fst (handle_validate P cfg now rq s)) = Some 401"
  using assms
  by (auto simp: handle_validate_def validate_token_def body_text_def await_def validateSession_def
      live_key_def rget_def split: option.splits sum.splits json.splits)

section \<open>Keys that cannot come back\<close>

lemma session_key_sid:
  assumes "session_key i x = session_key p z" and "CHR '':'' \<notin> set x" and "CHR '':'' \<notin> set z"
  shows "x = z"
proof -
  have "takeWhile (\<lambda>c. c \<noteq> CHR '':'') (rev (session_key q w)) = rev w" if "CHR '':'' \<notin> set w" for q w
  proof -
    have "takeWhile (\<lambda>c. c \<noteq> CHR '':'') (rev w @ CHR '':'' # r) = rev w" for r
      using that by (subst takeWhile_append2) auto
    then show ?thesis by (simp add: session_key_def)
  qed
  then show ?thesis using assms by (metis rev_rev_ident)
qed

lemma drawn_no_colon: "uuid_laws P \<Longrightarrow> drawn P s x \<Longrightarrow> CHR '':'' \<notin> set x"
  by (auto simp: drawn_def uuid_not_fixed)

lemma drawn_not_later:
  assumes "uuid_laws P" and "drawn P s x" and "rand s \<le> k"
  shows "x \<noteq> randomUUID P k"
  using assms(2,3) inj_eq [OF uuid_inj [OF assms(1)]] by (auto simp: drawn_def)

lemma drawn_not_fresh:
  assumes "uuid_laws P" and "drawn P s x"
  shows "\<not> fresh_key P (rand s) (exchange_key x)" and "\<not> fresh_key P (rand s) (verify_key x)"
    and "\<not> fresh_key P (rand s) (session_key i x)"
  using drawn_not_later [OF assms] uuid_not_fixed(2) [OF assms(1)] drawn_no_colon [OF assms]
  by (auto simp: fresh_key_def dest!: session_key_sid)

lemma key_gone:
  assumes "platform_ok P" and "sys_inv P cfg y" and "later P cfg y y'"
    and "\<not> fresh_key P (rand (svc y)) key" and "\<And>u. clock y \<le> u \<Longrightarrow> rget P u key (svc y) = None"
    and "clock y' \<le> t"
  shows "rget P t key (svc y') = None"
proof (rule ccontr)
  assume "rget P t key (svc y') \<noteq> None"
  then obtain v where v: "rget P t key (svc y') = Some v" by blast
  have l: "clock y \<le> clock y'" "stable P (clock y') (svc y) (svc y')"
    using later_ok [OF assms(3,1,2)] by simp_all
  then have "rget P t key (svc y) = Some v"
    using v assms(4,6) unfolding stable_def by blast
  then show False using assms(5) [of t] assms(6) l(1) by simp
qed

text \<open>No session ends in the texts the service uses for a missing or a made-up session.\<close>

lemma fixed_sid_dead:
  assumes "uuid_laws P" and "sys_inv P cfg y" and "clock y \<le> t" and "x \<in> {''undefined'', ''demo-session''}"
  shows "rget P t (session_key i x) (svc y) = None"
proof (rule ccontr)
  assume "rget P t (session_key i x) (svc y) \<noteq> None"
  then obtain v where "rget P t (session_key i x) (svc y) = Some v" by blast
  then have "key_ok P (svc y) (session_key i x) v"
    using assms(2,3) unfolding sys_inv_def auth_inv_def by blast
  then obtain p z where z: "drawn P (svc y) z" "session_key i x = session_key p z"
    unfolding key_ok_def by blast
  have "x = z" using session_key_sid [OF z(2)] drawn_no_colon [OF assms(1) z(1)] assms(4) by auto
  then show False using z(1) assms(4) uuid_not_fixed(1) [OF assms(1)] by (auto simp: drawn_def)
qed

lemma reachable_auth_inv:
  "reachable P cfg y \<Longrightarrow> platform_ok P \<Longrightarrow> clock y \<le> t \<Longrightarrow> auth_inv P t (svc y)"
  using reachable_inv [of P cfg y] good_refl [of True P "clock y" "svc y" t] by (simp add: sys_inv_def good_def)

lemma minted_claims:
  "sys_inv P cfg y \<Longrightarrow> tok \<in> set (minted y) \<Longrightarrow> clock y \<le> u \<Longrightarrow> verifyJWT P cfg u tok = Some c \<Longrightarrow>
    claims_ok P (svc y) c"
  unfolding sys_inv_def token_ok_def by blast

section \<open>The demonstration run is reachable\<close>

lemma demo_step:
  assumes "reachable ref_platform demo_cfg y" and "demo_serve t rq y = y'" and "clock y \<le> t"
    and "rq_authorization rq = None \<or> set_option (getBearerToken rq) \<subseteq> set (minted y)"
  shows "reachable ref_platform demo_cfg y'"
proof -
  have "unforged ref_platform demo_cfg t rq y"
    using assms(4) by (auto simp: unforged_def getBearerToken_def starts_with_def split: option.splits)
  then have "sys_step ref_platform demo_cfg y y'"
    unfolding assms(2) [symmetric] by (rule sys_step.request [OF assms(3)])
  then show ?thesis using reachable_later [OF assms(1)] later.intros by blast
qed

lemmas demo_states = booted_def registered_def verified_def exchanged_def begun_def joined_def
  challenged_def logged_in_def

lemmas demo_requests = register_req_def verify_req_def exchange_req_def enroll_begin_req_def
  enroll_complete_req_def login_begin_req_def login_complete_req_def get_req_def post_req_def

lemma reach_booted: "reachable ref_platform demo_cfg booted"
  unfolding reachable_def booted_def
  by (intro exI [of _ 0] exI [of _ "[]"]) (auto simp: ref_platform_def ttl_redis_def ttl_get_def later.now)

lemma reach_registered: "reachable ref_platform demo_cfg registered"
  by (rule demo_step [OF reach_booted step_register]) (simp_all add: demo_requests booted_def boot_def)

lemma reach_verified: "reachable ref_platform demo_cfg verified"
  by (rule demo_step [OF reach_registered step_verify]) (simp_all add: demo_requests registered_def)

lemma reach_exchanged: "reachable ref_platform demo_cfg exchanged"
  by (rule demo_step [OF reach_verified step_exchange]) (simp_all add: demo_requests verified_def)

lemma reach_begun: "reachable ref_platform demo_cfg begun"
  by (rule demo_step [OF reach_exchanged step_begin])
    (simp_all add: demo_requests exchanged_def getBearerToken_def starts_with_def)

lemma reach_joined: "reachable ref_platform demo_cfg joined"
  by (rule demo_step [OF reach_begun step_complete])
    (simp_all add: demo_requests begun_def getBearerToken_def starts_with_def)

lemma reach_challenged: "reachable ref_platform demo_cfg challenged"
  by (rule demo_step [OF reach_joined step_login_begin]) (simp_all add: demo_requests joined_def)

lemma reach_logged_in: "reachable ref_platform demo_cfg logged_in"
  by (rule demo_step [OF reach_challenged step_login_complete]) (simp_all add: demo_requests challenged_def)

end
