(* ===== verification/AuthSecurity.thy ===== *)
theory AuthSecurity
  imports AuthClaims
begin

text \<open>
  The security properties of the auth service as a system: they hold in every state reachable from
  startup by any sequence of requests and restarts.
\<close>

text \<open>C1. A session token entitles a player only after both steps of the sign-up. Whatever requests
  have been made, every token the service has issued that verifies with scope \<open>session\<close>, other than
  the demonstration token, names a player whose address is verified and whose passkey is enrolled:
  no row of that player says otherwise.\<close>

theorem session_token_enrolled:
  assumes "platform_ok P" and "reachable P cfg y" and "tok \<in> set (minted y)" and "clock y \<le> u"
    and "verifyJWT P cfg u tok = Some c" and "cl_scope c = Some ''session''"
    and "cl_sub c \<noteq> Some DEMO_PLAYER_ID"
  shows "\<exists>i. cl_sub c = Some i \<and>
    (\<forall>r \<in> set (players (db (svc y))). r_id r = i \<longrightarrow>
       r_verified r \<and> r_passkey_enrolled r = Some True)"
proof -
  have "claims_ok P (svc y) c"
    by (rule minted_claims [OF reachable_inv [OF assms(2,1)] assms(3-5)])
  then show ?thesis using assms(6,7) by (auto simp: claims_ok_def enrolled_def)
qed

lemma session_token_enrolled_witness:
  "\<exists>i. cl_sub (the (verifyJWT ref_platform demo_cfg 9000 (demo_session ''uuid-aaaaa'' 5000))) = Some i \<and>
    (\<forall>r \<in> set (players (db (svc joined))). r_id r = i \<longrightarrow>
       r_verified r \<and> r_passkey_enrolled r = Some True)"
proof (rule session_token_enrolled [OF ref_platform_ok reach_joined])
  show "demo_session ''uuid-aaaaa'' 5000 \<in> set (minted joined)" by (simp add: joined_def)
  show "clock joined \<le> 9000" by (simp add: joined_def)
qed code_simp+

text \<open>C8. An exchange code works once: after a request that redeemed it, every later exchange request
  with the same code is refused, whatever requests and restarts come in between.\<close>

theorem exchange_code_single_use:
  assumes "platform_ok P" and "reachable P cfg y"
    and "clock y \<le> t" and "unforged P cfg t rq y"
    and "posts ''/exchange'' rq" and "exchange_code rq = Some x"
    and "status (fst (requestHandler P cfg t rq (svc y))) = Some 200"
    and "later P cfg (serve P cfg t rq y) y'" and "clock y' \<le> t'"
    and "posts ''/exchange'' rq'" and "exchange_code rq' = Some x"
  shows "fst (requestHandler P cfg t' rq' (svc y')) =
    error_reply 401 ''invalid or expired exchange code''"
proof -
  have L: "redis_service (redis_of P)" "uuid_laws P" using assms(1) by (simp_all add: platform_ok_def)
  have inv: "sys_inv P cfg y" by (rule reachable_inv [OF assms(2,1)])
  let ?y1 = "serve P cfg t rq y"
  obtain i where i: "rget P t (exchange_key x) (svc y) = Some i"
    and s1: "svc ?y1 = snd (getdel P t (exchange_key x) (svc y))"
    using exchange_redeems [OF L(1) assms(6), of cfg t "svc y"] assms(7)
    by (auto simp: dispatch(1) [OF assms(5)] serve_def split_beta Let_def)
  have "drawn P (svc y) x"
    using inv i assms(3) unfolding sys_inv_def auth_inv_def key_ok_def by blast
  then have nf: "\<not> fresh_key P (rand (svc ?y1)) (exchange_key x)"
    using drawn_not_fresh(1) [OF L(2)] s1 by (simp add: getdel_def)
  have gone: "rget P u (exchange_key x) (svc ?y1) = None" if "clock ?y1 \<le> u" for u
    using that s1 redis_service.get_getdel [OF L(1)]
    by (simp add: getdel_def rget_def serve_def split_beta Let_def)
  have "rget P t' (exchange_key x) (svc y') = None"
    using serve_ok [OF assms(1) inv assms(3,4)]
    by (intro key_gone [OF assms(1) _ assms(8) nf gone assms(9)]) simp_all
  then show ?thesis
    unfolding dispatch(1) [OF assms(10)] by (rule exchange_refused [OF L(1) assms(11)])
qed

lemma exchange_code_single_use_witness:
  "fst (requestHandler ref_platform demo_cfg 3500 exchange_req (svc exchanged)) =
    error_reply 401 ''invalid or expired exchange code''"
proof (rule exchange_code_single_use [OF ref_platform_ok reach_verified, where t = 3000 and rq = exchange_req])
  show "unforged ref_platform demo_cfg 3000 exchange_req verified"
    by (simp add: unforged_def exchange_req_def post_req_def getBearerToken_def starts_with_def)
  show "later ref_platform demo_cfg (demo_serve 3000 exchange_req verified) exchanged"
    by (simp add: step_exchange later.now)
  show "exchange_code exchange_req = Some ''uuid-aaa''" "exchange_code exchange_req = Some ''uuid-aaa''"
    by code_simp+
  show "status (fst (requestHandler ref_platform demo_cfg 3000 exchange_req (svc verified))) = Some 200"
    by code_simp
qed (simp_all add: posts_def exchange_req_def post_req_def verified_def exchanged_def)

text \<open>C9. A reset ends every session: a token issued before it is refused by \<open>/validate\<close> at any later
  time, whatever requests and restarts come in between.\<close>

theorem reset_revokes_sessions:
  assumes "platform_ok P" and "reachable P cfg y" and "tok \<in> set (minted y)"
    and "clock y \<le> t" and "unforged P cfg t rq y" and "posts ''/dev/reset'' rq"
    and "later P cfg (serve P cfg t rq y) y'" and "clock y' \<le> t'"
    and "posts ''/validate'' rq'" and "validate_token rq' = Some tok"
  shows "status (fst (requestHandler P cfg t' rq' (svc y'))) = Some 401"
proof -
  have L: "redis_service (redis_of P)" "uuid_laws P" using assms(1) by (simp_all add: platform_ok_def)
  have inv: "sys_inv P cfg y" by (rule reachable_inv [OF assms(2,1)])
  let ?y1 = "serve P cfg t rq y"
  have inv1: "sys_inv P cfg ?y1" using serve_ok [OF assms(1) inv assms(4,5)] by simp
  have later: "sys_inv P cfg y'" "t \<le> t'"
    using later_ok [OF assms(7,1) inv1] assms(8) by (auto simp: serve_def split_beta Let_def)
  have gone: "rget P u key (svc ?y1) = None" for u key
    by (simp add: serve_def dispatch(3) [OF assms(6)] handle_dev_reset_def rget_def
        redis_service.get_flushdb [OF L(1)])
  have "rget P t' (live_key c) (svc y') = None" if "verifyJWT P cfg t' tok = Some c" for c
  proof -
    have ok: "claims_ok P (svc y) c"
      using minted_claims [OF inv assms(3) _ that] assms(4) later(2) by simp
    consider (fixed) i x where "live_key c = session_key i x" "x \<in> {''undefined'', ''demo-session''}"
      | (drawn) i x where "live_key c = session_key i x" "drawn P (svc y) x"
      using ok by (cases "cl_sessionId c") (auto simp: claims_ok_def live_key_def undefined_text_def)
    then show ?thesis
    proof cases
      case fixed
      then show ?thesis using fixed_sid_dead [OF L(2) later(1) assms(8)] by simp
    next
      case drawn
      have "rand (svc ?y1) = rand (svc y)"
        by (simp add: serve_def dispatch(3) [OF assms(6)] handle_dev_reset_def)
      then have "\<not> fresh_key P (rand (svc ?y1)) (session_key i x)"
        using drawn_not_fresh(3) [OF L(2) drawn(2)] by simp
      then show ?thesis
        unfolding drawn(1) by (rule key_gone [OF assms(1) inv1 assms(7) _ gone assms(8)])
    qed
  qed
  then show ?thesis
    unfolding dispatch(2) [OF assms(9)] by (rule validate_refused [OF assms(10)])
qed

definition reset_req :: request where
  "reset_req = post_req ''/dev/reset'' None (JObj [])"

definition validate_req :: "string \<Rightarrow> request" where
  "validate_req tok = post_req ''/validate'' None (JObj [(''token'', JStr tok)])"

lemma reset_revokes_sessions_witness:
  "status (fst (requestHandler ref_platform demo_cfg 9000 (validate_req (demo_session ''uuid-aaaaa'' 5000))
     (svc (demo_serve 8000 reset_req joined)))) = Some 401"
proof (rule reset_revokes_sessions [OF ref_platform_ok reach_joined])
  show "demo_session ''uuid-aaaaa'' 5000 \<in> set (minted joined)" by (simp add: joined_def)
  show "unforged ref_platform demo_cfg 8000 reset_req joined"
    by (simp add: unforged_def reset_req_def post_req_def getBearerToken_def starts_with_def)
  show "validate_token (validate_req (demo_session ''uuid-aaaaa'' 5000)) = Some (demo_session ''uuid-aaaaa'' 5000)"
    by code_simp
qed (simp_all add: posts_def reset_req_def validate_req_def post_req_def joined_def later.now serve_def
    split_beta Let_def)

text \<open>C10. A bootstrap token is no session: in every reachable state \<open>/validate\<close> refuses it, whoever it
  was issued for and whenever.\<close>

theorem bootstrap_token_never_validates:
  assumes "platform_ok P" and "reachable P cfg y" and "clock y \<le> t"
    and "posts ''/validate'' rq" and "validate_token rq = Some (issueBootstrapJWT P cfg t0 p)"
  shows "status (fst (requestHandler P cfg t rq (svc y))) = Some 401"
proof -
  have L: "uuid_laws P" "jwt_laws P" using assms(1) by (simp_all add: platform_ok_def)
  have "rget P t (live_key c) (svc y) = None"
    if "verifyJWT P cfg t (issueBootstrapJWT P cfg t0 p) = Some c" for c
    using verify_signed [OF L(2) that [unfolded issueBootstrapJWT_def]]
      fixed_sid_dead [OF L(1) reachable_inv [OF assms(2,1)] assms(3)]
    by (simp add: live_key_def undefined_text_def)
  then show ?thesis
    unfolding dispatch(2) [OF assms(4)] by (rule validate_refused [OF assms(5)])
qed

lemma bootstrap_token_never_validates_witness:
  "status (fst (requestHandler ref_platform demo_cfg 3100 (validate_req demo_bootstrap) (svc exchanged))) =
    Some 401"
proof (rule bootstrap_token_never_validates [OF ref_platform_ok reach_exchanged, where ?t0.0 = 3000 and
      p = "\<lparr>p_id = ''uuid-'', p_email = ''ann@example.com'', p_name = ''Ann'', p_verified = True,
            p_passkeyEnrolled = False, p_createdAt = 1000\<rparr>"])
  show "clock exchanged \<le> 3100" by (simp add: exchanged_def)
qed (code_simp+)

text \<open>C11. The token of \<open>GET /dev/demo-token\<close> verifies but is no session either: \<open>/validate\<close> refuses it in
  every reachable state.\<close>

theorem demo_token_never_validates:
  assumes "platform_ok P" and "reachable P cfg y" and "clock y \<le> t"
    and "reply_tokens (fst (handle_demo_token P cfg t0 rq0 s0)) = [tok]"
    and "posts ''/validate'' rq" and "validate_token rq = Some tok"
  shows "status (fst (requestHandler P cfg t rq (svc y))) = Some 401"
proof -
  have L: "uuid_laws P" "jwt_laws P" using assms(1) by (simp_all add: platform_ok_def)
  have "cl_sessionId c = Some ''demo-session''" if "verifyJWT P cfg t tok = Some c" for c
    using assms(4) that verify_signed [OF L(2)]
    by (fastforce simp: handle_demo_token_def jsonResponse_def List.map_filter_def)
  then have "rget P t (live_key c) (svc y) = None" if "verifyJWT P cfg t tok = Some c" for c
    using that fixed_sid_dead [OF L(1) reachable_inv [OF assms(2,1)] assms(3)]
    by (simp add: live_key_def undefined_text_def)
  then show ?thesis
    unfolding dispatch(2) [OF assms(5)] by (rule validate_refused [OF assms(6)])
qed

definition demo_token :: "int \<Rightarrow> string" where
  "demo_token t = hd (reply_tokens (fst (handle_demo_token ref_platform demo_cfg t (get_req ''/dev/demo-token'' [])
     (svc booted))))"

lemma demo_token_never_validates_witness:
  "status (fst (requestHandler ref_platform demo_cfg 9000 (validate_req (demo_token 0)) (svc joined))) = Some 401"
proof (rule demo_token_never_validates [OF ref_platform_ok reach_joined, where ?t0.0 = 0 and
      ?rq0.0 = "get_req ''/dev/demo-token'' []" and ?s0.0 = "svc booted"])
  show "clock joined \<le> 9000" by (simp add: joined_def)
qed (code_simp+)

end
