(* ===== verification/AuthProcess.thy ===== *)
theory AuthProcess
  imports AuthService
begin

text \<open>
  The request handlers with their \<open>await\<close> points. A handler is a process: each step is one effect on the
  database, on Redis or on another service, with the code up to the next \<open>await\<close>; what happens between two
  steps is up to the other requests. \<open>Fork\<close> starts work nobody waits for. \<open>run\<close> performs the steps without
  a break, and gives the handlers of \<open>AuthService\<close> back.
\<close>

section \<open>Processes\<close>

datatype 'r proc =
    Finished reply
  | Silent
  | Step "int \<Rightarrow> 'r auth_state \<Rightarrow> 'r proc \<times> 'r auth_state"
  | Fork "'r proc" "'r proc"

type_synonym ('r, 'a) action = "int \<Rightarrow> 'r auth_state \<Rightarrow> (js_error + 'a) \<times> 'r auth_state"

text \<open>Await an action: go on with its value, or handle its exception.\<close>

definition effect_or ::
  "(js_error \<Rightarrow> 'r proc) \<Rightarrow> ('r, 'a) action \<Rightarrow> (int \<Rightarrow> 'a \<Rightarrow> 'r proc) \<Rightarrow> 'r proc" where
  "effect_or h a k =
     Step (\<lambda>now s. let (r, s') = a now s in (case r of Inl e \<Rightarrow> h e | Inr x \<Rightarrow> k now x, s'))"

definition effect :: "('r, 'a) action \<Rightarrow> (int \<Rightarrow> 'a \<Rightarrow> 'r proc) \<Rightarrow> 'r proc" where
  "effect = effect_or (\<lambda>e. Finished (Rejected e))"

text \<open>An exception thrown between two awaits.\<close>

definition sync :: "js_error + 'a \<Rightarrow> ('a \<Rightarrow> 'r proc) \<Rightarrow> 'r proc" where
  "sync r k = (case r of Inl e \<Rightarrow> Finished (Rejected e) | Inr x \<Rightarrow> k x)"

text \<open>Queries, updates, and actions that cannot fail.\<close>

definition ask :: "(auth_db \<Rightarrow> js_error + 'a) \<Rightarrow> ('r, 'a) action" where
  "ask q now s = (q (db s), s)"

definition change :: "(int \<Rightarrow> auth_db \<Rightarrow> js_error + auth_db) \<Rightarrow> ('r, unit) action" where
  "change u now s = (case u now (db s) of Inl e \<Rightarrow> (Inl e, s) | Inr d \<Rightarrow> (Inr (), s\<lparr>db := d\<rparr>))"

definition act :: "(int \<Rightarrow> 'r auth_state \<Rightarrow> 'a \<times> 'r auth_state) \<Rightarrow> ('r, 'a) action" where
  "act f now s = (let (x, s') = f now s in (Inr x, s'))"

primrec run :: "'r proc \<Rightarrow> int \<Rightarrow> 'r auth_state \<Rightarrow> reply option \<times> 'r auth_state" where
  "run (Finished r) = (\<lambda>now s. (Some r, s))"
| "run Silent = (\<lambda>now s. (None, s))"
| "run (Step f) = (\<lambda>now s. let (g, s') = map_prod run id (f now s) in g now s')"
| "run (Fork c p) = (\<lambda>now s. run p now (snd (run c now s)))"

section \<open>Accounts\<close>

definition health_proc :: "'r platform \<Rightarrow> config \<Rightarrow> 'r proc" where
  "health_proc P cfg =
     effect (act (\<lambda>now s. (db_up P, s))) (\<lambda>_ up.
       Finished (jsonResponse 200
         (JObj [(''status'', JStr ''healthy''), (''service'', JStr SERVICE),
                (''language'', JStr ''TypeScript''),
                (''redis'', JStr (if redis_ready P then ''connected'' else ''disconnected'')),
                (''db'', JStr (if up then ''connected'' else ''disconnected'')),
                (''webauthn'', JObj [(''rpId'', JStr (RP_ID cfg)), (''rpName'', JStr (RP_NAME cfg)),
                                     (''origin'', JStr (ORIGIN cfg))])])))"

definition user_email_proc :: "'r platform \<Rightarrow> request \<Rightarrow> 'r proc" where
  "user_email_proc P rq =
     effect (ask (findPlayerById (uuid_in P) (nth_opt (js_split CHR ''/'' (rq_path rq)) 2))) (\<lambda>_ found.
       case found of
         None \<Rightarrow> Finished (error_reply 404 ''player not found'')
       | Some p \<Rightarrow>
           Finished (jsonResponse 200
             (JObj [(''playerId'', JStr (p_id p)), (''email'', JStr (p_email p))])))"

text \<open>The mail with the link: its token is stored first, and nobody waits for either.\<close>

definition mail_proc :: "'r platform \<Rightarrow> config \<Rightarrow> player \<Rightarrow> 'r proc" where
  "mail_proc P cfg p =
     effect (act (\<lambda>now s.
       let (token, s1) = draw P s in (token, setex P now (verify_key token) 86400 (p_id p) s1))) (\<lambda>_ token.
     effect (act (\<lambda>now s.
       let (request_id, s1) = draw P s
       in ((), s1\<lparr>outbox := (EMAIL_URL cfg @ ''/send'',
             email_envelope request_id ''system'' ''verify_email'' ''email'' (p_email p)
               (JObj [(''verification_url'', JStr (GATEWAY_URL cfg @ ''/verify?token='' @ token)),
                      (''expires_in'', JStr ''24h'')])) # outbox s1\<rparr>))) (\<lambda>_ _.
       Silent))"

definition insert_player :: "'r platform \<Rightarrow> string \<Rightarrow> string \<Rightarrow> ('r, player) action" where
  "insert_player P email name now s =
     (let (i, s1) = draw P s in
      case createPlayer (uuid_in P) now i email name (db s1) of
        Inl e \<Rightarrow> (Inl e, s1)
      | Inr (p, d) \<Rightarrow> (Inr p, s1\<lparr>db := d\<rparr>))"

definition create_proc :: "'r platform \<Rightarrow> config \<Rightarrow> string \<Rightarrow> string \<Rightarrow> 'r proc" where
  "create_proc P cfg email name =
     effect (insert_player P email name) (\<lambda>_ p.
     effect (act (\<lambda>now s. ((), ensureBankAccount P cfg p s))) (\<lambda>_ _.
       Fork (mail_proc P cfg p)
         (Finished (jsonResponse 201
            (JObj [(''registered'', JBool True),
                   (''message'', JStr ''Verification email sent. Check your inbox and click the link to activate your account.''),
                   (''email'', JStr (p_email p))])))))"

definition register_proc :: "'r platform \<Rightarrow> config \<Rightarrow> request \<Rightarrow> 'r proc" where
  "register_proc P cfg rq =
     (case parse_body (rq_body rq) of
        None \<Rightarrow> Finished (error_reply 400 ''invalid JSON'')
      | Some data \<Rightarrow>
          sync (js_prop data ''email'') (\<lambda>email_v.
          sync (js_trim_method (js_nullish email_v (JStr []))) (\<lambda>email_t.
          sync (js_prop data ''name'') (\<lambda>name_v.
          sync (js_trim_method (js_nullish name_v (JStr []))) (\<lambda>name.
            let email = js_lower email_t in
            if email = [] \<or> name = [] then Finished (error_reply 400 ''email and name required'')
            else if \<not> email_regex email then Finished (error_reply 400 ''invalid email address'')
            else
              effect (ask (\<lambda>d. Inr (findPlayerByEmail email d))) (\<lambda>_ found.
                if found \<noteq> None then Finished (error_reply 409 ''email already registered'')
                else create_proc P cfg email name))))))"

definition invalid_link :: "config \<Rightarrow> string \<Rightarrow> reply" where
  "invalid_link cfg msg = htmlResponse 400 (errorPage msg (UI_URL cfg))"

definition verified_proc :: "'r platform \<Rightarrow> config \<Rightarrow> string \<Rightarrow> 'r proc" where
  "verified_proc P cfg playerId =
     effect (change (\<lambda>now. markPlayerVerified (uuid_in P) playerId)) (\<lambda>_ _.
     effect (act (\<lambda>now s.
       let (code, s1) = draw P s in (code, setex P now (exchange_key code) 60 playerId s1))) (\<lambda>_ code.
       Finished (Reply 302 [(''Location'', UI_URL cfg @ ''?exchange='' @ code)] NoBody)))"

definition verify_token_proc :: "'r platform \<Rightarrow> config \<Rightarrow> request \<Rightarrow> 'r proc" where
  "verify_token_proc P cfg rq =
     (case map_of (rq_query rq) ''token'' of
        None \<Rightarrow> Finished (invalid_link cfg ''Missing verification token.'')
      | Some token \<Rightarrow>
          if token = [] then Finished (invalid_link cfg ''Missing verification token.'')
          else
            effect (act (\<lambda>now. getdel P now (verify_key token))) (\<lambda>_ taken.
              case taken of
                None \<Rightarrow> Finished (invalid_link cfg ''Verification link is invalid or has already been used.'')
              | Some playerId \<Rightarrow>
                  if playerId = []
                  then Finished (invalid_link cfg ''Verification link is invalid or has already been used.'')
                  else
                    effect (ask (findPlayerById (uuid_in P) (Some playerId))) (\<lambda>_ found.
                      case found of
                        None \<Rightarrow> Finished (invalid_link cfg ''Account not found.'')
                      | Some _ \<Rightarrow>
                          verified_proc P cfg playerId)))"

text \<open>An exchange once the code is taken, and from its start.\<close>

definition redeem_proc :: "'r platform \<Rightarrow> config \<Rightarrow> string option \<Rightarrow> 'r proc" where
  "redeem_proc P cfg taken =
     (case taken of
        None \<Rightarrow> Finished (error_reply 401 ''invalid or expired exchange code'')
      | Some playerId \<Rightarrow>
          if playerId = [] then Finished (error_reply 401 ''invalid or expired exchange code'')
          else
            effect (ask (findPlayerById (uuid_in P) (Some playerId))) (\<lambda>now found.
              case found of
                None \<Rightarrow> Finished (error_reply 404 ''player not found'')
              | Some p \<Rightarrow>
                  Finished (jsonResponse 200
                    (JObj [(''bootstrapToken'', JStr (issueBootstrapJWT P cfg now p)),
                           (''requiresEnrollment'', JBool True),
                           (''playerId'', JStr (p_id p)), (''playerName'', JStr (p_name p)),
                           (''email'', JStr (p_email p))]))))"

definition exchange_proc :: "'r platform \<Rightarrow> config \<Rightarrow> request \<Rightarrow> 'r proc" where
  "exchange_proc P cfg rq =
     (case parse_body (rq_body rq) of
        None \<Rightarrow> Finished (error_reply 400 ''invalid JSON'')
      | Some data \<Rightarrow>
          sync (js_prop data ''code'') (\<lambda>code.
            effect (act (\<lambda>now. getdel P now (exchange_key (js_to_string (js_nullish code (JStr []))))))
              (\<lambda>_. redeem_proc P cfg)))"

section \<open>Passkeys\<close>

definition guard_proc ::
  "'r platform \<Rightarrow> config \<Rightarrow> int \<Rightarrow> request \<Rightarrow> (string option \<Rightarrow> player \<Rightarrow> 'r proc) \<Rightarrow> 'r proc" where
  "guard_proc P cfg now rq k =
     (case Option.bind (getBearerToken rq) (\<lambda>t. if t = [] then None else verifyJWT P cfg now t) of
        None \<Rightarrow> Finished (error_reply 401 ''authentication required'')
      | Some payload \<Rightarrow>
          if cl_scope payload \<noteq> Some ''enroll'' \<and> cl_scope payload \<noteq> Some ''session''
          then Finished (error_reply 403 ''invalid token scope for passkey registration'')
          else
            effect (ask (findPlayerById (uuid_in P) (cl_sub payload))) (\<lambda>_ found.
              case found of
                None \<Rightarrow> Finished (error_reply 404 ''player not found'')
              | Some p \<Rightarrow> k (cl_scope payload) p))"

definition challenge_proc :: "string option \<Rightarrow> ceremony \<Rightarrow> string \<times> json \<Rightarrow> 'r proc" where
  "challenge_proc owner ty co =
     effect (change (\<lambda>now. storeChallenge now (fst co) owner ty)) (\<lambda>_ _.
       Finished (jsonResponse 200 (snd co)))"

definition register_begin_proc :: "'r platform \<Rightarrow> config \<Rightarrow> int \<Rightarrow> request \<Rightarrow> 'r proc" where
  "register_begin_proc P cfg now rq =
     guard_proc P cfg now rq (\<lambda>scope p.
       effect (ask (\<lambda>d. Inr (getCredentialsByPlayerId (p_id p) d))) (\<lambda>_ existingCreds.
       effect (act (\<lambda>now s.
         (generateRegistrationOptions P (rand s)
            \<lparr>ro_rpName = RP_NAME cfg, ro_rpID = RP_ID cfg, ro_userName = p_email p,
             ro_userDisplayName = p_name p, ro_attestationType = ''none'',
             ro_excludeCredentials = map (\<lambda>c. (c_credentialId c, c_transports c)) existingCreds,
             ro_residentKey = ''preferred'', ro_userVerification = ''preferred''\<rparr>,
          s\<lparr>rand := Suc (rand s)\<rparr>))) (\<lambda>_.
       challenge_proc (Some (p_id p)) Registration)))"

text \<open>The \<open>try\<close> block: its three statements are three awaits.\<close>

definition answer_400 :: "'r platform \<Rightarrow> js_error \<Rightarrow> 'r proc" where
  "answer_400 P e = Finished (error_reply 400 (error_message P e))"

definition session_proc ::
  "'r platform \<Rightarrow> config \<Rightarrow> (string \<times> json) list \<Rightarrow> player \<Rightarrow> 'r proc" where
  "session_proc P cfg extra p =
     effect (act (\<lambda>now. createSession P now (p_id p))) (\<lambda>now sessionId.
       Finished (session_reply extra (issueSessionJWT P cfg now p sessionId) p))"

definition enroll_proc ::
  "'r platform \<Rightarrow> config \<Rightarrow> string option \<Rightarrow> player \<Rightarrow> json \<Rightarrow> json option \<Rightarrow> string \<Rightarrow> 'r proc" where
  "enroll_proc P cfg scope p credential response challenge =
     (case verifyRegistrationResponse P credential challenge (ORIGIN cfg) (RP_ID cfg) of
        RegThrows m \<Rightarrow> Finished (error_reply 400 m)
      | RegResult verified None \<Rightarrow> Finished (error_reply 400 ''passkey verification failed'')
      | RegResult verified (Some info) \<Rightarrow>
          if \<not> verified then Finished (error_reply 400 ''passkey verification failed'')
          else
            (case js_prop_opt response ''transports'' of
               Inl e \<Rightarrow> answer_400 P e
             | Inr tv \<Rightarrow>
                 (case pg_text_array P (js_nullish tv (JArr [])) of
                    None \<Rightarrow> answer_400 P (DbError InvalidArray)
                  | Some transports \<Rightarrow>
                      effect_or (answer_400 P) (change (\<lambda>now. saveCredential
                        \<lparr>c_credentialId = ri_credentialID info, c_playerId = p_id p,
                         c_publicKey = ri_credentialPublicKey info, c_counter = ri_counter info,
                         c_deviceType = ri_credentialDeviceType info,
                         c_backedUp = ri_credentialBackedUp info, c_transports = transports\<rparr>)) (\<lambda>_ _.
                      effect_or (answer_400 P) (change (\<lambda>now. markPasskeyEnrolled (uuid_in P) (p_id p))) (\<lambda>_ _.
                        if scope = Some ''enroll'' then session_proc P cfg [(''verified'', JBool True)] p
                        else Finished (jsonResponse 200 (JObj [(''verified'', JBool True)])))))))"

definition take_challenge_act :: "string option \<Rightarrow> ceremony \<Rightarrow> ('r, string option) action" where
  "take_challenge_act ch ty =
     act (\<lambda>now s. let (owner, d) = consumeChallenge now ch ty (db s) in (owner, s\<lparr>db := d\<rparr>))"

definition register_complete_proc :: "'r platform \<Rightarrow> config \<Rightarrow> int \<Rightarrow> request \<Rightarrow> 'r proc" where
  "register_complete_proc P cfg now rq =
     guard_proc P cfg now rq (\<lambda>scope p.
       case JSON_parse (rq_body rq) of
         None \<Rightarrow> Finished (error_reply 400 ''invalid JSON'')
       | Some credential \<Rightarrow>
           sync (js_prop credential ''response'') (\<lambda>response.
           sync (js_prop_opt response ''clientDataJSON'') (\<lambda>cdj.
           sync (decodeClientDataChallenge P cdj) (\<lambda>challenge.
             effect (take_challenge_act (pg_text P challenge) Registration) (\<lambda>_ storedPlayer.
               if storedPlayer \<noteq> Some (p_id p) \<or> storedPlayer = Some []
               then Finished (error_reply 400 ''invalid or expired challenge'')
               else enroll_proc P cfg scope p credential response
                      (case pg_text P challenge of None \<Rightarrow> [] | Some c \<Rightarrow> c))))))"

text \<open>Without an address nothing is asked of the database.\<close>

definition login_begin_proc :: "'r platform \<Rightarrow> config \<Rightarrow> request \<Rightarrow> 'r proc" where
  "login_begin_proc P cfg rq =
     (case parse_body (rq_body rq) of
        None \<Rightarrow> Finished (error_reply 400 ''invalid JSON'')
      | Some data \<Rightarrow>
          sync (js_prop data ''email'') (\<lambda>email_v.
          sync (js_trim_method (js_nullish email_v (JStr []))) (\<lambda>email_t.
            let email = js_lower email_t in
            effect (ask (\<lambda>d. Inr (if email = [] then None else findPlayerByEmail email d))) (\<lambda>_ found.
            effect (ask (\<lambda>d. Inr (case found of
                None \<Rightarrow> []
              | Some p \<Rightarrow> map (\<lambda>c. (c_credentialId c, c_transports c)) (getCredentialsByPlayerId (p_id p) d))))
              (\<lambda>_ allowCredentials.
            effect (act (\<lambda>now s.
              (generateAuthenticationOptions P (rand s)
                 \<lparr>ao_rpID = RP_ID cfg, ao_allowCredentials = allowCredentials,
                  ao_userVerification = ''preferred''\<rparr>,
               s\<lparr>rand := Suc (rand s)\<rparr>))) (\<lambda>_.
            challenge_proc (map_option p_id found) Authentication))))))"

definition grant_proc ::
  "'r platform \<Rightarrow> config \<Rightarrow> player \<Rightarrow> stored_credential \<Rightarrow> json \<Rightarrow> string \<Rightarrow> 'r proc" where
  "grant_proc P cfg p cred assertion challenge =
     (case verifyAuthenticationResponse P assertion challenge (ORIGIN cfg) (RP_ID cfg)
             \<lparr>au_credentialID = c_credentialId cred, au_credentialPublicKey = c_publicKey cred,
              au_counter = c_counter cred, au_transports = c_transports cred\<rparr> of
        AuthThrows m \<Rightarrow> Finished (error_reply 401 m)
      | AuthResult verified newCounter \<Rightarrow>
          if \<not> verified then Finished (error_reply 401 ''passkey verification failed'')
          else
            effect (change (\<lambda>now d. Inr (updateCredentialCounter (c_credentialId cred) newCounter d))) (\<lambda>_ _.
            session_proc P cfg [] p))"

definition login_complete_proc :: "'r platform \<Rightarrow> config \<Rightarrow> request \<Rightarrow> 'r proc" where
  "login_complete_proc P cfg rq =
     (case JSON_parse (rq_body rq) of
        None \<Rightarrow> Finished (error_reply 400 ''invalid JSON'')
      | Some assertion \<Rightarrow>
          sync (js_prop assertion ''response'') (\<lambda>response.
          sync (js_prop_opt response ''clientDataJSON'') (\<lambda>cdj.
          sync (decodeClientDataChallenge P cdj) (\<lambda>challenge.
            effect (take_challenge_act (pg_text P challenge) Authentication) (\<lambda>_ taken.
              case taken of
                None \<Rightarrow> Finished (error_reply 400 ''invalid or expired challenge'')
              | Some playerId \<Rightarrow>
                  if playerId = [] then Finished (error_reply 400 ''invalid or expired challenge'')
                  else
                    sync (js_prop assertion ''id'') (\<lambda>cred_id.
                    effect (ask (\<lambda>d. Inr (getCredentialById (pg_text P cred_id) d))) (\<lambda>_ stored.
                      case stored of
                        None \<Rightarrow>
                          Finished (error_reply 401 ''credential not found or belongs to different account'')
                      | Some cred \<Rightarrow>
                          if c_playerId cred \<noteq> playerId
                          then Finished (error_reply 401 ''credential not found or belongs to different account'')
                          else
                            effect (ask (findPlayerById (uuid_in P) (Some playerId))) (\<lambda>_ found.
                              case found of
                                None \<Rightarrow> Finished (error_reply 404 ''player not found'')
                              | Some p \<Rightarrow>
                                  grant_proc P cfg p cred assertion
                                    (case pg_text P challenge of None \<Rightarrow> [] | Some c \<Rightarrow> c)))))))))"

section \<open>The remaining routes\<close>

definition validate_proc :: "'r platform \<Rightarrow> config \<Rightarrow> int \<Rightarrow> request \<Rightarrow> 'r proc" where
  "validate_proc P cfg now rq =
     (case parse_body (rq_body rq) of
        None \<Rightarrow> Finished (error_reply 400 ''invalid JSON'')
      | Some data \<Rightarrow>
          sync (js_prop data ''token'') (\<lambda>token_v.
            case (case js_nullish token_v (JStr []) of JStr t \<Rightarrow> verifyJWT P cfg now t | _ \<Rightarrow> None) of
              None \<Rightarrow> Finished (error_reply 401 ''invalid or expired token'')
            | Some payload \<Rightarrow>
                effect (act (\<lambda>now s. (validateSession P now (cl_sub payload) (cl_sessionId payload) s, s)))
                  (\<lambda>_ valid.
                  if \<not> valid then Finished (error_reply 401 ''session expired or revoked'')
                  else
                    Finished (jsonResponse 200
                      (jobj [(''valid'', Some (JBool True)),
                             (''playerId'', map_option JStr (cl_sub payload)),
                             (''email'', map_option JStr (cl_email payload)),
                             (''name'', map_option JStr (cl_name payload)),
                             (''scope'', Some (JStr (case cl_scope payload of None \<Rightarrow> ''session'' | Some c \<Rightarrow> c))),
                             (''expiresAt'', Some (JStr (toISOString
                                ((case cl_exp payload of None \<Rightarrow> 0 | Some e \<Rightarrow> e) * 1000))))])))))"

definition receipt_proc :: "'r platform \<Rightarrow> config \<Rightarrow> player \<Rightarrow> tx_data \<Rightarrow> 'r proc" where
  "receipt_proc P cfg p tx =
     effect (act (\<lambda>now s. ((), sendTransactionReceipt P cfg p tx s))) (\<lambda>_ _. Silent)"

definition notify_proc :: "'r platform \<Rightarrow> config \<Rightarrow> request \<Rightarrow> 'r proc" where
  "notify_proc P cfg rq =
     (case parse_body (rq_body rq) of
        None \<Rightarrow> Finished (error_reply 400 ''invalid JSON'')
      | Some data \<Rightarrow>
          sync (js_prop data ''playerId'') (\<lambda>pid.
          effect (ask (\<lambda>d. case js_nullish pid (JStr []) of
                   JStr i \<Rightarrow> findPlayerById (uuid_in P) (Some i) d
                 | _ \<Rightarrow> Inl (DbError InvalidUuid))) (\<lambda>_ found.
            case found of
              None \<Rightarrow> Finished (error_reply 404 ''player not found'')
            | Some p \<Rightarrow>
                sync (js_prop data ''transactionId'') (\<lambda>t1.
                sync (js_prop data ''amount'') (\<lambda>t2.
                sync (js_prop data ''type'') (\<lambda>t3.
                sync (js_prop data ''timestamp'') (\<lambda>t4.
                sync (js_prop data ''balanceAfter'') (\<lambda>t5.
                  Fork (receipt_proc P cfg p
                     \<lparr>tx_transactionId = t1, tx_amount = t2, tx_type = t3, tx_timestamp = t4,
                      tx_balanceAfter = t5\<rparr>)
                    (Finished (jsonResponse 202 (JObj [(''queued'', JBool True)])))))))))))"

definition policy_proc :: "request \<Rightarrow> 'r proc" where
  "policy_proc rq =
     (case parse_body (rq_body rq) of
        None \<Rightarrow> Finished (Rejected SyntaxError)
      | Some data \<Rightarrow>
          sync (js_prop data ''playerId'') (\<lambda>pid.
          sync (js_prop data ''action'') (\<lambda>action.
            Finished (jsonResponse 200
              (jobj [(''allowed'', Some (JBool True)), (''playerId'', pid), (''action'', action),
                     (''stub'', Some (JBool True))])))))"

definition demo_token_proc :: "'r platform \<Rightarrow> config \<Rightarrow> int \<Rightarrow> 'r proc" where
  "demo_token_proc P cfg now =
     Finished (jsonResponse 200
       (JObj [(''accessToken'', JStr (jwt_sign P
                 \<lparr>cl_sub = Some DEMO_PLAYER_ID, cl_email = Some ''demo@tca-blackjack.local'',
                  cl_name = Some ''Player 1'', cl_scope = Some ''session'',
                  cl_sessionId = Some ''demo-session'', cl_iss = Some ''tca-blackjack'', cl_exp = None\<rparr>
                 (JWT_SECRET cfg) (24 * 60 * 60) now)),
              (''playerId'', JStr DEMO_PLAYER_ID)]))"

text \<open>Three statements and a command; \<open>CASCADE\<close> empties the referring tables with the players.\<close>

definition truncate_challenges :: "auth_db \<Rightarrow> auth_db" where
  "truncate_challenges d = d\<lparr>webauthn_challenges := []\<rparr>"

definition truncate_credentials :: "auth_db \<Rightarrow> auth_db" where
  "truncate_credentials d = d\<lparr>passkey_credentials := []\<rparr>"

definition truncate_players :: "auth_db \<Rightarrow> auth_db" where
  "truncate_players d = d\<lparr>players := [], passkey_credentials := [], webauthn_challenges := []\<rparr>"

definition reset_proc :: "'r platform \<Rightarrow> 'r proc" where
  "reset_proc P =
     effect (change (\<lambda>now d. Inr (truncate_challenges d))) (\<lambda>_ _.
     effect (change (\<lambda>now d. Inr (truncate_credentials d))) (\<lambda>_ _.
     effect (change (\<lambda>now d. Inr (truncate_players d))) (\<lambda>_ _.
     effect (act (\<lambda>now s. ((), s\<lparr>redis := rd_flushdb (redis_of P) (redis s)\<rparr>))) (\<lambda>_ _.
       Finished (jsonResponse 200 (JObj [(''reset'', JBool True), (''service'', JStr SERVICE)]))))))"

definition request_proc :: "'r platform \<Rightarrow> config \<Rightarrow> int \<Rightarrow> request \<Rightarrow> 'r proc" where
  "request_proc P cfg now rq =
     (let m = rq_method rq; p = rq_path rq in
      if m = ''OPTIONS'' then Finished (Reply 204 cors_headers NoBody)
      else if m = ''GET'' \<and> p = ''/health'' then health_proc P cfg
      else if m = ''GET'' \<and> starts_with ''/users/'' p \<and> ends_with ''/email'' p then user_email_proc P rq
      else if m = ''POST'' \<and> p = ''/register'' then register_proc P cfg rq
      else if m = ''GET'' \<and> p = ''/verify-token'' then verify_token_proc P cfg rq
      else if m = ''POST'' \<and> p = ''/exchange'' then exchange_proc P cfg rq
      else if m = ''POST'' \<and> p = ''/passkey/register/begin'' then register_begin_proc P cfg now rq
      else if m = ''POST'' \<and> p = ''/passkey/register/complete'' then register_complete_proc P cfg now rq
      else if m = ''POST'' \<and> p = ''/passkey/login/begin'' then login_begin_proc P cfg rq
      else if m = ''POST'' \<and> p = ''/passkey/login/complete'' then login_complete_proc P cfg rq
      else if m = ''POST'' \<and> p = ''/validate'' then validate_proc P cfg now rq
      else if m = ''POST'' \<and> p = ''/notify/transaction'' then notify_proc P cfg rq
      else if m = ''POST'' \<and> p = ''/policy/check'' then policy_proc rq
      else if m = ''GET'' \<and> p = ''/dev/demo-token'' then demo_token_proc P cfg now
      else if m = ''POST'' \<and> p = ''/dev/reset'' then reset_proc P
      else Finished (error_reply 404 ''not found''))"

section \<open>Without a break\<close>

text \<open>Performed at once, the process of a request ends in the outcome of its handler.\<close>

definition ended :: "reply \<times> 'r auth_state \<Rightarrow> reply option \<times> 'r auth_state" where
  "ended out = (Some (fst out), snd out)"

lemma run_effect_or:
  "run (effect_or h a k) now s =
     (case fst (a now s) of Inl e \<Rightarrow> run (h e) | Inr x \<Rightarrow> run (k now x)) now (snd (a now s))"
  by (simp add: effect_or_def split_beta Let_def split: sum.split)

lemma run_effect [simp]:
  "run (effect a k) now s =
     (case fst (a now s) of Inl e \<Rightarrow> (Some (Rejected e), snd (a now s))
      | Inr x \<Rightarrow> run (k now x) now (snd (a now s)))"
  by (simp add: effect_def run_effect_or split: sum.split)

lemma run_sync [simp]:
  "run (sync r k) now s = (case r of Inl e \<Rightarrow> (Some (Rejected e), s) | Inr x \<Rightarrow> run (k x) now s)"
  by (simp add: sync_def split: sum.split)

lemma action_simps [simp]:
  "ask q now s = (q (db s), s)"
  "change u now s = (case u now (db s) of Inl e \<Rightarrow> (Inl e, s) | Inr d \<Rightarrow> (Inr (), s\<lparr>db := d\<rparr>))"
  "act f now s = (Inr (fst (f now s)), snd (f now s))"
  by (simp_all add: ask_def change_def act_def split_beta Let_def)

lemma ended_simps [simp]:
  "ended (r, s) = (Some r, s)"
  "ended (if b then x else y) = (if b then ended x else ended y)"
  "ended (await q s k) = (case q of Inl e \<Rightarrow> (Some (Rejected e), s) | Inr x \<Rightarrow> ended (k x))"
  by (simp_all add: ended_def await_def split: sum.split)

lemma run_mail: "snd (run (mail_proc P cfg p) now s) = sendVerificationEmail P cfg now p s"
  by (simp add: mail_proc_def sendVerificationEmail_def split_beta Let_def draw_def)

lemma run_user_email: "run (user_email_proc P rq) now s = ended (handle_user_email P cfg now rq s)"
  by (auto simp: user_email_proc_def handle_user_email_def split: sum.split option.split)

lemma run_health: "run (health_proc P cfg) now s = ended (handle_health P cfg now rq s)"
  by (simp add: health_proc_def handle_health_def)

lemma run_register: "run (register_proc P cfg rq) now s = ended (handle_register P cfg now rq s)"
  by (auto simp: register_proc_def create_proc_def handle_register_def insert_player_def split_beta Let_def draw_def run_mail
      split: sum.split option.split)

lemma run_verify_token: "run (verify_token_proc P cfg rq) now s = ended (handle_verify_token P cfg now rq s)"
  by (auto simp: verify_token_proc_def verified_proc_def handle_verify_token_def invalid_link_def split_beta Let_def draw_def
      split: sum.split option.split)

lemma run_exchange: "run (exchange_proc P cfg rq) now s = ended (handle_exchange P cfg now rq s)"
  by (auto simp: exchange_proc_def redeem_proc_def handle_exchange_def split_beta Let_def
      split: sum.split option.split)

lemma run_guard:
  "(\<And>scope p. run (k scope p) now s = ended (h scope p)) \<Longrightarrow>
    run (guard_proc P cfg now rq k) now s = ended (require_enroll_scope P cfg now rq s h)"
  by (auto simp: guard_proc_def require_enroll_scope_def split: sum.split option.split)

lemma run_challenge:
  "run (challenge_proc owner ty co) now s =
     (case storeChallenge now (fst co) owner ty (db s) of
        Inl e \<Rightarrow> (Some (Rejected e), s)
      | Inr d \<Rightarrow> (Some (jsonResponse 200 (snd co)), s\<lparr>db := d\<rparr>))"
  by (simp add: challenge_proc_def split: sum.split)

lemma run_register_begin:
  "run (register_begin_proc P cfg now rq) now s = ended (handle_passkey_register_begin P cfg now rq s)"
  unfolding register_begin_proc_def handle_passkey_register_begin_def
  by (rule run_guard) (auto simp: run_challenge split_beta Let_def split: sum.split)

lemma run_session:
  "run (session_proc P cfg x p) now s =
     (Some (session_reply x (issueSessionJWT P cfg now p (fst (createSession P now (p_id p) s))) p),
      snd (createSession P now (p_id p) s))"
  by (simp add: session_proc_def)

lemma run_enroll:
  "run (enroll_proc P cfg scope p cr resp ch) now s =
    ended (complete_registration P cfg now scope p cr resp ch s)"
  by (auto simp: enroll_proc_def complete_registration_def run_effect_or answer_400_def run_session
      split_beta Let_def split: reg_outcome.split option.split sum.split)

lemma run_register_complete:
  "run (register_complete_proc P cfg now rq) now s = ended (handle_passkey_register_complete P cfg now rq s)"
  unfolding register_complete_proc_def handle_passkey_register_complete_def
  by (rule run_guard)
    (auto simp: take_challenge_act_def run_enroll split_beta Let_def split: sum.split option.split)

lemma run_login_begin:
  "run (login_begin_proc P cfg rq) now s = ended (handle_passkey_login_begin P cfg now rq s)"
  by (auto simp: login_begin_proc_def handle_passkey_login_begin_def run_challenge split_beta Let_def
      split: sum.split option.split)

lemma run_grant:
  "run (grant_proc P cfg p cred a ch) now s = ended (complete_login P cfg now p cred a ch s)"
  by (auto simp: grant_proc_def complete_login_def run_session split_beta Let_def split: auth_outcome.split)

lemma run_login_complete:
  "run (login_complete_proc P cfg rq) now s = ended (handle_passkey_login_complete P cfg now rq s)"
  by (auto simp: login_complete_proc_def handle_passkey_login_complete_def take_challenge_act_def run_grant
      split_beta Let_def split: sum.split option.split)

lemma run_validate: "run (validate_proc P cfg now rq) now s = ended (handle_validate P cfg now rq s)"
  by (auto simp: validate_proc_def handle_validate_def split: sum.split option.split json.split)

lemma run_notify: "run (notify_proc P cfg rq) now s = ended (handle_notify_transaction P cfg now rq s)"
  by (auto simp: notify_proc_def handle_notify_transaction_def receipt_proc_def
      split: sum.split option.split)

lemma run_policy: "run (policy_proc rq) now s = ended (handle_policy_check P cfg now rq s)"
  by (auto simp: policy_proc_def handle_policy_check_def split: sum.split option.split)

lemma run_demo_token: "run (demo_token_proc P cfg now) now s = ended (handle_demo_token P cfg now rq s)"
  by (simp add: demo_token_proc_def handle_demo_token_def)

lemma run_reset: "run (reset_proc P) now s = ended (handle_dev_reset P cfg now rq s)"
  by (simp add: reset_proc_def handle_dev_reset_def truncate_challenges_def truncate_credentials_def
      truncate_players_def truncate_all_def)

lemma run_if: "run (if b then p else q) now s = (if b then run p now s else run q now s)"
  by simp

lemma processes_run:
  "run (request_proc P cfg now rq) now s = ended (requestHandler P cfg now rq s)"
  unfolding request_proc_def requestHandler_def Let_def run_if ended_simps
  by (simp only: run_health [where rq = rq] run_user_email [where cfg = cfg] run_register run_verify_token
      run_exchange run_register_begin run_register_complete run_login_begin run_login_complete run_validate
      run_notify run_policy [where P = P and cfg = cfg] run_demo_token [where rq = rq]
      run_reset [where rq = rq and cfg = cfg])
    (simp add: handle_options_def)


end
