(* ===== verification/AuthInterleave.thy ===== *)
theory AuthInterleave
  imports AuthProcess AuthSystem
begin

text \<open>
  The auth service with requests that interleave: each process of \<open>AuthProcess\<close> keeps the invariant
  \<open>inv_of False\<close> and earns the tokens it answers with, whatever the others do between two of its steps, as
  long as they keep what \<open>stable\<close> says (\<open>safe\<close>, a rely-guarantee condition on processes). One lemma per
  route, then every request.
\<close>

section \<open>Safe processes\<close>

inductive safe :: "'r platform \<Rightarrow> config \<Rightarrow> int \<Rightarrow> 'r auth_state \<Rightarrow> 'r proc \<Rightarrow> bool" for P cfg where
  finished: "(\<And>tok. tok \<in> set (reply_tokens r) \<Longrightarrow> token_of False P cfg t s tok) \<Longrightarrow> safe P cfg t s (Finished r)"
| silent: "safe P cfg t s Silent"
| step: "(\<And>now s'. t \<le> now \<Longrightarrow> inv_of False P now s' \<Longrightarrow> stable P now s s' \<Longrightarrow>
      good_of False P now s' (snd (f now s'))) \<Longrightarrow>
    (\<And>now s'. t \<le> now \<Longrightarrow> inv_of False P now s' \<Longrightarrow> stable P now s s' \<Longrightarrow>
      safe P cfg now (snd (f now s')) (fst (f now s'))) \<Longrightarrow>
    safe P cfg t s (Step f)"
| fork: "safe P cfg t s c \<Longrightarrow> safe P cfg t s p \<Longrightarrow> safe P cfg t s (Fork c p)"

inductive_cases safe_FinishedE: "safe P cfg t s (Finished r)"
inductive_cases safe_StepE: "safe P cfg t s (Step f)"
inductive_cases safe_ForkE: "safe P cfg t s (Fork c p)"

lemma safe_later:
  "safe P cfg t s p \<Longrightarrow> stable P u s s' \<Longrightarrow> t \<le> u \<Longrightarrow> safe P cfg u s' p"
proof (induction arbitrary: u s' rule: safe.induct)
  case (finished r t s)
  then show ?case by (auto intro: safe.finished token_of_stable)
next
  case (step t f s)
  note st = stable_trans [OF step.prems(1)]
  show ?case
    by (rule safe.step) (use step.hyps(1,2) step.prems(2) st in \<open>meson order_trans\<close>)+
qed (auto intro: safe.intros)

text \<open>The rules for an awaited action.\<close>

lemma safe_effect_or:
  assumes "\<And>now s'. t \<le> now \<Longrightarrow> inv_of False P now s' \<Longrightarrow> stable P now s s' \<Longrightarrow>
      good_of False P now s' (snd (a now s')) \<and>
      (\<forall>e. fst (a now s') = Inl e \<longrightarrow> safe P cfg now (snd (a now s')) (h e)) \<and>
      (\<forall>x. fst (a now s') = Inr x \<longrightarrow> safe P cfg now (snd (a now s')) (k now x))"
  shows "safe P cfg t s (effect_or h a k)"
  unfolding effect_or_def
  by (rule safe.step) (use assms in \<open>auto simp: split_beta Let_def split: sum.split\<close>)

lemma safe_plain: "reply_tokens r = [] \<Longrightarrow> safe P cfg t s (Finished r)"
  by (rule safe.finished) simp

lemma safe_effect:
  assumes "\<And>now s'. t \<le> now \<Longrightarrow> inv_of False P now s' \<Longrightarrow> stable P now s s' \<Longrightarrow>
      good_of False P now s' (snd (a now s')) \<and>
      (\<forall>x. fst (a now s') = Inr x \<longrightarrow> safe P cfg now (snd (a now s')) (k now x))"
  shows "safe P cfg t s (effect a k)"
  unfolding effect_def by (rule safe_effect_or) (use assms in \<open>auto intro: safe_plain\<close>)

lemma safe_ask:
  assumes "\<And>now s' x. t \<le> now \<Longrightarrow> inv_of False P now s' \<Longrightarrow> stable P now s s' \<Longrightarrow> q (db s') = Inr x \<Longrightarrow>
      safe P cfg now s' (k now x)"
  shows "safe P cfg t s (effect (ask q) k)"
  by (rule safe_effect) (use assms in \<open>auto intro: good_refl\<close>)

lemma safe_act:
  assumes "\<And>now s'. t \<le> now \<Longrightarrow> inv_of False P now s' \<Longrightarrow> stable P now s s' \<Longrightarrow> good_of False P now s' s' \<Longrightarrow>
      good_of False P now s' (snd (f now s')) \<and> safe P cfg now (snd (f now s')) (k now (fst (f now s')))"
  shows "safe P cfg t s (effect (act f) k)"
  by (rule safe_effect) (use assms in \<open>auto intro: good_refl\<close>)

lemma safe_change:
  assumes "\<And>now s' d. t \<le> now \<Longrightarrow> inv_of False P now s' \<Longrightarrow> stable P now s s' \<Longrightarrow> good_of False P now s' s' \<Longrightarrow>
      q now (db s') = Inr d \<Longrightarrow>
      good_of False P now s' (s'\<lparr>db := d\<rparr>) \<and> safe P cfg now (s'\<lparr>db := d\<rparr>) (k now ())"
  shows "safe P cfg t s (effect (change q) k)"
  by (rule safe_effect) (use assms in \<open>auto intro: good_refl split: sum.split\<close>)

lemma safe_sync: "(\<And>x. r = Inr x \<Longrightarrow> safe P cfg t s (k x)) \<Longrightarrow> safe P cfg t s (sync r k)"
  by (auto simp: sync_def intro: safe_plain split: sum.split)

text \<open>What a process knows of a player outlives the steps of the others.\<close>

definition trusted :: "'r platform \<Rightarrow> 'r auth_state \<Rightarrow> string \<Rightarrow> bool" where
  "trusted P s i \<longleftrightarrow> known P s i \<and> cleared s i"

lemma known_stable: "known P s i \<Longrightarrow> stable P u s s' \<Longrightarrow> known P s' i"
  by (auto simp: stable_def intro: known_mono)

lemma stable_cleared: "stable P u s s' \<Longrightarrow> known P s i \<Longrightarrow> cleared s i \<Longrightarrow> cleared s' i"
  by (simp add: stable_def)

lemma trusted_stable: "trusted P s i \<Longrightarrow> stable P u s s' \<Longrightarrow> trusted P s' i"
  unfolding trusted_def by (blast intro: known_stable dest: stable_cleared)

lemma good_stable: "good_of e P now s s' \<Longrightarrow> stable P now s s'"
  by (simp add: good_of_def)

lemma found_player:
  assumes "findPlayerById (uuid_in P) (Some i) (db s) = Inr (Some p)" and "inv_of e P now s"
    and "known P s i" and "uuid_laws P"
  shows "p_id p = i"
  using findPlayerById_known(2) [OF assms(1) good_refl [OF assms(2) order_refl] assms(3,4)] .

section \<open>The routes\<close>

lemmas no_tokens = jsonResponse_def List.map_filter_def

lemma safe_health: "safe P cfg t s (health_proc P cfg)"
  unfolding health_proc_def by (rule safe_act) (auto simp: no_tokens intro!: safe_plain)

lemma safe_user_email: "safe P cfg t s (user_email_proc P rq)"
  unfolding user_email_proc_def
  by (rule safe_ask) (auto simp: no_tokens intro!: safe_plain split: option.split)

lemma safe_mail:
  assumes P: "platform_ok P" and k: "known P s (p_id p)"
  shows "safe P cfg t s (mail_proc P cfg p)"
  unfolding mail_proc_def
proof (intro safe_act conjI)
  fix now s' assume "stable P now s s'" and g: "good_of False P now s' s'"
  let ?x = "randomUUID P (rand s')" and ?s1 = "s'\<lparr>rand := Suc (rand s')\<rparr>"
  have "known P s' (p_id p)" by (rule known_stable [OF k \<open>stable P now s s'\<close>])
  then have "key_ok P ?s1 (verify_key ?x) (p_id p)" "fresh_key P (rand s') (verify_key ?x)"
    by (auto simp: key_ok_def fresh_key_def drawn_def known_def less_Suc_eq)
  then show "good_of False P now s' (snd (let (token, s1) = draw P s'
        in (token, setex P now (verify_key token) 86400 (p_id p) s1)))"
    using good_setex [OF _ good_draw [OF g], of 86400 "verify_key ?x" "p_id p"] P
    by (simp add: draw_def platform_ok_def)
qed (auto simp: draw_def intro!: good_outbox good_draw safe.silent)

lemma insert_player_good:
  assumes P: "platform_ok P" and g: "good_of False P now s s"
  shows "good_of False P now s (snd (insert_player P email n now s)) \<and>
    (\<forall>p. fst (insert_player P email n now s) = Inr p \<longrightarrow> known P (snd (insert_player P email n now s)) (p_id p))"
proof (cases "createPlayer (uuid_in P) now (randomUUID P (rand s)) email n (db s)")
  case (Inl e)
  then show ?thesis using good_draw [OF g] by (simp add: insert_player_def draw_def)
next
  case (Inr out)
  obtain p d where pd: "out = (p, d)" by (cases out)
  have "uuid_laws P" using P by (simp add: platform_ok_def)
  from good_createPlayer [OF this g Inr [unfolded pd]] show ?thesis
    by (simp add: insert_player_def draw_def Inr pd) (auto simp: known_def)
qed

lemma safe_register:
  assumes P: "platform_ok P"
  shows "safe P cfg t s (register_proc P cfg rq)"
proof -
  have bank: "safe P cfg now s1 (effect (act (\<lambda>now s. ((), ensureBankAccount P cfg p s))) (\<lambda>_ _.
      Fork (mail_proc P cfg p) (Finished (jsonResponse 201 (JObj [(''registered'', b), (''message'', m), (''email'', e)])))))"
    if "known P s1 (p_id p)" for now s1 p b m e
  proof (rule safe_act, intro conjI)
    fix u s2 assume "stable P u s1 s2" and g: "good_of False P u s2 s2"
    show b: "good_of False P u s2 (snd ((), ensureBankAccount P cfg p s2))"
      using good_ensureBankAccount [OF g] by simp
    have "known P (ensureBankAccount P cfg p s2) (p_id p)"
      using known_stable [OF known_stable [OF that \<open>stable P u s1 s2\<close>]] good_stable [OF b] by simp
    then show "safe P cfg u (snd ((), ensureBankAccount P cfg p s2)) (Fork (mail_proc P cfg p)
        (Finished (jsonResponse 201 (JObj [(''registered'', b), (''message'', m), (''email'', e)]))))"
      using safe_mail [OF P] by (auto simp: no_tokens intro!: safe.fork safe_plain)
  qed
  have "safe P cfg now s1 (effect (insert_player P e n) (\<lambda>_ p.
      effect (act (\<lambda>now s. ((), ensureBankAccount P cfg p s))) (\<lambda>_ _.
      Fork (mail_proc P cfg p) (Finished (jsonResponse 201 (JObj [(''registered'', b), (''message'', m), (''email'', JStr (p_email p))]))))))"
    for now s1 e n b m
    by (rule safe_effect) (use insert_player_good [OF P good_refl [OF _ order_refl]] in \<open>blast intro: bank\<close>)
  then show ?thesis
    unfolding register_proc_def create_proc_def
    by (auto simp: Let_def error_reply_def no_tokens intro!: safe_sync safe_ask safe_plain split: option.split)
qed

text \<open>A taken secret: what its key stands for is known from then on.\<close>

lemma safe_getdel:
  assumes P: "platform_ok P"
    and k: "\<And>now s1 taken. \<forall>v. taken = Some v \<longrightarrow> key_ok P s1 key v \<Longrightarrow> safe P cfg now s1 (k now taken)"
  shows "safe P cfg t s (effect (act (\<lambda>now. getdel P now key)) k)"
proof (rule safe_act, intro conjI)
  fix now s' assume g: "good_of False P now s' s'"
  have R: "redis_service (redis_of P)" using P by (simp add: platform_ok_def)
  show "good_of False P now s' (snd (getdel P now key s'))" by (rule good_getdel [OF R g])
  have "key_ok P s' key v" if "fst (getdel P now key s') = Some v" for v
    using that g by (auto simp: getdel_def redis_service.getdel_fst [OF R] good_of_def inv_of_def rget_def)
  then show "safe P cfg now (snd (getdel P now key s')) (k now (fst (getdel P now key s')))"
    by (intro k) (auto simp: getdel_def key_ok_def)
qed

lemma exchange_stored:
  assumes P: "platform_ok P" and g: "good_of False P now s' s'" and k: "trusted P s' i"
  shows "good_of False P now s' (setex P now (exchange_key (randomUUID P (rand s'))) 60 i
    (s'\<lparr>rand := Suc (rand s')\<rparr>))"
proof -
  have R: "redis_service (redis_of P)" using P by (simp add: platform_ok_def)
  have "key_ok P (s'\<lparr>rand := Suc (rand s')\<rparr>) (exchange_key (randomUUID P (rand s'))) i"
    using k by (auto simp: trusted_def key_ok_def drawn_def known_def less_Suc_eq)
  then show ?thesis by (intro good_setex [OF R good_draw [OF g]]) (auto simp: fresh_key_def)
qed

lemma safe_verified:
  assumes P: "platform_ok P" and k: "known P s i"
  shows "safe P cfg t s (verified_proc P cfg i)"
  unfolding verified_proc_def
proof (rule safe_change)
  have U: "uuid_laws P" using P by (simp add: platform_ok_def)
  have code: "safe P cfg u s2 (effect (act (\<lambda>now s. let (code, s1) = draw P s
      in (code, setex P now (exchange_key code) 60 i s1))) (\<lambda>_ code.
      Finished (Reply 302 [(''Location'', UI_URL cfg @ ''?exchange='' @ code)] NoBody)))"
    if "trusted P s2 i" for u s2
    by (rule safe_act)
      (use exchange_stored [OF P] trusted_stable [OF that] in \<open>auto simp: draw_def intro!: safe_plain\<close>)
  fix u s2 d assume st: "stable P u s s2" and g: "good_of False P u s2 s2"
    and m: "markPlayerVerified (uuid_in P) i (db s2) = Inr d"
  have "good_of False P u s2 (s2\<lparr>db := d\<rparr>)" "trusted P (s2\<lparr>db := d\<rparr>) i"
    using good_markPlayerVerified [OF U g known_stable [OF k st] m] known_stable [OF k st]
    by (simp_all add: trusted_def)
  then show "good_of False P u s2 (s2\<lparr>db := d\<rparr>) \<and>
      safe P cfg u (s2\<lparr>db := d\<rparr>) (effect (act (\<lambda>now s. let (code, s1) = draw P s
        in (code, setex P now (exchange_key code) 60 i s1))) (\<lambda>_ code.
        Finished (Reply 302 [(''Location'', UI_URL cfg @ ''?exchange='' @ code)] NoBody)))"
    using code by blast
qed

lemma safe_verify_token: "platform_ok P \<Longrightarrow> safe P cfg t s (verify_token_proc P cfg rq)"
  unfolding verify_token_proc_def invalid_link_def
  by (auto simp: key_ok_def intro!: safe_getdel safe_ask safe_plain safe_verified split: option.split)
    (erule (1) known_stable)

lemma safe_redeem:
  assumes P: "platform_ok P" and k: "\<And>i. taken = Some i \<Longrightarrow> trusted P s i"
  shows "safe P cfg t s (redeem_proc P cfg taken)"
proof -
  have L: "jwt_laws P" "uuid_laws P" using P by (simp_all add: platform_ok_def)
  have "safe P cfg now s' (Finished (jsonResponse 200
      (JObj [(''bootstrapToken'', JStr (issueBootstrapJWT P cfg now p)), (''requiresEnrollment'', JBool True),
             (''playerId'', JStr (p_id p)), (''playerName'', JStr (p_name p)), (''email'', JStr (p_email p))])))"
    if "taken = Some i" "stable P now s s'" "inv_of False P now s'"
      "findPlayerById (uuid_in P) (Some i) (db s') = Inr (Some p)" for now s' i p
  proof (rule safe.finished)
    have "trusted P s' i" by (rule trusted_stable [OF k [OF that(1)] that(2)])
    then have "trusted P s' (p_id p)" using found_player [OF that(4,3) _ L(2)] by (simp add: trusted_def)
    then show "token_of False P cfg now s' tok" if "tok \<in> set (reply_tokens (jsonResponse 200
      (JObj [(''bootstrapToken'', JStr (issueBootstrapJWT P cfg now p)), (''requiresEnrollment'', JBool True),
             (''playerId'', JStr (p_id p)), (''playerName'', JStr (p_name p)), (''email'', JStr (p_email p))])))"
      for tok
      using that token_ok_bootstrap [OF L(1)] by (auto simp: no_tokens trusted_def)
  qed
  then show ?thesis
    unfolding redeem_proc_def by (auto simp: no_tokens intro!: safe_ask safe_plain split: option.split)
qed

lemma safe_exchange: "platform_ok P \<Longrightarrow> safe P cfg t s (exchange_proc P cfg rq)"
  unfolding exchange_proc_def
  by (auto simp: error_reply_def no_tokens trusted_def key_ok_def
      intro!: safe_sync safe_getdel safe_redeem safe_plain split: option.split)

text \<open>The player a registration endpoint works for.\<close>

lemma safe_guard:
  assumes P: "platform_ok P" and b: "bearer_of False P cfg t s rq"
    and k: "\<And>scope p now s'. trusted P s' (p_id p) \<Longrightarrow> safe P cfg now s' (k scope p)"
  shows "safe P cfg t s (guard_proc P cfg t rq k)"
proof -
  have U: "uuid_laws P" using P by (simp add: platform_ok_def)
  have "safe P cfg now s' (k scope p)"
    if tk: "getBearerToken rq = Some tok" "verifyJWT P cfg t tok = Some c" and st: "stable P now s s'"
      and inv: "inv_of False P now s'" and f: "findPlayerById (uuid_in P) (cl_sub c) (db s') = Inr (Some p)"
    for tok c p scope now s'
  proof (rule k)
    obtain i where i: "cl_sub c = Some i" using findPlayerById_param [OF f] by blast
    have "i \<noteq> DEMO_PLAYER_ID" using findPlayerById_SomeD [OF f [unfolded i]] U by (auto simp: uuid_laws_def)
    then have "trusted P s i" using b tk i by (auto simp: bearer_of_def claims_of_def trusted_def)
    then have "trusted P s' i" by (rule trusted_stable [OF _ st])
    moreover have "p_id p = i" using found_player [OF f [unfolded i] inv _ U] calculation by (simp add: trusted_def)
    ultimately show "trusted P s' (p_id p)" by simp
  qed
  then show ?thesis
    by (auto simp: guard_proc_def bind_eq_Some_conv intro!: safe_ask safe_plain split: option.split if_splits)
qed

lemma safe_challenge:
  assumes "\<And>n. reply_tokens (jsonResponse n (snd co)) = []"
  shows "safe P cfg t s (challenge_proc owner ty co)"
  unfolding challenge_proc_def
  by (rule safe_change) (use assms in \<open>auto intro!: safe_plain good_storeChallenge\<close>)

lemma safe_register_begin:
  assumes P: "platform_ok P" and b: "bearer_of False P cfg t s rq"
  shows "safe P cfg t s (register_begin_proc P cfg t rq)"
proof -
  have "reply_tokens (jsonResponse n (snd (generateRegistrationOptions P m a))) = []" for n m a
    using P by (simp add: platform_ok_def options_laws_def jsonResponse_def List.map_filter_def)
  then show ?thesis
    unfolding register_begin_proc_def
    by (intro safe_guard [OF P b] safe_ask safe_act) (auto intro!: safe_challenge good_draw)
qed

lemma safe_session:
  assumes P: "platform_ok P" and k: "trusted P s (p_id p)"
    and x: "map_of x ''accessToken'' = None" "map_of x ''bootstrapToken'' = None"
  shows "safe P cfg t s (session_proc P cfg x p)"
  unfolding session_proc_def
proof (rule safe_act, intro conjI)
  have L: "redis_service (redis_of P)" "jwt_laws P" using P by (simp_all add: platform_ok_def)
  fix now s' assume st: "stable P now s s'" and g: "good_of False P now s' s'"
  obtain sid s1 where c: "createSession P now (p_id p) s' = (sid, s1)" by fastforce
  show g1: "good_of False P now s' (snd (createSession P now (p_id p) s'))"
    using good_createSession [OF L(1) g c] by (simp add: c)
  have "trusted P s1 (p_id p)"
    using trusted_stable [OF trusted_stable [OF k st] good_stable [OF g1]] by (simp add: c)
  moreover have "drawn P s1 sid" using createSession_state [OF c] by (auto simp: drawn_def)
  ultimately have "token_of False P cfg now s1 (issueSessionJWT P cfg now p sid)"
    by (intro token_ok_session [OF L(2)]) (auto simp: trusted_def)
  then show "safe P cfg now (snd (createSession P now (p_id p) s'))
      (Finished (session_reply x (issueSessionJWT P cfg now p (fst (createSession P now (p_id p) s'))) p))"
    using x by (auto simp: c session_reply_def no_tokens map_add_def intro!: safe.finished split: option.splits)
qed

text \<open>An update on behalf of a trusted player.\<close>

lemma safe_update:
  assumes i: "trusted P s i" and h: "\<And>e u s'. safe P cfg u s' (h e)"
    and q: "\<And>now s' d. trusted P s' i \<Longrightarrow> good_of False P now s' s' \<Longrightarrow> q now (db s') = Inr d \<Longrightarrow>
      good_of False P now s' (s'\<lparr>db := d\<rparr>)"
    and k: "\<And>now s'. trusted P s' i \<Longrightarrow> safe P cfg now s' (k now ())"
  shows "safe P cfg t s (effect_or h (change q) k)"
proof (rule safe_effect_or)
  fix now s' assume st: "stable P now s s'" and "inv_of False P now s'"
  then have g: "good_of False P now s' s'" by (intro good_refl [OF _ order_refl])
  have i': "trusted P s' i" by (rule trusted_stable [OF i st])
  have ok: "good_of False P now s' (s'\<lparr>db := d\<rparr>)" "safe P cfg now (s'\<lparr>db := d\<rparr>) (k now ())"
    if "q now (db s') = Inr d" for d
    using q [OF i' g that] k trusted_stable [OF i' good_stable] by blast+
  show "good_of False P now s' (snd (change q now s')) \<and>
      (\<forall>e. fst (change q now s') = Inl e \<longrightarrow> safe P cfg now (snd (change q now s')) (h e)) \<and>
      (\<forall>x. fst (change q now s') = Inr x \<longrightarrow> safe P cfg now (snd (change q now s')) (k now x))"
    using g ok h by (simp split: sum.split)
qed

lemma safe_answer_400 [simp]: "safe P cfg t s (answer_400 P e)"
  by (simp add: answer_400_def safe_plain)

lemma safe_enroll:
  assumes P: "platform_ok P" and k: "trusted P s (p_id p)"
  shows "safe P cfg t s (enroll_proc P cfg scope p cr resp ch)"
proof -
  have U: "uuid_laws P" using P by (simp add: platform_ok_def)
  let ?rest = "\<lambda>_ _. if scope = Some ''enroll'' then session_proc P cfg [(''verified'', JBool True)] p
    else Finished (jsonResponse 200 (JObj [(''verified'', JBool True)]))"
  let ?mark = "\<lambda>_ _. effect_or (answer_400 P) (change (\<lambda>now. markPasskeyEnrolled (uuid_in P) (p_id p))) ?rest"
  have rest: "safe P cfg u s2 (?rest n x)" if "trusted P s2 (p_id p)" for u s2 and n :: int and x :: unit
    using safe_session [OF P that] by (auto simp: no_tokens intro!: safe_plain)
  have mark: "safe P cfg u s2 (?mark n x)" if "trusted P s2 (p_id p)" for u s2 and n :: int and x :: unit
    by (rule safe_update [OF that]) (use rest good_markPasskeyEnrolled [OF U] in \<open>auto simp: trusted_def\<close>)
  have "safe P cfg t s (effect_or (answer_400 P) (change (\<lambda>now. saveCredential c)) ?mark)"
    if "c_playerId c = p_id p" for c
  proof (rule safe_update [OF k])
    show "good_of False P now s' (s'\<lparr>db := d\<rparr>)"
      if "trusted P s' (p_id p)" "good_of False P now s' s'" "saveCredential c (db s') = Inr d" for now s' d
      using good_saveCredential [OF that(2) _ that(3)] that(1) \<open>c_playerId c = p_id p\<close>
      by (simp add: trusted_def)
  qed (simp_all add: mark)
  then show ?thesis
    unfolding enroll_proc_def
    by (auto intro!: safe_plain split: reg_outcome.split option.split sum.split)
qed

lemma safe_take_challenge:
  assumes "\<And>now s' owner. stable P now s s' \<Longrightarrow> safe P cfg now s' (k now owner)"
  shows "safe P cfg t s (effect (take_challenge_act ch ty) k)"
  unfolding take_challenge_act_def
proof (rule safe_act, intro conjI)
  fix now s' assume st: "stable P now s s'" and g: "good_of False P now s' s'"
  let ?s1 = "s'\<lparr>db := snd (consumeChallenge now ch ty (db s'))\<rparr>"
  show g1: "good_of False P now s' (snd (let (owner, d) = consumeChallenge now ch ty (db s') in (owner, s'\<lparr>db := d\<rparr>)))"
    using good_consumeChallenge [OF g] by (simp add: split_beta)
  show "safe P cfg now (snd (let (owner, d) = consumeChallenge now ch ty (db s') in (owner, s'\<lparr>db := d\<rparr>)))
      (k now (fst (let (owner, d) = consumeChallenge now ch ty (db s') in (owner, s'\<lparr>db := d\<rparr>))))"
    by (rule assms) (rule stable_trans [OF st good_stable [OF g1] order_refl])
qed

lemma safe_register_complete:
  assumes P: "platform_ok P" and b: "bearer_of False P cfg t s rq"
  shows "safe P cfg t s (register_complete_proc P cfg t rq)"
  unfolding register_complete_proc_def
  by (rule safe_guard [OF P b])
    (auto intro!: safe_sync safe_take_challenge safe_enroll [OF P] safe_plain split: option.split,
      (erule (1) trusted_stable)+)

lemma safe_login_begin:
  assumes P: "platform_ok P"
  shows "safe P cfg t s (login_begin_proc P cfg rq)"
proof -
  have O: "reply_tokens (jsonResponse n (snd (generateAuthenticationOptions P m a))) = []" for n m a
    using P by (simp add: platform_ok_def options_laws_def jsonResponse_def List.map_filter_def)
  have "safe P cfg u s' (effect (act (\<lambda>now s. (generateAuthenticationOptions P (rand s) a, s\<lparr>rand := Suc (rand s)\<rparr>)))
      (\<lambda>_. challenge_proc owner Authentication))" for u s' a owner
    by (rule safe_act) (auto intro!: safe_challenge O good_draw)
  then show ?thesis
    unfolding login_begin_proc_def
    by (auto simp: Let_def intro!: safe_sync safe_ask safe_plain split: option.split)
qed

lemma safe_grant:
  assumes P: "platform_ok P" and k: "trusted P s (p_id p)"
  shows "safe P cfg t s (grant_proc P cfg p cred a ch)"
proof -
  have "safe P cfg t s (effect (change (\<lambda>now d. Inr (updateCredentialCounter i n d))) (\<lambda>_ _. session_proc P cfg [] p))"
    for i n
    unfolding effect_def
    by (rule safe_update [OF k])
      (auto intro!: safe_plain good_updateCredentialCounter safe_session [OF P])
  then show ?thesis
    unfolding grant_proc_def by (auto intro!: safe_plain split: auth_outcome.split)
qed

lemma credential_trusted:
  assumes "getCredentialById v (db s) = Some c" and i: "inv_of False P now s"
  shows "trusted P s (c_playerId c)"
proof -
  obtain r where "r \<in> set (passkey_credentials (db s))" "c_playerId c = k_player_id r"
    using assms(1) by (auto simp: getCredentialById_def rowToCredential_def split: option.splits dest!: find_SomeD)
  then show ?thesis using i by (auto simp: trusted_def inv_of_def db_inv_def)
qed

lemma safe_login_complete:
  assumes P: "platform_ok P"
  shows "safe P cfg t s (login_complete_proc P cfg rq)"
proof -
  have U: "uuid_laws P" using P by (simp add: platform_ok_def)
  have "safe P cfg v s3 (grant_proc P cfg p c a ch)"
    if "getCredentialById w (db s2) = Some c" "inv_of False P u s2" "stable P v s2 s3" "inv_of False P v s3"
      "findPlayerById (uuid_in P) (Some (c_playerId c)) (db s3) = Inr (Some p)" for u v s2 s3 w c p a ch
  proof (rule safe_grant [OF P])
    have "trusted P s3 (c_playerId c)" by (rule trusted_stable [OF credential_trusted [OF that(1,2)] that(3)])
    then show "trusted P s3 (p_id p)" using found_player [OF that(5,4) _ U] by (simp add: trusted_def)
  qed
  then show ?thesis
    unfolding login_complete_proc_def
    by (auto intro!: safe_sync safe_take_challenge safe_ask safe_plain split: option.split)
qed

lemma map_of_jobj:
  "k \<notin> fst ` set ps \<Longrightarrow> map_of (List.map_filter (\<lambda>(k, v). map_option (Pair k) v) ps) k = None"
  by (induction ps) (auto simp: List.map_filter_simps split: option.split)

lemma tokens_jobj:
  assumes "''accessToken'' \<notin> fst ` set ps" "''bootstrapToken'' \<notin> fst ` set ps"
  shows "reply_tokens (jsonResponse n (jobj ps)) = []"
proof -
  have "reply_tokens (jsonResponse n (jobj ps)) = List.map_filter
      (\<lambda>k. case js_prop (jobj ps) k of Inr (Some (JStr t)) \<Rightarrow> Some t | _ \<Rightarrow> None) [''accessToken'', ''bootstrapToken'']"
    by (simp add: jsonResponse_def)
  then show ?thesis
    using map_of_jobj [OF assms(1)] map_of_jobj [OF assms(2)] by (simp add: jobj_def List.map_filter_simps)
qed

lemma safe_validate: "safe P cfg t s (validate_proc P cfg t' rq)"
  unfolding validate_proc_def
  by (auto intro!: safe_sync safe_act safe_plain tokens_jobj split: option.split json.split)

lemma safe_notify: "safe P cfg t s (notify_proc P cfg rq)"
  unfolding notify_proc_def receipt_proc_def
  by (auto simp: no_tokens intro!: safe_sync safe_ask safe_act safe_plain safe.fork safe.silent
      good_sendTransactionReceipt split: option.split json.split)

lemma safe_policy: "safe P cfg t s (policy_proc rq)"
  unfolding policy_proc_def by (auto intro!: safe_sync safe_plain tokens_jobj split: option.split)

lemma safe_demo_token: "platform_ok P \<Longrightarrow> safe P cfg t s (demo_token_proc P cfg now)"
  using verify_signed [of P]
  by (fastforce simp: demo_token_proc_def no_tokens token_of_def claims_of_def platform_ok_def
      intro!: safe.finished)

lemma good_truncate:
  assumes g: "good_of e P now s s"
  shows "good_of e P now s (s\<lparr>db := truncate_challenges (db s)\<rparr>)"
    and "good_of e P now s (s\<lparr>db := truncate_credentials (db s)\<rparr>)"
    and "good_of e P now s (s\<lparr>db := truncate_players (db s)\<rparr>)"
proof -
  have d: "db_inv (db s)" by (rule good_db_inv [OF g])
  show "good_of e P now s (s\<lparr>db := truncate_challenges (db s)\<rparr>)"
    by (rule good_db [OF g]) (use d in \<open>auto simp: truncate_challenges_def db_inv_def player_ids_def\<close>)
  show "good_of e P now s (s\<lparr>db := truncate_credentials (db s)\<rparr>)"
    by (rule good_db [OF g]) (use d in \<open>auto simp: truncate_credentials_def db_inv_def player_ids_def\<close>)
  show "good_of e P now s (s\<lparr>db := truncate_players (db s)\<rparr>)"
    by (rule good_step [OF g]) (auto simp: truncate_players_def cleared_def enrolled_def player_ids_def)
qed

lemma good_flush:
  assumes R: "redis_service (redis_of P)" and g: "good_of e P now s0 s"
  shows "good_of e P now s0 (s\<lparr>redis := rd_flushdb (redis_of P) (redis s)\<rparr>)"
  by (rule good_step [OF g]) (auto simp: rget_def redis_service.get_flushdb [OF R] good_db_inv [OF g])

lemma safe_reset:
  assumes "platform_ok P"
  shows "safe P cfg t s (reset_proc P)"
proof -
  have "redis_service (redis_of P)" using assms by (simp add: platform_ok_def)
  then show ?thesis
    unfolding reset_proc_def
    by (auto simp: no_tokens intro!: safe_change safe_act safe_plain good_truncate good_flush)
qed

lemma safe_request:
  assumes P: "platform_ok P" and b: "bearer_of False P cfg now s rq"
  shows "safe P cfg now s (request_proc P cfg now rq)"
  unfolding request_proc_def Let_def
  by (simp add: safe_health safe_user_email safe_register [OF P] safe_verify_token [OF P] safe_exchange [OF P]
      safe_register_begin [OF P b] safe_register_complete [OF P b] safe_login_begin [OF P]
      safe_login_complete [OF P] safe_validate safe_notify safe_policy safe_demo_token [OF P] safe_reset [OF P]
      safe_plain)

end
