(* ===== verification/AuthNet.thy ===== *)
theory AuthNet
  imports AuthInterleave AuthClaims
begin

text \<open>
  The auth service as it serves many requests at once. A state holds the requests under way, each as the
  process that is left of it; at any time one of them goes on by one step, a request arrives, or the service
  is restarted, which drops what is under way. A rejected promise ends the service (Node 20 exits on an
  unhandled rejection), and it is started again. A client cannot present a token that verifies and that the
  service never issued.
\<close>

section \<open>The transition system\<close>

record 'r net =
  net_svc :: "'r auth_state"
  net_clock :: int
  tasks :: "(request option \<times> 'r proc) list"
  answered :: "(request \<times> reply) list"

definition issued :: "'r net \<Rightarrow> string list" where
  "issued y = concat (map (\<lambda>(q, r). reply_tokens r) (answered y))"

definition admissible :: "'r platform \<Rightarrow> config \<Rightarrow> int \<Rightarrow> request \<Rightarrow> 'r net \<Rightarrow> bool" where
  "admissible P cfg now rq y \<longleftrightarrow>
     (case getBearerToken rq of
        None \<Rightarrow> True
      | Some tok \<Rightarrow> verifyJWT P cfg now tok = None \<or> tok \<in> set (issued y))"

definition net_boot :: "int \<Rightarrow> 'r \<Rightarrow> 'r net" where
  "net_boot t r =
     \<lparr>net_svc = \<lparr>db = migrate (init_db t), redis = r, rand = 0, outbox = []\<rparr>, net_clock = t, tasks = [],
      answered = []\<rparr>"

definition net_accept :: "'r platform \<Rightarrow> config \<Rightarrow> int \<Rightarrow> request \<Rightarrow> 'r net \<Rightarrow> 'r net" where
  "net_accept P cfg now rq y =
     y\<lparr>net_clock := now, tasks := tasks y @ [(Some rq, request_proc P cfg now rq)]\<rparr>"

definition net_restart :: "'r net \<Rightarrow> 'r net" where
  "net_restart y = y\<lparr>net_svc := (net_svc y)\<lparr>db := migrate (db (net_svc y))\<rparr>, tasks := []\<rparr>"

definition without :: "nat \<Rightarrow> 'a list \<Rightarrow> 'a list" where
  "without i xs = take i xs @ drop (Suc i) xs"

text \<open>The task at \<open>i\<close> goes on.\<close>

definition net_resume :: "int \<Rightarrow> nat \<Rightarrow> 'r net \<Rightarrow> 'r net" where
  "net_resume now i y =
     (let (rq, p) = tasks y ! i; z = y\<lparr>net_clock := now\<rparr> in
      case p of
        Finished r \<Rightarrow>
          (case r of
             Rejected e \<Rightarrow> net_restart z
           | Reply n hs b \<Rightarrow>
               z\<lparr>tasks := without i (tasks y),
                 answered := (case rq of None \<Rightarrow> answered y | Some q \<Rightarrow> (q, r) # answered y)\<rparr>)
      | Silent \<Rightarrow> z\<lparr>tasks := without i (tasks y)\<rparr>
      | Step f \<Rightarrow> (let (p', s') = f now (net_svc y) in z\<lparr>net_svc := s', tasks := (tasks y)[i := (rq, p')]\<rparr>)
      | Fork c p' \<Rightarrow> z\<lparr>tasks := (tasks y)[i := (rq, p')] @ [(None, c)]\<rparr>)"

inductive net_step :: "'r platform \<Rightarrow> config \<Rightarrow> 'r net \<Rightarrow> 'r net \<Rightarrow> bool" for P cfg where
  accept: "net_clock y \<le> now \<Longrightarrow> admissible P cfg now rq y \<Longrightarrow> net_step P cfg y (net_accept P cfg now rq y)"
| resume: "net_clock y \<le> now \<Longrightarrow> i < length (tasks y) \<Longrightarrow> net_step P cfg y (net_resume now i y)"
| restart: "net_step P cfg y (net_restart y)"

inductive net_reachable :: "'r platform \<Rightarrow> config \<Rightarrow> 'r net \<Rightarrow> bool" for P cfg where
  boot: "(\<forall>u k. rd_get (redis_of P) u k r = None) \<Longrightarrow> net_reachable P cfg (net_boot t r)"
| step: "net_reachable P cfg y \<Longrightarrow> net_step P cfg y y' \<Longrightarrow> net_reachable P cfg y'"

section \<open>The invariant\<close>

definition net_inv :: "'r platform \<Rightarrow> config \<Rightarrow> 'r net \<Rightarrow> bool" where
  "net_inv P cfg y \<longleftrightarrow>
     inv_of False P (net_clock y) (net_svc y) \<and>
     (\<forall>tok \<in> set (issued y). token_of False P cfg (net_clock y) (net_svc y) tok) \<and>
     (\<forall>(rq, p) \<in> set (tasks y). safe P cfg (net_clock y) (net_svc y) p)"

lemma set_without: "set (without i xs) \<subseteq> set xs"
  using set_take_subset [of i xs] set_drop_subset [of "Suc i" xs] by (auto simp: without_def)

lemma inv_later: "inv_of e P t s \<Longrightarrow> t \<le> u \<Longrightarrow> inv_of e P u s"
  using good_refl [of e P t s u] by (simp add: good_of_def)

lemma net_inv_bearer:
  "net_inv P cfg y \<Longrightarrow> net_clock y \<le> now \<Longrightarrow> admissible P cfg now rq y \<Longrightarrow>
    bearer_of False P cfg now (net_svc y) rq"
  by (auto simp: net_inv_def bearer_of_def token_of_def admissible_def split: option.splits)

text \<open>One rule for the three kinds of step: the service moves by a good step, and what is new in the state,
  a token or a process, is safe after it.\<close>

lemma net_inv_move:
  assumes i: "net_inv P cfg y" and g: "good_of False P now (net_svc y) s'" and le: "net_clock y \<le> now"
    and y': "net_clock y' = now" "net_svc y' = s'"
    and tok: "\<And>t. t \<in> set (issued y') \<Longrightarrow> t \<in> set (issued y) \<or> token_of False P cfg now s' t"
    and tsk: "\<And>q p. (q, p) \<in> set (tasks y') \<Longrightarrow> (q, p) \<in> set (tasks y) \<or> safe P cfg now s' p"
  shows "net_inv P cfg y' \<and> stable P now (net_svc y) (net_svc y')"
proof -
  have st: "stable P now (net_svc y) s'" by (rule good_stable [OF g])
  have "token_of False P cfg now s' t" if "t \<in> set (issued y')" for t
    using tok [OF that] i token_of_stable [OF _ st le] by (auto simp: net_inv_def)
  moreover have "safe P cfg now s' p" if "(q, p) \<in> set (tasks y')" for q p
    using tsk [OF that] i safe_later [OF _ st le] by (auto simp: net_inv_def)
  moreover have "inv_of False P now s'" using g by (simp add: good_of_def)
  ultimately show ?thesis using y' st by (auto simp: net_inv_def)
qed

lemma net_good_refl: "net_inv P cfg y \<Longrightarrow> net_clock y \<le> now \<Longrightarrow> good_of False P now (net_svc y) (net_svc y)"
  by (auto simp: net_inv_def intro: good_refl)

lemma net_inv_restart:
  assumes "net_inv P cfg y" and "net_clock y \<le> now"
  shows "net_inv P cfg (net_restart (y\<lparr>net_clock := now\<rparr>)) \<and>
    stable P now (net_svc y) (net_svc (net_restart (y\<lparr>net_clock := now\<rparr>)))"
  by (rule net_inv_move [OF assms(1) good_restart [OF net_good_refl [OF assms]] assms(2)])
    (auto simp: net_restart_def issued_def)

lemma net_inv_resume:
  assumes i: "net_inv P cfg y" and le: "net_clock y \<le> now" and n: "n < length (tasks y)"
  shows "net_inv P cfg (net_resume now n y) \<and> stable P now (net_svc y) (net_svc (net_resume now n y))"
proof -
  obtain q p where t: "tasks y ! n = (q, p)" by fastforce
  then have mem: "(q, p) \<in> set (tasks y)" using n by (metis nth_mem)
  then have s: "safe P cfg (net_clock y) (net_svc y) p" using i by (auto simp: net_inv_def)
  note refl = net_good_refl [OF i le]
  have later: "safe P cfg now (net_svc y) p'" if "safe P cfg (net_clock y) (net_svc y) p'" for p'
    by (rule safe_later [OF that good_stable [OF refl] le])
  show ?thesis
  proof (cases p)
    case (Finished r)
    show ?thesis
    proof (cases r)
      case (Reply st hs b)
      have "token_of False P cfg now (net_svc y) tok" if "tok \<in> set (reply_tokens r)" for tok
        using later [OF s] that by (auto simp: Finished elim: safe_FinishedE)
      then show ?thesis
        by (intro net_inv_move [OF i refl le])
          (auto simp: net_resume_def t Finished Reply issued_def split: option.splits dest: set_without [THEN subsetD])
    next
      case (Rejected e)
      then show ?thesis using net_inv_restart [OF i le] by (simp add: net_resume_def t Finished)
    qed
  next
    case Silent
    show ?thesis
      by (intro net_inv_move [OF i refl le])
        (auto simp: net_resume_def t Silent issued_def dest: set_without [THEN subsetD])
  next
    case (Step f)
    obtain p' s' where f: "f now (net_svc y) = (p', s')" by fastforce
    have inv: "inv_of False P now (net_svc y)" "stable P now (net_svc y) (net_svc y)"
      using refl by (simp_all add: good_of_def)
    have "good_of False P now (net_svc y) (snd (f now (net_svc y)))"
      and "safe P cfg now (snd (f now (net_svc y))) (fst (f now (net_svc y)))"
      by (rule safe_StepE [OF s [unfolded Step]]; use le inv in blast)+
    then have "good_of False P now (net_svc y) s'" "safe P cfg now s' p'" by (simp_all add: f)
    then show ?thesis
      by (intro net_inv_move [OF i _ le])
        (auto simp: net_resume_def t Step f issued_def dest!: set_update_subset_insert [THEN subsetD])
  next
    case (Fork c p')
    have "safe P cfg now (net_svc y) c" "safe P cfg now (net_svc y) p'"
      using later [OF s] by (auto simp: Fork elim: safe_ForkE)
    then show ?thesis
      by (intro net_inv_move [OF i refl le])
        (auto simp: net_resume_def t Fork issued_def dest!: set_update_subset_insert [THEN subsetD])
  qed
qed

lemma net_inv_step:
  assumes "net_step P cfg y y'" and P: "platform_ok P" and i: "net_inv P cfg y"
  shows "net_inv P cfg y' \<and> net_clock y \<le> net_clock y' \<and> stable P (net_clock y') (net_svc y) (net_svc y')"
  using assms(1)
proof cases
  case (accept now rq)
  have b: "bearer_of False P cfg now (net_svc y) rq" by (rule net_inv_bearer [OF i accept(2,3)])
  have "net_inv P cfg y' \<and> stable P now (net_svc y) (net_svc y')"
    by (rule net_inv_move [OF i net_good_refl [OF i accept(2)] accept(2)])
      (auto simp: accept(1) net_accept_def issued_def intro: safe_request [OF P b])
  then show ?thesis using accept by (simp add: net_accept_def)
next
  case (resume now n)
  have "net_clock y' = now"
    by (auto simp: resume(1) net_resume_def net_restart_def Let_def split: prod.split proc.split reply.split)
  then show ?thesis using net_inv_resume [OF i resume(2,3)] resume(1,2) by simp
next
  case restart
  then show ?thesis using net_inv_restart [OF i order_refl] by (simp add: net_restart_def)
qed

lemma net_inv_boot: "\<forall>u k. rd_get (redis_of P) u k r = None \<Longrightarrow> net_inv P cfg (net_boot t r)"
  by (auto simp: net_inv_def net_boot_def inv_of_def init_db_def db_inv_def player_ids_def migrate_def
      known_def rget_def issued_def)

lemma net_reachable_inv: "net_reachable P cfg y \<Longrightarrow> platform_ok P \<Longrightarrow> net_inv P cfg y"
  by (induction rule: net_reachable.induct) (auto intro: net_inv_boot dest: net_inv_step)

section \<open>One request at a time\<close>

text \<open>\<open>clean\<close>: work that a process forks, when it is run without a break, ends silently.\<close>

primrec clean :: "'r proc \<Rightarrow> int \<Rightarrow> 'r auth_state \<Rightarrow> bool" where
  "clean (Finished r) = (\<lambda>now s. True)"
| "clean Silent = (\<lambda>now s. True)"
| "clean (Step f) = (\<lambda>now s. let (g, s') = map_prod clean id (f now s) in g now s')"
| "clean (Fork c p) = (\<lambda>now s. clean c now s \<and> fst (run c now s) = None \<and> clean p now (snd (run c now s)))"

lemma clean_effect_or:
  "clean (effect_or h a k) now s =
     (case fst (a now s) of Inl e \<Rightarrow> clean (h e) | Inr x \<Rightarrow> clean (k now x)) now (snd (a now s))"
  by (simp add: effect_or_def split_beta Let_def split: sum.split)

lemma clean_effect [simp]:
  "clean (effect a k) now s = (case fst (a now s) of Inl e \<Rightarrow> True | Inr x \<Rightarrow> clean (k now x) now (snd (a now s)))"
  by (simp add: effect_def clean_effect_or split: sum.split)

lemma clean_sync [simp]: "clean (sync r k) now s = (case r of Inl e \<Rightarrow> True | Inr x \<Rightarrow> clean (k x) now s)"
  by (simp add: sync_def split: sum.split)

lemma clean_mail: "clean (mail_proc P cfg p) now s \<and> fst (run (mail_proc P cfg p) now s) = None"
  by (simp add: mail_proc_def split_beta)

lemma clean_session: "clean (session_proc P cfg x p) now s"
  by (simp add: session_proc_def)

lemma clean_challenge: "clean (challenge_proc owner ty co) now s"
  by (simp add: challenge_proc_def split: sum.split)

lemma clean_enroll: "clean (enroll_proc P cfg scope p cr resp ch) now s"
  by (auto simp: enroll_proc_def clean_effect_or answer_400_def clean_session
      split: reg_outcome.split option.split sum.split)

lemma clean_grant: "clean (grant_proc P cfg p c a ch) now s"
  by (auto simp: grant_proc_def clean_session split: auth_outcome.split)

lemma clean_guard: "(\<And>scope p. clean (k scope p) now s) \<Longrightarrow> clean (guard_proc P cfg t rq k) now s"
  by (auto simp: guard_proc_def split: option.split sum.split)

lemma clean_routes:
  "clean (health_proc P cfg) now s" "clean (user_email_proc P rq) now s" "clean (register_proc P cfg rq) now s"
  "clean (verify_token_proc P cfg rq) now s" "clean (exchange_proc P cfg rq) now s"
  "clean (register_begin_proc P cfg t rq) now s" "clean (register_complete_proc P cfg t rq) now s"
  "clean (login_begin_proc P cfg rq) now s" "clean (login_complete_proc P cfg rq) now s"
  "clean (validate_proc P cfg t rq) now s" "clean (notify_proc P cfg rq) now s" "clean (policy_proc rq) now s"
  "clean (demo_token_proc P cfg t) now s" "clean (reset_proc P) now s"
proof -
  show "clean (health_proc P cfg) now s" by (simp add: health_proc_def)
  show "clean (user_email_proc P rq) now s" by (auto simp: user_email_proc_def split: option.split sum.split)
  show "clean (register_proc P cfg rq) now s"
    by (auto simp: register_proc_def create_proc_def Let_def clean_mail split: option.split sum.split)
  show "clean (verify_token_proc P cfg rq) now s"
    by (auto simp: verify_token_proc_def verified_proc_def split: option.split sum.split)
  show "clean (exchange_proc P cfg rq) now s"
    by (auto simp: exchange_proc_def redeem_proc_def split: option.split sum.split)
  show "clean (register_begin_proc P cfg t rq) now s"
    unfolding register_begin_proc_def by (rule clean_guard) (simp add: clean_challenge)
  show "clean (register_complete_proc P cfg t rq) now s"
    unfolding register_complete_proc_def
    by (rule clean_guard) (auto simp: clean_enroll take_challenge_act_def split: option.split sum.split)
  show "clean (login_begin_proc P cfg rq) now s"
    by (auto simp: login_begin_proc_def Let_def clean_challenge split: option.split sum.split)
  show "clean (login_complete_proc P cfg rq) now s"
    by (auto simp: login_complete_proc_def take_challenge_act_def clean_grant split: option.split sum.split)
  show "clean (validate_proc P cfg t rq) now s"
    by (auto simp: validate_proc_def split: option.split sum.split json.split)
  show "clean (notify_proc P cfg rq) now s"
    by (auto simp: notify_proc_def receipt_proc_def split: option.split sum.split)
  show "clean (policy_proc rq) now s" by (auto simp: policy_proc_def split: option.split sum.split)
  show "clean (demo_token_proc P cfg t) now s" by (simp add: demo_token_proc_def)
  show "clean (reset_proc P) now s" by (simp add: reset_proc_def)
qed

lemma clean_request: "clean (request_proc P cfg t rq) now s"
  by (simp add: request_proc_def Let_def clean_routes)

fun ended_proc :: "reply option \<Rightarrow> 'r proc" where
  "ended_proc (Some r) = Finished r"
| "ended_proc None = Silent"

lemma resume_step:
  assumes "net_reachable P cfg y" and "net_clock y \<le> now" and "i < length (tasks y)"
  shows "net_reachable P cfg (net_resume now i y)"
  by (rule net_reachable.step [OF assms(1) net_step.resume [OF assms(2,3)]])

text \<open>A task can be run to its end while the others wait.\<close>

lemma net_runs:
  assumes "net_reachable P cfg y" and "net_clock y \<le> now" and "i < length (tasks y)"
    and "tasks y ! i = (q, p)" and "clean p now (net_svc y)"
  shows "\<exists>y'. net_reachable P cfg y' \<and> net_clock y' \<le> now \<and> net_svc y' = snd (run p now (net_svc y)) \<and>
    tasks y' = (tasks y)[i := (q, ended_proc (fst (run p now (net_svc y))))] \<and> answered y' = answered y"
  using assms
proof (induction p arbitrary: y i q)
  case (Finished r)
  then show ?case using list_update_id [of "tasks y" i] by (intro exI [of _ y]) simp
next
  case Silent
  then show ?case using list_update_id [of "tasks y" i] by (intro exI [of _ y]) simp
next
  case (Step f)
  obtain p' s' where f: "f now (net_svc y) = (p', s')" by fastforce
  define z where "z = net_resume now i y"
  have z: "net_svc z = s'" "net_clock z = now" "tasks z = (tasks y)[i := (q, p')]" "answered z = answered y"
    using Step.prems(4) f by (simp_all add: z_def net_resume_def)
  have "p' \<in> Basic_BNFs.fsts (f now (net_svc y))" by (simp add: f)
  moreover have "net_reachable P cfg z" unfolding z_def by (rule resume_step [OF Step.prems(1-3)])
  moreover have "clean p' now (net_svc z)" using Step.prems(5) by (simp add: f z)
  ultimately obtain y' where "net_reachable P cfg y'" "net_clock y' \<le> now"
    "net_svc y' = snd (run p' now (net_svc z))"
    "tasks y' = (tasks z)[i := (q, ended_proc (fst (run p' now (net_svc z))))]" "answered y' = answered z"
    using Step.IH [OF rangeI rangeI, of p' now "net_svc y" z i q] Step.prems(3) z by auto
  then show ?case using z by (intro exI [of _ y']) (simp add: f)
next
  case (Fork c p)
  let ?n = "length (tasks y)" and ?s = "net_svc y"
  define z where "z = net_resume now i y"
  have z: "net_reachable P cfg z" "net_svc z = ?s" "net_clock z = now" "answered z = answered y"
    "tasks z = (tasks y)[i := (q, p)] @ [(None, c)]"
    using Fork.prems(4) resume_step [OF Fork.prems(1-3)] by (simp_all add: z_def net_resume_def)
  have c: "clean c now ?s" "fst (run c now ?s) = None" "clean p now (snd (run c now ?s))"
    using Fork.prems(5) by simp_all
  obtain z1 where z1: "net_reachable P cfg z1" "net_clock z1 \<le> now" "net_svc z1 = snd (run c now ?s)"
    "tasks z1 = (tasks y)[i := (q, p)] @ [(None, Silent)]" "answered z1 = answered y"
    using Fork.IH(1) [OF z(1) _ _ _ c(1) [folded z(2)], of ?n None] z c(2)
    by (auto simp: nth_append list_update_append)
  define z2 where "z2 = net_resume now ?n z1"
  have z2: "net_reachable P cfg z2" "net_clock z2 = now" "net_svc z2 = snd (run c now ?s)"
    "tasks z2 = (tasks y)[i := (q, p)]" "answered z2 = answered y"
    using resume_step [OF z1(1,2), of ?n] z1(3-5)
    by (simp_all add: z2_def net_resume_def nth_append without_def)
  show ?case
    using Fork.IH(2) [OF z2(1), of i q] z2(2-5) c Fork.prems(3) by auto
qed

text \<open>The system of \<open>AuthSystem\<close> is one schedule of this one: a request that is served there can arrive and
  run to its end here.\<close>

definition quiet :: "'r sys \<Rightarrow> 'r net \<Rightarrow> bool" where
  "quiet y z \<longleftrightarrow> tasks z = [] \<and> net_svc z = svc y \<and> net_clock z = clock y \<and> issued z = minted y"

lemma quiet_serve:
  assumes z: "net_reachable P cfg z" and Q: "quiet y z" and t: "clock y \<le> now" and u: "unforged P cfg now rq y"
    and m: "migrate (db (svc (serve P cfg now rq y))) = db (svc (serve P cfg now rq y))"
  shows "\<exists>z'. net_reachable P cfg z' \<and> quiet (serve P cfg now rq y) z'"
proof -
  obtain rep s where r: "requestHandler P cfg now rq (svc y) = (rep, s)" by fastforce
  have y': "serve P cfg now rq y = \<lparr>svc = s, clock = now, minted = reply_tokens rep @ minted y\<rparr>"
    by (simp add: serve_def r)
  define z1 where "z1 = net_accept P cfg now rq z"
  have "admissible P cfg now rq z" using Q u by (auto simp: admissible_def unforged_def quiet_def split: option.splits)
  then have "net_reachable P cfg z1"
    unfolding z1_def using net_reachable.step [OF z net_step.accept] Q t by (simp add: quiet_def)
  moreover have z1: "tasks z1 = [(Some rq, request_proc P cfg now rq)]" "net_clock z1 = now" "net_svc z1 = svc y"
    "issued z1 = minted y"
    using Q by (simp_all add: z1_def net_accept_def quiet_def issued_def)
  moreover have run: "run (request_proc P cfg now rq) now (svc y) = (Some rep, s)"
    using processes_run [of P cfg now rq "svc y"] by (simp add: r)
  ultimately obtain z2 where z2: "net_reachable P cfg z2" "net_clock z2 \<le> now" "net_svc z2 = s"
    "tasks z2 = [(Some rq, Finished rep)]" "answered z2 = answered z1"
    using net_runs [of P cfg z1 now 0] clean_request by fastforce
  let ?z3 = "net_resume now 0 z2"
  have "net_reachable P cfg ?z3" using resume_step [OF z2(1,2)] z2(4) by simp
  moreover have "quiet (serve P cfg now rq y) ?z3"
  proof (cases rep)
    case (Reply n hs b)
    then show ?thesis using z1(4) z2(3-5) by (simp add: quiet_def y' net_resume_def without_def issued_def)
  next
    case (Rejected e)
    then show ?thesis using z1(4) z2(3-5) m by (simp add: quiet_def y' net_resume_def net_restart_def issued_def)
  qed
  ultimately show ?thesis by blast
qed

text \<open>C2. Whatever requests are under way and however their steps interleave, also across crashes and
  restarts: every token the service has answered with that verifies with scope \<open>session\<close>, other than the
  demonstration token, names a player whose address is verified; and the tables keep their constraints, with
  a verified player behind every stored credential.\<close>

theorem interleaved_sessions_verified:
  assumes "platform_ok P" and "net_reachable P cfg y" and "tok \<in> set (issued y)" and "net_clock y \<le> u"
    and "verifyJWT P cfg u tok = Some c" and "cl_scope c = Some ''session''"
    and "cl_sub c \<noteq> Some DEMO_PLAYER_ID"
  shows "(\<exists>i. cl_sub c = Some i \<and> (\<forall>r \<in> set (players (db (net_svc y))). r_id r = i \<longrightarrow> r_verified r)) \<and>
    db_inv (db (net_svc y)) \<and>
    (\<forall>k \<in> set (passkey_credentials (db (net_svc y))). \<exists>r \<in> set (players (db (net_svc y))).
       r_id r = k_player_id k \<and> r_verified r)"
proof -
  have i: "net_inv P cfg y" by (rule net_reachable_inv [OF assms(2,1)])
  then have "claims_of False P (net_svc y) c" using assms(3-5) by (auto simp: net_inv_def token_of_def)
  then have "\<exists>i. cl_sub c = Some i \<and> (\<forall>r \<in> set (players (db (net_svc y))). r_id r = i \<longrightarrow> r_verified r)"
    using assms(7) by (auto simp: claims_of_def cleared_def)
  moreover have "db_inv (db (net_svc y))" using i by (simp add: net_inv_def inv_of_def)
  moreover have "\<exists>r \<in> set (players (db (net_svc y))). r_id r = k_player_id k \<and> r_verified r"
    if "k \<in> set (passkey_credentials (db (net_svc y)))" for k
  proof -
    have "cleared (net_svc y) (k_player_id k)" using i that by (auto simp: net_inv_def inv_of_def)
    moreover have "k_player_id k \<in> player_ids (db (net_svc y))"
      using i that by (auto simp: net_inv_def inv_of_def db_inv_def)
    ultimately show ?thesis by (auto simp: cleared_def player_ids_def)
  qed
  ultimately show ?thesis by blast
qed

lemma quiet_demo_step:
  assumes "\<exists>z. net_reachable ref_platform demo_cfg z \<and> quiet y z" and "demo_serve t rq y = y'" and "clock y \<le> t"
    and "rq_authorization rq = None \<or> set_option (getBearerToken rq) \<subseteq> set (minted y)"
    and "migrate (db (svc y')) = db (svc y')"
  shows "\<exists>z. net_reachable ref_platform demo_cfg z \<and> quiet y' z"
proof -
  have "unforged ref_platform demo_cfg t rq y"
    using assms(4) by (auto simp: unforged_def getBearerToken_def starts_with_def split: option.splits)
  then show ?thesis using quiet_serve [OF _ _ assms(3)] assms(1,2,5) by blast
qed

lemma quiet_booted: "\<exists>z. net_reachable ref_platform demo_cfg z \<and> quiet booted z"
proof -
  have "net_reachable ref_platform demo_cfg (net_boot 0 [])"
    by (rule net_reachable.boot) (auto simp: ref_platform_def ttl_redis_def ttl_get_def)
  then show ?thesis
    by (intro exI [of _ "net_boot 0 []"]) (simp add: quiet_def net_boot_def booted_def boot_def issued_def)
qed

lemma quiet_registered: "\<exists>z. net_reachable ref_platform demo_cfg z \<and> quiet registered z"
  by (rule quiet_demo_step [OF quiet_booted step_register])
    (simp_all add: demo_requests booted_def boot_def registered_def migrate_def demo_players_def)

lemma quiet_verified: "\<exists>z. net_reachable ref_platform demo_cfg z \<and> quiet verified z"
  by (rule quiet_demo_step [OF quiet_registered step_verify])
    (simp_all add: demo_requests registered_def verified_def migrate_def demo_players_def)

lemma quiet_exchanged: "\<exists>z. net_reachable ref_platform demo_cfg z \<and> quiet exchanged z"
  by (rule quiet_demo_step [OF quiet_verified step_exchange])
    (simp_all add: demo_requests verified_def exchanged_def migrate_def demo_players_def)

lemma quiet_begun: "\<exists>z. net_reachable ref_platform demo_cfg z \<and> quiet begun z"
  by (rule quiet_demo_step [OF quiet_exchanged step_begin])
    (simp_all add: demo_requests exchanged_def getBearerToken_def starts_with_def begun_def migrate_def demo_players_def)

lemma quiet_joined: "\<exists>z. net_reachable ref_platform demo_cfg z \<and> quiet joined z"
  by (rule quiet_demo_step [OF quiet_begun step_complete])
    (simp_all add: demo_requests begun_def getBearerToken_def starts_with_def joined_def migrate_def demo_players_def)

lemma interleaved_sessions_verified_witness:
  "(\<exists>i. cl_sub (the (verifyJWT ref_platform demo_cfg 9000 (demo_session ''uuid-aaaaa'' 5000))) = Some i \<and>
      (\<forall>r \<in> set (players (db (svc joined))). r_id r = i \<longrightarrow> r_verified r)) \<and>
    db_inv (db (svc joined))"
proof -
  obtain z where z: "net_reachable ref_platform demo_cfg z" "quiet joined z" using quiet_joined by blast
  have j: "net_svc z = svc joined" "net_clock z \<le> 9000" "demo_session ''uuid-aaaaa'' 5000 \<in> set (issued z)"
    using z(2) by (simp_all add: quiet_def joined_def)
  have c: "verifyJWT ref_platform demo_cfg 9000 (demo_session ''uuid-aaaaa'' 5000) \<noteq> None \<and>
    cl_scope (the (verifyJWT ref_platform demo_cfg 9000 (demo_session ''uuid-aaaaa'' 5000))) = Some ''session'' \<and>
    cl_sub (the (verifyJWT ref_platform demo_cfg 9000 (demo_session ''uuid-aaaaa'' 5000))) \<noteq> Some DEMO_PLAYER_ID"
    by code_simp
  then obtain k where k: "verifyJWT ref_platform demo_cfg 9000 (demo_session ''uuid-aaaaa'' 5000) = Some k" by blast
  show ?thesis
    using interleaved_sessions_verified [OF ref_platform_ok z(1) j(3,2) k] c by (simp add: k j(1))
qed

end
