(* ===== verification/AuthRegister.thy ===== *)
theory AuthRegister
  imports AuthClaims
begin

text \<open>
  Registration and enrolment: when \<open>POST /register\<close> creates a player and what it leaves behind, the
  address pattern against its declarative reading, and the tables in every reachable state, with who
  owns a stored credential.
\<close>

section \<open>The address pattern\<close>

definition email_shape :: "string \<Rightarrow> bool" where
  "email_shape s \<longleftrightarrow>
     (\<exists>u d t. s = u @ CHR ''@'' # d @ CHR ''.'' # t \<and> class_plus u \<and> class_plus d \<and> class_plus t)"

lemma split_at: "i < length s \<Longrightarrow> s = take i s @ s ! i # drop (Suc i) s"
  by (rule id_take_nth_drop)

lemma email_regexI:
  assumes c: "class_plus u" "class_plus d" "class_plus t"
  shows "email_regex (u @ CHR ''@'' # d @ CHR ''.'' # t)"
proof -
  let ?s = "u @ CHR ''@'' # d @ CHR ''.'' # t"
  let ?i = "length u" and ?j = "length u + 1 + length d"
  have "?s ! ?i = CHR ''@''" "take ?i ?s = u" "?s ! ?j = CHR ''.''" "drop (?i + 1) (take ?j ?s) = d"
    "drop (?j + 1) ?s = t" "?i < length ?s" "?i + 1 \<le> ?j" "?j < length ?s"
    by (simp_all add: nth_append)
  then show ?thesis unfolding email_regex_def list_ex_iff using c
    by (metis atLeastLessThan_upt atLeastLessThan_iff zero_le)
qed


section \<open>POST /register\<close>

text \<open>What a registration asks for: the normalised address and name of its body, when both are text.\<close>

definition registration :: "request \<Rightarrow> (string \<times> string) option" where
  "registration rq =
     (case (body_text ''email'' rq, body_text ''name'' rq) of
        (Some (JStr e), Some (JStr n)) \<Rightarrow> Some (js_lower (js_trim e), js_trim n)
      | _ \<Rightarrow> None)"

definition registrable :: "string \<Rightarrow> string \<Rightarrow> auth_db \<Rightarrow> bool" where
  "registrable e n d \<longleftrightarrow>
     e \<noteq> [] \<and> n \<noteq> [] \<and> email_regex e \<and> chars e \<le> 255 \<and> chars n \<le> 50 \<and>
     (\<forall>r \<in> set (players d). r_email r \<noteq> e)"

lemma registration_SomeD:
  assumes "registration rq = Some (e, n)"
  shows "\<exists>d ev nv x y. parse_body (rq_body rq) = Some d \<and> js_prop d ''email'' = Inr ev \<and>
    js_prop d ''name'' = Inr nv \<and> js_nullish ev (JStr []) = JStr x \<and> js_nullish nv (JStr []) = JStr y \<and>
    e = js_lower (js_trim x) \<and> n = js_trim y"
  using assms by (auto simp: registration_def body_text_def split: option.splits sum.splits json.splits)

definition register_decision ::
  "'r platform \<Rightarrow> config \<Rightarrow> int \<Rightarrow> string \<Rightarrow> string \<Rightarrow> 'r auth_state \<Rightarrow> reply \<times> 'r auth_state" where
  "register_decision P cfg now email name s =
     (if email = [] \<or> name = [] then (error_reply 400 ''email and name required'', s)
      else if \<not> email_regex email then (error_reply 400 ''invalid email address'', s)
      else if findPlayerByEmail email (db s) \<noteq> None
      then (error_reply 409 ''email already registered'', s)
      else
        await (createPlayer (uuid_in P) now (randomUUID P (rand s)) email name (db s))
          (s\<lparr>rand := Suc (rand s)\<rparr>) (\<lambda>(p, db').
          let s3 = ensureBankAccount P cfg p (s\<lparr>rand := Suc (rand s), db := db'\<rparr>);
              s4 = sendVerificationEmail P cfg now p s3
          in (jsonResponse 201
                (JObj [(''registered'', JBool True),
                       (''message'', JStr ''Verification email sent. Check your inbox and click the link to activate your account.''),
                       (''email'', JStr (p_email p))]), s4)))"

lemma register_unfold:
  "registration rq = Some (e, n) \<Longrightarrow>
    handle_register P cfg now rq s = register_decision P cfg now e n s"
  by (drule registration_SomeD)
    (auto simp: handle_register_def register_decision_def await_def draw_def Let_def
      cong: if_cong)

lemma js_trim_method_Inr: "js_trim_method v = Inr t \<longleftrightarrow> (\<exists>x. v = JStr x \<and> t = js_trim x)"
  by (cases v) auto

lemma register_not_text:
  assumes "registration rq = None"
  shows "status (fst (handle_register P cfg now rq s)) \<noteq> Some 201 \<and> snd (handle_register P cfg now rq s) = s"
proof (cases "parse_body (rq_body rq)")
  case (Some d)
  have "\<not> (js_prop d ''email'' = Inr ev \<and> js_nullish ev (JStr []) = JStr x \<and>
      js_prop d ''name'' = Inr nv \<and> js_nullish nv (JStr []) = JStr y)" for ev nv x y
    using assms Some by (auto simp: registration_def body_text_def)
  then show ?thesis
    unfolding handle_register_def Some option.case
    by (auto simp: await_def js_trim_method_Inr split: sum.split)
qed (simp add: handle_register_def)

lemma createPlayer_Inr:
  assumes "uuid_laws P"
  shows "createPlayer (uuid_in P) now (randomUUID P k) e n d = Inr (p, d') \<longleftrightarrow>
    chars e \<le> 255 \<and> chars n \<le> 50 \<and> randomUUID P k \<notin> r_id ` set (players d) \<and>
    e \<notin> r_email ` set (players d) \<and>
    p = \<lparr>p_id = randomUUID P k, p_email = e, p_name = n, p_verified = False, p_passkeyEnrolled = False,
         p_createdAt = now\<rparr> \<and>
    d' = d\<lparr>players := players d @
      [\<lparr>r_id = randomUUID P k, r_email = e, r_name = n, r_verified = False, r_created_at = now,
        r_passkey_enrolled = Some False\<rparr>]\<rparr>"
  using assms by (auto simp: createPlayer_def uuid_laws_def rowToPlayer_def)

lemma findPlayerByEmail_None: "findPlayerByEmail e d = None \<longleftrightarrow> (\<forall>r \<in> set (players d). r_email r \<noteq> e)"
  by (auto simp: findPlayerByEmail_def find_None_iff)

lemma next_id_free:
  "uuid_laws P \<Longrightarrow> auth_inv P t s \<Longrightarrow> randomUUID P (rand s) \<notin> r_id ` set (players (db s))"
  using known_not_next by (fastforce simp: auth_inv_def player_ids_def)

lemma register_registrable:
  assumes "uuid_laws P" and "auth_inv P now s" and "registrable e n (db s)"
  obtains p d where "createPlayer (uuid_in P) now (randomUUID P (rand s)) e n (db s) = Inr (p, d)"
    and "register_decision P cfg now e n s =
      (jsonResponse 201
         (JObj [(''registered'', JBool True),
                (''message'', JStr ''Verification email sent. Check your inbox and click the link to activate your account.''),
                (''email'', JStr e)]),
       sendVerificationEmail P cfg now p
         (ensureBankAccount P cfg p (s\<lparr>rand := Suc (rand s), db := d\<rparr>)))"
proof -
  obtain p d where c: "createPlayer (uuid_in P) now (randomUUID P (rand s)) e n (db s) = Inr (p, d)"
    using assms next_id_free [OF assms(1,2)] createPlayer_Inr [OF assms(1)]
    unfolding registrable_def by blast
  moreover have "p_email p = e" using c createPlayer_Inr [OF assms(1)] by auto
  ultimately show ?thesis
    using assms(3) by (intro that) (auto simp: register_decision_def await_def registrable_def
        findPlayerByEmail_None)
qed

lemma registered_state:
  assumes "uuid_laws P" and "auth_inv P now s" and "registrable e n (db s)"
    and "register_decision P cfg now e n s = (rep, s')"
  shows "rep = jsonResponse 201
      (JObj [(''registered'', JBool True),
             (''message'', JStr ''Verification email sent. Check your inbox and click the link to activate your account.''),
             (''email'', JStr e)])"
    and "db s' = (db s)\<lparr>players := players (db s) @
      [\<lparr>r_id = randomUUID P (rand s), r_email = e, r_name = n, r_verified = False,
        r_created_at = now, r_passkey_enrolled = Some False\<rparr>]\<rparr>"
    and "redis s' = rd_setex (redis_of P) now (verify_key (randomUUID P (Suc (rand s)))) 86400
      (randomUUID P (rand s)) (redis s)"
    and "map fst (outbox s') = [EMAIL_URL cfg @ ''/send'', BANK_URL cfg @ ''/account''] @ map fst (outbox s)"
  using assms(4)
  by - (rule register_registrable [OF assms(1-3), of cfg];
    auto simp: createPlayer_Inr [OF assms(1)] sendVerificationEmail_def ensureBankAccount_def mtlsPost_def
      draw_def setex_def Let_def)+

lemma register_unregistrable:
  assumes "uuid_laws P" and "auth_inv P now s" and "\<not> registrable e n (db s)"
  shows "status (fst (register_decision P cfg now e n s)) \<noteq> Some 201 \<and>
    db (snd (register_decision P cfg now e n s)) = db s \<and>
    redis (snd (register_decision P cfg now e n s)) = redis s \<and>
    outbox (snd (register_decision P cfg now e n s)) = outbox s"
proof -
  have "\<exists>e'. createPlayer (uuid_in P) now (randomUUID P (rand s)) e n (db s) = Inl e'"
    if "e \<noteq> []" "n \<noteq> []" "email_regex e" "findPlayerByEmail e (db s) = None"
    using that assms(3) createPlayer_Inr [OF assms(1), of now "rand s" e n "db s"]
    by (cases "createPlayer (uuid_in P) now (randomUUID P (rand s)) e n (db s)")
      (auto simp: registrable_def findPlayerByEmail_None)
  then show ?thesis by (auto simp: register_decision_def await_def)
qed


lemma booted_inv: "auth_inv ref_platform 1000 (svc booted)"
  by (rule reachable_auth_inv [OF reach_booted ref_platform_ok]) (simp add: booted_def boot_def)

lemma demo_registration: "registration register_req = Some (''ann@example.com'', ''Ann'')"
  by code_simp




text \<open>A body without an address to trim is not answered: the promise of the handler is rejected. So is one
  with a name that is too long for its column.\<close>

lemma register_null_rejected:
  "parse_body (rq_body rq) = Some JNull \<Longrightarrow> handle_register P cfg now rq s = (Rejected TypeError, s)"
  by (simp add: handle_register_def await_def)

lemma register_long_name_rejected:
  assumes "uuid_laws P" and "registration rq = Some (e, n)" and "e \<noteq> []" "email_regex e" and "50 < chars n"
    and "\<forall>r \<in> set (players (db s)). r_email r \<noteq> e"
  shows "\<exists>err. fst (handle_register P cfg now rq s) = Rejected err"
proof (cases "createPlayer (uuid_in P) now (randomUUID P (rand s)) e n (db s)")
  case (Inl err)
  then show ?thesis using assms
    by (auto simp: register_unfold [OF assms(2)] register_decision_def await_def findPlayerByEmail_None)
next
  case (Inr out)
  then show ?thesis using assms(5) createPlayer_Inr [OF assms(1), of now "rand s" e n "db s"] by (cases out) auto
qed

section \<open>The tables\<close>

text \<open>C15. In every reachable state the tables keep their constraints (unique identifiers, addresses,
  credential ids and challenges; every credential and every challenge of a player refers to a stored one), and
  the owner of every stored credential is verified and marked as enrolled.\<close>

theorem stored_credentials_owned:
  assumes "platform_ok P" and "reachable P cfg y"
  shows "db_inv (db (svc y)) \<and>
    (\<forall>c \<in> set (passkey_credentials (db (svc y))). \<exists>r \<in> set (players (db (svc y))).
       r_id r = k_player_id c \<and> r_verified r \<and> r_passkey_enrolled r = Some True)"
proof -
  have "auth_inv P (clock y) (svc y)" using reachable_inv [OF assms(2,1)] by (simp add: sys_inv_def)
  then show ?thesis by (fastforce simp: auth_inv_def db_inv_def player_ids_def enrolled_def)
qed

lemma stored_credentials_owned_witness:
  "db_inv (db (svc joined)) \<and> passkey_credentials (db (svc joined)) \<noteq> [] \<and>
    list_all (\<lambda>c. \<exists>r \<in> set (players (db (svc joined))).
       r_id r = k_player_id c \<and> r_verified r \<and> r_passkey_enrolled r = Some True)
      (passkey_credentials (db (svc joined)))"
proof -
  have "passkey_credentials (db (svc joined)) \<noteq> []" by code_simp
  then show ?thesis
    using stored_credentials_owned [OF ref_platform_ok reach_joined] by (simp add: list_all_iff)
qed

end
