(* ===== verification/AuthRace.thy ===== *)
theory AuthRace
  imports AuthNet AuthRegister
begin

text \<open>
  What interleaving does to two promises of the auth service: an exchange code still works once, since Redis
  reads and deletes it in one command; but the check for a registered address and the insertion are two
  statements, and so are saving a credential and marking its owner.
\<close>

section \<open>Exchange codes\<close>

text \<open>An exchange request for the code \<open>x\<close>; \<open>barren\<close> processes answer nothing with 200 as long as Redis does
  not have the code.\<close>

definition asks_for :: "string \<Rightarrow> request \<Rightarrow> bool" where
  "asks_for x rq \<longleftrightarrow> posts ''/exchange'' rq \<and> exchange_code rq = Some x"

inductive barren :: "'r platform \<Rightarrow> string \<Rightarrow> 'r proc \<Rightarrow> bool" for P x where
  refused: "status r \<noteq> Some 200 \<Longrightarrow> barren P x (Finished r)"
| step: "(\<And>now s. rget P now (exchange_key x) s = None \<Longrightarrow> barren P x (fst (f now s))) \<Longrightarrow> barren P x (Step f)"

inductive_simps barren_Finished [simp]: "barren P x (Finished r)"
inductive_simps barren_Step: "barren P x (Step f)"

definition start_proc :: "'r platform \<Rightarrow> config \<Rightarrow> string \<Rightarrow> 'r proc" where
  "start_proc P cfg x = effect (act (\<lambda>now. getdel P now (exchange_key x))) (\<lambda>_. redeem_proc P cfg)"

lemma asks_for_start: "asks_for x rq \<Longrightarrow> request_proc P cfg now rq = start_proc P cfg x"
  by (auto simp: asks_for_def posts_def request_proc_def exchange_proc_def start_proc_def exchange_code_def
      body_text_def sync_def split: option.splits sum.splits)

lemma effect_Step:
  "effect a k = Step (\<lambda>now s. (case fst (a now s) of Inl e \<Rightarrow> Finished (Rejected e) | Inr v \<Rightarrow> k now v, snd (a now s)))"
  by (simp add: effect_def effect_or_def split_beta Let_def)

lemma barren_start:
  assumes "redis_service (redis_of P)"
  shows "barren P x (start_proc P cfg x)"
  unfolding start_proc_def effect_Step
  by (rule barren.step) (simp add: getdel_def rget_def redis_service.getdel_fst [OF assms] redeem_proc_def)

text \<open>What is left once the code is taken: one query, which does not look at Redis.\<close>

definition redeem_step :: "'r platform \<Rightarrow> config \<Rightarrow> string \<Rightarrow> int \<Rightarrow> 'r auth_state \<Rightarrow> 'r proc \<times> 'r auth_state" where
  "redeem_step P cfg i now s =
     (case findPlayerById (uuid_in P) (Some i) (db s) of
        Inl e \<Rightarrow> Finished (Rejected e)
      | Inr None \<Rightarrow> Finished (error_reply 404 ''player not found'')
      | Inr (Some p) \<Rightarrow> Finished (jsonResponse 200
          (JObj [(''bootstrapToken'', JStr (issueBootstrapJWT P cfg now p)), (''requiresEnrollment'', JBool True),
                 (''playerId'', JStr (p_id p)), (''playerName'', JStr (p_name p)), (''email'', JStr (p_email p))])), s)"

lemma redeem_proc_eq:
  "redeem_proc P cfg t =
     (if t = None \<or> t = Some [] then Finished (error_reply 401 ''invalid or expired exchange code'')
      else Step (redeem_step P cfg (the t)))"
  by (auto simp: redeem_proc_def effect_Step redeem_step_def fun_eq_iff split: option.split sum.split)

lemma redeem_step_finishes:
  "(\<exists>r. fst (redeem_step P cfg i now s) = Finished r) \<and> snd (redeem_step P cfg i now s) = s \<and>
    fst (redeem_step P cfg i now (s\<lparr>redis := r\<rparr>)) = fst (redeem_step P cfg i now s)"
  by (simp add: redeem_step_def split: sum.split option.split)

lemma barren_redeem_step:
  assumes "redis_service (redis_of P)" and "barren P x (Step (redeem_step P cfg i))"
  shows "barren P x (fst (redeem_step P cfg i now s))"
proof -
  let ?s = "s\<lparr>redis := rd_flushdb (redis_of P) (redis s)\<rparr>"
  have "rget P now (exchange_key x) ?s = None" by (simp add: rget_def redis_service.get_flushdb [OF assms(1)])
  then have "barren P x (fst (redeem_step P cfg i now ?s))" using assms(2) by (simp add: barren_Step)
  then show ?thesis using redeem_step_finishes [of P cfg i now s] by simp
qed

text \<open>How many answers and requests under way have the code, or have used it.\<close>

definition bears :: "'r platform \<Rightarrow> string \<Rightarrow> request option \<times> 'r proc \<Rightarrow> bool" where
  "bears P x t \<longleftrightarrow> (\<exists>rq. fst t = Some rq \<and> asks_for x rq \<and> \<not> barren P x (snd t))"

definition redeems :: "string \<Rightarrow> request \<times> reply \<Rightarrow> bool" where
  "redeems x a \<longleftrightarrow> asks_for x (fst a) \<and> status (snd a) = Some 200"

definition holders :: "'r platform \<Rightarrow> string \<Rightarrow> 'r net \<Rightarrow> nat" where
  "holders P x y = length (filter (redeems x) (answered y)) + length (filter (bears P x) (tasks y))"

definition code_gone :: "'r platform \<Rightarrow> string \<Rightarrow> 'r net \<Rightarrow> bool" where
  "code_gone P x y \<longleftrightarrow> drawn P (net_svc y) x \<and>
     (\<forall>u \<ge> net_clock y. rget P u (exchange_key x) (net_svc y) = None)"

definition staged :: "'r platform \<Rightarrow> config \<Rightarrow> string \<Rightarrow> request option \<times> 'r proc \<Rightarrow> bool" where
  "staged P cfg x t \<longleftrightarrow> (\<forall>rq. fst t = Some rq \<longrightarrow> asks_for x rq \<longrightarrow>
     snd t = start_proc P cfg x \<or> (\<exists>v. snd t = redeem_proc P cfg v) \<or> (\<exists>r. snd t = Finished r))"

definition code_inv :: "'r platform \<Rightarrow> config \<Rightarrow> string \<Rightarrow> 'r net \<Rightarrow> bool" where
  "code_inv P cfg x y \<longleftrightarrow> list_all (staged P cfg x) (tasks y) \<and>
     (holders P x y = 0 \<or> holders P x y = 1 \<and> code_gone P x y)"

lemma filter_update:
  "i < length xs \<Longrightarrow> length (filter Q (xs[i := v])) + (if Q (xs ! i) then 1 else 0) =
    length (filter Q xs) + (if Q v then 1 else 0)"
  by (subst (3) id_take_nth_drop [of i xs]) (simp_all add: upd_conv_take_nth_drop)

lemma filter_without:
  "i < length xs \<Longrightarrow> length (filter Q (without i xs)) + (if Q (xs ! i) then 1 else 0) = length (filter Q xs)"
  by (subst (3) id_take_nth_drop [of i xs]) (simp_all add: without_def)

lemma list_all_without: "list_all Q xs \<Longrightarrow> list_all Q (without i xs)"
  using set_without [of i xs] by (auto simp: list_all_iff)

lemma list_all_update: "list_all Q xs \<Longrightarrow> Q v \<Longrightarrow> list_all Q (xs[i := v])"
  using set_update_subset_insert [of xs i v] by (auto simp: list_all_iff)

text \<open>Once used, a code does not come back.\<close>

lemma code_gone_step:
  assumes "net_step P cfg y y'" and P: "platform_ok P" and i: "net_inv P cfg y" and g: "code_gone P x y"
  shows "code_gone P x y'"
proof -
  have U: "uuid_laws P" using P by (simp add: platform_ok_def)
  have st: "net_clock y \<le> net_clock y'" "stable P (net_clock y') (net_svc y) (net_svc y')"
    using net_inv_step [OF assms(1) P i] by simp_all
  have d: "drawn P (net_svc y) x" using g by (simp add: code_gone_def)
  then have "\<not> fresh_key P (rand (net_svc y)) (exchange_key x)" by (rule drawn_not_fresh(1) [OF U])
  moreover have "rget P u (exchange_key x) (net_svc y) = None" if "net_clock y' \<le> u" for u
    using g that st(1) by (simp add: code_gone_def)
  ultimately have "rget P u (exchange_key x) (net_svc y') = None" if "net_clock y' \<le> u" for u
    using st(2) that unfolding stable_def by (metis option.exhaust)
  then show ?thesis using d st(2) by (auto simp: code_gone_def stable_def intro: drawn_mono)
qed

lemma code_inv_keep:
  assumes "code_inv P cfg x y" and "list_all (staged P cfg x) (tasks y')" and "holders P x y' \<le> holders P x y"
    and "code_gone P x y \<Longrightarrow> code_gone P x y'"
  shows "code_inv P cfg x y'"
  using assms by (auto simp: code_inv_def)

lemma holders_restart: "holders P x (net_restart y) \<le> holders P x y"
  by (simp add: holders_def net_restart_def)

lemma code_inv_accept:
  assumes "code_inv P cfg x y" and "redis_service (redis_of P)"
    and "code_gone P x y \<Longrightarrow> code_gone P x (net_accept P cfg now rq y)"
  shows "code_inv P cfg x (net_accept P cfg now rq y)"
proof (rule code_inv_keep [OF assms(1) _ _ assms(3)])
  have s: "staged P cfg x (Some rq, request_proc P cfg now rq)"
    using asks_for_start [of x rq P cfg now] by (auto simp: staged_def)
  have b: "\<not> bears P x (Some rq, request_proc P cfg now rq)"
    using asks_for_start [of x rq P cfg now] barren_start [OF assms(2)] by (auto simp: bears_def)
  show "list_all (staged P cfg x) (tasks (net_accept P cfg now rq y))"
    using assms(1) s by (simp add: code_inv_def net_accept_def)
  show "holders P x (net_accept P cfg now rq y) \<le> holders P x y"
    using b by (simp add: holders_def net_accept_def)
qed

text \<open>A step of a task that does not ask for the code.\<close>

lemma code_inv_other:
  assumes c: "code_inv P cfg x y" and n: "n < length (tasks y)"
    and o: "\<And>rq. fst (tasks y ! n) = Some rq \<Longrightarrow> \<not> asks_for x rq"
    and g: "code_gone P x y \<Longrightarrow> code_gone P x (net_resume now n y)"
  shows "code_inv P cfg x (net_resume now n y)"
proof (rule code_inv_keep [OF c _ _ g])
  obtain q p where t: "tasks y ! n = (q, p)" by fastforce
  have s: "list_all (staged P cfg x) (tasks y)" using c by (simp add: code_inv_def)
  have none: "staged P cfg x (q, p')" "\<not> bears P x (q, p')" for p' using o t by (auto simp: staged_def bears_def)
  have child: "staged P cfg x (None, p')" "\<not> bears P x (None, p')" for p' by (simp_all add: staged_def bears_def)
  note up = filter_update [OF n, of "bears P x"] and out = filter_without [OF n, of "bears P x"]
  have a: "filter (redeems x) ((rq, r) # xs) = filter (redeems x) xs" if "q = Some rq" for rq r xs
    using o t that by (auto simp: redeems_def)
  show "list_all (staged P cfg x) (tasks (net_resume now n y))"
    using s none child by (auto simp: net_resume_def t net_restart_def Let_def list_all_without list_all_update
        split: proc.split reply.split prod.split)
  show "holders P x (net_resume now n y) \<le> holders P x y"
  proof (cases p)
    case (Finished r)
    then show ?thesis
      using out none(2) a holders_restart [of P x "y\<lparr>net_clock := now\<rparr>"]
      by (cases r) (auto simp: net_resume_def t holders_def split: option.split)
  qed (use up out none(2) child(2) in \<open>auto simp: net_resume_def t holders_def split: prod.split\<close>)
qed

text \<open>A step of a task that does.\<close>

lemma code_inv_own:
  assumes c: "code_inv P cfg x y" and i: "net_inv P cfg y" and P: "platform_ok P"
    and n: "n < length (tasks y)" and t: "tasks y ! n = (Some rq, p)" and x: "asks_for x rq"
    and le: "net_clock y \<le> now" and g: "code_gone P x y \<Longrightarrow> code_gone P x (net_resume now n y)"
  shows "code_inv P cfg x (net_resume now n y)"
proof -
  have R: "redis_service (redis_of P)" using P by (simp add: platform_ok_def)
  have s: "list_all (staged P cfg x) (tasks y)" using c by (simp add: code_inv_def)
  then have "staged P cfg x (Some rq, p)" using n t by (metis list_all_length)
  then consider r where "p = Finished r" | v where "p = Step (redeem_step P cfg v)" | "p = start_proc P cfg x"
    using x by (auto simp: staged_def redeem_proc_eq split: if_splits)
  then show ?thesis
  proof cases
    case 1
    have "holders P x (net_resume now n y) \<le> holders P x y"
      using filter_without [OF n, of "bears P x"] x holders_restart [of P x "y\<lparr>net_clock := now\<rparr>"]
      by (cases r) (auto simp: net_resume_def t 1 holders_def bears_def redeems_def split: if_splits)
    moreover have "list_all (staged P cfg x) (tasks (net_resume now n y))"
      using list_all_without [OF s] by (cases r) (simp_all add: net_resume_def t 1 net_restart_def)
    ultimately show ?thesis using code_inv_keep [OF c] g by blast
  next
    case 2
    let ?p = "fst (redeem_step P cfg v now (net_svc y))"
    have new: "tasks (net_resume now n y) = (tasks y)[n := (Some rq, ?p)]" "answered (net_resume now n y) = answered y"
      by (simp_all add: net_resume_def t 2 split_beta Let_def)
    have "staged P cfg x (Some rq, ?p)"
      using redeem_step_finishes [of P cfg v now "net_svc y"] by (auto simp: staged_def)
    moreover have "bears P x (Some rq, ?p) \<Longrightarrow> bears P x (Some rq, p)"
      using barren_redeem_step [OF R] by (auto simp: bears_def 2)
    then have "holders P x (net_resume now n y) \<le> holders P x y"
      using filter_update [OF n, of "bears P x" "(Some rq, ?p)"] by (auto simp: holders_def new t split: if_splits)
    ultimately show ?thesis using code_inv_keep [OF c _ _ g] list_all_update [OF s] by (simp add: new)
  next
    case 3
    let ?v = "rget P now (exchange_key x) (net_svc y)" and ?s1 = "snd (getdel P now (exchange_key x) (net_svc y))"
    have "fst (getdel P now (exchange_key x) (net_svc y)) = ?v"
      by (simp add: getdel_def rget_def redis_service.getdel_fst [OF R])
    then have new: "tasks (net_resume now n y) = (tasks y)[n := (Some rq, redeem_proc P cfg ?v)]"
      "answered (net_resume now n y) = answered y" "net_svc (net_resume now n y) = ?s1"
      "net_clock (net_resume now n y) = now"
      by (simp_all add: net_resume_def t 3 start_proc_def effect_Step)
    have st: "list_all (staged P cfg x) (tasks (net_resume now n y))"
      using list_all_update [OF s, of "(Some rq, redeem_proc P cfg ?v)" n] by (auto simp: new staged_def)
    have old: "\<not> bears P x (tasks y ! n)" using barren_start [OF R, of x cfg] by (simp add: bears_def t 3)
    note count = filter_update [OF n, of "bears P x" "(Some rq, redeem_proc P cfg ?v)"]
    show ?thesis
    proof (cases ?v)
      case None
      then have "\<not> bears P x (Some rq, redeem_proc P cfg ?v)" by (simp add: bears_def redeem_proc_eq)
      then have "holders P x (net_resume now n y) \<le> holders P x y" using count old by (simp add: holders_def new)
      then show ?thesis using code_inv_keep [OF c st] g by blast
    next
      case (Some w)
      then have "\<not> code_gone P x y" using le by (auto simp: code_gone_def)
      then have "holders P x (net_resume now n y) \<le> 1" using c count old by (auto simp: code_inv_def holders_def new)
      moreover have "key_ok P (net_svc y) (exchange_key x) w"
        using i le Some by (auto simp: net_inv_def inv_of_def)
      then have "code_gone P x (net_resume now n y)"
        using redis_service.get_getdel [OF R]
        by (simp add: code_gone_def new key_ok_def getdel_def rget_def drawn_def)
      ultimately show ?thesis using st by (auto simp: code_inv_def)
    qed
  qed
qed

lemma code_inv_step:
  assumes st: "net_step P cfg y y'" and P: "platform_ok P" and i: "net_inv P cfg y" and c: "code_inv P cfg x y"
  shows "code_inv P cfg x y'"
proof -
  have g: "code_gone P x y \<Longrightarrow> code_gone P x y'" by (rule code_gone_step [OF st P i])
  from st show ?thesis
  proof cases
    case (accept now rq)
    then show ?thesis using code_inv_accept [OF c] g P by (simp add: platform_ok_def)
  next
    case (resume now n)
    obtain q p where t: "tasks y ! n = (q, p)" by fastforce
    show ?thesis
    proof (cases "\<exists>rq. q = Some rq \<and> asks_for x rq")
      case True
      then show ?thesis using code_inv_own [OF c i P resume(3) _ _ resume(2)] g t resume(1) by auto
    next
      case False
      then show ?thesis using code_inv_other [OF c resume(3)] g t resume(1) by auto
    qed
  next
    case restart
    have "list_all (staged P cfg x) (tasks y')" by (simp add: restart net_restart_def)
    then show ?thesis using code_inv_keep [OF c _ _ g] holders_restart restart by blast
  qed
qed

lemma net_reachable_code_inv: "net_reachable P cfg y \<Longrightarrow> platform_ok P \<Longrightarrow> code_inv P cfg x y"
proof (induction rule: net_reachable.induct)
  case (boot r t)
  show ?case by (simp add: code_inv_def holders_def net_boot_def)
next
  case (step y y')
  then show ?case using code_inv_step net_reachable_inv by blast
qed

text \<open>C5. However the requests interleave, an exchange code is redeemed at most once: among all the answers
  the service has given, at most one is a success for the code.\<close>

theorem interleaved_exchange_once:
  assumes "platform_ok P" and "net_reachable P cfg y"
  shows "length (filter (\<lambda>(rq, r). posts ''/exchange'' rq \<and> exchange_code rq = Some x \<and> status r = Some 200)
    (answered y)) \<le> 1"
proof -
  have "redeems x = (\<lambda>(rq, r). posts ''/exchange'' rq \<and> exchange_code rq = Some x \<and> status r = Some 200)"
    by (auto simp: redeems_def asks_for_def fun_eq_iff)
  then show ?thesis
    using net_reachable_code_inv [OF assms(2,1), of x] by (auto simp: code_inv_def holders_def)
qed

lemma interleaved_exchange_once_witness:
  "\<exists>z. net_reachable ref_platform demo_cfg z \<and> quiet exchanged z \<and>
    length (filter (\<lambda>(rq, r). posts ''/exchange'' rq \<and> exchange_code rq = Some ''uuid-aaa'' \<and> status r = Some 200)
      (answered z)) \<le> 1"
  using quiet_exchanged interleaved_exchange_once [OF ref_platform_ok] by blast

section \<open>Two registrations of one address\<close>

text \<open>Both requests look the address up before either inserts it; then the second insertion fails.\<close>

definition race :: "'r platform \<Rightarrow> config \<Rightarrow> int \<Rightarrow> request \<Rightarrow> request \<Rightarrow> 'r net \<Rightarrow> 'r net" where
  "race P cfg now rq1 rq2 y =
     net_resume now 1 (net_resume now 1 (net_resume now 0 (net_resume now 1 (net_resume now 0
       (net_accept P cfg now rq2 (net_accept P cfg now rq1 y))))))"

lemma register_start:
  assumes "posts ''/register'' rq" and "registration rq = Some (e, n)" and "registrable e n d"
  shows "request_proc P cfg now rq =
    effect (ask (\<lambda>d. Inr (findPlayerByEmail e d))) (\<lambda>_ found.
      if found \<noteq> None then Finished (error_reply 409 ''email already registered'') else create_proc P cfg e n)"
proof -
  have "request_proc P cfg now rq = register_proc P cfg rq"
    using assms(1) by (simp add: posts_def request_proc_def)
  then show ?thesis
    using registration_SomeD [OF assms(2)] assms(3) by (auto simp: register_proc_def sync_def registrable_def Let_def)
qed

lemma resume_effect:
  assumes "tasks y ! i = (q, effect a k)"
  shows "net_resume now i y =
    y\<lparr>net_clock := now, net_svc := snd (a now (net_svc y)),
      tasks := (tasks y)[i := (q, case fst (a now (net_svc y)) of Inl e \<Rightarrow> Finished (Rejected e) | Inr x \<Rightarrow> k now x)]\<rparr>"
  by (simp add: net_resume_def assms effect_Step)

lemma insert_player_new:
  assumes "uuid_laws P" and "registrable e n (db s)" and "randomUUID P (rand s) \<notin> r_id ` set (players (db s))"
  shows "\<exists>p. insert_player P e n now s = (Inr p, s\<lparr>rand := Suc (rand s),
    db := (db s)\<lparr>players := players (db s) @ [\<lparr>r_id = randomUUID P (rand s), r_email = e, r_name = n,
      r_verified = False, r_created_at = now, r_passkey_enrolled = Some False\<rparr>]\<rparr>\<rparr>)"
proof (cases "createPlayer (uuid_in P) now (randomUUID P (rand s)) e n (db s)")
  case (Inl err)
  then show ?thesis
    using createPlayer_Inr [OF assms(1), of now "rand s" e n "db s"] assms(2,3) by (force simp: registrable_def)
next
  case (Inr out)
  obtain p d where pd: "out = (p, d)" by (cases out)
  show ?thesis
    using createPlayer_Inr [OF assms(1), of now "rand s" e n "db s" p d] Inr
    by (simp add: insert_player_def draw_def pd)
qed

lemma insert_player_taken:
  assumes "uuid_laws P" and "e \<in> r_email ` set (players (db s))"
  shows "\<exists>err. insert_player P e n now s = (Inl err, s\<lparr>rand := Suc (rand s)\<rparr>)"
proof (cases "createPlayer (uuid_in P) now (randomUUID P (rand s)) e n (db s)")
  case (Inr out)
  then show ?thesis
    using createPlayer_Inr [OF assms(1), of now "rand s" e n "db s"] assms(2) by (cases out) auto
qed (simp add: insert_player_def draw_def)

lemma race_outcome:
  assumes P: "platform_ok P" and y: "net_inv P cfg y" "tasks y = []"
    and rq1: "posts ''/register'' rq1" "registration rq1 = Some (e, n1)" "registrable e n1 (db (net_svc y))"
    and rq2: "posts ''/register'' rq2" "registration rq2 = Some (e, n2)" "registrable e n2 (db (net_svc y))"
  shows "net_reachable P cfg y \<Longrightarrow> net_clock y \<le> now \<Longrightarrow> getBearerToken rq1 = None \<Longrightarrow> getBearerToken rq2 = None \<Longrightarrow>
      net_reachable P cfg (race P cfg now rq1 rq2 y)"
    and "race P cfg now rq1 rq2 y = y\<lparr>net_clock := now, net_svc := (net_svc y)\<lparr>rand := rand (net_svc y) + 2,
    db := migrate ((db (net_svc y))\<lparr>players := players (db (net_svc y)) @
      [\<lparr>r_id = randomUUID P (rand (net_svc y)), r_email = e, r_name = n1, r_verified = False,
        r_created_at = now, r_passkey_enrolled = Some False\<rparr>]\<rparr>)\<rparr>\<rparr>"
proof -
  let ?s = "net_svc y"
  have U: "uuid_laws P" using P by (simp add: platform_ok_def)
  have fresh: "randomUUID P (rand ?s) \<notin> r_id ` set (players (db ?s))"
    using y(1) known_not_next [OF U] by (fastforce simp: net_inv_def inv_of_def player_ids_def)
  have free: "findPlayerByEmail e (db ?s) = None" using rq1(3) by (simp add: registrable_def findPlayerByEmail_None)
  obtain p where ins1: "insert_player P e n1 now ?s = (Inr p, ?s\<lparr>rand := Suc (rand ?s),
      db := (db ?s)\<lparr>players := players (db ?s) @ [\<lparr>r_id = randomUUID P (rand ?s), r_email = e, r_name = n1,
        r_verified = False, r_created_at = now, r_passkey_enrolled = Some False\<rparr>]\<rparr>\<rparr>)" (is "_ = (_, ?s1)")
    using insert_player_new [OF U rq1(3) fresh] by blast
  have "e \<in> r_email ` set (players (db ?s1))" by simp
  then obtain err where ins2: "insert_player P e n2 now ?s1 = (Inl err, ?s1\<lparr>rand := Suc (rand ?s1)\<rparr>)"
    using insert_player_taken [OF U] by blast
  define s2 where "s2 = ?s1\<lparr>rand := Suc (rand ?s1)\<rparr>"
  let ?y = "\<lambda>s p q. y\<lparr>net_clock := now, net_svc := s, tasks := [(Some rq1, p), (Some rq2, q)]\<rparr>"
  let ?look = "\<lambda>n. effect (ask (\<lambda>d. Inr (findPlayerByEmail e d))) (\<lambda>_ found.
      if found \<noteq> None then Finished (error_reply 409 ''email already registered'') else create_proc P cfg e n)"
  obtain k1 k2 where k: "create_proc P cfg e n1 = effect (insert_player P e n1) k1"
    "create_proc P cfg e n2 = effect (insert_player P e n2) k2"
    by (simp add: create_proc_def)
  have 2: "net_accept P cfg now rq2 (net_accept P cfg now rq1 y) = ?y ?s (?look n1) (?look n2)"
    using register_start [OF rq1, of P cfg now] register_start [OF rq2, of P cfg now] y(2)
    by (simp add: net_accept_def)
  have 3: "net_resume now 0 (?y ?s (?look n1) q) = ?y ?s (create_proc P cfg e n1) q" for q
    using resume_effect [of "?y ?s (?look n1) q" 0 "Some rq1", simplified, OF refl] by (simp add: free)
  have 4: "net_resume now 1 (?y ?s q (?look n2)) = ?y ?s q (create_proc P cfg e n2)" for q
    using resume_effect [of "?y ?s q (?look n2)" 1 "Some rq2", simplified, OF refl] by (simp add: free)
  have 5: "net_resume now 0 (?y ?s (create_proc P cfg e n1) q) = ?y ?s1 (k1 now p) q" for q
    using resume_effect [of "?y ?s (effect (insert_player P e n1) k1) q" 0 "Some rq1", simplified, OF refl]
    by (simp add: ins1 k(1))
  have 6: "net_resume now 1 (?y ?s1 q (create_proc P cfg e n2)) = ?y s2 q (Finished (Rejected err))" for q
    using resume_effect [of "?y ?s1 q (effect (insert_player P e n2) k2)" 1 "Some rq2", simplified, OF refl]
    by (simp add: ins2 k(2) s2_def)
  have 7: "net_resume now 1 (?y s2 q (Finished (Rejected err))) =
      y\<lparr>net_clock := now, net_svc := s2\<lparr>db := migrate (db s2)\<rparr>, tasks := []\<rparr>" for q
    by (simp add: net_resume_def net_restart_def)
  have go: "net_reachable P cfg (net_resume now i (?y s p q))" if "net_reachable P cfg (?y s p q)" "i < 2" for i s p q
    by (rule resume_step [OF that(1)]) (use that(2) in simp_all)
  show "race P cfg now rq1 rq2 y = y\<lparr>net_clock := now, net_svc := ?s\<lparr>rand := rand ?s + 2,
    db := migrate ((db ?s)\<lparr>players := players (db ?s) @
      [\<lparr>r_id = randomUUID P (rand ?s), r_email = e, r_name = n1, r_verified = False,
        r_created_at = now, r_passkey_enrolled = Some False\<rparr>]\<rparr>)\<rparr>\<rparr>"
    unfolding race_def 2 3 4 5 6 7 using y(2) by (simp add: s2_def)
  assume "net_reachable P cfg y" "net_clock y \<le> now" "getBearerToken rq1 = None" "getBearerToken rq2 = None"
  then have "net_reachable P cfg (net_accept P cfg now rq2 (net_accept P cfg now rq1 y))"
    by (intro net_reachable.step [OF net_reachable.step [OF _ net_step.accept] net_step.accept])
      (simp_all add: admissible_def net_accept_def)
  then have "net_reachable P cfg (?y ?s (?look n1) (?look n2))" by (simp only: 2)
  from go [OF this, of 0] have "net_reachable P cfg (?y ?s (create_proc P cfg e n1) (?look n2))" unfolding 3 by simp
  from go [OF this, of 1] have "net_reachable P cfg (?y ?s (create_proc P cfg e n1) (create_proc P cfg e n2))"
    unfolding 4 by simp
  from go [OF this, of 0] have "net_reachable P cfg (?y ?s1 (k1 now p) (create_proc P cfg e n2))" unfolding 5 by simp
  from go [OF this, of 1] have "net_reachable P cfg (?y s2 (k1 now p) (Finished (Rejected err)))" unfolding 6 by simp
  from go [OF this, of 1] show "net_reachable P cfg (race P cfg now rq1 rq2 y)"
    unfolding race_def 2 3 4 5 6 by simp
qed



section \<open>A credential without a mark\<close>

text \<open>\<open>go_on k\<close>: the first \<open>k\<close> steps of a process.\<close>

fun go_on :: "nat \<Rightarrow> 'r proc \<Rightarrow> int \<Rightarrow> 'r auth_state \<Rightarrow> 'r proc \<times> 'r auth_state" where
  "go_on (Suc k) (Step f) now s = (let (p', s') = f now s in go_on k p' now s')"
| "go_on k p now s = (p, s)"

lemma net_goes_on:
  assumes "net_reachable P cfg y" and "net_clock y \<le> now" and "i < length (tasks y)" and "tasks y ! i = (q, p)"
  shows "\<exists>y'. net_reachable P cfg y' \<and> net_svc y' = snd (go_on k p now (net_svc y))"
  using assms
proof (induction k arbitrary: y p)
  case (Suc k)
  show ?case
  proof (cases p)
    case (Step f)
    obtain p' s' where f: "f now (net_svc y) = (p', s')" by fastforce
    have z: "net_svc (net_resume now i y) = s'" "net_clock (net_resume now i y) = now"
      "tasks (net_resume now i y) = (tasks y)[i := (q, p')]"
      using Suc.prems(4) f by (simp_all add: net_resume_def Step)
    show ?thesis
      using Suc.IH [of "net_resume now i y" p'] resume_step [OF Suc.prems(1-3)] z f Suc.prems(3)
      by (auto simp: Step)
  qed (use Suc.prems in auto)
qed auto

text \<open>The service may stop after a credential is saved and before its owner is marked: then the owner can log in
  with a passkey and is not marked as enrolled. One request at a time, and without a crash in between,
  \<open>stored_credentials_owned\<close> excludes this.\<close>

lemma crash_loses_enrolment:
  "\<exists>y. net_reachable ref_platform demo_cfg y \<and> tasks y = [] \<and>
    (\<exists>k \<in> set (passkey_credentials (db (net_svc y))). \<exists>r \<in> set (players (db (net_svc y))).
       r_id r = k_player_id k \<and> r_passkey_enrolled r \<noteq> Some True)"
proof -
  let ?p = "request_proc ref_platform demo_cfg 5000 enroll_complete_req"
  obtain z where z: "net_reachable ref_platform demo_cfg z" "quiet begun z" using quiet_begun by blast
  define y1 where "y1 = net_accept ref_platform demo_cfg 5000 enroll_complete_req z"
  have q: "net_svc z = svc begun" "net_clock z \<le> 5000" "tasks z = []" "issued z = minted begun"
    using z(2) by (simp_all add: quiet_def begun_def)
  have "admissible ref_platform demo_cfg 5000 enroll_complete_req z"
    by (simp add: admissible_def q(4) begun_def demo_requests getBearerToken_def starts_with_def)
  then have "net_reachable ref_platform demo_cfg y1"
    unfolding y1_def using net_reachable.step [OF z(1) net_step.accept [OF q(2)]] by blast
  moreover have "tasks y1 ! 0 = (Some enroll_complete_req, ?p)" "net_svc y1 = svc begun" "net_clock y1 \<le> 5000"
    "0 < length (tasks y1)"
    by (simp_all add: y1_def net_accept_def q)
  ultimately obtain y2 where y2: "net_reachable ref_platform demo_cfg y2"
    "net_svc y2 = snd (go_on 3 ?p 5000 (svc begun))"
    using net_goes_on [of ref_platform demo_cfg y1 5000 0] by metis
  have "list_ex (\<lambda>k. list_ex (\<lambda>r. r_id r = k_player_id k \<and> r_passkey_enrolled r \<noteq> Some True)
      (players (migrate (db (snd (go_on 3 ?p 5000 (svc begun)))))))
    (passkey_credentials (migrate (db (snd (go_on 3 ?p 5000 (svc begun))))))"
    by code_simp
  then show ?thesis
    using net_reachable.step [OF y2(1) net_step.restart]
    by (intro exI [of _ "net_restart y2"]) (auto simp: net_restart_def y2(2) list_ex_iff)
qed

end
