(* ===== verification/AuthBounded.thy ===== *)
theory AuthBounded
  imports AuthNet
begin

text \<open>
  How long a request is under way: a bound on the number of times the processes of the auth service go on,
  in any interleaving, so that none of them runs for ever.
\<close>

section \<open>The steps left in a process\<close>

text \<open>\<open>ends_in n p\<close>: after at most \<open>n\<close> steps \<open>p\<close>, and what it forks, has ended, whatever its effects give.\<close>

inductive ends_in :: "nat \<Rightarrow> 'r proc \<Rightarrow> bool" where
  finished: "0 < n \<Longrightarrow> ends_in n (Finished r)"
| silent: "0 < n \<Longrightarrow> ends_in n Silent"
| step: "0 < n \<Longrightarrow> (\<forall>now s. ends_in (n - 1) (fst (f now s))) \<Longrightarrow> ends_in n (Step f)"
| fork: "m < n \<Longrightarrow> ends_in m c \<Longrightarrow> ends_in (n - 1 - m) p \<Longrightarrow> ends_in n (Fork c p)"

inductive_cases ends_StepE: "ends_in n (Step f)"
inductive_cases ends_ForkE: "ends_in n (Fork c p)"

lemma ends_pos: "ends_in n p \<Longrightarrow> 0 < n"
  by (cases rule: ends_in.cases) auto

lemma ends_effect_or:
  assumes "0 < n" and "\<And>e. ends_in (n - 1) (h e)" and "\<And>now x. ends_in (n - 1) (k now x)"
  shows "ends_in n (effect_or h a k)"
  unfolding effect_or_def using assms by (intro step) (auto simp: split_beta Let_def split: sum.split)

lemma ends_effect:
  assumes "1 < n" and "\<And>now x. ends_in (n - 1) (k now x)"
  shows "ends_in n (effect a k)"
  unfolding effect_def using assms by (intro ends_effect_or) (auto intro: finished)

lemma ends_sync: "0 < n \<Longrightarrow> (\<And>x. ends_in n (k x)) \<Longrightarrow> ends_in n (sync r k)"
  unfolding sync_def by (auto intro: finished split: sum.split)

text \<open>The branches of a handler.\<close>

lemma ends_branch:
  "(b \<Longrightarrow> ends_in n p) \<Longrightarrow> (\<not> b \<Longrightarrow> ends_in n q) \<Longrightarrow> ends_in n (if b then p else q)"
  "ends_in n p \<Longrightarrow> (\<And>x. ends_in n (f x)) \<Longrightarrow> ends_in n (case v of None \<Rightarrow> p | Some x \<Rightarrow> f x)"
  "(\<And>e. ends_in n (h e)) \<Longrightarrow> (\<And>x. ends_in n (g x)) \<Longrightarrow> ends_in n (case w of Inl e \<Rightarrow> h e | Inr x \<Rightarrow> g x)"
  by (auto split: option.split sum.split)

lemmas ends_intros = finished silent ends_effect_or ends_effect ends_sync ends_branch

section \<open>Every request\<close>

lemma ends_mail: "ends_in 3 (mail_proc P cfg p)"
  unfolding mail_proc_def by (intro ends_intros) simp_all

lemma ends_session: "1 < n \<Longrightarrow> ends_in n (session_proc P cfg x p)"
  unfolding session_proc_def by (intro ends_intros) simp_all

lemma ends_challenge: "1 < n \<Longrightarrow> ends_in n (challenge_proc owner ty co)"
  unfolding challenge_proc_def by (intro ends_intros) simp_all

lemma ends_guard: "1 < n \<Longrightarrow> (\<And>scope p. ends_in (n - 1) (k scope p)) \<Longrightarrow> ends_in n (guard_proc P cfg t rq k)"
  unfolding guard_proc_def by (intro ends_intros) simp_all

lemma ends_enroll: "3 < n \<Longrightarrow> ends_in n (enroll_proc P cfg scope p cr resp ch)"
  unfolding enroll_proc_def answer_400_def
  by (split reg_outcome.split option.split)+ (auto intro!: ends_intros ends_session)

lemma ends_grant: "2 < n \<Longrightarrow> ends_in n (grant_proc P cfg p c a ch)"
  unfolding grant_proc_def by (split auth_outcome.split) (auto intro!: ends_intros ends_session)

lemma ends_create: "ends_in 7 (create_proc P cfg e n)"
  unfolding create_proc_def by (intro ends_intros fork [OF _ ends_mail]) simp_all

lemma ends_routes:
  "ends_in 8 (health_proc P cfg)" "ends_in 8 (user_email_proc P rq)" "ends_in 8 (register_proc P cfg rq)"
  "ends_in 8 (verify_token_proc P cfg rq)" "ends_in 8 (exchange_proc P cfg rq)"
  "ends_in 8 (register_begin_proc P cfg t rq)" "ends_in 8 (register_complete_proc P cfg t rq)"
  "ends_in 8 (login_begin_proc P cfg rq)" "ends_in 8 (login_complete_proc P cfg rq)"
  "ends_in 8 (validate_proc P cfg t rq)" "ends_in 8 (notify_proc P cfg rq)" "ends_in 8 (policy_proc rq)"
  "ends_in 8 (demo_token_proc P cfg t)" "ends_in 8 (reset_proc P)"
proof -
  show "ends_in 8 (health_proc P cfg)" unfolding health_proc_def by (intro ends_intros) simp_all
  show "ends_in 8 (user_email_proc P rq)" unfolding user_email_proc_def by (intro ends_intros) simp_all
  show "ends_in 8 (register_proc P cfg rq)"
    unfolding register_proc_def Let_def by (intro ends_intros) (simp_all add: ends_create)
  show "ends_in 8 (verify_token_proc P cfg rq)"
    unfolding verify_token_proc_def verified_proc_def by (intro ends_intros) simp_all
  show "ends_in 8 (exchange_proc P cfg rq)"
    unfolding exchange_proc_def redeem_proc_def by (intro ends_intros) simp_all
  show "ends_in 8 (register_begin_proc P cfg t rq)"
    unfolding register_begin_proc_def by (intro ends_guard ends_intros ends_challenge) simp_all
  show "ends_in 8 (register_complete_proc P cfg t rq)"
    unfolding register_complete_proc_def by (intro ends_guard ends_intros ends_enroll) simp_all
  show "ends_in 8 (login_begin_proc P cfg rq)"
    unfolding login_begin_proc_def Let_def by (intro ends_intros ends_challenge) simp_all
  show "ends_in 8 (login_complete_proc P cfg rq)"
    unfolding login_complete_proc_def by (intro ends_intros ends_grant) simp_all
  show "ends_in 8 (validate_proc P cfg t rq)" unfolding validate_proc_def by (intro ends_intros) simp_all
  have receipt: "ends_in 2 (receipt_proc P cfg p tx)" for p tx
    unfolding receipt_proc_def by (intro ends_intros) simp_all
  show "ends_in 8 (notify_proc P cfg rq)"
    unfolding notify_proc_def by (intro ends_intros fork [OF _ receipt]) simp_all
  show "ends_in 8 (policy_proc rq)" unfolding policy_proc_def by (intro ends_intros) simp_all
  show "ends_in 8 (demo_token_proc P cfg t)" unfolding demo_token_proc_def by (intro ends_intros) simp_all
  show "ends_in 8 (reset_proc P)" unfolding reset_proc_def by (intro ends_intros) simp_all
qed

lemma ends_request: "ends_in 8 (request_proc P cfg t rq)"
  unfolding request_proc_def Let_def by (intro ends_branch ends_routes finished) simp_all

section \<open>Any schedule\<close>

text \<open>\<open>net_run a n y\<close>: the service is in state \<open>y\<close> after \<open>a\<close> requests have arrived and what was under way has gone on
  \<open>n\<close> times.\<close>

inductive net_run :: "'r platform \<Rightarrow> config \<Rightarrow> nat \<Rightarrow> nat \<Rightarrow> 'r net \<Rightarrow> bool" for P cfg where
  start: "net_run P cfg 0 0 (net_boot t r)"
| arrive: "net_run P cfg a n y \<Longrightarrow> net_clock y \<le> now \<Longrightarrow> admissible P cfg now rq y \<Longrightarrow>
    net_run P cfg (Suc a) n (net_accept P cfg now rq y)"
| go_on: "net_run P cfg a n y \<Longrightarrow> net_clock y \<le> now \<Longrightarrow> i < length (tasks y) \<Longrightarrow>
    net_run P cfg a (Suc n) (net_resume now i y)"
| again: "net_run P cfg a n y \<Longrightarrow> net_run P cfg a n (net_restart y)"

text \<open>\<open>budget ws y\<close>: the tasks of \<open>y\<close> end in as many steps as \<open>ws\<close> says.\<close>

definition budget :: "nat list \<Rightarrow> 'r net \<Rightarrow> bool" where
  "budget ws y \<longleftrightarrow> list_all2 (\<lambda>w (rq, p). ends_in w p) ws (tasks y)"

lemma budget_restart: "budget [] (net_restart y)"
  by (simp add: budget_def net_restart_def)

lemma sum_list_without: "i < length ws \<Longrightarrow> sum_list (without i ws) + ws ! i = (sum_list ws :: nat)"
  by (simp add: without_def) (metis add.assoc add.commute append_take_drop_id Cons_nth_drop_Suc sum_list.Cons sum_list_append)

lemma sum_list_replace: "i < length ws \<Longrightarrow> sum_list (ws[i := w]) + ws ! i = (sum_list ws :: nat) + w"
  using sum_list_update [of i ws w] member_le_sum_list [of "ws ! i" ws] by simp

lemma budget_resume:
  assumes "budget ws y" and "i < length (tasks y)"
  shows "\<exists>ws'. budget ws' (net_resume now i y) \<and> sum_list ws' < sum_list ws"
proof -
  have len: "length ws = length (tasks y)" using assms(1) by (simp add: budget_def list_all2_lengthD)
  obtain rq p where t: "tasks y ! i = (rq, p)" by fastforce
  have e: "ends_in (ws ! i) p"
    using list_all2_nthD2 [OF assms(1) [unfolded budget_def] assms(2)] by (simp add: t)
  note pos = ends_pos [OF e]
  have w: "list_all2 (\<lambda>w (rq, p). ends_in w p) (without i ws) (without i (tasks y))"
    unfolding without_def using assms(1) [unfolded budget_def] by (intro list_all2_appendI list_all2_takeI list_all2_dropI)
  have drop: "sum_list (without i ws) < sum_list ws"
    using sum_list_without [of i ws] pos assms(2) len by simp
  show ?thesis
  proof (cases p)
    case (Finished r)
    show ?thesis
    proof (cases r)
      case (Reply st hs b)
      show ?thesis
        by (rule exI [of _ "without i ws"]) (simp add: net_resume_def budget_def t Finished Reply w drop)
    next
      case (Rejected err)
      have "0 < sum_list ws" using drop by simp
      then show ?thesis
        by (intro exI [of _ "[]"]) (simp add: net_resume_def t Finished Rejected budget_restart)
    qed
  next
    case Silent
    show ?thesis
      by (rule exI [of _ "without i ws"]) (simp add: net_resume_def budget_def t Silent w drop)
  next
    case (Step f)
    have "ends_in (ws ! i - 1) (fst (f now (net_svc y)))" using e Step by (auto elim: ends_StepE)
    then have "list_all2 (\<lambda>w (rq, p). ends_in w p) (ws[i := ws ! i - 1])
        ((tasks y)[i := (rq, fst (f now (net_svc y)))])"
      using assms(1) by (intro list_all2_update_cong) (simp_all add: budget_def)
    moreover have "sum_list (ws[i := ws ! i - 1]) < sum_list ws"
      using sum_list_replace [of i ws "ws ! i - 1"] pos assms(2) len by simp
    ultimately show ?thesis
      by (intro exI [of _ "ws[i := ws ! i - 1]"]) (simp add: net_resume_def budget_def t Step split_beta Let_def)
  next
    case (Fork c q)
    then obtain m where m: "m < ws ! i" "ends_in m c" "ends_in (ws ! i - 1 - m) q" using e by (auto elim: ends_ForkE)
    have "list_all2 (\<lambda>w (rq, p). ends_in w p) (ws[i := ws ! i - 1 - m] @ [m]) ((tasks y)[i := (rq, q)] @ [(None, c)])"
      using assms(1) m by (intro list_all2_appendI list_all2_update_cong) (simp_all add: budget_def)
    moreover have "sum_list (ws[i := ws ! i - 1 - m] @ [m]) < sum_list ws"
      using sum_list_replace [of i ws "ws ! i - 1 - m"] m(1) assms(2) len by simp
    ultimately show ?thesis
      by (intro exI [of _ "ws[i := ws ! i - 1 - m] @ [m]"]) (simp add: net_resume_def budget_def t Fork)
  qed
qed

lemma run_budget:
  "net_run P cfg a n y \<Longrightarrow> \<exists>ws. budget ws y \<and> n + sum_list ws \<le> 8 * a"
proof (induction rule: net_run.induct)
  case (start t r)
  show ?case by (intro exI [of _ "[]"]) (simp add: budget_def net_boot_def)
next
  case (arrive a n y now rq)
  then obtain ws where "budget ws y" "n + sum_list ws \<le> 8 * a" by blast
  then show ?case
    by (intro exI [of _ "ws @ [8]"]) (auto simp: budget_def net_accept_def ends_request intro: list_all2_appendI)
next
  case (go_on a n y now i)
  then obtain ws where ws: "budget ws y" "n + sum_list ws \<le> 8 * a" by blast
  obtain ws' where "budget ws' (net_resume now i y)" "sum_list ws' < sum_list ws"
    using budget_resume [OF ws(1) go_on.hyps(3)] by blast
  then show ?case using ws(2) by (intro exI [of _ ws']) simp
next
  case (again a n y)
  then show ?case by (intro exI [of _ "[]"]) (auto simp: budget_restart)
qed

lemma budget_length: "budget ws y \<Longrightarrow> length (tasks y) \<le> sum_list ws"
  unfolding budget_def by (induction rule: list_all2_induct) (auto dest!: ends_pos)


text \<open>A registration takes all eight.\<close>

definition arrived :: "ttl_store net" where
  "arrived = net_accept ref_platform demo_cfg 1000 register_req (net_boot 0 [])"

fun schedule :: "int \<Rightarrow> nat list \<Rightarrow> 'r net \<Rightarrow> 'r net option" where
  "schedule now [] y = Some y"
| "schedule now (i # is) y =
     (if net_clock y \<le> now \<and> i < length (tasks y) then schedule now is (net_resume now i y) else None)"

lemma schedule_run: "schedule now is y = Some z \<Longrightarrow> net_run P cfg a n y \<Longrightarrow> net_run P cfg a (n + length is) z"
proof (induction "is" arbitrary: n y)
  case (Cons i "is")
  have "net_run P cfg a (Suc n) (net_resume now i y)" using Cons.prems by (intro go_on) (simp_all split: if_splits)
  with Cons.IH [OF _ this] show ?case using Cons.prems(1) by (simp split: if_splits)
qed simp


lemma reachable_run: "net_reachable P cfg y \<Longrightarrow> \<exists>a n. net_run P cfg a n y"
  by (induction rule: net_reachable.induct) (auto elim!: net_step.cases intro: start arrive go_on again)

end
