(* ===== verification/Dom.thy ===== *)
theory Dom
  imports Json
begin

text \<open>
  What the UI uses of the browser and of React. A component renders to a \<open>view\<close>: an element has a tag,
  attributes and children; the handler of an event is the message that the event sends to the
  component's state machine, so that \<open>clicks\<close> lists what a user can trigger. Style objects are lists of
  properties with their values as written (\<open>undefined\<close> values are left out). Hover and focus handlers,
  which only write to the style of an element, keys and references are not part of a view.

  Numbers are exact: a \<open>jsnum\<close> is a rational, or \<open>None\<close> for \<open>NaN\<close>; the infinities are not represented.
\<close>

section \<open>Views\<close>

datatype 'm attr =
    Style "(string \<times> string) list"
  | Attr string string
  | Disabled bool
  | On string 'm
  | OnInput string "string \<Rightarrow> 'm"

datatype 'm view =
    Txt string
  | El string "'m attr list" "'m view list"

definition opt_attr :: "string \<Rightarrow> string option \<Rightarrow> 'm attr list" where
  "opt_attr k v = (case v of None \<Rightarrow> [] | Some x \<Rightarrow> [Attr k x])"

definition flag_attr :: "string \<Rightarrow> bool \<Rightarrow> 'm attr list" where
  "flag_attr k b = (if b then [Attr k []] else [])"

fun attr_click :: "'m attr \<Rightarrow> 'm list" where
  "attr_click (On ev m) = (if ev = ''click'' then [m] else [])"
| "attr_click _ = []"

fun attr_submit :: "'m attr \<Rightarrow> 'm list" where
  "attr_submit (On ev m) = (if ev = ''submit'' then [m] else [])"
| "attr_submit _ = []"

fun attr_disabled :: "'m attr \<Rightarrow> bool" where
  "attr_disabled (Disabled b) = b"
| "attr_disabled _ = False"

text \<open>The messages a user can send by clicking: a disabled element sends none.\<close>

fun clicks :: "'m view \<Rightarrow> 'm list" where
  "clicks (Txt s) = []"
| "clicks (El tag as ks) =
     (if list_ex attr_disabled as then [] else concat (map attr_click as)) @ concat (map clicks ks)"

definition clicks_all :: "'m view list \<Rightarrow> 'm list" where
  "clicks_all vs = concat (map clicks vs)"

text \<open>A form is sent by one of its submit buttons, if it is enabled.\<close>

fun attr_type_submit :: "'m attr \<Rightarrow> bool" where
  "attr_type_submit (Attr k v) = (k = ''type'' \<and> v = ''submit'')"
| "attr_type_submit _ = False"

fun enabled_submit :: "'m view \<Rightarrow> bool" where
  "enabled_submit (Txt s) = False"
| "enabled_submit (El tag as ks) =
     (tag = ''button'' \<and> list_ex attr_type_submit as \<and> \<not> list_ex attr_disabled as \<or> list_ex enabled_submit ks)"

fun submits :: "'m view \<Rightarrow> 'm list" where
  "submits (Txt s) = []"
| "submits (El tag as ks) =
     (if list_ex enabled_submit ks then concat (map attr_submit as) else []) @ concat (map submits ks)"

fun text_content :: "'m view \<Rightarrow> string" where
  "text_content (Txt s) = s"
| "text_content (El tag as ks) = concat (map text_content ks)"

lemma clicks_all_simps [simp]:
  "clicks_all [] = []"
  "clicks_all (v # vs) = clicks v @ clicks_all vs"
  "clicks_all (vs @ ws) = clicks_all vs @ clicks_all ws"
  by (simp_all add: clicks_all_def)

lemma clicks_all_map: "clicks_all (map f xs) = concat (map (\<lambda>x. clicks (f x)) xs)"
  by (simp add: clicks_all_def comp_def)

lemma clicks_El [simp]:
  "clicks (El tag as ks) =
     (if list_ex attr_disabled as then [] else concat (map attr_click as)) @ clicks_all ks"
  by (simp add: clicks_all_def)

declare clicks.simps(2) [simp del]

text \<open>Whether a text that may be absent is shown: the empty text is not.\<close>

definition has_text :: "string option \<Rightarrow> bool" where
  "has_text t \<longleftrightarrow> t \<noteq> None \<and> t \<noteq> Some []"

section \<open>Numbers\<close>

type_synonym jsnum = "rat option"

definition num_le :: "jsnum \<Rightarrow> jsnum \<Rightarrow> bool" where
  "num_le a b = (case (a, b) of (Some x, Some y) \<Rightarrow> x \<le> y | _ \<Rightarrow> False)"

definition num_less :: "jsnum \<Rightarrow> jsnum \<Rightarrow> bool" where
  "num_less a b = (case (a, b) of (Some x, Some y) \<Rightarrow> x < y | _ \<Rightarrow> False)"

text \<open>\<open>===\<close> on numbers: \<open>NaN\<close> differs from itself.\<close>

definition num_eq :: "jsnum \<Rightarrow> jsnum \<Rightarrow> bool" where
  "num_eq a b = (case (a, b) of (Some x, Some y) \<Rightarrow> x = y | _ \<Rightarrow> False)"

definition num_min :: "jsnum \<Rightarrow> jsnum \<Rightarrow> jsnum" where
  "num_min a b = (case (a, b) of (Some x, Some y) \<Rightarrow> Some (min x y) | _ \<Rightarrow> None)"

definition num_text :: "jsnum \<Rightarrow> string" where
  "num_text a = (case a of None \<Rightarrow> ''NaN'' | Some x \<Rightarrow> num_to_string x)"

lemma num_le_Some [simp]: "num_le (Some x) (Some y) \<longleftrightarrow> x \<le> y"
  by (simp add: num_le_def)

lemma num_le_iff: "num_le a b \<longleftrightarrow> (\<exists>x y. a = Some x \<and> b = Some y \<and> x \<le> y)"
  by (auto simp: num_le_def split: option.splits)

lemma num_less_iff: "num_less a b \<longleftrightarrow> (\<exists>x y. a = Some x \<and> b = Some y \<and> x < y)"
  by (auto simp: num_less_def split: option.splits)

lemma num_min_iff: "num_min a b = Some m \<longleftrightarrow> (\<exists>x y. a = Some x \<and> b = Some y \<and> m = min x y)"
  by (auto simp: num_min_def split: option.splits)

subsection \<open>Reading numbers\<close>

text \<open>A decimal literal at the start of a text: sign, digits with an optional fraction, exponent.
  What does not belong to it is left over.\<close>

definition sign_of :: "string \<Rightarrow> rat \<times> string" where
  "sign_of s =
     (case s of
        c # r \<Rightarrow> if c = CHR ''-'' then (-1, r) else if c = CHR ''+'' then (1, r) else (1, s)
      | [] \<Rightarrow> (1, []))"

definition exponent_prefix :: "string \<Rightarrow> int \<times> string" where
  "exponent_prefix s = (case parse_exponent s of None \<Rightarrow> (0, s) | Some er \<Rightarrow> er)"

definition unsigned_prefix :: "string \<Rightarrow> (rat \<times> string) option" where
  "unsigned_prefix s =
     (let ip = takeWhile is_digit s; r = dropWhile is_digit s;
          (fp, r1) = (case r of
              c # r' \<Rightarrow> if c = CHR ''.'' then (takeWhile is_digit r', dropWhile is_digit r') else ([], r)
            | [] \<Rightarrow> ([], []))
      in if ip = [] \<and> fp = [] then None
         else
           (let (e, r2) = exponent_prefix r1; m = of_nat (digits_value (ip @ fp)) / 10 ^ length fp
            in Some (if 0 \<le> e then m * 10 ^ nat e else m / 10 ^ nat (- e), r2)))"

definition js_trim_left :: "string \<Rightarrow> string" where
  "js_trim_left s = dropWhile is_ws s"

definition parseFloat :: "string \<Rightarrow> jsnum" where
  "parseFloat s =
     (let (sg, r) = sign_of (js_trim_left s) in map_option (\<lambda>(x, _). sg * x) (unsigned_prefix r))"

definition hex_value :: "string \<Rightarrow> nat" where
  "hex_value ds = foldl (\<lambda>n d. 16 * n + (case hex_digit d of Some v \<Rightarrow> v | None \<Rightarrow> 0)) 0 ds"

definition is_hex :: "char \<Rightarrow> bool" where
  "is_hex c \<longleftrightarrow> hex_digit c \<noteq> None"

definition hex_prefix :: "string \<Rightarrow> string option" where
  "hex_prefix s =
     (case s of
        c # x # r \<Rightarrow> if c = CHR ''0'' \<and> (x = CHR ''x'' \<or> x = CHR ''X'') then Some r else None
      | _ \<Rightarrow> None)"

definition parseInt :: "string \<Rightarrow> jsnum" where
  "parseInt s =
     (let (sg, r) = sign_of (js_trim_left s)
      in case hex_prefix r of
           Some h \<Rightarrow>
             (let ds = takeWhile is_hex h in if ds = [] then None else Some (sg * of_nat (hex_value ds)))
         | None \<Rightarrow>
             (let ds = takeWhile is_digit r
              in if ds = [] then None else Some (sg * of_nat (digits_value ds))))"

text \<open>\<open>Number(s)\<close> of a text: the whole text must be a literal; the empty text is zero. Binary and
  octal literals and \<open>Infinity\<close> are not read.\<close>

definition string_to_number :: "string \<Rightarrow> jsnum" where
  "string_to_number s =
     (let t = js_trim s
      in if t = [] then Some 0
         else case hex_prefix t of
           Some h \<Rightarrow> if h \<noteq> [] \<and> list_all is_hex h then Some (of_nat (hex_value h)) else None
         | None \<Rightarrow>
             (let (sg, r) = sign_of t
              in case unsigned_prefix r of
                   None \<Rightarrow> None
                 | Some (x, rest) \<Rightarrow> if rest = [] then Some (sg * x) else None))"

fun js_to_number :: "json option \<Rightarrow> jsnum" where
  "js_to_number None = None"
| "js_to_number (Some JNull) = Some 0"
| "js_to_number (Some (JBool b)) = Some (if b then 1 else 0)"
| "js_to_number (Some (JNum r)) = Some r"
| "js_to_number (Some (JStr s)) = string_to_number s"
| "js_to_number (Some (JArr vs)) = string_to_number (js_to_string (JArr vs))"
| "js_to_number (Some (JObj kvs)) = None"

text \<open>\<open>x.toFixed(2)\<close>.\<close>

definition pad_nat :: "nat \<Rightarrow> nat \<Rightarrow> string" where
  "pad_nat w n = (let s = nat_to_string n in replicate (w - length s) CHR ''0'' @ s)"

definition cents_text :: "nat \<Rightarrow> string" where
  "cents_text c = nat_to_string (c div 100) @ ''.'' @ pad_nat 2 (c mod 100)"

definition toFixed2 :: "jsnum \<Rightarrow> string" where
  "toFixed2 a =
     (case a of
        None \<Rightarrow> ''NaN''
      | Some x \<Rightarrow>
          if 10 ^ 21 \<le> \<bar>x\<bar> then num_to_string x
          else (if x < 0 then ''-'' else []) @ cents_text (nat \<lfloor>\<bar>x\<bar> * 100 + 1/2\<rfloor>))"

lemma number_examples:
  "parseFloat ''12.50 chips'' = Some (25/2)" "parseInt '' 42.9'' = Some 42" "string_to_number ''10 chips'' = None"
  "toFixed2 (Some (25/2)) = ''12.50''"
  by code_simp+

section \<open>Requests\<close>

text \<open>A call of \<open>fetch\<close>: method, path, headers and body.\<close>

record fetch =
  f_method :: string
  f_url :: string
  f_headers :: "(string \<times> string) list"
  f_body :: "json option"

text \<open>What a call ends with: an answer with its status and text, or a network error. The methods of
  the answer: \<open>r.ok\<close>, and \<open>r.json()\<close>, which rejects unless the text parses.\<close>

datatype response = Answer nat string | NetworkError

definition resp_ok :: "nat \<Rightarrow> bool" where
  "resp_ok st \<longleftrightarrow> 200 \<le> st \<and> st \<le> 299"

definition content_json :: "(string \<times> string) list" where
  "content_json = [(''Content-Type'', ''application/json'')]"

definition bearer_header :: "string \<Rightarrow> (string \<times> string) list" where
  "bearer_header t = [(''Authorization'', ''Bearer '' @ t)]"

text \<open>Messages that the browser chooses: of a failed \<open>fetch\<close>, and of reading a property of \<open>null\<close>.\<close>

record browser_text =
  bt_network :: string
  bt_type_error :: string
  bt_syntax_error :: string

text \<open>A request whose answer must be JSON: \<open>if (!r.ok) { const e = await r.json(); throw new
  Error(e.error ?? d); } return await r.json()\<close>. The result is what was thrown, or the value.\<close>

definition error_of :: "browser_text \<Rightarrow> string \<Rightarrow> string \<Rightarrow> string" where
  "error_of B d text =
     (case JSON_parse text of
        None \<Rightarrow> bt_syntax_error B
      | Some v \<Rightarrow>
          (case js_prop v ''error'' of
             Inl _ \<Rightarrow> bt_type_error B
           | Inr m \<Rightarrow> js_to_string (js_nullish m (JStr d))))"

definition json_answer :: "browser_text \<Rightarrow> string \<Rightarrow> response \<Rightarrow> string + json" where
  "json_answer B d r =
     (case r of
        NetworkError \<Rightarrow> Inl (bt_network B)
      | Answer st text \<Rightarrow>
          if \<not> resp_ok st then Inl (error_of B d text)
          else (case JSON_parse text of None \<Rightarrow> Inl (bt_syntax_error B) | Some v \<Rightarrow> Inr v))"

lemma json_answer_Inr:
  "json_answer B d r = Inr v \<longleftrightarrow> (\<exists>st text. r = Answer st text \<and> resp_ok st \<and> JSON_parse text = Some v)"
  by (auto simp: json_answer_def split: response.splits option.splits if_splits)

text \<open>\<open>r.ok ? r.json() : \<dots>\<close> and \<open>r.json()\<close> where a failure leaves everything as it is.\<close>

definition any_json :: "response \<Rightarrow> json option" where
  "any_json r = (case r of NetworkError \<Rightarrow> None | Answer st text \<Rightarrow> JSON_parse text)"

definition ok_json :: "response \<Rightarrow> json option" where
  "ok_json r =
     (case r of NetworkError \<Rightarrow> None | Answer st text \<Rightarrow> if resp_ok st then JSON_parse text else None)"

text \<open>How the passkey dialog of the browser ends: with a credential, cancelled by the user, or with
  another error and its message, if it has one.\<close>

datatype webauthn = Credential json | NotAllowed | WebauthnError "string option"

text \<open>\<open>encodeURIComponent\<close>: letters, digits and eight marks are kept, other bytes are escaped.\<close>

definition uri_unreserved :: "char \<Rightarrow> bool" where
  "uri_unreserved c \<longleftrightarrow>
     (let n = of_char c :: nat in
      48 \<le> n \<and> n \<le> 57 \<or> 65 \<le> n \<and> n \<le> 90 \<or> 97 \<le> n \<and> n \<le> 122 \<or> n \<in> {33, 39, 40, 41, 42, 45, 46, 95, 126})"

definition encodeURIComponent :: "string \<Rightarrow> string" where
  "encodeURIComponent s =
     concat (map (\<lambda>c. if uri_unreserved c then [c]
                      else [CHR ''%'', upper_char (hex_char (of_char c div 16)), upper_char (hex_char (of_char c mod 16))]) s)"

lemma encodeURIComponent_example: "encodeURIComponent ''a b/c'' = ''a%20b%2Fc''"
  by code_simp

end
