(* ===== verification/AuthConfig.thy ===== *)
theory AuthConfig
  imports AuthSystem Dom
begin

text \<open>
  The set-up of the auth service from its environment: ports and database, the agent for calls to services that
  ask for a certificate, and the server. Reading a file is a parameter, \<open>None\<close> where \<open>fs.readFileSync\<close> throws.
\<close>

section \<open>Settings\<close>

record tls_names =
  TLS_CERT :: string
  TLS_KEY :: string
  TLS_CA :: string

definition load_tls :: "(string \<Rightarrow> string option) \<Rightarrow> tls_names" where
  "load_tls env =
     \<lparr>TLS_CERT = env_or env ''TLS_CERT'' [], TLS_KEY = env_or env ''TLS_KEY'' [], TLS_CA = env_or env ''TLS_CA'' []\<rparr>"

definition PORT :: "(string \<Rightarrow> string option) \<Rightarrow> jsnum" where
  "PORT env = parseInt (env_or env ''PORT'' ''3006'')"

definition REDIS_URL :: "(string \<Rightarrow> string option) \<Rightarrow> string" where
  "REDIS_URL env = env_or env ''REDIS_URL'' ''redis://redis:6379''"

record pool =
  pool_host :: string
  pool_port :: jsnum
  pool_database :: string
  pool_user :: string
  pool_password :: string

definition load_pool :: "(string \<Rightarrow> string option) \<Rightarrow> pool" where
  "load_pool env =
     \<lparr>pool_host = env_or env ''AUTH_DB_HOST'' ''auth-db'',
      pool_port = parseInt (env_or env ''AUTH_DB_PORT'' ''5432''),
      pool_database = env_or env ''AUTH_DB_NAME'' ''authdb'',
      pool_user = env_or env ''AUTH_DB_USER'' ''authuser'',
      pool_password = env_or env ''AUTH_DB_PASSWORD'' ''authpass_dev''\<rparr>"

section \<open>Agent and server\<close>

type_synonym files = "string \<Rightarrow> string option"

record tls_material =
  tm_cert :: string
  tm_key :: string
  tm_ca :: string

datatype agent = Certified tls_material | AnyPeer

datatype server = MutualTls tls_material | Plain_Http

definition tls_enabled :: "tls_names \<Rightarrow> bool" where
  "tls_enabled t \<longleftrightarrow> TLS_CERT t \<noteq> [] \<and> TLS_KEY t \<noteq> [] \<and> TLS_CA t \<noteq> []"

definition read_file :: "files \<Rightarrow> string \<Rightarrow> js_error + string" where
  "read_file fs f = (case fs f of None \<Rightarrow> Inl (LibError ''ENOENT'') | Some c \<Rightarrow> Inr c)"

definition read_material :: "files \<Rightarrow> tls_names \<Rightarrow> js_error + tls_material" where
  "read_material fs t =
     (case read_file fs (TLS_CERT t) of
        Inl e \<Rightarrow> Inl e
      | Inr c \<Rightarrow>
          (case read_file fs (TLS_KEY t) of
             Inl e \<Rightarrow> Inl e
           | Inr k \<Rightarrow>
               (case read_file fs (TLS_CA t) of
                  Inl e \<Rightarrow> Inl e
                | Inr a \<Rightarrow> Inr \<lparr>tm_cert = c, tm_key = k, tm_ca = a\<rparr>)))"

text \<open>Without the three settings the agent does not check the certificate of its peer.\<close>

definition mtlsAgent :: "files \<Rightarrow> tls_names \<Rightarrow> js_error + agent" where
  "mtlsAgent fs t = (if tls_enabled t then map_sum id Certified (read_material fs t) else Inr AnyPeer)"

text \<open>With them the server asks its clients for certificates, and rejects those it cannot verify.\<close>

definition create_server :: "files \<Rightarrow> tls_names \<Rightarrow> js_error + server" where
  "create_server fs t = (if tls_enabled t then map_sum id MutualTls (read_material fs t) else Inr Plain_Http)"

text \<open>The program up to \<open>main\<close>: an exception ends it, and \<open>main\<close> is not reached.\<close>

definition load_module :: "files \<Rightarrow> (string \<Rightarrow> string option) \<Rightarrow> js_error + (agent \<times> server)" where
  "load_module fs env =
     (let t = load_tls env in
      case mtlsAgent fs t of
        Inl e \<Rightarrow> Inl e
      | Inr a \<Rightarrow> map_sum id (Pair a) (create_server fs t))"

section \<open>Lemmas\<close>

lemma agent_fits_server:
  "load_module fs env = Inr (a, sv) \<Longrightarrow>
    (a = AnyPeer \<and> sv = Plain_Http) \<or> (\<exists>m. a = Certified m \<and> sv = MutualTls m)"
  by (auto simp: load_module_def mtlsAgent_def create_server_def Let_def split: sum.splits if_splits)
    (auto simp: map_sum_def split: sum.splits)

lemma load_module_plain_iff:
  "load_module fs env = Inr (a, Plain_Http) \<longleftrightarrow> a = AnyPeer \<and> \<not> tls_enabled (load_tls env)"
  by (auto simp: load_module_def mtlsAgent_def create_server_def Let_def split: sum.splits if_splits)
    (auto simp: map_sum_def split: sum.splits)

lemma load_module_fails_iff:
  "(\<exists>e. load_module fs env = Inl e) \<longleftrightarrow>
    tls_enabled (load_tls env) \<and>
    (fs (TLS_CERT (load_tls env)) = None \<or> fs (TLS_KEY (load_tls env)) = None \<or> fs (TLS_CA (load_tls env)) = None)"
  by (auto simp: load_module_def mtlsAgent_def create_server_def read_material_def read_file_def Let_def
      split: option.splits)

end
