(* ===== verification/HttpBody.thy ===== *)
theory HttpBody
  imports Prelude
begin

text \<open>
  How the two services read the body of a request (\<open>readBody\<close> in \<open>auth-service/index.ts\<close> and in
  \<open>document-service/index.ts\<close>). A body arrives in chunks of bytes. The document service joins the chunks and
  decodes the whole; the auth service decodes each chunk and joins the texts, which damages a character
  whose bytes are spread over two chunks. A text is the list of the bytes of its UTF-8 encoding.
\<close>

section \<open>Decoding\<close>

text \<open>What may follow the lead byte of a character of more than one byte: the ranges of its bytes.\<close>

definition continuation :: "nat \<Rightarrow> (nat \<times> nat) list" where
  "continuation b =
     (if 0xC2 \<le> b \<and> b \<le> 0xDF then [(0x80, 0xBF)]
      else if b = 0xE0 then [(0xA0, 0xBF), (0x80, 0xBF)]
      else if b = 0xED then [(0x80, 0x9F), (0x80, 0xBF)]
      else if 0xE1 \<le> b \<and> b \<le> 0xEF then [(0x80, 0xBF), (0x80, 0xBF)]
      else if b = 0xF0 then [(0x90, 0xBF), (0x80, 0xBF), (0x80, 0xBF)]
      else if 0xF1 \<le> b \<and> b \<le> 0xF3 then [(0x80, 0xBF), (0x80, 0xBF), (0x80, 0xBF)]
      else if b = 0xF4 then [(0x80, 0x8F), (0x80, 0xBF), (0x80, 0xBF)]
      else [])"

fun matching :: "(nat \<times> nat) list \<Rightarrow> string \<Rightarrow> nat" where
  "matching ((lo, hi) # rs) (c # cs) =
     (if lo \<le> of_char c \<and> of_char c \<le> hi then Suc (matching rs cs) else 0)"
| "matching _ _ = 0"

definition complete :: "(nat \<times> nat) list \<Rightarrow> string \<Rightarrow> bool" where
  "complete rs cs \<longleftrightarrow> rs \<noteq> [] \<and> matching rs cs = length rs"

text \<open>The replacement character.\<close>

definition replacement :: string where
  "replacement = [CHR 0xEF, CHR 0xBF, CHR 0xBD]"

text \<open>Bytes decoded as UTF-8: what starts a character and does not end it is replaced as a whole.\<close>

function decode_utf8 :: "string \<Rightarrow> string" where
  "decode_utf8 [] = []"
| "decode_utf8 (c # cs) =
     (let rs = continuation (of_char c); k = matching rs cs in
      if (of_char c :: nat) < 0x80 then c # decode_utf8 cs
      else if complete rs cs then c # take k cs @ decode_utf8 (drop k cs)
      else replacement @ decode_utf8 (drop k cs))"
  by pat_completeness auto
termination by (relation "measure length") auto

section \<open>Reading\<close>

definition auth_readBody :: "string list \<Rightarrow> string" where
  "auth_readBody chunks = concat (map decode_utf8 chunks)"

definition doc_readBody :: "string list \<Rightarrow> string" where
  "doc_readBody chunks = decode_utf8 (concat chunks)"

section \<open>Well-formed texts\<close>

definition well_formed :: "string \<Rightarrow> bool" where
  "well_formed s \<longleftrightarrow> decode_utf8 s = s"

lemma matching_le: "matching rs cs \<le> length rs"
  by (induction rs cs rule: matching.induct) auto

lemma matching_le_text: "matching rs cs \<le> length cs"
  by (induction rs cs rule: matching.induct) auto

lemma complete_append: "complete rs cs \<Longrightarrow> complete rs (cs @ ds) \<and> matching rs (cs @ ds) = matching rs cs"
proof -
  have "matching rs cs = length rs \<Longrightarrow> matching rs (cs @ ds) = length rs"
    by (induction rs cs rule: matching.induct) (auto split: if_splits)
  then show "complete rs cs \<Longrightarrow> complete rs (cs @ ds) \<and> matching rs (cs @ ds) = matching rs cs"
    by (simp add: complete_def)
qed

text \<open>The three cases of decoding.\<close>

lemma decode_cases:
  defines "rs \<equiv> \<lambda>c. continuation (of_char c)"
  shows "(of_char c :: nat) < 0x80 \<Longrightarrow> decode_utf8 (c # cs) = c # decode_utf8 cs"
    and "\<not> (of_char c :: nat) < 0x80 \<Longrightarrow> complete (rs c) cs \<Longrightarrow>
      decode_utf8 (c # cs) = c # take (matching (rs c) cs) cs @ decode_utf8 (drop (matching (rs c) cs) cs)"
    and "\<not> (of_char c :: nat) < 0x80 \<Longrightarrow> \<not> complete (rs c) cs \<Longrightarrow>
      decode_utf8 (c # cs) = replacement @ decode_utf8 (drop (matching (rs c) cs) cs)"
  by (simp_all add: rs_def Let_def)

declare decode_utf8.simps(2) [simp del]

text \<open>Decoding never makes a text shorter: what is replaced has at most three bytes.\<close>

lemma replaced_short: "\<not> complete (continuation b) cs \<Longrightarrow> matching (continuation b) cs \<le> 2"
proof -
  have "length (continuation b) \<le> 3" by (simp add: continuation_def)
  then show "\<not> complete (continuation b) cs \<Longrightarrow> matching (continuation b) cs \<le> 2"
    using matching_le [of "continuation b" cs] by (cases "continuation b") (auto simp: complete_def)
qed

lemma decode_longer: "length s \<le> length (decode_utf8 s)"
proof (induction s rule: decode_utf8.induct)
  case (2 c cs)
  let ?rs = "continuation (of_char c)"
  let ?k = "matching ?rs cs"
  consider "(of_char c :: nat) < 0x80"
    | "\<not> (of_char c :: nat) < 0x80" "complete ?rs cs"
    | "\<not> (of_char c :: nat) < 0x80" "\<not> complete ?rs cs" by blast
  then show ?case
  proof cases
    case 1
    then show ?thesis using 2(1) by (simp add: decode_cases(1))
  next
    case ok: 2
    then show ?thesis using 2(2) [OF refl refl ok] matching_le_text [of ?rs cs]
      by (simp add: decode_cases(2) [OF ok])
  next
    case bad: 3
    then show ?thesis using 2(3) [OF refl refl bad] replaced_short [OF bad(2)]
      by (simp add: decode_cases(3) [OF bad] replacement_def)
  qed
qed simp

lemma decode_ascii: "list_all (\<lambda>c. (of_char c :: nat) < 0x80) s \<Longrightarrow> decode_utf8 s = s"
  by (induction s) (simp_all add: decode_cases(1))

text \<open>Well-formed pieces can be decoded one by one.\<close>

lemma decode_append: "well_formed s \<Longrightarrow> decode_utf8 (s @ t) = s @ decode_utf8 t"
proof (induction s rule: decode_utf8.induct)
  case (2 c cs)
  let ?rs = "continuation (of_char c)"
  let ?k = "matching ?rs cs"
  have w: "decode_utf8 (c # cs) = c # cs" using 2(4) by (simp add: well_formed_def)
  consider "(of_char c :: nat) < 0x80"
    | "\<not> (of_char c :: nat) < 0x80" "complete ?rs cs"
    | "\<not> (of_char c :: nat) < 0x80" "\<not> complete ?rs cs" by blast
  then show ?case
  proof cases
    case 1
    then show ?thesis using 2(1) w by (simp add: decode_cases(1) well_formed_def)
  next
    case ok: 2
    have "take ?k cs @ decode_utf8 (drop ?k cs) = take ?k cs @ drop ?k cs"
      using w by (simp add: decode_cases(2) [OF ok])
    then have "well_formed (drop ?k cs)" unfolding well_formed_def by (simp only: same_append_eq)
    then have "decode_utf8 (drop ?k cs @ t) = drop ?k cs @ decode_utf8 t" by (rule 2(2) [OF refl refl ok])
    then show ?thesis
      using decode_cases(2) [OF ok(1), of "cs @ t"] complete_append [OF ok(2), of t] matching_le_text [of ?rs cs]
      by (simp flip: append_assoc)
  next
    case bad: 3
    have "replacement @ decode_utf8 (drop ?k cs) = c # cs" using w by (simp add: decode_cases(3) [OF bad])
    then have "CHR 0xEF # CHR 0xBF # CHR 0xBD # decode_utf8 (drop ?k cs) = c # cs" by (simp add: replacement_def)
    then obtain r where "c = CHR 0xEF" "cs = CHR 0xBF # CHR 0xBD # r" by (metis list.inject)
    then have "complete ?rs cs" by (simp add: continuation_def complete_def)
    then show ?thesis using bad by simp
  qed
qed simp

text \<open>Texts of the same length in all, each no shorter than its counterpart, agree one by one.\<close>

lemma concat_map_id:
  assumes "\<And>x. x \<in> set xs \<Longrightarrow> length x \<le> length (f x)" and "concat (map f xs) = concat xs"
  shows "\<forall>x \<in> set xs. f x = x"
  using assms
proof (induction xs)
  case (Cons x xs)
  have le: "length (concat xs) \<le> length (concat (map f xs))"
    using Cons.prems(1) by (simp add: length_concat comp_def sum_list_mono)
  have eq: "f x @ concat (map f xs) = x @ concat xs" using Cons.prems(2) by simp
  have "length (f x) + length (concat (map f xs)) = length x + length (concat xs)"
    using arg_cong [OF eq, of length] by (simp only: length_append)
  moreover have "length x \<le> length (f x)" using Cons.prems(1) by simp
  ultimately have "length (f x) = length x" using le by linarith
  then have x: "f x = x \<and> concat (map f xs) = concat xs" using eq append_eq_append_conv by blast
  have "\<forall>y \<in> set xs. f y = y" by (rule Cons.IH [OF Cons.prems(1) x [THEN conjunct2]]) simp
  then show ?case using x by simp
qed simp

section \<open>Bodies in chunks\<close>

text \<open>C23. The auth service reads the body that was sent exactly when every chunk of it is well-formed UTF-8 by
  itself, that is, when no character is cut by the boundary of a chunk; the document service reads it
  whenever the whole is well-formed.\<close>

theorem bodies_read_iff:
  "(auth_readBody chunks = concat chunks \<longleftrightarrow> list_all well_formed chunks) \<and>
   (doc_readBody chunks = concat chunks \<longleftrightarrow> well_formed (concat chunks))"
proof -
  have "auth_readBody chunks = concat chunks \<Longrightarrow> list_all well_formed chunks"
    using concat_map_id [of chunks decode_utf8] decode_longer
    by (auto simp: auth_readBody_def well_formed_def list_all_iff)
  moreover have "map decode_utf8 chunks = chunks" if "list_all well_formed chunks"
    using that by (induction chunks) (simp_all add: well_formed_def)
  ultimately show ?thesis by (auto simp: auth_readBody_def doc_readBody_def well_formed_def)
qed

text \<open>Chunks that are well-formed give the same text in both services; a cut character does not.\<close>

lemma readBody_agree: "list_all well_formed chunks \<Longrightarrow> doc_readBody chunks = auth_readBody chunks"
proof (induction chunks)
  case (Cons c cs)
  then show ?case by (simp add: doc_readBody_def auth_readBody_def decode_append) (simp add: well_formed_def)
qed (simp add: doc_readBody_def auth_readBody_def)

lemma readBody_cut_character:
  "auth_readBody [''Ren'' @ [CHR 0xC3], [CHR 0xA9]] = ''Ren'' @ replacement @ replacement"
  "doc_readBody [''Ren'' @ [CHR 0xC3], [CHR 0xA9]] = ''Ren'' @ [CHR 0xC3, CHR 0xA9]"
  by code_simp+

end
