(* ===== verification/DocCsv.thy ===== *)
theory DocCsv
  imports Json
begin

text \<open>
  The CSV rows of the document service (\<open>parseCSVRow\<close> in \<open>document-service/index.ts\<close>): the loop over
  the characters as a recursion on the rest of the row, with the columns read so far, the current
  column and the quoting flag as its state. A row quoted as RFC 4180 prescribes is read back.
\<close>

section \<open>The reader\<close>

fun csv_loop :: "string list \<Rightarrow> string \<Rightarrow> bool \<Rightarrow> string \<Rightarrow> string list" where
  "csv_loop cols current inQuotes [] = cols @ [js_trim current]"
| "csv_loop cols current inQuotes (ch # rest) =
     (if ch = CHR 0x22 then
        (if inQuotes \<and> (case rest of [] \<Rightarrow> False | next # _ \<Rightarrow> next = CHR 0x22)
         then csv_loop cols (current @ [CHR 0x22]) inQuotes (tl rest)
         else csv_loop cols current (\<not> inQuotes) rest)
      else if ch = CHR '','' \<and> \<not> inQuotes
      then csv_loop (cols @ [js_trim current]) [] inQuotes rest
      else csv_loop cols (current @ [ch]) inQuotes rest)"

definition parseCSVRow :: "string \<Rightarrow> string list" where
  "parseCSVRow row = csv_loop [] [] False row"

section \<open>Lemmas on the loop\<close>

lemma csv_loop_cols: "csv_loop cols cur q s = cols @ csv_loop [] cur q s"
proof (induction s arbitrary: cols cur q rule: length_induct)
  case (1 s)
  show ?case
  proof (cases s)
    case (Cons ch rest)
    have IH: "csv_loop cs c b r = cs @ csv_loop [] c b r" if "length r \<le> length rest" for cs c b r
    proof -
      have "length r < length s" using that Cons by simp
      then show ?thesis using 1 by blast
    qed
    have "csv_loop (cols @ [js_trim cur]) [] q rest = cols @ csv_loop [js_trim cur] [] q rest"
      unfolding IH [of rest "cols @ [js_trim cur]" "[]" q, OF order_refl]
        IH [of rest "[js_trim cur]" "[]" q, OF order_refl] by (rule append_assoc)
    then show ?thesis
      using IH [of rest cols cur "\<not> q"] IH [of rest cols "cur @ [ch]" q]
        IH [of "tl rest" cols "cur @ [CHR 0x22]" q]
      by (cases q) (simp_all add: Cons)
  qed simp
qed

lemma csv_loop_nonempty: "csv_loop cols cur q s \<noteq> []"
  by (induction cols cur q s rule: csv_loop.induct) auto

lemma parseCSVRow_nonempty [simp]: "parseCSVRow row \<noteq> []"
  by (simp add: parseCSVRow_def csv_loop_nonempty)

text \<open>Plain text up to a separator.\<close>

lemma csv_loop_plain:
  "CHR 0x22 \<notin> set f \<Longrightarrow> CHR '','' \<notin> set f \<Longrightarrow>
    csv_loop cols cur False (f @ r) = csv_loop cols (cur @ f) False r"
  by (induction f arbitrary: cur) auto

section \<open>Reading back a quoted row\<close>

text \<open>The writer of RFC 4180: a field with a comma or a quote is put in quotes, its quotes doubled.\<close>

definition csv_escape :: "string \<Rightarrow> string" where
  "csv_escape f = concat (map (\<lambda>c. if c = CHR 0x22 then [c, c] else [c]) f)"

definition csv_field :: "string \<Rightarrow> string" where
  "csv_field f =
     (if CHR 0x22 \<in> set f \<or> CHR '','' \<in> set f then CHR 0x22 # csv_escape f @ [CHR 0x22] else f)"

definition csv_row :: "string list \<Rightarrow> string" where
  "csv_row fs = intercalate '','' (map csv_field fs)"

lemma csv_loop_escaped:
  assumes "r = [] \<or> hd r \<noteq> CHR 0x22"
  shows "csv_loop cols cur True (csv_escape f @ CHR 0x22 # r) = csv_loop cols (cur @ f) False r"
proof (induction f arbitrary: cur)
  case Nil
  then show ?case using assms by (cases r) (auto simp: csv_escape_def)
next
  case (Cons c f)
  then show ?case by (auto simp: csv_escape_def)
qed

lemma csv_loop_field:
  assumes "r = [] \<or> hd r = CHR '',''"
  shows "csv_loop cols [] False (csv_field f @ r) = csv_loop cols f False r"
  using assms csv_loop_plain [of f cols "[]" r] csv_loop_escaped [of r cols "[]" f]
  by (auto simp: csv_field_def)

lemma csv_loop_row:
  "fs \<noteq> [] \<Longrightarrow> csv_loop cols [] False (csv_row fs) = cols @ map js_trim fs"
proof (induction fs arbitrary: cols rule: induct_list012)
  case (2 f)
  show ?case using csv_loop_field [of "[]" cols f] by (simp add: csv_row_def)
next
  case (3 f g fs)
  have "csv_row (f # g # fs) = csv_field f @ CHR '','' # csv_row (g # fs)" by (simp add: csv_row_def)
  then show ?case using csv_loop_field [of "CHR '','' # csv_row (g # fs)" cols f] 3 by simp
qed simp

text \<open>C24. A row written as RFC 4180 prescribes is read back field by field, up to the surrounding
  white space, which the reader removes even inside quotes.\<close>

theorem csv_roundtrip:
  assumes "fs \<noteq> []"
  shows "parseCSVRow (csv_row fs) = map js_trim fs"
  using csv_loop_row [OF assms, of "[]"] by (simp add: parseCSVRow_def)

lemma csv_roundtrip_witness:
  "parseCSVRow (csv_row [''a, b'', ''say \"hi\"'', ''12.50 '']) = [''a, b'', ''say \"hi\"'', ''12.50'']"
proof -
  have "map js_trim [''a, b'', ''say \"hi\"'', ''12.50 ''] = [''a, b'', ''say \"hi\"'', ''12.50'']" by code_simp
  then show ?thesis using csv_roundtrip [of "[''a, b'', ''say \"hi\"'', ''12.50 '']"] by simp
qed

end
