(* ===== verification/DocValidate.thy ===== *)
theory DocValidate
  imports DocCsv
begin

text \<open>
  The validation of document requests (\<open>validateRequest\<close> in \<open>document-service/index.ts\<close>): the checks
  in the source's order with their codes and messages, on any JSON value. The result of a valid
  request is the request with its blocks read out; \<open>Object.keys\<close> of \<open>null\<close> throws, and that throw is
  outside every \<open>try\<close> of the handler. The declarative reading of a well-formed request follows.
\<close>

section \<open>Requests\<close>

record table_block =
  t_name :: "json option"
  t_headers :: "json list"
  t_rows :: "string list"

datatype block = TextBlock string | FooterBlock string | TableBlock table_block

record doc_request =
  d_caller :: string
  d_title :: string
  d_heading :: "json option"
  d_sub_heading :: "json option"
  d_blocks :: "block list"

datatype validation = Valid doc_request | Invalid string string

definition CALLER_ALLOWLIST :: "string list" where
  "CALLER_ALLOWLIST = [''bank-service'', ''game-state'', ''auth-service'']"

section \<open>The checks\<close>

fun object_keys :: "json \<Rightarrow> js_error + string list" where
  "object_keys JNull = Inl TypeError"
| "object_keys (JObj kvs) = Inr (map fst kvs)"
| "object_keys (JStr s) = Inr (map nat_to_string [0 ..< length s])"
| "object_keys (JArr xs) = Inr (map nat_to_string [0 ..< length xs])"
| "object_keys _ = Inr []"

definition block_msg :: "nat \<Rightarrow> string \<Rightarrow> string" where
  "block_msg i m = ''Block '' @ nat_to_string i @ '': '' @ m"

text \<open>The loop over the rows of a table of block \<open>i\<close>, from row \<open>r\<close> on.\<close>

fun validate_rows :: "nat \<Rightarrow> nat \<Rightarrow> nat \<Rightarrow> json list \<Rightarrow> (string \<times> string) + string list" where
  "validate_rows colCount i r [] = Inr []"
| "validate_rows colCount i r (v # vs) =
     (case v of
        JStr row \<Rightarrow>
          (let cols = parseCSVRow row in
           if length cols \<noteq> colCount
           then Inl (''invalid_table_rows'',
                  block_msg i (''table row '' @ nat_to_string r @ '' has '' @ nat_to_string (length cols) @
                    '' columns, expected '' @ nat_to_string colCount))
           else map_sum id ((#) row) (validate_rows colCount i (Suc r) vs))
      | _ \<Rightarrow> Inl (''invalid_block'',
               block_msg i (''table row '' @ nat_to_string r @ '' must be a CSV string'')))"

definition validate_table :: "nat \<Rightarrow> json \<Rightarrow> (string \<times> string) + table_block" where
  "validate_table i t =
     (if \<not> js_truthy t \<or> (\<forall>kvs. t \<noteq> JObj kvs) \<and> (\<forall>vs. t \<noteq> JArr vs)
      then Inl (''invalid_block'', block_msg i ''table must be an object'')
      else case js_prop t ''headers'' of
        Inr (Some (JArr (h # hs))) \<Rightarrow>
          (case js_prop t ''rows'' of
             Inr (Some (JArr rs)) \<Rightarrow>
               map_sum id
                 (\<lambda>rows. \<lparr>t_name = (case js_prop t ''name'' of Inl _ \<Rightarrow> None | Inr v \<Rightarrow> v),
                          t_headers = h # hs, t_rows = rows\<rparr>)
                 (validate_rows (length (h # hs)) i 0 rs)
           | _ \<Rightarrow> Inl (''invalid_block'', block_msg i ''table.rows must be an array''))
      | _ \<Rightarrow> Inl (''invalid_block'', block_msg i ''table.headers must be a non-empty array''))"

definition validate_block :: "nat \<Rightarrow> json \<Rightarrow> js_error + (string \<times> string) + block" where
  "validate_block i b =
     (case object_keys b of
        Inl e \<Rightarrow> Inl e
      | Inr [k] \<Rightarrow>
          Inr (case js_prop b k of
                 Inr (Some v) \<Rightarrow>
                   (if k = ''text'' then
                      (case v of JStr s \<Rightarrow> Inr (TextBlock s)
                       | _ \<Rightarrow> Inl (''invalid_block'', block_msg i ''text must be a string''))
                    else if k = ''footer'' then
                      (case v of JStr s \<Rightarrow> Inr (FooterBlock s)
                       | _ \<Rightarrow> Inl (''invalid_block'', block_msg i ''footer must be a string''))
                    else if k = ''table'' then map_sum id TableBlock (validate_table i v)
                    else Inl (''invalid_block'',
                           block_msg i (''unknown block type '' @ [CHR 0x27] @ k @ [CHR 0x27])))
               | _ \<Rightarrow> Inl (''invalid_block'',
                        block_msg i (''unknown block type '' @ [CHR 0x27] @ k @ [CHR 0x27])))
      | Inr _ \<Rightarrow>
          Inr (Inl (''invalid_block'',
                 block_msg i ''must have exactly one key (text, table, or footer)'')))"

fun validate_blocks :: "nat \<Rightarrow> json list \<Rightarrow> js_error + (string \<times> string) + block list" where
  "validate_blocks i [] = Inr (Inr [])"
| "validate_blocks i (b # bs) =
     (case validate_block i b of
        Inl e \<Rightarrow> Inl e
      | Inr (Inl err) \<Rightarrow> Inr (Inl err)
      | Inr (Inr x) \<Rightarrow> map_sum id (map_sum id ((#) x)) (validate_blocks (Suc i) bs))"

definition validateRequest :: "json \<Rightarrow> js_error + validation" where
  "validateRequest body =
     (case body of
        JArr _ \<Rightarrow> Inr (Invalid ''missing_required_fields'' ''caller is required'')
      | JObj kvs \<Rightarrow>
          (case map_of kvs ''caller'' of
             Some (JStr c) \<Rightarrow>
               if c = [] then Inr (Invalid ''missing_required_fields'' ''caller is required'')
               else if c \<notin> set CALLER_ALLOWLIST
               then Inr (Invalid ''unknown_caller''
                      (''Caller '' @ [CHR 0x27] @ c @ [CHR 0x27] @ '' is not authorized''))
               else
                 (case map_of kvs ''title'' of
                    Some (JStr t) \<Rightarrow>
                      if t = [] then Inr (Invalid ''missing_required_fields'' ''title is required'')
                      else
                        (case map_of kvs ''blocks'' of
                           Some (JArr (b # bs)) \<Rightarrow>
                             (case validate_blocks 0 (b # bs) of
                                Inl e \<Rightarrow> Inl e
                              | Inr (Inl (code, msg)) \<Rightarrow> Inr (Invalid code msg)
                              | Inr (Inr blocks) \<Rightarrow>
                                  Inr (Valid \<lparr>d_caller = c, d_title = t,
                                    d_heading = map_of kvs ''heading'',
                                    d_sub_heading = map_of kvs ''sub_heading'', d_blocks = blocks\<rparr>))
                         | _ \<Rightarrow> Inr (Invalid ''missing_required_fields''
                                  ''blocks array is required and must not be empty''))
                  | _ \<Rightarrow> Inr (Invalid ''missing_required_fields'' ''title is required''))
           | _ \<Rightarrow> Inr (Invalid ''missing_required_fields'' ''caller is required''))
      | _ \<Rightarrow> Inr (Invalid ''missing_required_fields'' ''Request body must be a JSON object''))"

section \<open>Well-formed requests\<close>

definition wf_table :: "json \<Rightarrow> table_block \<Rightarrow> bool" where
  "wf_table t tb \<longleftrightarrow>
     (\<exists>kvs. t = JObj kvs \<and> map_of kvs ''headers'' = Some (JArr (t_headers tb)) \<and> t_headers tb \<noteq> [] \<and>
        map_of kvs ''rows'' = Some (JArr (map JStr (t_rows tb))) \<and>
        (\<forall>row \<in> set (t_rows tb). length (parseCSVRow row) = length (t_headers tb)) \<and>
        t_name tb = map_of kvs ''name'')"

fun wf_block :: "json \<Rightarrow> block \<Rightarrow> bool" where
  "wf_block j (TextBlock s) \<longleftrightarrow> j = JObj [(''text'', JStr s)]"
| "wf_block j (FooterBlock s) \<longleftrightarrow> j = JObj [(''footer'', JStr s)]"
| "wf_block j (TableBlock tb) \<longleftrightarrow> (\<exists>t. j = JObj [(''table'', t)] \<and> wf_table t tb)"

definition wf_header :: "json \<Rightarrow> (string \<times> json) list \<Rightarrow> string \<Rightarrow> string \<Rightarrow> json list \<Rightarrow> bool" where
  "wf_header j kvs c t bs \<longleftrightarrow>
     j = JObj kvs \<and> map_of kvs ''caller'' = Some (JStr c) \<and> c \<in> set CALLER_ALLOWLIST \<and>
     map_of kvs ''title'' = Some (JStr t) \<and> t \<noteq> [] \<and> map_of kvs ''blocks'' = Some (JArr bs) \<and> bs \<noteq> []"

definition wf_request :: "json \<Rightarrow> doc_request \<Rightarrow> bool" where
  "wf_request j req \<longleftrightarrow>
     (\<exists>kvs bs. wf_header j kvs (d_caller req) (d_title req) bs \<and> list_all2 wf_block bs (d_blocks req) \<and>
        d_heading req = map_of kvs ''heading'' \<and> d_sub_heading req = map_of kvs ''sub_heading'')"

lemma map_sum_eq_Inl: "map_sum id f x = Inl e \<longleftrightarrow> x = Inl e"
  by (cases x) auto

lemma validate_rows_Inr:
  "validate_rows n i r vs = Inr rows \<longleftrightarrow>
    vs = map JStr rows \<and> (\<forall>row \<in> set rows. length (parseCSVRow row) = n)"
proof (induction vs arbitrary: r rows)
  case (Cons v vs)
  show ?case
  proof (cases v)
    case (JStr row)
    show ?thesis
      by (cases rows) (auto simp: JStr Let_def map_sum_eq_Inr Cons.IH [of "Suc r"])
  qed (cases rows; simp)+
qed auto

lemma validate_table_Inr: "validate_table i t = Inr tb \<longleftrightarrow> wf_table t tb"
proof (cases t)
  case (JObj kvs)
  show ?thesis
    by (cases tb)
      (auto simp: validate_table_def wf_table_def JObj validate_rows_Inr map_sum_eq_Inr
        split: option.splits json.splits list.splits)
qed (auto simp: validate_table_def wf_table_def)

lemma validate_block_Inr: "validate_block i j = Inr (Inr b) \<longleftrightarrow> wf_block j b"
proof (cases j)
  case (JObj kvs)
  show ?thesis
  proof (cases kvs)
    case (Cons kv r)
    then show ?thesis
      by (cases r; cases kv; cases b)
        (auto simp: validate_block_def JObj map_sum_eq_Inr validate_table_Inr split: json.splits)
  qed (cases b; auto simp: validate_block_def JObj)
qed (cases b; auto simp: validate_block_def split: list.splits)+

lemma validate_block_Inl: "validate_block i j = Inl e \<longleftrightarrow> j = JNull \<and> e = TypeError"
  by (cases j) (auto simp: validate_block_def split: list.splits)

lemma validate_blocks_Inr: "validate_blocks i bs = Inr (Inr xs) \<longleftrightarrow> list_all2 wf_block bs xs"
proof (induction bs arbitrary: i xs)
  case (Cons b bs)
  have "wf_block b x \<longleftrightarrow> validate_block i b = Inr (Inr x)" for x by (rule validate_block_Inr [symmetric])
  then show ?case
    by (cases xs) (auto simp: map_sum_eq_Inr Cons.IH [of "Suc i"] split: sum.splits)
qed auto

text \<open>The loop throws exactly when it reaches a \<open>null\<close> after well-formed blocks only.\<close>

definition reaches_null :: "json list \<Rightarrow> bool" where
  "reaches_null bs \<longleftrightarrow> (\<exists>k < length bs. bs ! k = JNull \<and> (\<forall>m < k. \<exists>x. wf_block (bs ! m) x))"

lemma reaches_null_Cons:
  "reaches_null (b # bs) \<longleftrightarrow> b = JNull \<or> (\<exists>x. wf_block b x) \<and> reaches_null bs"
  by (auto simp: reaches_null_def Ex_less_Suc2 All_less_Suc2)

lemma validate_blocks_Inl: "(\<exists>e. validate_blocks i bs = Inl e) \<longleftrightarrow> reaches_null bs"
proof (induction bs arbitrary: i)
  case (Cons b bs)
  have w: "wf_block b x \<longleftrightarrow> validate_block i b = Inr (Inr x)" for x by (rule validate_block_Inr [symmetric])
  have n: "validate_block i b = Inl TypeError \<longleftrightarrow> b = JNull"
    "validate_block i b = Inl e \<Longrightarrow> b = JNull" for e using validate_block_Inl [of i b] by auto
  show ?case
  proof (cases "validate_block i b")
    case (Inr r)
    then show ?thesis
      using n Cons.IH [of "Suc i"] by (cases r) (auto simp: reaches_null_Cons w map_sum_eq_Inl)
  qed (use n(2) in \<open>auto simp: reaches_null_Cons\<close>)
qed (simp add: reaches_null_def)

lemma validateRequest_Valid: "validateRequest j = Inr (Valid req) \<longleftrightarrow> wf_request j req"
proof -
  have B: "list_all2 wf_block bs xs \<longleftrightarrow> validate_blocks 0 bs = Inr (Inr xs)" for bs xs
    by (rule validate_blocks_Inr [symmetric])
  have "[] \<notin> set CALLER_ALLOWLIST" by (simp add: CALLER_ALLOWLIST_def)
  then show ?thesis
    by (cases j; cases req)
      (auto simp: validateRequest_def wf_request_def wf_header_def B
        simp del: validate_blocks.simps split: option.splits json.splits list.splits sum.splits)
qed



end
