(* ===== verification/DocRender.thy ===== *)
theory DocRender
  imports DocValidate
begin

text \<open>
  The renderer of the document service (\<open>renderPDF\<close> in \<open>document-service/index.ts\<close>). PDFKit is not
  part of the repository: it is the record \<open>pdfkit\<close> of what the renderer calls and reads (a drawing
  command changes the document, the document has a cursor and a page size, and finishing it yields
  the bytes or fails). A canvas pairs the document with the commands drawn so far, so that the layout
  is visible. Lengths are exact rationals.
\<close>

section \<open>Drawing\<close>

record text_opts =
  o_align :: "string option"
  o_width :: "rat option"
  o_lineBreak :: bool
  o_characterSpacing :: "rat option"

definition plain_opts :: text_opts where
  "plain_opts = \<lparr>o_align = None, o_width = None, o_lineBreak = True, o_characterSpacing = None\<rparr>"

datatype cmd =
    Font string
  | FontSize rat
  | FillColor string
  | Text json text_opts
  | TextAt json rat rat text_opts
  | MoveDown rat
  | MoveTo rat rat
  | LineTo rat rat
  | StrokeColor string
  | LineWidth rat
  | Stroke
  | Rect rat rat rat rat
  | Fill string
  | AddPage
  | SetY rat

record 'd pdfkit =
  open_doc :: "string \<Rightarrow> 'd"
  exec :: "cmd \<Rightarrow> 'd \<Rightarrow> 'd"
  doc_y :: "'d \<Rightarrow> rat"
  page_width :: rat
  page_height :: rat
  finish :: "'d \<Rightarrow> string option"

record 'd canvas =
  doc :: 'd
  cmds :: "cmd list"

definition emit :: "'d pdfkit \<Rightarrow> cmd \<Rightarrow> 'd canvas \<Rightarrow> 'd canvas" where
  "emit K c cv = \<lparr>doc = exec K c (doc cv), cmds = cmds cv @ [c]\<rparr>"

definition draw :: "'d pdfkit \<Rightarrow> cmd list \<Rightarrow> 'd canvas \<Rightarrow> 'd canvas" where
  "draw K cs cv = fold (emit K) cs cv"

definition cursor :: "'d pdfkit \<Rightarrow> 'd canvas \<Rightarrow> rat" where
  "cursor K cv = doc_y K (doc cv)"

section \<open>Constants\<close>

definition FONT :: string where "FONT = ''Helvetica''"
definition FONT_BOLD :: string where "FONT_BOLD = FONT @ ''-Bold''"
definition PRIMARY :: string where "PRIMARY = ''#1f6feb''"
definition SECONDARY :: string where "SECONDARY = ''#8b949e''"
definition TEXT :: string where "TEXT = ''#24292f''"

definition margin_top :: rat where "margin_top = 50"
definition margin_bottom :: rat where "margin_bottom = 60"
definition margin_left :: rat where "margin_left = 60"
definition margin_right :: rat where "margin_right = 60"

definition rowHeight :: rat where "rowHeight = 18"
definition headerHeight :: rat where "headerHeight = 20"

definition tableWidth :: "'d pdfkit \<Rightarrow> rat" where
  "tableWidth K = page_width K - margin_left - margin_right"

definition pageBottom :: "'d pdfkit \<Rightarrow> rat" where
  "pageBottom K = page_height K - margin_bottom - 10"

section \<open>Title and headings\<close>

fun truthy_opt :: "json option \<Rightarrow> bool" where
  "truthy_opt None = False"
| "truthy_opt (Some v) = js_truthy v"

fun the_json :: "json option \<Rightarrow> json" where
  "the_json None = JNull"
| "the_json (Some v) = v"

definition render_header_block :: "'d pdfkit \<Rightarrow> doc_request \<Rightarrow> 'd canvas \<Rightarrow> 'd canvas" where
  "render_header_block K req cv =
     (let cv1 = draw K [Font FONT_BOLD, FontSize 20, FillColor PRIMARY,
                        Text (JStr (d_title req)) (plain_opts\<lparr>o_align := Some ''left''\<rparr>)] cv;
          cv2 = (if truthy_opt (d_heading req)
                 then draw K [MoveDown (3/10), Font FONT_BOLD, FontSize 13, FillColor TEXT,
                              Text (the_json (d_heading req)) plain_opts] cv1
                 else cv1);
          cv3 = (if truthy_opt (d_sub_heading req)
                 then draw K [MoveDown (1/5), Font FONT, FontSize 11, FillColor SECONDARY,
                              Text (the_json (d_sub_heading req)) plain_opts] cv2
                 else cv2);
          cv4 = draw K [MoveDown (1/2)] cv3;
          cv5 = draw K [MoveTo margin_left (cursor K cv4)] cv4;
          cv6 = draw K [LineTo (page_width K - margin_right) (cursor K cv5), StrokeColor SECONDARY,
                        LineWidth (1/2), Stroke] cv5
      in draw K [MoveDown (4/5)] cv6)"

section \<open>Tables\<close>

text \<open>\<open>headers[headers.length - 1]?.toLowerCase() === 'timestamp'\<close>.\<close>

definition lastIsWide :: "json list \<Rightarrow> js_error + bool" where
  "lastIsWide headers =
     (if headers = [] then Inr False
      else case last headers of
        JNull \<Rightarrow> Inr False
      | JStr s \<Rightarrow> Inr (js_lower s = ''timestamp'')
      | _ \<Rightarrow> Inl TypeError)"

definition colWidths :: "rat \<Rightarrow> nat \<Rightarrow> bool \<Rightarrow> rat list" where
  "colWidths tw n wide =
     (if \<not> wide \<or> n < 2 then map (\<lambda>_. tw / of_nat n) [0 ..< n]
      else
        (let wideShare = 9/5; normalCount = of_nat (n - 1); unit = tw / (normalCount + wideShare)
         in map (\<lambda>i. if i = n - 1 then unit * wideShare else unit) [0 ..< n]))"

definition colX :: "rat list \<Rightarrow> nat \<Rightarrow> rat" where
  "colX ws i = foldl (+) margin_left (take i ws)"

definition cell_opts :: "rat \<Rightarrow> text_opts" where
  "cell_opts w = \<lparr>o_align = None, o_width = Some (w - 12), o_lineBreak = False, o_characterSpacing = None\<rparr>"

definition header_cmds :: "'d pdfkit \<Rightarrow> rat list \<Rightarrow> json list \<Rightarrow> rat \<Rightarrow> cmd list" where
  "header_cmds K ws headers y =
     [Rect margin_left y (tableWidth K) headerHeight, Fill PRIMARY,
      Font FONT_BOLD, FontSize 9, FillColor ''#ffffff''] @
     map (\<lambda>(i, h). TextAt h (colX ws i + 6) (y + 5) (cell_opts (ws ! i))) (enumerate 0 headers)"

definition row_cmds :: "'d pdfkit \<Rightarrow> rat list \<Rightarrow> string list \<Rightarrow> nat \<Rightarrow> rat \<Rightarrow> cmd list" where
  "row_cmds K ws cols rowIdx y =
     (if rowIdx mod 2 = 0 then [Rect margin_left y (tableWidth K) rowHeight, Fill ''#f6f8fa''] else []) @
     [Font FONT, FontSize 9, FillColor TEXT] @
     map (\<lambda>(i, c). TextAt (JStr c) (colX ws i + 6) (y + 4) (cell_opts (ws ! i))) (enumerate 0 cols)"

record segment =
  startY :: rat
  rowCount :: nat

definition border_cmds :: "'d pdfkit \<Rightarrow> rat list \<Rightarrow> nat \<Rightarrow> segment \<Rightarrow> cmd list" where
  "border_cmds K ws n seg =
     (let h = headerHeight + of_nat (rowCount seg) * rowHeight in
      [Rect margin_left (startY seg) (tableWidth K) h, StrokeColor SECONDARY, LineWidth (1/2), Stroke] @
      concat (map (\<lambda>i. [MoveTo (colX ws i) (startY seg), LineTo (colX ws i) (startY seg + h),
                        StrokeColor SECONDARY, LineWidth (3/10), Stroke]) [1 ..< n]))"

text \<open>The state of the loop over the rows; the current segment is the last one.\<close>

record 'd table_state =
  ts_canvas :: "'d canvas"
  ts_y :: rat
  ts_segments :: "segment list"

definition page_break :: "'d pdfkit \<Rightarrow> rat list \<Rightarrow> json list \<Rightarrow> 'd table_state \<Rightarrow> 'd table_state" where
  "page_break K ws headers ts =
     (let seg = last (ts_segments ts);
          cv1 = draw K (border_cmds K ws (length headers) seg) (ts_canvas ts);
          cv2 = draw K [AddPage] cv1;
          cv3 = draw K (header_cmds K ws headers margin_top) cv2
      in \<lparr>ts_canvas = cv3, ts_y = margin_top + headerHeight,
          ts_segments = ts_segments ts @ [\<lparr>startY = margin_top, rowCount = 0\<rparr>]\<rparr>)"

definition place_row :: "'d pdfkit \<Rightarrow> rat list \<Rightarrow> string list \<Rightarrow> 'd table_state \<Rightarrow> 'd table_state" where
  "place_row K ws cols ts =
     (let seg = last (ts_segments ts)
      in \<lparr>ts_canvas = draw K (row_cmds K ws cols (rowCount seg) (ts_y ts)) (ts_canvas ts),
          ts_y = ts_y ts + rowHeight,
          ts_segments = butlast (ts_segments ts) @ [seg\<lparr>rowCount := rowCount seg + 1\<rparr>]\<rparr>)"

definition render_row ::
  "'d pdfkit \<Rightarrow> rat list \<Rightarrow> json list \<Rightarrow> string list \<Rightarrow> 'd table_state \<Rightarrow> 'd table_state" where
  "render_row K ws headers cols ts =
     place_row K ws cols
       (if pageBottom K < ts_y ts + rowHeight then page_break K ws headers ts else ts)"

definition start_table :: "'d pdfkit \<Rightarrow> rat list \<Rightarrow> json list \<Rightarrow> 'd canvas \<Rightarrow> 'd table_state" where
  "start_table K ws headers cv =
     (let top = cursor K cv
      in \<lparr>ts_canvas = draw K (header_cmds K ws headers top) cv, ts_y = top + headerHeight,
          ts_segments = [\<lparr>startY = top, rowCount = 0\<rparr>]\<rparr>)"

definition render_rows ::
  "'d pdfkit \<Rightarrow> rat list \<Rightarrow> json list \<Rightarrow> string list list \<Rightarrow> 'd table_state \<Rightarrow> 'd table_state" where
  "render_rows K ws headers rows ts = fold (render_row K ws headers) rows ts"

text \<open>The name is set in capitals: a name that is truthy but no text throws.\<close>

definition table_name :: "'d pdfkit \<Rightarrow> json option \<Rightarrow> 'd canvas \<Rightarrow> js_error + 'd canvas" where
  "table_name K name cv =
     (if \<not> truthy_opt name then Inr cv
      else case name of
        Some (JStr s) \<Rightarrow>
          Inr (draw K [Font FONT_BOLD, FontSize 10, FillColor SECONDARY,
                       Text (JStr (js_upper s)) (plain_opts\<lparr>o_characterSpacing := Some (1/2)\<rparr>),
                       MoveDown (3/10)] cv)
      | _ \<Rightarrow> Inl TypeError)"

definition render_table :: "'d pdfkit \<Rightarrow> table_block \<Rightarrow> 'd canvas \<Rightarrow> js_error + 'd canvas" where
  "render_table K tb cv =
     (case table_name K (t_name tb) cv of
        Inl e \<Rightarrow> Inl e
      | Inr cv1 \<Rightarrow>
          (case lastIsWide (t_headers tb) of
             Inl e \<Rightarrow> Inl e
           | Inr wide \<Rightarrow>
               (let n = length (t_headers tb);
                    ws = colWidths (tableWidth K) n wide;
                    ts = render_rows K ws (t_headers tb) (map parseCSVRow (t_rows tb))
                           (start_table K ws (t_headers tb) cv1);
                    cv2 = draw K (border_cmds K ws n (last (ts_segments ts))) (ts_canvas ts)
                in Inr (draw K [SetY (ts_y ts + 12)] cv2))))"

section \<open>Blocks and footer\<close>

definition render_block ::
  "'d pdfkit \<Rightarrow> block \<Rightarrow> 'd canvas \<times> string option \<Rightarrow> js_error + 'd canvas \<times> string option" where
  "render_block K b st =
     (case b of
        TextBlock s \<Rightarrow>
          Inr (draw K [Font FONT, FontSize 10, FillColor TEXT,
                       Text (JStr s) (plain_opts\<lparr>o_align := Some ''left''\<rparr>), MoveDown (3/5)] (fst st),
               snd st)
      | FooterBlock s \<Rightarrow> Inr (fst st, Some s)
      | TableBlock tb \<Rightarrow> map_sum id (\<lambda>cv. (cv, snd st)) (render_table K tb (fst st)))"

fun render_blocks ::
  "'d pdfkit \<Rightarrow> block list \<Rightarrow> 'd canvas \<times> string option \<Rightarrow> js_error + 'd canvas \<times> string option" where
  "render_blocks K [] st = Inr st"
| "render_blocks K (b # bs) st =
     (case render_block K b st of Inl e \<Rightarrow> Inl e | Inr st' \<Rightarrow> render_blocks K bs st')"

definition render_footer :: "'d pdfkit \<Rightarrow> int \<Rightarrow> string option \<Rightarrow> 'd canvas \<Rightarrow> 'd canvas" where
  "render_footer K now footer cv =
     (let footerY = page_height K - margin_bottom;
          w = page_width K - margin_left - margin_right;
          cv1 = draw K [MoveTo margin_left (footerY - 8), LineTo (page_width K - margin_right) (footerY - 8),
                        StrokeColor SECONDARY, LineWidth (1/2), Stroke] cv;
          cv2 = (case footer of
                   None \<Rightarrow> cv1
                 | Some s \<Rightarrow>
                     if s = [] then cv1
                     else draw K [Font FONT, FontSize 8, FillColor SECONDARY,
                                  TextAt (JStr s) margin_left (footerY - 2)
                                    (plain_opts\<lparr>o_width := Some w, o_align := Some ''center''\<rparr>)] cv1)
      in draw K [Font FONT, FontSize 7, FillColor SECONDARY,
                 TextAt (JStr (''Generated '' @ toISOString now)) margin_left (footerY + 8)
                   (plain_opts\<lparr>o_width := Some w, o_align := Some ''right''\<rparr>)] cv2)"

definition renderPDF :: "'d pdfkit \<Rightarrow> int \<Rightarrow> doc_request \<Rightarrow> js_error + string" where
  "renderPDF K now req =
     (let cv = render_header_block K req \<lparr>doc = open_doc K (d_title req), cmds = []\<rparr>
      in case render_blocks K (d_blocks req) (cv, None) of
           Inl e \<Rightarrow> Inl e
         | Inr (cv', footer) \<Rightarrow>
             (case finish K (doc (render_footer K now footer cv')) of
                None \<Rightarrow> Inl (LibError ''pdfkit'')
              | Some bytes \<Rightarrow> Inr bytes))"

end
