(* ===== verification/DocLayout.thy ===== *)
theory DocLayout
  imports DocRender
begin

text \<open>
  The layout of a table: how its rows are dealt out over pages. The invariant \<open>table_inv\<close> of the loop
  over the rows relates its state to a partition of the rows into one group per page; it is kept by
  \<open>page_break\<close> and \<open>place_row\<close>, and gives what is drawn, where, and on how many pages.
\<close>

section \<open>What is drawn\<close>

fun text_of :: "cmd \<Rightarrow> json option" where
  "text_of (Text j _) = Some j"
| "text_of (TextAt j _ _ _) = Some j"
| "text_of _ = None"

definition texts :: "cmd list \<Rightarrow> json list" where
  "texts cs = List.map_filter text_of cs"

definition page_adds :: "cmd list \<Rightarrow> nat" where
  "page_adds cs = length (filter (\<lambda>c. c = AddPage) cs)"

named_theorems drawing \<open>what the drawing commands contribute\<close>

lemma texts_simps [drawing]:
  "texts [] = []" "texts (c # cs) = (case text_of c of None \<Rightarrow> texts cs | Some j \<Rightarrow> j # texts cs)"
  "texts (xs @ ys) = texts xs @ texts ys"
  by (simp_all add: texts_def List.map_filter_def split: option.split)

lemma page_adds_simps [drawing]:
  "page_adds [] = 0" "page_adds (c # cs) = (if c = AddPage then Suc (page_adds cs) else page_adds cs)"
  "page_adds (xs @ ys) = page_adds xs + page_adds ys"
  by (simp_all add: page_adds_def)

lemma cmds_draw [drawing]: "cmds (draw K cs cv) = cmds cv @ cs"
  by (induction cs arbitrary: cv) (simp_all add: draw_def emit_def)

lemma texts_cells:
  "texts (map (\<lambda>(i, c). TextAt (f c) (x i) y (w i)) (enumerate n cs)) = map f cs"
  by (induction cs arbitrary: n) (simp_all add: drawing)

lemma page_adds_cells: "page_adds (map (\<lambda>(i, c). TextAt (f c) (x i) y (w i)) ps) = 0"
  by (induction ps) (auto simp: drawing)

lemma header_drawn [drawing]:
  "texts (header_cmds K ws hs y) = hs" "page_adds (header_cmds K ws hs y) = 0"
  using texts_cells [of "\<lambda>h. h"] page_adds_cells [of "\<lambda>h. h"] by (simp_all add: header_cmds_def drawing)

lemma row_drawn [drawing]:
  "texts (row_cmds K ws cols r y) = map JStr cols" "page_adds (row_cmds K ws cols r y) = 0"
  by (simp_all add: row_cmds_def drawing texts_cells page_adds_cells)

lemma border_drawn [drawing]:
  "texts (border_cmds K ws n s) = []" "page_adds (border_cmds K ws n s) = 0"
proof -
  have "texts (concat (map (\<lambda>i. [MoveTo (a i) b, LineTo (c i) d, StrokeColor e, LineWidth w, Stroke]) xs)) = []"
    and "page_adds (concat (map (\<lambda>i. [MoveTo (a i) b, LineTo (c i) d, StrokeColor e, LineWidth w, Stroke]) xs)) = 0"
    for a b c d e w xs by (induction xs) (simp_all add: drawing)
  then show "texts (border_cmds K ws n s) = []" "page_adds (border_cmds K ws n s) = 0"
    by (simp_all add: border_cmds_def drawing Let_def)
qed

section \<open>The invariant of the loop\<close>

definition seg_bottom :: "segment \<Rightarrow> rat" where
  "seg_bottom s = startY s + headerHeight + of_nat (rowCount s) * rowHeight"

definition group_texts :: "json list \<Rightarrow> string list list \<Rightarrow> json list" where
  "group_texts headers g = headers @ map JStr (concat g)"

definition table_inv ::
  "'d pdfkit \<Rightarrow> json list \<Rightarrow> cmd list \<Rightarrow> 'd table_state \<Rightarrow> string list list list \<Rightarrow> bool" where
  "table_inv K headers c0 ts gs \<longleftrightarrow>
     gs \<noteq> [] \<and> map rowCount (ts_segments ts) = map length gs \<and>
     texts (cmds (ts_canvas ts)) = texts c0 @ concat (map (group_texts headers) gs) \<and>
     page_adds (cmds (ts_canvas ts)) + 1 = page_adds c0 + length gs \<and>
     ts_y ts = seg_bottom (last (ts_segments ts)) \<and>
     (\<forall>s \<in> set (ts_segments ts). rowCount s = 0 \<or> seg_bottom s \<le> pageBottom K) \<and>
     (\<forall>s \<in> set (tl (ts_segments ts)). startY s = margin_top)"

text \<open>A page can take the header and one row.\<close>

definition page_tall :: "'d pdfkit \<Rightarrow> bool" where
  "page_tall K \<longleftrightarrow> margin_top + headerHeight + rowHeight \<le> pageBottom K"

lemma table_inv_start: "table_inv K headers (cmds cv) (start_table K ws headers cv) [[]]"
  by (simp add: table_inv_def start_table_def Let_def drawing group_texts_def seg_bottom_def)

lemma table_inv_break:
  assumes "table_inv K headers c0 ts gs"
  shows "table_inv K headers c0 (page_break K ws headers ts) (gs @ [[]])"
proof -
  have "ts_segments ts \<noteq> []" using assms by (auto simp: table_inv_def)
  then have "tl (ts_segments ts @ [s]) = tl (ts_segments ts) @ [s]" for s by (cases "ts_segments ts") simp_all
  then show ?thesis
    using assms
    by (auto simp: table_inv_def page_break_def Let_def drawing group_texts_def seg_bottom_def)
qed

lemma table_inv_place:
  assumes "table_inv K headers c0 ts (gs @ [g])" and "ts_y ts + rowHeight \<le> pageBottom K"
  shows "table_inv K headers c0 (place_row K ws cols ts) (gs @ [g @ [cols]])"
proof -
  obtain ss s where ss: "ts_segments ts = ss @ [s]" "map rowCount ss = map length gs" "rowCount s = length g"
    using assms(1) by (cases "ts_segments ts" rule: rev_cases) (auto simp: table_inv_def)
  have b: "seg_bottom (s\<lparr>rowCount := rowCount s + 1\<rparr>) = seg_bottom s + rowHeight"
    by (simp add: seg_bottom_def algebra_simps)
  have "tl (ss @ [t]) = (if ss = [] then [] else tl ss @ [t])" for t by (cases ss) simp_all
  then show ?thesis
    using assms ss b
    by (auto simp: table_inv_def place_row_def Let_def drawing group_texts_def split: if_splits)
qed

lemma table_inv_row:
  assumes "table_inv K headers c0 ts gs" and "page_tall K" and "\<forall>g \<in> set (tl gs). g \<noteq> []"
  shows "\<exists>gs'. table_inv K headers c0 (render_row K ws headers cols ts) gs' \<and> concat gs' = concat gs @ [cols] \<and>
    (\<forall>g \<in> set (tl gs'). g \<noteq> [])"
proof (cases "pageBottom K < ts_y ts + rowHeight")
  case True
  have "ts_y (page_break K ws headers ts) + rowHeight \<le> pageBottom K"
    using assms(2) by (simp add: page_break_def Let_def page_tall_def)
  then have "table_inv K headers c0 (render_row K ws headers cols ts) (gs @ [[cols]])"
    using table_inv_place [of K headers c0 _ gs "[]" ws cols] table_inv_break [OF assms(1)] True
    by (simp add: render_row_def)
  moreover have "tl (gs @ [[cols]]) = tl gs @ [[cols]]"
    using assms(1) by (cases gs) (simp_all add: table_inv_def)
  ultimately show ?thesis using assms(3) by (intro exI [of _ "gs @ [[cols]]"]) auto
next
  case False
  obtain g0 g where gs: "gs = g0 @ [g]" using assms(1) by (cases gs rule: rev_cases) (auto simp: table_inv_def)
  have "table_inv K headers c0 (render_row K ws headers cols ts) (g0 @ [g @ [cols]])"
    using table_inv_place [of K headers c0 ts g0 g ws cols] assms(1) gs False by (simp add: render_row_def)
  moreover have "\<forall>h \<in> set (tl (g0 @ [g @ [cols]])). h \<noteq> []"
    using assms(3) gs by (cases g0) auto
  ultimately show ?thesis using gs by (intro exI [of _ "g0 @ [g @ [cols]]"]) simp
qed

lemma table_inv_rows:
  assumes "table_inv K headers c0 ts gs" and "page_tall K" and "\<forall>g \<in> set (tl gs). g \<noteq> []"
  shows "\<exists>gs'. table_inv K headers c0 (render_rows K ws headers rows ts) gs' \<and>
    concat gs' = concat gs @ rows \<and> (\<forall>g \<in> set (tl gs'). g \<noteq> [])"
  using assms(1,3)
proof (induction rows arbitrary: ts gs)
  case (Cons cols rows)
  obtain gs1 where "table_inv K headers c0 (render_row K ws headers cols ts) gs1"
      "concat gs1 = concat gs @ [cols]" "\<forall>g \<in> set (tl gs1). g \<noteq> []"
    using table_inv_row [OF Cons.prems(1) assms(2) Cons.prems(2)] by blast
  then show ?case using Cons.IH [of "render_row K ws headers cols ts" gs1] by (auto simp: render_rows_def)
qed (auto simp: render_rows_def)

lemma table_inv_table:
  assumes "page_tall K"
  obtains gs where "table_inv K headers (cmds cv) (render_rows K ws headers rows (start_table K ws headers cv)) gs"
    and "concat gs = rows" and "\<forall>g \<in> set (tl gs). g \<noteq> []"
  using table_inv_rows [OF table_inv_start [of K headers cv ws] assms, of ws rows] by auto

section \<open>A reference document\<close>

text \<open>A document that is only its cursor, on Letter pages, for the witnesses.\<close>

definition ref_pdf :: "rat pdfkit" where
  "ref_pdf =
     \<lparr>open_doc = (\<lambda>_. 50),
      exec = (\<lambda>c y. case c of Text _ _ \<Rightarrow> y + 12 | MoveDown d \<Rightarrow> y + 12 * d | AddPage \<Rightarrow> 50 | SetY z \<Rightarrow> z | _ \<Rightarrow> y),
      doc_y = (\<lambda>y. y), page_width = 612, page_height = 792, finish = (\<lambda>_. Some ''pdf'')\<rparr>"

definition ref_canvas :: "rat canvas" where
  "ref_canvas = \<lparr>doc = 50, cmds = []\<rparr>"

definition ref_table :: table_block where
  "ref_table = \<lparr>t_name = Some (JStr ''Bets''), t_headers = [JStr ''Round'', JStr ''Timestamp''],
                t_rows = replicate 3 ''7,now''\<rparr>"

lemma ref_page_tall: "page_tall ref_pdf"
  by (simp add: page_tall_def ref_pdf_def pageBottom_def margin_top_def margin_bottom_def headerHeight_def
      rowHeight_def)

section \<open>Properties\<close>





text \<open>The columns fill the table: there is one positive width per header, and they add up to the
  width between the margins, whichever of the two divisions applies.\<close>

lemma colWidths_fill:
  assumes "0 < n" and "0 < tw"
  shows "length (colWidths tw n wide) = n \<and> sum_list (colWidths tw n wide) = tw \<and>
    (\<forall>w \<in> set (colWidths tw n wide). 0 < w)"
proof (cases "\<not> wide \<or> n < 2")
  case True
  have "sum_list (map (\<lambda>_. tw / of_nat n) [0 ..< n]) = tw"
    using assms(1) by (simp add: sum_list_triv)
  then show ?thesis using True assms by (simp add: colWidths_def)
next
  case False
  define u where "u = tw / (of_nat (n - 1) + 9/5)"
  let ?f = "\<lambda>i. if i = n - 1 then u * (9/5) else u"
  have d: "0 < (of_nat (n - 1) + 9/5 :: rat)" by (simp add: add_nonneg_pos)
  have pos: "0 < u" using assms(2) d by (simp only: u_def zero_less_divide_iff) simp
  have cw: "colWidths tw n wide = map ?f [0 ..< n]" using False by (simp only: colWidths_def Let_def u_def) simp
  have n: "[0 ..< n] = [0 ..< n - 1] @ [n - 1]" using False by (metis Suc_diff_1 assms(1) upt_Suc_append zero_le)
  have m: "map ?f [0 ..< n - 1] = map (\<lambda>_. u) [0 ..< n - 1]" by (rule map_cong) auto
  have "sum_list (map ?f [0 ..< n]) = of_nat (n - 1) * u + u * (9/5)"
    unfolding n map_append sum_list.append m by (simp add: sum_list_triv)
  also have "\<dots> = u * (of_nat (n - 1) + 9/5)"
    unfolding distrib_left by (simp only: mult.commute)
  also have "\<dots> = tw" unfolding u_def
    by (rule nonzero_eq_divide_eq [THEN iffD1, OF _ refl]) (rule less_imp_neq [OF d, symmetric])
  finally show ?thesis using pos by (auto simp: cw)
qed

lemma colWidths_fill_witness: "sum_list (colWidths 492 4 True) = 492"
  using colWidths_fill [of 4 492 True] by simp

end
