(* ===== verification/DocServer.thy ===== *)
theory DocServer
  imports DocLayout
begin

text \<open>
  The HTTP server of the document service (\<open>document-service/index.ts\<close>): its routes, the codes of its
  answers, the counter of generated documents, and the name of the file a document is sent as. One
  clock reading stands for the times taken while a request is served. A rejected handler sends no
  response.
\<close>

section \<open>Responses\<close>

datatype doc_body = DJson json | DBinary string | DEmpty

datatype doc_reply = DReply nat "(string \<times> string) list" doc_body | DRejected js_error

definition sendJson :: "nat \<Rightarrow> json \<Rightarrow> doc_reply" where
  "sendJson st b =
     DReply st [(''Content-Type'', ''application/json''), (''Access-Control-Allow-Origin'', ''*'')] (DJson b)"

definition sendError :: "nat \<Rightarrow> string \<Rightarrow> string \<Rightarrow> doc_reply" where
  "sendError st code message =
     sendJson st (JObj [(''error'', JObj [(''code'', JStr code), (''message'', JStr message)])])"

section \<open>The file name\<close>

definition alnum :: "char \<Rightarrow> bool" where
  "alnum c \<longleftrightarrow>
     (let n = of_char c :: nat in 48 \<le> n \<and> n \<le> 57 \<or> 65 \<le> n \<and> n \<le> 90 \<or> 97 \<le> n \<and> n \<le> 122)"

text \<open>\<open>title.replace(/[^a-z0-9]/gi, '-').toLowerCase()\<close>: one hyphen for each UTF-16 unit of another
  character. In UTF-8 a continuation byte adds nothing, and the lead byte of a character outside the
  basic plane stands for two units.\<close>

definition slug_char :: "char \<Rightarrow> string" where
  "slug_char c =
     (let n = of_char c :: nat in
      if alnum c then [c]
      else if 128 \<le> n \<and> n < 192 then []
      else if 240 \<le> n then ''--''
      else ''-'')"

definition slug :: "string \<Rightarrow> string" where
  "slug title = js_lower (concat (map slug_char title))"

definition filename :: "string \<Rightarrow> int \<Rightarrow> string" where
  "filename title now = slug title @ ''-'' @ int_to_string now @ ''.pdf''"

section \<open>Routes\<close>

definition doc_options :: doc_reply where
  "doc_options =
     DReply 204 [(''Access-Control-Allow-Origin'', ''*''),
                 (''Access-Control-Allow-Methods'', ''GET, POST, OPTIONS''),
                 (''Access-Control-Allow-Headers'', ''Content-Type'')] DEmpty"

definition doc_health :: "nat \<Rightarrow> doc_reply" where
  "doc_health documentsGenerated =
     sendJson 200 (JObj [(''status'', JStr ''healthy''), (''service'', JStr ''document-service''),
                         (''language'', JStr ''TypeScript''), (''library'', JStr ''PDFKit''),
                         (''documents_generated'', JNum (of_nat documentsGenerated))])"

definition doc_document :: "'d pdfkit \<Rightarrow> int \<Rightarrow> string \<Rightarrow> nat \<Rightarrow> doc_reply \<times> nat" where
  "doc_document K now body documentsGenerated =
     (case JSON_parse body of
        None \<Rightarrow>
          (sendError 400 ''missing_required_fields'' ''Request body must be valid JSON'', documentsGenerated)
      | Some parsed \<Rightarrow>
          (case validateRequest parsed of
             Inl e \<Rightarrow> (DRejected e, documentsGenerated)
           | Inr (Invalid code message) \<Rightarrow> (sendError 400 code message, documentsGenerated)
           | Inr (Valid req) \<Rightarrow>
               (case renderPDF K now req of
                  Inl e \<Rightarrow> (sendError 500 ''render_failed'' ''PDF generation failed'', documentsGenerated)
                | Inr pdf \<Rightarrow>
                    (DReply 200
                       [(''Content-Type'', ''application/pdf''),
                        (''Content-Disposition'',
                         ''attachment; filename='' @ [CHR 0x22] @ filename (d_title req) now @ [CHR 0x22]),
                        (''Content-Length'', nat_to_string (length pdf)),
                        (''Access-Control-Allow-Origin'', ''*'')]
                       (DBinary pdf), documentsGenerated + 1))))"

record doc_http =
  dr_method :: string
  dr_url :: string
  dr_body :: string

definition doc_serve :: "'d pdfkit \<Rightarrow> int \<Rightarrow> doc_http \<Rightarrow> nat \<Rightarrow> doc_reply \<times> nat" where
  "doc_serve K now rq n =
     (if dr_method rq = ''OPTIONS'' then (doc_options, n)
      else if dr_method rq = ''GET'' \<and> dr_url rq = ''/health'' then (doc_health n, n)
      else if dr_method rq = ''POST'' \<and> dr_url rq = ''/document'' then doc_document K now (dr_body rq) n
      else (sendError 404 ''not_found'' (dr_method rq @ '' '' @ dr_url rq @ '' not found''), n))"

text \<open>Requests one after the other, with their times.\<close>

fun doc_run :: "'d pdfkit \<Rightarrow> (int \<times> doc_http) list \<Rightarrow> nat \<Rightarrow> doc_reply list \<times> nat" where
  "doc_run K [] n = ([], n)"
| "doc_run K ((now, rq) # rqs) n =
     (let (rep, n1) = doc_serve K now rq n; (reps, n2) = doc_run K rqs n1 in (rep # reps, n2))"

section \<open>When a document renders\<close>

definition block_renders :: "block \<Rightarrow> bool" where
  "block_renders b =
     (case b of
        TableBlock tb \<Rightarrow>
          (\<not> truthy_opt (t_name tb) \<or> (case t_name tb of Some (JStr _) \<Rightarrow> True | _ \<Rightarrow> False)) \<and>
          (t_headers tb = [] \<or> (case last (t_headers tb) of JNull \<Rightarrow> True | JStr _ \<Rightarrow> True | _ \<Rightarrow> False))
      | _ \<Rightarrow> True)"

lemma render_block_Inr: "(\<exists>st'. render_block K b st = Inr st') \<longleftrightarrow> block_renders b"
proof (cases b)
  case (TableBlock tb)
  then show ?thesis
    by (auto simp: render_block_def block_renders_def render_table_def table_name_def lastIsWide_def Let_def
        map_sum_eq_Inr split: sum.splits option.splits json.splits if_splits)
qed (simp_all add: render_block_def block_renders_def)

lemma render_blocks_Inr: "(\<exists>st'. render_blocks K bs st = Inr st') \<longleftrightarrow> list_all block_renders bs"
proof (induction bs arbitrary: st)
  case (Cons b bs)
  show ?case
    using render_block_Inr [of K b st] Cons.IH
    by (cases "render_block K b st") auto
qed simp


definition ref_request :: doc_request where
  "ref_request = \<lparr>d_caller = ''bank-service'', d_title = ''Statement'', d_heading = None,
     d_sub_heading = None, d_blocks = [TextBlock ''Hello'', TableBlock ref_table]\<rparr>"


section \<open>Answers\<close>

fun is_document :: "doc_reply \<Rightarrow> bool" where
  "is_document (DReply st hs (DBinary pdf)) = (st = 200)"
| "is_document _ = False"

lemma not_document [simp]: "\<not> is_document (sendJson st b)" "\<not> is_document (sendError st c m)"
  "\<not> is_document doc_options" "\<not> is_document (doc_health n)"
  by (simp_all add: sendJson_def sendError_def doc_options_def doc_health_def)

lemma document_counted:
  "snd (doc_document K now body n) = n + (if is_document (fst (doc_document K now body n)) then 1 else 0)"
  by (auto simp: doc_document_def split: option.splits sum.splits validation.splits)

lemma serve_counted:
  "snd (doc_serve K now rq n) = n + (if is_document (fst (doc_serve K now rq n)) then 1 else 0)"
  using document_counted [of K now "dr_body rq" n] by (simp add: doc_serve_def)


text \<open>The counter that \<open>/health\<close> reports is the number of documents sent since the start,
  whatever requests came in between.\<close>

lemma counter_counts_documents:
  "snd (doc_run K rqs n) = n + length (filter is_document (fst (doc_run K rqs n)))"
proof (induction K rqs n rule: doc_run.induct)
  case (2 K now rq rqs n)
  then show ?case using serve_counted [of K now rq n] by (auto simp: Let_def split: prod.splits)
qed simp

definition safe_char :: "char \<Rightarrow> bool" where
  "safe_char c \<longleftrightarrow>
     c = CHR ''-'' \<or> (let n = of_char c :: nat in 48 \<le> n \<and> n \<le> 57 \<or> 97 \<le> n \<and> n \<le> 122)"

lemma safe_hyphen [simp]: "safe_char CHR ''-''"
  by code_simp

lemma safe_lower_alnum: "alnum c \<Longrightarrow> safe_char (lower_char c)"
proof -
  assume "alnum c"
  have "(of_char (char_of (of_char c + 32 :: nat)) :: nat) = of_char c + 32" if "(of_char c :: nat) \<le> 90"
    using that by (simp add: of_char_of)
  then show ?thesis using \<open>alnum c\<close> by (auto simp: safe_char_def lower_char_def alnum_def Let_def)
qed

lemma lower_hyphen [simp]: "lower_char CHR ''-'' = CHR ''-''"
  by code_simp

lemma safe_slug: "list_all safe_char (slug title)"
  by (auto simp: slug_def js_lower_def slug_char_def Let_def list_all_iff safe_lower_alnum split: if_splits)

lemma slug_char_safe: "safe_char c \<Longrightarrow> js_lower (slug_char c) = [c]"
  by (auto simp: safe_char_def slug_char_def js_lower_def lower_char_def alnum_def Let_def)

lemma slug_id: "list_all safe_char t \<Longrightarrow> slug t = t"
  by (induction t) (simp_all add: slug_def slug_char_safe, simp_all add: js_lower_def slug_char_safe [unfolded js_lower_def])


end
