(* ===== verification/AuthSessions.thy ===== *)
theory AuthSessions
  imports AuthClaims
begin

text \<open>
  Sessions survive: no request but a reset touches the Redis entry of a session. \<open>keeps P s0 s\<close> says
  that the sessions of \<open>s0\<close> are still there in \<open>s\<close>; its rules follow the state changes of the handlers.
\<close>

section \<open>What keeps sessions\<close>

definition keeps :: "'r platform \<Rightarrow> 'r auth_state \<Rightarrow> 'r auth_state \<Rightarrow> bool" where
  "keeps P s0 s \<longleftrightarrow>
     rand s0 \<le> rand s \<and>
     (\<forall>u i x v. drawn P s0 x \<longrightarrow> rget P u (session_key i x) s0 = Some v \<longrightarrow>
        rget P u (session_key i x) s = Some v)"

named_theorems keeping \<open>introduction rules for \<open>keeps\<close>\<close>

lemma keeps_refl [keeping]: "keeps P s s"
  by (simp add: keeps_def)

lemma keeps_trans: "keeps P s0 s1 \<Longrightarrow> keeps P s1 s2 \<Longrightarrow> keeps P s0 s2"
  unfolding keeps_def by (meson drawn_mono order_trans)

lemma keeps_db [keeping]: "keeps P s0 s \<Longrightarrow> keeps P s0 (s\<lparr>db := d\<rparr>)"
  by (simp add: keeps_def)

lemma keeps_outbox [keeping]: "keeps P s0 s \<Longrightarrow> keeps P s0 (s\<lparr>outbox := b\<rparr>)"
  by (simp add: keeps_def)

lemma keeps_rand [keeping]: "keeps P s0 s \<Longrightarrow> keeps P s0 (s\<lparr>rand := Suc (rand s)\<rparr>)"
  by (simp add: keeps_def)

lemma keeps_db_rand [keeping]:
  "keeps P s0 s \<Longrightarrow> keeps P s0 (s\<lparr>db := d, rand := Suc (rand s)\<rparr>)"
  by (simp add: keeps_def)

lemma keeps_setex [keeping]:
  assumes "redis_service (redis_of P)" and "keeps P s0 s"
  shows "keeps P s0 (setex P now (verify_key x) secs v s)"
    and "keeps P s0 (setex P now (exchange_key x) secs v s)"
  using assms(2) by (simp_all add: keeps_def setex_def rget_def redis_service.get_setex_other [OF assms(1)])

lemma keeps_getdel [keeping]:
  assumes "redis_service (redis_of P)" and "keeps P s0 s"
  shows "keeps P s0 (snd (getdel P now (verify_key x) s))"
    and "keeps P s0 (snd (getdel P now (exchange_key x) s))"
  using assms(2) by (simp_all add: keeps_def getdel_def rget_def redis_service.get_getdel_other [OF assms(1)])

lemma keeps_createSession:
  assumes "redis_service (redis_of P)" and "uuid_laws P" and k: "keeps P s0 s"
    and c: "createSession P now i s = (sid, s')"
  shows "keeps P s0 s'"
proof -
  have "session_key j x \<noteq> session_key i (randomUUID P (rand s))" if "drawn P s0 x" for j x
  proof
    assume "session_key j x = session_key i (randomUUID P (rand s))"
    then have "x = randomUUID P (rand s)"
      using session_key_sid drawn_no_colon [OF assms(2) that] uuid_not_fixed(2) [OF assms(2)] by blast
    then show False using drawn_not_later [OF assms(2) that, of "rand s"] k by (simp add: keeps_def)
  qed
  then show ?thesis
    using k c by (auto simp: createSession_def draw_def keeps_def setex_def rget_def
        redis_service.get_setex_other [OF assms(1)])
qed

lemma keeps_ensureBankAccount [keeping]: "keeps P s0 s \<Longrightarrow> keeps P s0 (ensureBankAccount P cfg p s)"
  by (simp add: ensureBankAccount_def mtlsPost_def keeps_outbox)

lemma keeps_sendVerificationEmail [keeping]:
  "redis_service (redis_of P) \<Longrightarrow> keeps P s0 s \<Longrightarrow> keeps P s0 (sendVerificationEmail P cfg now p s)"
  by (simp add: sendVerificationEmail_def draw_def Let_def keeping)

lemma keeps_sendTransactionReceipt [keeping]:
  "keeps P s0 s \<Longrightarrow> keeps P s0 (sendTransactionReceipt P cfg p tx s)"
  by (simp add: sendTransactionReceipt_def draw_def Let_def keeping)

lemma getdel_state: "getdel P now k s = (taken, s') \<Longrightarrow> s' = snd (getdel P now k s)"
  by simp

section \<open>Every handler but the reset keeps sessions\<close>

lemma keeps_register:
  "redis_service (redis_of P) \<Longrightarrow> keeps P s (snd (handle_register P cfg now rq s))"
  by (auto simp: handle_register_def draw_def Let_def intro!: keeping split: await_split option.split)

lemma keeps_verify_token:
  "redis_service (redis_of P) \<Longrightarrow> keeps P s (snd (handle_verify_token P cfg now rq s))"
  by (auto simp: handle_verify_token_def draw_def Let_def split_beta intro!: keeping
      split: await_split option.split)

lemma keeps_exchange:
  "redis_service (redis_of P) \<Longrightarrow> keeps P s (snd (handle_exchange P cfg now rq s))"
  by (auto simp: handle_exchange_def Let_def split_beta intro!: keeping split: await_split option.split)

lemma keeps_require:
  "(\<And>scope p. keeps P s (snd (k scope p))) \<Longrightarrow>
    keeps P s (snd (require_enroll_scope P cfg now rq s k))"
  by (auto simp: require_enroll_scope_def intro!: keeping split: await_split option.split)

lemma keeps_register_begin: "keeps P s (snd (handle_passkey_register_begin P cfg now rq s))"
  unfolding handle_passkey_register_begin_def
  by (rule keeps_require) (auto simp: Let_def split_beta intro!: keeping split: await_split)

lemma keeps_complete_registration:
  "redis_service (redis_of P) \<Longrightarrow> uuid_laws P \<Longrightarrow> keeps P s0 s \<Longrightarrow>
    keeps P s0 (snd (complete_registration P cfg now scope p cr resp ch s))"
  by (auto simp: complete_registration_def Let_def intro!: keeping intro: keeps_createSession [rotated 3]
      split: reg_outcome.split option.split sum.split prod.split)

lemma keeps_register_complete:
  "redis_service (redis_of P) \<Longrightarrow> uuid_laws P \<Longrightarrow>
    keeps P s (snd (handle_passkey_register_complete P cfg now rq s))"
  unfolding handle_passkey_register_complete_def
  by (rule keeps_require)
    (auto simp: Let_def intro!: keeping keeps_complete_registration split: await_split option.split prod.split)

lemma keeps_login_begin: "keeps P s (snd (handle_passkey_login_begin P cfg now rq s))"
  by (auto simp: handle_passkey_login_begin_def Let_def split_beta intro!: keeping
      split: await_split option.split)

lemma keeps_complete_login:
  "redis_service (redis_of P) \<Longrightarrow> uuid_laws P \<Longrightarrow> keeps P s0 s \<Longrightarrow>
    keeps P s0 (snd (complete_login P cfg now p cred a ch s))"
  by (auto simp: complete_login_def Let_def intro!: keeping intro: keeps_createSession [rotated 3]
      split: auth_outcome.split prod.split)

lemma keeps_login_complete:
  "redis_service (redis_of P) \<Longrightarrow> uuid_laws P \<Longrightarrow>
    keeps P s (snd (handle_passkey_login_complete P cfg now rq s))"
  unfolding handle_passkey_login_complete_def
  by (simp add: Let_def split_beta split: await_split option.split)
    (auto intro!: keeping keeps_complete_login)

text \<open>The remaining handlers leave Redis alone.\<close>

lemma unchanged_health: "snd (handle_health P cfg now rq s) = s"
  by (simp add: handle_health_def)

lemma unchanged_user_email: "snd (handle_user_email P cfg now rq s) = s"
  by (simp add: handle_user_email_def await_def split: option.split sum.split)

lemma unchanged_validate: "snd (handle_validate P cfg now rq s) = s"
  by (simp add: handle_validate_def await_def split: option.split sum.split)

lemma unchanged_policy_check: "snd (handle_policy_check P cfg now rq s) = s"
  by (simp add: handle_policy_check_def await_def split: option.split sum.split)

lemma unchanged_demo_token: "snd (handle_demo_token P cfg now rq s) = s"
  by (simp add: handle_demo_token_def Let_def)

lemma keeps_notify: "keeps P s (snd (handle_notify_transaction P cfg now rq s))"
  unfolding handle_notify_transaction_def
  by (simp add: await_def keeping split: option.split sum.split)

lemma keeps_others:
  "keeps P s (snd (handle_health P cfg now rq s))" "keeps P s (snd (handle_user_email P cfg now rq s))"
  "keeps P s (snd (handle_validate P cfg now rq s))" "keeps P s (snd (handle_options s))"
  "keeps P s (snd (handle_policy_check P cfg now rq s))"
  "keeps P s (snd (handle_demo_token P cfg now rq s))" "keeps P s (snd (error_reply n m, s))"
  by (simp_all add: unchanged_health unchanged_user_email unchanged_validate unchanged_policy_check
      unchanged_demo_token handle_options_def keeps_refl)

lemma keeps_requestHandler:
  assumes "redis_service (redis_of P)" and "uuid_laws P" and "\<not> posts ''/dev/reset'' rq"
  shows "keeps P s (snd (requestHandler P cfg now rq s))"
proof -
  have if_keeps: "keeps P s (snd (if c then a else b))"
    if "c \<Longrightarrow> keeps P s (snd a)" "\<not> c \<Longrightarrow> keeps P s (snd b)" for c a b
    using that by simp
  show ?thesis
    unfolding requestHandler_def Let_def
    by (intro if_keeps keeps_register keeps_verify_token keeps_exchange keeps_register_begin
        keeps_register_complete keeps_login_begin keeps_login_complete keeps_notify keeps_others assms(1,2))
      (use assms(3) in \<open>simp add: posts_def\<close>)
qed

section \<open>Runs without a reset\<close>

inductive undisturbed :: "'r platform \<Rightarrow> config \<Rightarrow> 'r sys \<Rightarrow> 'r sys \<Rightarrow> bool" for P cfg where
  now: "undisturbed P cfg y y"
| request: "undisturbed P cfg y y' \<Longrightarrow> clock y' \<le> now \<Longrightarrow> unforged P cfg now rq y' \<Longrightarrow>
    \<not> posts ''/dev/reset'' rq \<Longrightarrow> undisturbed P cfg y (serve P cfg now rq y')"
| restart: "undisturbed P cfg y y' \<Longrightarrow> undisturbed P cfg y (restart y')"

lemma undisturbed_keeps:
  assumes "undisturbed P cfg y y'" and "redis_service (redis_of P)" and "uuid_laws P"
  shows "keeps P (svc y) (svc y')"
  using assms(1)
proof induction
  case (request y y' now rq)
  have "keeps P (svc y') (svc (serve P cfg now rq y'))"
    using keeps_requestHandler [OF assms(2,3) request.hyps(4)] by (simp add: serve_def split_beta Let_def)
  then show ?case by (rule keeps_trans [OF request.IH])
qed (auto simp: restart_def intro: keeping)

lemma undisturbed_later: "undisturbed P cfg y y' \<Longrightarrow> later P cfg y y'"
  by (induction rule: undisturbed.induct) (auto intro: later.intros sys_step.intros)

end
