(* ===== verification/AuthLogin.thy ===== *)
theory AuthLogin
  imports AuthSessions
begin

text \<open>
  Logging in: exactly when \<open>POST /passkey/login/complete\<close> succeeds, what it leaves behind, and how
  long the session it starts is valid.
\<close>

section \<open>The conditions of a login\<close>

definition client_challenge :: "'r platform \<Rightarrow> json \<Rightarrow> string option" where
  "client_challenge P a =
     (case js_prop a ''response'' of
        Inl _ \<Rightarrow> None
      | Inr r \<Rightarrow> (case js_prop_opt r ''clientDataJSON'' of
          Inl _ \<Rightarrow> None
        | Inr v \<Rightarrow> (case decodeClientDataChallenge P v of Inl _ \<Rightarrow> None | Inr c \<Rightarrow> pg_text P c)))"

definition presented_credential :: "'r platform \<Rightarrow> json \<Rightarrow> auth_db \<Rightarrow> stored_credential option" where
  "presented_credential P a d =
     (case js_prop a ''id'' of Inl _ \<Rightarrow> None | Inr v \<Rightarrow> getCredentialById (pg_text P v) d)"

definition open_challenge :: "int \<Rightarrow> string \<Rightarrow> ceremony \<Rightarrow> string \<Rightarrow> auth_db \<Rightarrow> bool" where
  "open_challenge t ch ty i d \<longleftrightarrow>
     (\<exists>w \<in> set (webauthn_challenges d). challenge_matches t ch ty w \<and> w_player_id w = Some i)"

text \<open>The assertion \<open>a\<close> answers the open challenge \<open>ch\<close> of the owner of the credential it presents,
  and verifies under that credential's key with the new counter \<open>n\<close>.\<close>

definition login_grant ::
  "'r platform \<Rightarrow> config \<Rightarrow> int \<Rightarrow> request \<Rightarrow> auth_db \<Rightarrow> json \<Rightarrow> string \<Rightarrow> stored_credential \<Rightarrow> int \<Rightarrow> bool"
where
  "login_grant P cfg t rq d a ch cred n \<longleftrightarrow>
     JSON_parse (rq_body rq) = Some a \<and> client_challenge P a = Some ch \<and>
     presented_credential P a d = Some cred \<and>
     open_challenge t ch Authentication (c_playerId cred) d \<and>
     verifyAuthenticationResponse P a ch (ORIGIN cfg) (RP_ID cfg)
       \<lparr>au_credentialID = c_credentialId cred, au_credentialPublicKey = c_publicKey cred,
        au_counter = c_counter cred, au_transports = c_transports cred\<rparr> = AuthResult True n"

lemma consume_open:
  assumes "db_inv d"
  shows "fst (consumeChallenge t (Some ch) ty d) = Some i \<longleftrightarrow> open_challenge t ch ty i d"
proof
  assume "fst (consumeChallenge t (Some ch) ty d) = Some i"
  then show "open_challenge t ch ty i d"
    by (auto simp: consumeChallenge_def open_challenge_def split: option.splits dest!: find_SomeD)
next
  assume "open_challenge t ch ty i d"
  then obtain w where w: "w \<in> set (webauthn_challenges d)" "challenge_matches t ch ty w" "w_player_id w = Some i"
    by (auto simp: open_challenge_def)
  then have "find (challenge_matches t ch ty) (webauthn_challenges d) = Some w"
    using assms by (intro find_distinct_key [where f = w_challenge])
      (auto simp: db_inv_def challenge_matches_def)
  then show "fst (consumeChallenge t (Some ch) ty d) = Some i" using w by (simp add: consumeChallenge_def)
qed

lemma players_queries [simp]:
  "findPlayerById ui v (snd (consumeChallenge t ch ty d)) = findPlayerById ui v d"
  "getCredentialById w (snd (consumeChallenge t ch ty d)) = getCredentialById w d"
  by (simp_all add: findPlayerById_def getCredentialById_def split: option.split sum.split)

text \<open>The owner of a stored credential has a row.\<close>

lemma credential_owner:
  assumes "auth_inv P t s" and "uuid_laws P" and "getCredentialById v (db s) = Some cred"
  shows "\<exists>p. findPlayerById (uuid_in P) (Some (c_playerId cred)) (db s) = Inr (Some p) \<and>
    p_id p = c_playerId cred \<and> c_playerId cred \<noteq> []"
proof -
  obtain k where k: "k \<in> set (passkey_credentials (db s))" "c_playerId cred = k_player_id k"
    using assms(3) by (auto simp: getCredentialById_def rowToCredential_def split: option.splits dest!: find_SomeD)
  then have mem: "c_playerId cred \<in> player_ids (db s)" using assms(1) by (auto simp: auth_inv_def db_inv_def)
  then have kn: "known P s (c_playerId cred)" using assms(1) by (auto simp: auth_inv_def)
  obtain r where r: "find (\<lambda>r. r_id r = c_playerId cred) (players (db s)) = Some r"
    using mem by (cases "find (\<lambda>r. r_id r = c_playerId cred) (players (db s))")
      (auto simp: player_ids_def find_None_iff)
  have "c_playerId cred \<noteq> []"
    using kn uuid_not_fixed(1) [OF assms(2)] by (auto simp: known_def SEED_PLAYER_ID_def)
  then show ?thesis
    using r find_SomeD [OF r] known_uuid [OF assms(2) kn]
    by (simp add: findPlayerById_def uuid_param_def rowToPlayer_def)
qed

text \<open>The handler on an assertion whose challenge decodes.\<close>

lemma login_complete_unfold:
  assumes "JSON_parse (rq_body rq) = Some a" and "client_challenge P a = Some ch"
  shows "handle_passkey_login_complete P cfg t rq s =
    (let s1 = s\<lparr>db := snd (consumeChallenge t (Some ch) Authentication (db s))\<rparr>
     in case fst (consumeChallenge t (Some ch) Authentication (db s)) of
          None \<Rightarrow> (error_reply 400 ''invalid or expired challenge'', s1)
        | Some i \<Rightarrow>
            if i = [] then (error_reply 400 ''invalid or expired challenge'', s1)
            else await (js_prop a ''id'') s1 (\<lambda>v.
              case getCredentialById (pg_text P v) (db s) of
                None \<Rightarrow> (error_reply 401 ''credential not found or belongs to different account'', s1)
              | Some cred \<Rightarrow>
                  if c_playerId cred \<noteq> i
                  then (error_reply 401 ''credential not found or belongs to different account'', s1)
                  else await (findPlayerById (uuid_in P) (Some i) (db s)) s1 (\<lambda>found.
                    case found of None \<Rightarrow> (error_reply 404 ''player not found'', s1)
                    | Some p \<Rightarrow> complete_login P cfg t p cred a ch s1)))"
proof -
  obtain r v c where "js_prop a ''response'' = Inr r" "js_prop_opt r ''clientDataJSON'' = Inr v"
    "decodeClientDataChallenge P v = Inr c" "pg_text P c = Some ch"
    using assms(2) by (auto simp: client_challenge_def split: sum.splits)
  then show ?thesis
    by (simp add: handle_passkey_login_complete_def assms(1) await_def split_beta Let_def
        cong: option.case_cong sum.case_cong if_cong)
qed

definition login_result ::
  "'r platform \<Rightarrow> config \<Rightarrow> int \<Rightarrow> player \<Rightarrow> string \<Rightarrow> stored_credential \<Rightarrow> int \<Rightarrow> 'r auth_state
    \<Rightarrow> reply \<times> 'r auth_state" where
  "login_result P cfg t p ch cred n s =
     (let d1 = snd (consumeChallenge t (Some ch) Authentication (db s));
          s2 = s\<lparr>db := updateCredentialCounter (c_credentialId cred) n d1\<rparr>;
          (sid, s3) = createSession P t (p_id p) s2
      in (session_reply [] (issueSessionJWT P cfg t p sid) p, s3))"

lemma login_granted:
  assumes i: "auth_inv P t s" and u: "uuid_laws P" and g: "login_grant P cfg t rq (db s) a ch cred n"
  shows "\<exists>p. findPlayerById (uuid_in P) (Some (c_playerId cred)) (db s) = Inr (Some p) \<and>
    p_id p = c_playerId cred \<and>
    handle_passkey_login_complete P cfg t rq s = login_result P cfg t p ch cred n s"
proof -
  obtain v where v: "js_prop a ''id'' = Inr v" "getCredentialById (pg_text P v) (db s) = Some cred"
    using g by (auto simp: login_grant_def presented_credential_def split: sum.splits)
  obtain p where p: "findPlayerById (uuid_in P) (Some (c_playerId cred)) (db s) = Inr (Some p)"
    "p_id p = c_playerId cred" "c_playerId cred \<noteq> []"
    using credential_owner [OF i u v(2)] by blast
  have "fst (consumeChallenge t (Some ch) Authentication (db s)) = Some (c_playerId cred)"
    using g i consume_open by (auto simp: login_grant_def auth_inv_def)
  moreover have "JSON_parse (rq_body rq) = Some a" "client_challenge P a = Some ch"
    using g by (simp_all add: login_grant_def)
  ultimately show ?thesis
    using g v p
    by (simp add: login_complete_unfold login_grant_def await_def complete_login_def login_result_def Let_def
        split_beta)
qed

lemma login_200:
  assumes i: "auth_inv P t s" and "status (fst (handle_passkey_login_complete P cfg t rq s)) = Some 200"
  shows "\<exists>a ch cred n. login_grant P cfg t rq (db s) a ch cred n"
proof -
  have I: "db_inv (db s)" using i by (simp add: auth_inv_def)
  obtain a where a: "JSON_parse (rq_body rq) = Some a"
    using assms(2) by (auto simp: handle_passkey_login_complete_def split: option.splits)
  obtain ch where ch: "client_challenge P a = Some ch"
    using assms(2) a
    by (auto simp: handle_passkey_login_complete_def client_challenge_def await_def Let_def
        consumeChallenge_def split: sum.splits option.splits)
  have "\<exists>cred n. login_grant P cfg t rq (db s) a ch cred n"
    using assms(2) a ch consume_open [OF I, of t ch Authentication]
    unfolding login_complete_unfold [OF a ch]
    by (auto simp: login_grant_def presented_credential_def await_def complete_login_def Let_def
        split: option.splits if_splits sum.splits auth_outcome.splits)
  then show ?thesis by blast
qed

lemma validate_accepts:
  assumes "validate_token rq = Some tok" and "verifyJWT P cfg now tok = Some c"
    and "rget P now (live_key c) s \<noteq> None"
  shows "handle_validate P cfg now rq s =
    (jsonResponse 200
       (jobj [(''valid'', Some (JBool True)), (''playerId'', map_option JStr (cl_sub c)),
              (''email'', map_option JStr (cl_email c)), (''name'', map_option JStr (cl_name c)),
              (''scope'', Some (JStr (case cl_scope c of None \<Rightarrow> ''session'' | Some x \<Rightarrow> x))),
              (''expiresAt'', Some (JStr (toISOString
                 ((case cl_exp c of None \<Rightarrow> 0 | Some e \<Rightarrow> e) * 1000))))]), s)"
proof -
  obtain d v where "parse_body (rq_body rq) = Some d" "js_prop d ''token'' = Inr v"
    "js_nullish v (JStr []) = JStr tok"
    using assms(1) by (auto simp: validate_token_def body_text_def split: option.splits sum.splits json.splits)
  then show ?thesis
    using assms(2,3)
    by (simp add: handle_validate_def await_def validateSession_def rget_def live_key_def)
qed

lemma login_outcome:
  assumes "platform_ok P" and "auth_inv P t s" and "login_grant P cfg t rq (db s) a ch cred n"
    and "handle_passkey_login_complete P cfg t rq s = (rep, s')"
  obtains p where "p_id p = c_playerId cred"
    and "rep = session_reply [] (issueSessionJWT P cfg t p (randomUUID P (rand s))) p"
    and "db s' = updateCredentialCounter (c_credentialId cred) n
           (snd (consumeChallenge t (Some ch) Authentication (db s)))"
    and "rand s' = Suc (rand s)"
    and "\<And>u. t \<le> u \<Longrightarrow> rget P u (session_key (c_playerId cred) (randomUUID P (rand s))) s' =
      (if u < t + 4 * 3600 * 1000
       then Some (JSON_stringify (JObj [(''playerId'', JStr (c_playerId cred)), (''createdAt'', JStr (toISOString t))]))
       else None)"
proof -
  have L: "redis_service (redis_of P)" "uuid_laws P" using assms(1) by (simp_all add: platform_ok_def)
  obtain p where p: "p_id p = c_playerId cred" and r: "(rep, s') = login_result P cfg t p ch cred n s"
    using login_granted [OF assms(2) L(2) assms(3)] assms(4) by auto
  show ?thesis
  proof (rule that [OF p])
    show "rget P u (session_key (c_playerId cred) (randomUUID P (rand s))) s' =
      (if u < t + 4 * 3600 * 1000
       then Some (JSON_stringify (JObj [(''playerId'', JStr (c_playerId cred)), (''createdAt'', JStr (toISOString t))]))
       else None)" if "t \<le> u" for u
      using r p that by (auto simp: login_result_def createSession_def draw_def setex_def rget_def
          JWT_EXPIRES_IN_def redis_service.get_setex [OF L(1)])
  qed (use r in \<open>auto simp: login_result_def createSession_def draw_def setex_def\<close>)
qed

section \<open>Properties\<close>

text \<open>C12. A passkey login succeeds exactly when the assertion answers an open authentication challenge
  that was stored for the owner of the credential it presents, and verifies under that credential's
  key. Nothing else, and nothing less, yields a session.\<close>

theorem login_succeeds_iff:
  assumes "platform_ok P" and "reachable P cfg y" and "clock y \<le> t" and "posts ''/passkey/login/complete'' rq"
  shows "status (fst (requestHandler P cfg t rq (svc y))) = Some 200 \<longleftrightarrow>
    (\<exists>a ch cred n. login_grant P cfg t rq (db (svc y)) a ch cred n)"
proof -
  have i: "auth_inv P t (svc y)"
    using good_refl [OF _ assms(3), of True P "svc y"] reachable_inv [OF assms(2,1)]
    by (simp add: sys_inv_def good_def)
  have u: "uuid_laws P" using assms(1) by (simp add: platform_ok_def)
  have "status (fst (login_result P cfg t p ch cred n s)) = Some 200" for p ch cred n s
    by (simp add: login_result_def session_reply_def Let_def split_beta)
  then show ?thesis
    unfolding dispatch(5) [OF assms(4)] using login_granted [OF i u] login_200 [OF i] by metis
qed

lemma login_succeeds_iff_witness:
  "status (fst (requestHandler ref_platform demo_cfg 7000 login_complete_req (svc challenged))) = Some 200 \<longleftrightarrow>
    (\<exists>a ch cred n. login_grant ref_platform demo_cfg 7000 login_complete_req (db (svc challenged)) a ch cred n)"
  by (rule login_succeeds_iff [OF ref_platform_ok reach_challenged])
    (simp_all add: challenged_def login_complete_req_def posts_def post_req_def)

text \<open>C13. What a login leaves behind: the challenge is used up, the credential's counter is the
  authenticator's and every other credential is unchanged, no player changes, and Redis holds the new
  session, under an identifier drawn for it, for four hours. The response carries a token for that
  session.\<close>

theorem login_effect:
  assumes "platform_ok P" and "auth_inv P t s" and "login_grant P cfg t rq (db s) a ch cred n"
    and "handle_passkey_login_complete P cfg t rq s = (rep, s')"
  shows "(\<forall>u \<ge> t. \<forall>i. \<not> open_challenge u ch Authentication i (db s')) \<and>
    passkey_credentials (db s') =
      map (\<lambda>k. if k_credential_id k = c_credentialId cred then k\<lparr>k_counter := n\<rparr> else k)
        (passkey_credentials (db s)) \<and>
    players (db s') = players (db s) \<and>
    (\<forall>u \<ge> t. rget P u (session_key (c_playerId cred) (randomUUID P (rand s))) s' =
      (if u < t + 4 * 3600 * 1000
       then Some (JSON_stringify (JObj [(''playerId'', JStr (c_playerId cred)), (''createdAt'', JStr (toISOString t))]))
       else None)) \<and>
    (\<exists>p. p_id p = c_playerId cred \<and>
      rep = session_reply [] (issueSessionJWT P cfg t p (randomUUID P (rand s))) p)"
  by (rule login_outcome [OF assms])
    (auto simp: open_challenge_def updateCredentialCounter_def consumeChallenge_def challenge_matches_def)

lemma demo_grant:
  "login_grant ref_platform demo_cfg 7000 login_complete_req (db (svc challenged))
     (passkey ''eyJjaGFsbGVuZ2UiOiJsbGxsbGwifQ'') ''llllll'' (rowToCredential (demo_credential 0)) 1"
proof -
  have "open_challenge 7000 ''llllll'' Authentication ''uuid-'' (db (svc challenged))"
    by (simp add: open_challenge_def challenged_def challenge_matches_def)
  moreover have "c_playerId (rowToCredential (demo_credential 0)) = ''uuid-''"
    by (simp add: rowToCredential_def demo_credential_def)
  moreover have "JSON_parse (rq_body login_complete_req) = Some (passkey ''eyJjaGFsbGVuZ2UiOiJsbGxsbGwifQ'')"
    by code_simp
  moreover have "client_challenge ref_platform (passkey ''eyJjaGFsbGVuZ2UiOiJsbGxsbGwifQ'') = Some ''llllll''"
    by code_simp
  moreover have "presented_credential ref_platform (passkey ''eyJjaGFsbGVuZ2UiOiJsbGxsbGwifQ'') (db (svc challenged)) =
      Some (rowToCredential (demo_credential 0))"
    by code_simp
  moreover have "str_prop (passkey ''eyJjaGFsbGVuZ2UiOiJsbGxsbGwifQ'') ''sig'' = ''good''"
    by code_simp
  ultimately show ?thesis
    by (simp add: login_grant_def ref_platform_def rowToCredential_def demo_credential_def)
qed

lemma challenged_inv: "auth_inv ref_platform 7000 (svc challenged)"
  using good_refl [of True ref_platform "clock challenged" "svc challenged" 7000]
    reachable_inv [OF reach_challenged ref_platform_ok]
  by (simp add: sys_inv_def good_def challenged_def)

lemma login_effect_witness:
  "players (db (svc logged_in)) = players (db (svc challenged))"
proof -
  let ?h = "handle_passkey_login_complete ref_platform demo_cfg 7000 login_complete_req (svc challenged)"
  have "svc logged_in = snd ?h"
    unfolding step_login_complete [symmetric] serve_def
    by (simp add: split_beta Let_def dispatch(5) login_complete_req_def posts_def post_req_def)
  then show ?thesis
    using login_effect [OF ref_platform_ok challenged_inv demo_grant, of "fst ?h" "snd ?h"] by simp
qed

text \<open>What the property below and the composition with the UI share.\<close>

lemma session_lives:
  assumes "platform_ok P" and "reachable P cfg y" and "clock y \<le> t" and "unforged P cfg t rq y"
    and "posts ''/passkey/login/complete'' rq" and "login_grant P cfg t rq (db (svc y)) a ch cred n"
    and "tok \<in> set (reply_tokens (fst (requestHandler P cfg t rq (svc y))))"
    and "undisturbed P cfg (serve P cfg t rq y) y'" and "clock y' \<le> t'"
    and "t' div 1000 < t div 1000 + 3600"
    and "posts ''/validate'' rq'" and "validate_token rq' = Some tok"
  shows "\<exists>p :: player. p_id p = c_playerId cred \<and>
    requestHandler P cfg t' rq' (svc y') =
      (jsonResponse 200
         (JObj [(''valid'', JBool True), (''playerId'', JStr (p_id p)), (''email'', JStr (p_email p)),
                (''name'', JStr (p_name p)), (''scope'', JStr ''session''),
                (''expiresAt'', JStr (toISOString ((t div 1000 + 3600) * 1000)))]), svc y')"
proof -
  have L: "redis_service (redis_of P)" "uuid_laws P" "jwt_laws P" using assms(1) by (simp_all add: platform_ok_def)
  have inv: "sys_inv P cfg y" by (rule reachable_inv [OF assms(2,1)])
  then have i: "auth_inv P t (svc y)"
    using good_refl [OF _ assms(3), of True P "svc y"] by (simp add: sys_inv_def good_def)
  let ?y1 = "serve P cfg t rq y" and ?sid = "randomUUID P (rand (svc y))"
  let ?key = "session_key (c_playerId cred) ?sid"
  obtain rep s1 where h: "handle_passkey_login_complete P cfg t rq (svc y) = (rep, s1)" by fastforce
  obtain p where p: "p_id p = c_playerId cred" and rep: "rep = session_reply [] (issueSessionJWT P cfg t p ?sid) p"
    and rand: "rand s1 = Suc (rand (svc y))"
    and live: "\<And>u. t \<le> u \<Longrightarrow> rget P u ?key s1 \<noteq> None \<or> t + 4 * 3600 * 1000 \<le> u"
    by (rule login_outcome [OF assms(1) i assms(6) h]) (auto split: if_splits)
  have tok: "tok = issueSessionJWT P cfg t p ?sid"
    using assms(7) by (simp add: dispatch(5) [OF assms(5)] h rep session_reply_def jsonResponse_def
        List.map_filter_def)
  have s1: "svc ?y1 = s1" by (simp add: serve_def dispatch(5) [OF assms(5)] h)
  have later: "t \<le> t'"
    using later_ok [OF undisturbed_later [OF assms(8)] assms(1)] serve_ok [OF assms(1) inv assms(3,4)] assms(9)
    by (auto simp: serve_def split_beta Let_def)
  have "drawn P (svc ?y1) ?sid" by (auto simp: s1 drawn_def rand)
  moreover have "t' < t + 4 * 3600 * 1000" using assms(10) by linarith
  then have "rget P t' ?key (svc ?y1) \<noteq> None" using live [OF later] by (simp add: s1)
  ultimately have "rget P t' ?key (svc y') \<noteq> None"
    using undisturbed_keeps [OF assms(8) L(1,2)] unfolding keeps_def by blast
  moreover have "verifyJWT P cfg t' tok = Some
      \<lparr>cl_sub = Some (p_id p), cl_email = Some (p_email p), cl_name = Some (p_name p),
       cl_scope = Some ''session'', cl_sessionId = Some ?sid, cl_iss = Some ''tca-blackjack'',
       cl_exp = Some (t div 1000 + 3600)\<rparr>"
    using L(3) assms(10) by (simp add: tok verifyJWT_def issueSessionJWT_def jwt_laws_def JWT_EXPIRES_IN_def)
  ultimately have "handle_validate P cfg t' rq' (svc y') =
      (jsonResponse 200
         (JObj [(''valid'', JBool True), (''playerId'', JStr (p_id p)), (''email'', JStr (p_email p)),
                (''name'', JStr (p_name p)), (''scope'', JStr ''session''),
                (''expiresAt'', JStr (toISOString ((t div 1000 + 3600) * 1000)))]), svc y')"
    using p by (subst validate_accepts [OF assms(12)])
      (auto simp: live_key_def undefined_text_def jobj_def List.map_filter_def)
  then show ?thesis unfolding dispatch(2) [OF assms(11)] by (intro exI [of _ p] conjI p)
qed

text \<open>C14. The session a login starts is valid for the lifetime of its token: as long as nobody resets
  the service, \<open>/validate\<close> accepts the token for an hour (in whole seconds) and reports its player,
  whatever other requests and restarts come in between.\<close>

theorem session_valid_until_expiry:
  assumes "platform_ok P" and "reachable P cfg y" and "clock y \<le> t" and "unforged P cfg t rq y"
    and "posts ''/passkey/login/complete'' rq" and "login_grant P cfg t rq (db (svc y)) a ch cred n"
    and "tok \<in> set (reply_tokens (fst (requestHandler P cfg t rq (svc y))))"
    and "undisturbed P cfg (serve P cfg t rq y) y'" and "clock y' \<le> t'"
    and "t' div 1000 < t div 1000 + 3600"
    and "posts ''/validate'' rq'" and "validate_token rq' = Some tok"
  shows "\<exists>p :: player. p_id p = c_playerId cred \<and>
    requestHandler P cfg t' rq' (svc y') =
      (jsonResponse 200
         (JObj [(''valid'', JBool True), (''playerId'', JStr (p_id p)), (''email'', JStr (p_email p)),
                (''name'', JStr (p_name p)), (''scope'', JStr ''session''),
                (''expiresAt'', JStr (toISOString ((t div 1000 + 3600) * 1000)))]), svc y')"
  by (rule session_lives [OF assms])

lemma session_valid_until_expiry_witness:
  "\<exists>p :: player. p_id p = ''uuid-'' \<and>
    requestHandler ref_platform demo_cfg 9000
      (post_req ''/validate'' None (JObj [(''token'', JStr (demo_session ''uuid-aaaaaaa'' 7000))])) (svc logged_in) =
      (jsonResponse 200
         (JObj [(''valid'', JBool True), (''playerId'', JStr (p_id p)), (''email'', JStr (p_email p)),
                (''name'', JStr (p_name p)), (''scope'', JStr ''session''),
                (''expiresAt'', JStr (toISOString ((7000 div 1000 + 3600) * 1000)))]), svc logged_in)"
proof -
  have c: "c_playerId (rowToCredential (demo_credential 0)) = ''uuid-''"
    by (simp add: rowToCredential_def demo_credential_def)
  show ?thesis
  proof (rule session_valid_until_expiry
      [OF ref_platform_ok reach_challenged _ _ _ demo_grant, unfolded c step_login_complete])
    show "demo_session ''uuid-aaaaaaa'' 7000 \<in>
        set (reply_tokens (fst (requestHandler ref_platform demo_cfg 7000 login_complete_req (svc challenged))))"
      by code_simp
    show "validate_token (post_req ''/validate'' None (JObj [(''token'', JStr (demo_session ''uuid-aaaaaaa'' 7000))])) =
        Some (demo_session ''uuid-aaaaaaa'' 7000)"
      by code_simp
    show "unforged ref_platform demo_cfg 7000 login_complete_req challenged"
      by (simp add: unforged_def login_complete_req_def post_req_def getBearerToken_def starts_with_def)
  qed (simp_all add: challenged_def logged_in_def posts_def login_complete_req_def post_req_def undisturbed.now)
qed

end
