(* ===== verification/UiTypes.thy ===== *)
theory UiTypes
  imports Dom
begin

text \<open>
  The data types of the UI (\<open>ui/src/types/index.ts\<close>). A union of literals is a datatype with the
  literal of each constructor; \<open>game_state_of\<close> reads the JSON value the code casts to \<open>GameState\<close>, and
  is undefined where the value does not have the declared type.
\<close>

section \<open>Cards\<close>

datatype suit = Hearts | Diamonds | Clubs | Spades | HiddenSuit

datatype rank =
    Ace | Two | Three | Four | Five | Six | Seven | Eight | Nine | Ten | Jack | Queen | King | HiddenRank

fun suit_name :: "suit \<Rightarrow> string" where
  "suit_name Hearts = ''hearts''"
| "suit_name Diamonds = ''diamonds''"
| "suit_name Clubs = ''clubs''"
| "suit_name Spades = ''spades''"
| "suit_name HiddenSuit = ''hidden''"

fun rank_name :: "rank \<Rightarrow> string" where
  "rank_name Ace = ''A''"
| "rank_name Two = ''2''"
| "rank_name Three = ''3''"
| "rank_name Four = ''4''"
| "rank_name Five = ''5''"
| "rank_name Six = ''6''"
| "rank_name Seven = ''7''"
| "rank_name Eight = ''8''"
| "rank_name Nine = ''9''"
| "rank_name Ten = ''10''"
| "rank_name Jack = ''J''"
| "rank_name Queen = ''Q''"
| "rank_name King = ''K''"
| "rank_name HiddenRank = ''hidden''"

record card =
  c_suit :: suit
  c_rank :: rank

section \<open>Players and tables\<close>

datatype player_status =
    PWaiting | PBetting | PPlaying | PStanding | PBust | PBlackjack | PWon | PLost | PPush

fun status_name :: "player_status \<Rightarrow> string" where
  "status_name PWaiting = ''waiting''"
| "status_name PBetting = ''betting''"
| "status_name PPlaying = ''playing''"
| "status_name PStanding = ''standing''"
| "status_name PBust = ''bust''"
| "status_name PBlackjack = ''blackjack''"
| "status_name PWon = ''won''"
| "status_name PLost = ''lost''"
| "status_name PPush = ''push''"

record player_state =
  p_id :: string
  p_name :: string
  p_chips :: rat
  p_currentBet :: rat
  p_hand :: "card list"
  p_handValue :: rat
  p_isSoftHand :: bool
  p_status :: player_status

record dealer_state =
  d_hand :: "card list"
  d_handValue :: rat
  d_isRevealed :: bool

datatype game_phase = GWaiting | GBetting | GDealing | GPlayerTurn | GDealerTurn | GPayout | GComplete

fun phase_name :: "game_phase \<Rightarrow> string" where
  "phase_name GWaiting = ''waiting''"
| "phase_name GBetting = ''betting''"
| "phase_name GDealing = ''dealing''"
| "phase_name GPlayerTurn = ''player_turn''"
| "phase_name GDealerTurn = ''dealer_turn''"
| "phase_name GPayout = ''payout''"
| "phase_name GComplete = ''complete''"

record game_state =
  g_tableId :: string
  g_phase :: game_phase
  g_players :: "player_state list"
  g_dealer :: dealer_state
  g_activePlayerId :: "string option"
  g_minBet :: rat
  g_maxBet :: rat
  g_handledBy :: string
  g_timestamp :: string

datatype player_action = Bet | Hit | Stand | Double | Split | Insurance

fun action_name :: "player_action \<Rightarrow> string" where
  "action_name Bet = ''bet''"
| "action_name Hit = ''hit''"
| "action_name Stand = ''stand''"
| "action_name Double = ''double''"
| "action_name Split = ''split''"
| "action_name Insurance = ''insurance''"

record round_snapshot =
  r_id :: string
  r_timestamp :: string
  r_players :: "player_state list"
  r_dealer :: dealer_state

section \<open>Reading the wire format\<close>

definition field :: "json \<Rightarrow> string \<Rightarrow> json option" where
  "field j k = (case j of JObj kvs \<Rightarrow> map_of kvs k | _ \<Rightarrow> None)"

definition str_field :: "json \<Rightarrow> string \<Rightarrow> string option" where
  "str_field j k = (case field j k of Some (JStr s) \<Rightarrow> Some s | _ \<Rightarrow> None)"

definition num_field :: "json \<Rightarrow> string \<Rightarrow> rat option" where
  "num_field j k = (case field j k of Some (JNum r) \<Rightarrow> Some r | _ \<Rightarrow> None)"

definition bool_field :: "json \<Rightarrow> string \<Rightarrow> bool option" where
  "bool_field j k = (case field j k of Some (JBool b) \<Rightarrow> Some b | _ \<Rightarrow> None)"

fun all_some :: "'a option list \<Rightarrow> 'a list option" where
  "all_some [] = Some []"
| "all_some (x # xs) = Option.bind x (\<lambda>y. map_option ((#) y) (all_some xs))"

definition list_field :: "(json \<Rightarrow> 'a option) \<Rightarrow> json \<Rightarrow> string \<Rightarrow> 'a list option" where
  "list_field f j k = (case field j k of Some (JArr vs) \<Rightarrow> all_some (map f vs) | _ \<Rightarrow> None)"

text \<open>A literal of a union names its constructor.\<close>

definition of_name :: "('a \<Rightarrow> string) \<Rightarrow> 'a list \<Rightarrow> string \<Rightarrow> 'a option" where
  "of_name name cs s = find (\<lambda>c. name c = s) cs"

definition suits :: "suit list" where
  "suits = [Hearts, Diamonds, Clubs, Spades, HiddenSuit]"

definition ranks :: "rank list" where
  "ranks = [Ace, Two, Three, Four, Five, Six, Seven, Eight, Nine, Ten, Jack, Queen, King, HiddenRank]"

definition statuses :: "player_status list" where
  "statuses = [PWaiting, PBetting, PPlaying, PStanding, PBust, PBlackjack, PWon, PLost, PPush]"

definition phases :: "game_phase list" where
  "phases = [GWaiting, GBetting, GDealing, GPlayerTurn, GDealerTurn, GPayout, GComplete]"

lemma suit_of_name [simp]: "of_name suit_name suits (suit_name s) = Some s"
  by (cases s) (simp_all add: of_name_def suits_def)

lemma rank_of_name [simp]: "of_name rank_name ranks (rank_name r) = Some r"
  by (cases r) (simp_all add: of_name_def ranks_def)

lemma status_of_name [simp]: "of_name status_name statuses (status_name st) = Some st"
  by (cases st) (simp_all add: of_name_def statuses_def)

lemma phase_of_name [simp]: "of_name phase_name phases (phase_name ph) = Some ph"
  by (cases ph) (simp_all add: of_name_def phases_def)

definition card_of :: "json \<Rightarrow> card option" where
  "card_of j =
     (case (Option.bind (str_field j ''suit'') (of_name suit_name suits),
            Option.bind (str_field j ''rank'') (of_name rank_name ranks)) of
        (Some s, Some r) \<Rightarrow> Some \<lparr>c_suit = s, c_rank = r\<rparr>
      | _ \<Rightarrow> None)"

definition player_of :: "json \<Rightarrow> player_state option" where
  "player_of j =
     Option.bind (str_field j ''id'') (\<lambda>i.
     Option.bind (str_field j ''name'') (\<lambda>n.
     Option.bind (num_field j ''chips'') (\<lambda>c.
     Option.bind (num_field j ''currentBet'') (\<lambda>b.
     Option.bind (list_field card_of j ''hand'') (\<lambda>h.
     Option.bind (num_field j ''handValue'') (\<lambda>v.
     Option.bind (bool_field j ''isSoftHand'') (\<lambda>s.
     Option.bind (Option.bind (str_field j ''status'') (of_name status_name statuses)) (\<lambda>st.
       Some \<lparr>p_id = i, p_name = n, p_chips = c, p_currentBet = b, p_hand = h, p_handValue = v,
             p_isSoftHand = s, p_status = st\<rparr>))))))))"

definition dealer_of :: "json \<Rightarrow> dealer_state option" where
  "dealer_of j =
     Option.bind (list_field card_of j ''hand'') (\<lambda>h.
     Option.bind (num_field j ''handValue'') (\<lambda>v.
     Option.bind (bool_field j ''isRevealed'') (\<lambda>r.
       Some \<lparr>d_hand = h, d_handValue = v, d_isRevealed = r\<rparr>)))"

definition game_state_of :: "json \<Rightarrow> game_state option" where
  "game_state_of j =
     Option.bind (str_field j ''tableId'') (\<lambda>t.
     Option.bind (Option.bind (str_field j ''phase'') (of_name phase_name phases)) (\<lambda>ph.
     Option.bind (list_field player_of j ''players'') (\<lambda>ps.
     Option.bind (Option.bind (field j ''dealer'') dealer_of) (\<lambda>d.
     Option.bind (num_field j ''minBet'') (\<lambda>mn.
     Option.bind (num_field j ''maxBet'') (\<lambda>mx.
     Option.bind (str_field j ''handledBy'') (\<lambda>hb.
     Option.bind (str_field j ''timestamp'') (\<lambda>ts.
       Some \<lparr>g_tableId = t, g_phase = ph, g_players = ps, g_dealer = d,
             g_activePlayerId = str_field j ''activePlayerId'', g_minBet = mn, g_maxBet = mx,
             g_handledBy = hb, g_timestamp = ts\<rparr>))))))))"

end
