(* ===== verification/UiCards.thy ===== *)
theory UiCards
  imports UiTypes
begin

text \<open>
  Cards (\<open>ui/src/components/Card.tsx\<close>) and the drawer with the rounds of the session
  (\<open>ui/src/components/SessionHistoryDrawer.tsx\<close>). The format of a local time is a parameter.
\<close>

section \<open>A card\<close>

fun suit_symbol :: "suit \<Rightarrow> string" where
  "suit_symbol Hearts = utf8 9829"
| "suit_symbol Diamonds = utf8 9830"
| "suit_symbol Clubs = utf8 9827"
| "suit_symbol Spades = utf8 9824"
| "suit_symbol HiddenSuit = ''?''"

fun suit_color :: "suit \<Rightarrow> string" where
  "suit_color Hearts = ''#e53e3e''"
| "suit_color Diamonds = ''#e53e3e''"
| "suit_color Clubs = ''#1a202c''"
| "suit_color Spades = ''#1a202c''"
| "suit_color HiddenSuit = ''#4a5568''"

datatype card_size = Xs | Sm | Md | Lg

record dims =
  dim_width :: string
  dim_height :: string
  dim_rankSize :: rat
  dim_suitSize :: string

fun sizes :: "card_size \<Rightarrow> dims" where
  "sizes Xs = \<lparr>dim_width = ''30'', dim_height = ''42'', dim_rankSize = 55/100, dim_suitSize = ''0.7rem''\<rparr>"
| "sizes Sm = \<lparr>dim_width = ''48'', dim_height = ''68'', dim_rankSize = 75/100, dim_suitSize = ''1.2rem''\<rparr>"
| "sizes Md = \<lparr>dim_width = ''64'', dim_height = ''90'', dim_rankSize = 1, dim_suitSize = ''1.6rem''\<rparr>"
| "sizes Lg = \<lparr>dim_width = ''80'', dim_height = ''112'', dim_rankSize = 12/10, dim_suitSize = ''2rem''\<rparr>"

definition isHidden :: "card \<Rightarrow> bool" where
  "isHidden c \<longleftrightarrow> c_suit c = HiddenSuit \<or> c_rank c = HiddenRank"

definition card_view :: "card_size \<Rightarrow> card \<Rightarrow> 'm view" where
  "card_view sz c =
  (if isHidden c
   then
    El ''div'' [Style [(''width'', dim_width (sizes sz)), (''height'', dim_height (sizes sz)),
    (''borderRadius'', ''8''), (''background'', ''linear-gradient(135deg, #2b4c7e 25%, #1a3150 75%)''),
    (''border'', ''2px solid #4a7abd''), (''display'', ''flex''), (''alignItems'', ''center''),
    (''justifyContent'', ''center''), (''boxShadow'', ''2px 2px 8px rgba(0,0,0,0.4)'')]]
      [El ''span'' [Style [(''fontSize'', dim_suitSize (sizes sz)), (''color'', ''#4a7abd'')]]
         [Txt (utf8 127136)]]
   else
    El ''div'' [Style [(''width'', dim_width (sizes sz)), (''height'', dim_height (sizes sz)),
    (''borderRadius'', ''8''), (''background'', ''white''), (''border'', ''2px solid #e2e8f0''),
    (''display'', ''flex''), (''flexDirection'', ''column''), (''padding'', ''4px 6px''),
    (''boxShadow'', ''2px 2px 8px rgba(0,0,0,0.3)''), (''position'', ''relative''),
    (''userSelect'', ''none'')]]
      [El ''span'' [Style ([(''fontSize'', (num_to_string (dim_rankSize (sizes sz)) @ ''rem'')),
          (''fontWeight'', ''700''), (''color'', suit_color (c_suit c)), (''lineHeight'', ''1'')])]
         [Txt (rank_name (c_rank c))],
       El ''span'' [Style ([(''fontSize'', (num_to_string (dim_rankSize (sizes sz) * (4/5))
           @ ''rem'')), (''color'', suit_color (c_suit c)), (''lineHeight'', ''1'')])]
         [Txt (suit_symbol (c_suit c))],
       El ''span'' [Style [(''position'', ''absolute''), (''bottom'', ''4''), (''right'', ''6''),
           (''fontSize'', dim_suitSize (sizes sz)), (''color'', suit_color (c_suit c)),
           (''transform'', ''rotate(180deg)''), (''lineHeight'', ''1'')]]
         [Txt (suit_symbol (c_suit c))]])"

section \<open>A round\<close>

definition winner_border :: "player_status \<Rightarrow> (string \<times> string) list" where
  "winner_border st =
     (if st = PWon \<or> st = PBlackjack then
        [(''border'', ''2px solid #38a169''), (''boxShadow'', ''0 0 8px rgba(56,161,105,0.45)''),
         (''borderRadius'', ''8''), (''padding'', ''4px 6px''), (''background'', ''rgba(56,161,105,0.07)'')]
      else if st = PPush then
        [(''border'', ''2px solid #f59e0b''), (''borderRadius'', ''8''), (''padding'', ''4px 6px''),
         (''background'', ''rgba(245,158,11,0.06)'')]
      else
        [(''border'', ''2px solid transparent''), (''borderRadius'', ''8''), (''padding'', ''4px 6px''),
         (''opacity'', ''0.45'')])"

fun badge_entry :: "player_status \<Rightarrow> (string \<times> string) option" where
  "badge_entry PWon = Some (''WON'', ''#38a169'')"
| "badge_entry PBlackjack = Some (''BJ'', ''#ecc94b'')"
| "badge_entry PPush = Some (''PUSH'', ''#f59e0b'')"
| "badge_entry PLost = Some (''LOST'', ''#fc8181'')"
| "badge_entry PBust = Some (''BUST'', ''#fc8181'')"
| "badge_entry _ = None"

definition status_badge :: "player_status \<Rightarrow> 'm view list" where
  "status_badge st =
     (case badge_entry st of
        None \<Rightarrow> []
      | Some (label, color) \<Rightarrow>
      [El ''span'' [Style [(''fontSize'', ''0.55rem''), (''fontWeight'', ''700''), (''color'', color),
    (''letterSpacing'', ''0.5''), (''marginLeft'', ''4'')]]
        [Txt label]])"

definition container_style :: "player_status option \<Rightarrow> bool \<Rightarrow> (string \<times> string) list" where
  "container_style status isDealer =
     (if isDealer then [(''border'', ''2px solid transparent''), (''borderRadius'', ''8''), (''padding'', ''4px 6px'')]
      else case status of None \<Rightarrow> [] | Some st \<Rightarrow> winner_border st)"

definition hand_group :: "string \<Rightarrow> card list \<Rightarrow> player_status option \<Rightarrow> bool \<Rightarrow> 'm view" where
  "hand_group label cards status isDealer =
  El ''div'' [Style (container_style status isDealer)]
    [El ''div'' [Style [(''fontSize'', ''0.6rem''), (''color'', ''#8b949e''),
        (''fontWeight'', ''600''), (''marginBottom'', ''3''), (''letterSpacing'', ''0.5''),
        (''display'', ''flex''), (''alignItems'', ''center'')]]
       ([Txt label] @
       (case status of None \<Rightarrow> [] | Some st \<Rightarrow> status_badge st)),
     El ''div'' [Style [(''display'', ''flex''), (''gap'', ''2''), (''flexWrap'', ''wrap'')]]
       (map (card_view Xs) cards)]"

definition round_row :: "(string \<Rightarrow> string) \<Rightarrow> round_snapshot \<Rightarrow> nat \<Rightarrow> 'm view" where
  "round_row loc rnd index =
  El ''div'' [Style [(''borderBottom'', ''1px solid #21262d''), (''padding'', ''10px 12px'')]]
    [El ''div'' [Style [(''fontSize'', ''0.6rem''), (''color'', ''#4a5568''),
        (''marginBottom'', ''6''), (''display'', ''flex''), (''justifyContent'', ''space-between'')]]
       [El ''span'' [Style [(''fontWeight'', ''600''), (''color'', ''#8b949e'')]]
          [Txt ''Round '',
           Txt (nat_to_string (index + 1))],
        El ''span'' []
          [Txt (loc (r_timestamp rnd))]],
     El ''div'' [Style [(''display'', ''flex''), (''gap'', ''8''), (''flexWrap'', ''wrap''),
         (''alignItems'', ''flex-start'')]]
       ([hand_group ''Dealer'' (d_hand (r_dealer rnd)) None True,
        El ''div'' [Style [(''width'', ''1''), (''background'', ''#21262d''),
            (''alignSelf'', ''stretch''), (''margin'', ''0 2px'')]]
          []] @
       (map (\<lambda>p. hand_group (p_name p) (p_hand p) (Some (p_status p)) False) (filter (\<lambda>p. p_hand p \<noteq> []) (r_players rnd))))]"

section \<open>The drawer\<close>

definition DRAWER_WIDTH :: int where "DRAWER_WIDTH = 340"

datatype history_msg = HistoryOpen bool

definition history_view :: "(string \<Rightarrow> string) \<Rightarrow> bool \<Rightarrow> bool \<Rightarrow> round_snapshot list \<Rightarrow> history_msg view list" where
  "history_view loc isopen isDemo rounds =
  ([El ''div'' [On ''click'' (HistoryOpen (\<not> isopen)),
      Attr ''title'' (if isopen then ''Close session history'' else ''View session history''),
      Style [(''position'', ''fixed''), (''right'', (if isopen then int_to_string DRAWER_WIDTH
          else ''0'')), (''top'', ''50%''), (''transform'', ''translateY(-50%)''),
          (''zIndex'', ''1200''), (''cursor'', ''pointer''), (''transition'', ''right 0.3s ease''),
          (''background'', ''#1a2535''), (''border'', ''1px solid #1f6feb''),
          (''borderRight'', ''none''), (''borderRadius'', ''8px 0 0 8px''),
          (''padding'', ''16px 10px''), (''display'', ''flex''), (''flexDirection'', ''column''),
          (''alignItems'', ''center''), (''gap'', ''6''),
          (''boxShadow'', ''-4px 0 16px rgba(31,111,235,0.25)''), (''userSelect'', ''none'')]]
     ([El ''span'' [Style [(''fontSize'', ''1rem'')]]
        [Txt (utf8 127183)],
      El ''span'' [Style [(''fontSize'', ''0.6rem''), (''color'', ''#8b949e''),
          (''fontWeight'', ''700''), (''letterSpacing'', ''1.5''), (''writingMode'', ''vertical-rl''),
          (''textTransform'', ''uppercase'')]]
        [Txt ''History'']] @
     (if rounds \<noteq> []
      then [El ''span'' [Style [(''background'', ''#1f6feb''), (''color'', ''#fff''),
          (''fontSize'', ''0.6rem''), (''fontWeight'', ''700''), (''borderRadius'', ''50%''),
          (''width'', ''18''), (''height'', ''18''), (''display'', ''flex''),
          (''alignItems'', ''center''), (''justifyContent'', ''center'')]]
          [Txt (nat_to_string (length rounds))]]
      else [])),
   El ''div'' [Style [(''position'', ''fixed''), (''top'', ''0''), (''right'', ''0''),
       (''width'', int_to_string DRAWER_WIDTH), (''height'', ''100vh''), (''background'', ''#0d1117''),
       (''border'', ''1px solid #30363d''), (''borderRight'', ''none''), (''zIndex'', ''1100''),
       (''transform'', (if isopen then ''translateX(0)'' else (''translateX(''
       @ int_to_string DRAWER_WIDTH @ ''px)''))), (''transition'', ''transform 0.3s ease''),
       (''display'', ''flex''), (''flexDirection'', ''column''),
       (''boxShadow'', ''-4px 0 24px rgba(0,0,0,0.5)'')]]
     [El ''div'' [Style [(''padding'', ''16px 16px 12px''), (''borderBottom'', ''1px solid #21262d''),
         (''display'', ''flex''), (''justifyContent'', ''space-between''),
         (''alignItems'', ''center''), (''flexShrink'', ''0'')]]
        [El ''div'' []
           [El ''div'' [Style [(''display'', ''flex''), (''alignItems'', ''center''),
               (''gap'', ''8'')]]
              ([El ''div'' [Style [(''fontSize'', ''0.85rem''), (''fontWeight'', ''700''),
                  (''color'', ''#e6edf3'')]]
                 [Txt ''Session History'']] @
              (if isDemo
               then [El ''span'' [Style [(''fontSize'', ''0.6rem''), (''fontWeight'', ''700''),
                   (''color'', ''#f59e0b''), (''background'', ''#f59e0b15''),
                   (''border'', ''1px solid #f59e0b44''), (''borderRadius'', ''4''),
                   (''padding'', ''2px 6px''), (''letterSpacing'', ''1'')]]
                   [Txt ''DEMO'']]
               else [])),
            El ''div'' [Style [(''fontSize'', ''0.65rem''), (''color'', ''#8b949e''),
                (''marginTop'', ''2'')]]
              [Txt (if rounds = [] then ''Watching demo game...'' else (nat_to_string (length rounds)
                  @ '' round'' @ (if length rounds = 1 then [] else ''s'') @ '' captured''))]],
         El ''button'' [On ''click'' (HistoryOpen False),
            Style [(''background'', ''none''), (''border'', ''none''), (''cursor'', ''pointer''),
                (''color'', ''#8b949e''), (''fontSize'', ''1.1rem''), (''lineHeight'', ''1''),
                (''padding'', ''4'')]]
           [Txt (utf8 215)]],
      El ''div'' [Style [(''overflowY'', ''auto''), (''flex'', ''1'')]]
        (if rounds = []
         then [El ''div'' [Style [(''padding'', ''24''), (''textAlign'', ''center''),
             (''color'', ''#4a5568''), (''fontSize'', ''0.75rem'')]]
             [Txt ''Rounds will appear here as you play.'']]
         else (map (\<lambda>(i,
             r). round_row loc r (length rounds - 1 - i)) (enumerate 0 rounds)))]] @
  (if isopen
   then [El ''div'' [On ''click'' (HistoryOpen False),
        Style [(''position'', ''fixed''), (''inset'', ''0''), (''background'', ''rgba(0,0,0,0.3)''),
            (''zIndex'', ''1099'')]]
       []]
   else []))"

end
