(* ===== verification/UiTable.thy ===== *)
theory UiTable
  imports UiCards
begin

text \<open>
  The game table (\<open>ui/src/components/GameTable.tsx\<close>): its view, as a function of the state of the
  game, the player, the balance at the bank and the amount in the bet panel, and what a player can do
  with it. A click sends a message; \<open>Act\<close> is a call of \<open>onAction\<close>.
\<close>

section \<open>Labels\<close>

fun phase_label :: "game_phase \<Rightarrow> string" where
  "phase_label GWaiting = ''Place your bet''"
| "phase_label GBetting = ''Placing bet...''"
| "phase_label GDealing = ''Dealing...''"
| "phase_label GPlayerTurn = ''Your turn''"
| "phase_label GDealerTurn = ''Dealer'' @ [CHR 0x27] @ ''s turn''"
| "phase_label GPayout = ''Round complete''"
| "phase_label GComplete = ''Round complete''"

text \<open>\<open>s.replace(a, b)\<close> for a text \<open>a\<close>: the first occurrence.\<close>

fun replace_first :: "string \<Rightarrow> string \<Rightarrow> string \<Rightarrow> string" where
  "replace_first a b [] = (if a = [] then b else [])"
| "replace_first a b (c # s) =
     (if starts_with a (c # s) then b @ drop (length a) (c # s) else c # replace_first a b s)"

definition demo_label :: "game_phase \<Rightarrow> string" where
  "demo_label ph =
     replace_first ''Place your bet'' ''Waiting...''
       (replace_first ''Your turn'' (''Player'' @ [CHR 0x27] @ ''s turn'') (phase_label ph))"

fun status_tint :: "player_status \<Rightarrow> string" where
  "status_tint PWaiting = ''#718096''"
| "status_tint PBetting = ''#d69e2e''"
| "status_tint PPlaying = ''#3182ce''"
| "status_tint PStanding = ''#718096''"
| "status_tint PBust = ''#e53e3e''"
| "status_tint PBlackjack = ''#d4af37''"
| "status_tint PWon = ''#38a169''"
| "status_tint PLost = ''#e53e3e''"
| "status_tint PPush = ''#718096''"

fun status_label :: "player_status \<Rightarrow> string option" where
  "status_label PBlackjack = Some (utf8 127881 @ '' BLACKJACK!'')"
| "status_label PWon = Some (utf8 10003 @ '' WIN'')"
| "status_label PLost = Some (utf8 10007 @ '' LOST'')"
| "status_label PPush = Some ''= PUSH''"
| "status_label PBust = Some (utf8 10007 @ '' BUST'')"
| "status_label _ = None"

definition getFiveCardLabel :: "card list \<Rightarrow> player_status \<Rightarrow> string option" where
  "getFiveCardLabel hand st =
     (if 5 \<le> length hand \<and> (st = PWon \<or> st = PStanding) then Some (utf8 128400 @ '' FIVE CARD CHARLIE!'') else None)"

definition player_label :: "player_state \<Rightarrow> string" where
  "player_label p =
     (case getFiveCardLabel (p_hand p) (p_status p) of
        Some l \<Rightarrow> l
      | None \<Rightarrow> (case status_label (p_status p) of Some l \<Rightarrow> l | None \<Rightarrow> status_name (p_status p)))"

section \<open>Dealer and players\<close>

definition dealer_view :: "dealer_state \<Rightarrow> 'm view" where
  "dealer_view d =
  El ''div'' [Style [(''textAlign'', ''center''), (''marginBottom'', ''24'')]]
    [El ''div'' [Style [(''color'', ''#a0aec0''), (''fontSize'', ''0.75rem''),
        (''letterSpacing'', ''2''), (''marginBottom'', ''8'')]]
       [Txt ''DEALER '',
        Txt (if d_isRevealed d \<and> 0 < d_handValue d then ((utf8 8212 @ '' '')
            @ num_to_string (d_handValue d)) else [])],
     El ''div'' [Style [(''display'', ''flex''), (''gap'', ''8''), (''justifyContent'', ''center''),
         (''flexWrap'', ''wrap'')]]
       (map (card_view Md) (d_hand d))]"

definition player_view :: "player_state \<Rightarrow> bool \<Rightarrow> bool \<Rightarrow> 'm view" where
  "player_view p isActive isMe =
  El ''div'' [Style ([(''background'', (if isActive then ''rgba(49,130,206,0.15)''
    else ''rgba(255,255,255,0.04)'')), (''border'', (''1px solid '' @ (if isActive then ''#3182ce''
    else ''rgba(255,255,255,0.1)''))), (''borderRadius'', ''12''), (''padding'', ''16px 20px''),
    (''minWidth'', ''180''), (''transition'', ''all 0.3s'')])]
    ([El ''div'' [Style [(''display'', ''flex''), (''justifyContent'', ''space-between''),
        (''alignItems'', ''center''), (''marginBottom'', ''8'')]]
       [El ''span'' [Style [(''fontWeight'', ''600''),
           (''color'', (if isMe then ''#63b3ed'' else ''#e2e8f0'')), (''fontSize'', ''0.9rem'')]]
          [Txt (p_name p),
           Txt '' '',
           Txt (if isMe then ''(you)'' else [])],
        El ''span'' [Style [(''fontSize'', ''0.65rem''), (''fontWeight'', ''700''),
            (''color'', status_tint (p_status p)), (''textTransform'', ''uppercase''),
            (''letterSpacing'', ''1'')]]
          [Txt (player_label p)]],
     El ''div'' [Style [(''display'', ''flex''), (''gap'', ''6''), (''marginBottom'', ''10''),
         (''flexWrap'', ''wrap'')]]
       (map (card_view Sm) (p_hand p))] @
    (if 0 < p_handValue p
     then [El ''div'' [Style [(''fontSize'', ''0.8rem''), (''color'', ''#a0aec0''),
         (''marginBottom'', ''4'')]]
         ([Txt ''Hand: '',
          El ''strong'' [Style [(''color'', (if 21 < p_handValue p then ''#fc8181''
              else ''#e2e8f0''))]]
            [Txt (num_to_string (p_handValue p))]] @
         (if p_isSoftHand p
          then [El ''span'' [Style [(''color'', ''#a0aec0'')]]
              [Txt '' (soft)'']]
          else []))]
     else []) @
    (if 0 < p_currentBet p
     then [El ''div'' [Style [(''fontSize'', ''0.8rem''), (''color'', ''#a0aec0'')]]
         [Txt ''Bet: '',
          El ''strong'' [Style [(''color'', ''#d69e2e'')]]
            [Txt ''$'',
             Txt (num_to_string (p_currentBet p))]]]
     else []))"

section \<open>The bet panel\<close>

datatype table_msg =
    SetBetAmount jsnum
  | Act player_action "jsnum option"
  | NoAction

text \<open>The amount in the panel is its own state: it starts from the limits of the table, and stays as
  it is when the limits or the chips change.\<close>

definition bet_start :: "rat \<Rightarrow> jsnum" where
  "bet_start maxBet = Some (min 25 maxBet)"

fun bet_step :: "table_msg \<Rightarrow> jsnum \<Rightarrow> jsnum" where
  "bet_step (SetBetAmount a) bet = a"
| "bet_step _ bet = bet"

definition quickAmounts :: "rat \<Rightarrow> jsnum \<Rightarrow> rat list" where
  "quickAmounts minBet chips = filter (\<lambda>a. minBet \<le> a \<and> num_le (Some a) chips) [10, 25, 50, 100, 200]"

definition canBet :: "rat \<Rightarrow> rat \<Rightarrow> jsnum \<Rightarrow> jsnum \<Rightarrow> bool" where
  "canBet minBet maxBet chips bet \<longleftrightarrow> num_le (Some minBet) bet \<and> num_le bet (num_min (Some maxBet) chips)"

definition typed_bet :: "string \<Rightarrow> table_msg" where
  "typed_bet s = SetBetAmount (Some (max 0 (case parseInt s of None \<Rightarrow> 0 | Some x \<Rightarrow> x)))"

definition quick_button :: "jsnum \<Rightarrow> rat \<Rightarrow> table_msg view" where
  "quick_button bet amount =
  El ''button'' [On ''click'' (SetBetAmount (Some amount)),
     Style ([(''padding'', ''6px 14px''), (''borderRadius'', ''8''),
         (''border'', (''1px solid '' @ (if num_eq bet (Some amount) then ''#d69e2e''
         else ''#4a4a2a''))), (''background'', (if num_eq bet (Some amount) then ''#d69e2e33''
         else ''transparent'')), (''color'', (if num_eq bet (Some amount) then ''#d69e2e''
         else ''#8b7a3a'')), (''fontWeight'', ''700''), (''cursor'', ''pointer''),
         (''fontSize'', ''0.85rem''), (''transition'', ''all 0.15s'')])]
    [Txt ''$'',
     Txt (num_to_string amount)]"

definition deal_click :: "rat \<Rightarrow> rat \<Rightarrow> jsnum \<Rightarrow> jsnum \<Rightarrow> table_msg" where
  "deal_click minBet maxBet chips bet = (if canBet minBet maxBet chips bet then Act Bet (Some bet) else NoAction)"

definition bet_panel :: "jsnum \<Rightarrow> rat \<Rightarrow> rat \<Rightarrow> jsnum \<Rightarrow> table_msg view" where
  "bet_panel chips minBet maxBet bet =
  El ''div'' [Style [(''textAlign'', ''center'')]]
    [El ''div'' [Style [(''color'', ''#d69e2e''), (''fontSize'', ''0.75rem''),
        (''letterSpacing'', ''1''), (''marginBottom'', ''12'')]]
       [Txt ''PLACE YOUR BET (min $'',
        Txt (num_to_string minBet),
        Txt ('' '' @ utf8 183 @ '' max $''),
        Txt (num_to_string maxBet),
        Txt '')''],
     El ''div'' [Style [(''display'', ''flex''), (''gap'', ''8''), (''justifyContent'', ''center''),
         (''marginBottom'', ''10''), (''flexWrap'', ''wrap'')]]
       ((map (quick_button bet) (quickAmounts minBet chips)) @
       (if num_less (Some 0) chips
        then [El ''button'' [On ''click'' (SetBetAmount (num_min chips (Some maxBet))),
             Style ([(''padding'', ''6px 14px''), (''borderRadius'', ''8''),
                 (''border'', (''1px solid '' @ (if num_eq bet (num_min chips (Some maxBet))
                 then ''#d69e2e'' else ''#4a4a2a''))),
                 (''background'', (if num_eq bet (num_min chips (Some maxBet)) then ''#d69e2e33''
                 else ''transparent'')), (''color'', (if num_eq bet (num_min chips (Some maxBet))
                 then ''#d69e2e'' else ''#8b7a3a'')), (''fontWeight'', ''700''),
                 (''cursor'', ''pointer''), (''fontSize'', ''0.85rem'')])]
            [Txt ''All-In'']]
        else [])),
     El ''div'' [Style [(''display'', ''flex''), (''gap'', ''8''), (''justifyContent'', ''center''),
         (''alignItems'', ''center''), (''marginBottom'', ''14'')]]
       [El ''input'' [Attr ''type'' ''number'',
           Attr ''min'' (num_to_string minBet),
           Attr ''max'' (num_text (num_min (Some maxBet) chips)),
           Attr ''value'' (num_text bet),
           OnInput ''change'' typed_bet,
           Style [(''width'', ''90''), (''padding'', ''6px 10px''), (''background'', ''#1a2535''),
               (''border'', ''1px solid #30363d''), (''borderRadius'', ''6''),
               (''color'', ''#e2e8f0''), (''fontSize'', ''0.9rem''), (''textAlign'', ''center'')]]
          [],
        El ''span'' [Style [(''color'', ''#8b949e''), (''fontSize'', ''0.8rem'')]]
          [Txt ''chips'']],
     El ''button'' [On ''click'' (deal_click minBet maxBet chips bet),
        Disabled (\<not> canBet minBet maxBet chips bet),
        Style [(''padding'', ''10px 32px''), (''borderRadius'', ''8''),
            (''border'', ''1px solid #d69e2e''),
            (''background'', (if canBet minBet maxBet chips bet
            then ''linear-gradient(135deg, #d69e2e33, #d69e2e22)'' else ''transparent'')),
            (''color'', (if canBet minBet maxBet chips bet then ''#d69e2e'' else ''#4a4535'')),
            (''fontWeight'', ''700''), (''cursor'', (if canBet minBet maxBet chips bet
            then ''pointer'' else ''not-allowed'')), (''fontSize'', ''1rem''),
            (''letterSpacing'', ''1''), (''transition'', ''all 0.2s'')]]
       [Txt (''Deal '' @ utf8 8594)]]"

section \<open>The table\<close>

definition action_button :: "string \<Rightarrow> string \<Rightarrow> table_msg \<Rightarrow> bool \<Rightarrow> string option \<Rightarrow> table_msg view" where
  "action_button label color msg disabled disabledTitle =
     El ''button''
       ((if disabled then [] else [On ''click'' msg]) @
        (case disabledTitle of Some t \<Rightarrow> if disabled then [Attr ''title'' t] else [] | None \<Rightarrow> []) @
        [Style [(''padding'', ''10px 28px''), (''borderRadius'', ''8''),
           (''border'', ''1px solid '' @ (if disabled then ''#333'' else color)),
           (''background'', if disabled then ''transparent'' else color @ ''22''),
           (''color'', if disabled then ''#4a5568'' else ''white''), (''fontWeight'', ''600''),
           (''cursor'', if disabled then ''not-allowed'' else ''pointer''), (''fontSize'', ''0.9rem''),
           (''transition'', ''all 0.2s''), (''opacity'', if disabled then ''0.5'' else ''1'')]])
       [Txt label]"

text \<open>In a game of one's own, the first player is taken for oneself when no other is.\<close>

definition my_player :: "bool \<Rightarrow> string option \<Rightarrow> player_state list \<Rightarrow> player_state option" where
  "my_player isDemo myPlayerId ps =
     (if isDemo then nth_opt ps 0
      else case find (\<lambda>p. myPlayerId = Some (p_id p)) ps of Some p \<Rightarrow> Some p | None \<Rightarrow> nth_opt ps 0)"

definition isMyTurn :: "bool \<Rightarrow> string option \<Rightarrow> player_state option \<Rightarrow> game_state \<Rightarrow> bool" where
  "isMyTurn isDemo myPlayerId my g =
     (case g_activePlayerId g of
        None \<Rightarrow> False
      | Some a \<Rightarrow>
          if isDemo then a \<noteq> []
          else myPlayerId = Some a \<or> (case my of Some p \<Rightarrow> p_id p = a | None \<Rightarrow> False))"

definition canDouble :: "player_state option \<Rightarrow> bool" where
  "canDouble my = (case my of Some p \<Rightarrow> p_currentBet p \<le> p_chips p | None \<Rightarrow> False)"

definition hasPair :: "player_state option \<Rightarrow> bool" where
  "hasPair my =
     (case my of Some p \<Rightarrow> (case p_hand p of [c, d] \<Rightarrow> c_rank c = c_rank d | _ \<Rightarrow> False) | None \<Rightarrow> False)"

definition is_playing :: "player_state option \<Rightarrow> bool" where
  "is_playing my = (case my of Some p \<Rightarrow> p_status p = PPlaying | None \<Rightarrow> False)"

definition table_chips :: "jsnum option \<Rightarrow> player_state \<Rightarrow> jsnum" where
  "table_chips bal p = (case bal of Some b \<Rightarrow> b | None \<Rightarrow> Some (p_chips p))"

definition game_table :: "game_state \<Rightarrow> string option \<Rightarrow> bool \<Rightarrow> jsnum option \<Rightarrow> jsnum \<Rightarrow> table_msg view" where
  "game_table g myPlayerId isDemo bal bet =
  (let my = my_player isDemo myPlayerId (g_players g) in
  El ''div'' [Style [(''background'', ''radial-gradient(ellipse at center, #1a4731 0%, #0d2818 100%)''),
    (''borderRadius'', ''24''), (''padding'', ''32px 24px''),
    (''border'', ''3px solid rgba(255,255,255,0.1)''),
    (''boxShadow'', ''inset 0 0 60px rgba(0,0,0,0.5)''), (''position'', ''relative'')]]
    ([El ''div'' [Style [(''textAlign'', ''center''), (''marginBottom'', ''24''),
        (''padding'', ''6px 16px''), (''background'', ''rgba(0,0,0,0.3)''), (''borderRadius'', ''20''),
        (''display'', ''inline-block''), (''left'', ''50%''), (''position'', ''relative''),
        (''transform'', ''translateX(-50%)'')]]
       [El ''span'' [Style [(''color'', ''#d69e2e''), (''fontSize'', ''0.8rem''),
           (''fontWeight'', ''600''), (''letterSpacing'', ''2''), (''textTransform'', ''uppercase'')]]
          [Txt (if isDemo then demo_label (g_phase g) else phase_label (g_phase g))]],
     El ''div'' [Style [(''position'', ''absolute''), (''top'', ''12''), (''right'', ''16''),
         (''fontSize'', ''0.6rem''), (''color'', ''rgba(255,255,255,0.3)''),
         (''fontFamily'', ''monospace'')]]
       [Txt (g_handledBy g)]] @
    (if isDemo
     then [El ''div'' [Style [(''position'', ''absolute''), (''top'', ''12''), (''left'', ''16''),
         (''fontSize'', ''0.6rem''), (''color'', ''#f59e0b''), (''fontWeight'', ''700''),
         (''letterSpacing'', ''1''), (''background'', ''#f59e0b22''), (''padding'', ''2px 8px''),
         (''borderRadius'', ''4''), (''border'', ''1px solid #f59e0b44'')]]
         [Txt ''DEMO'']]
     else []) @
    [dealer_view (g_dealer g),
     El ''div'' [Style [(''borderTop'', ''1px dashed rgba(255,255,255,0.15)''),
         (''margin'', ''16px 0'')]]
       [],
     El ''div'' [Style [(''display'', ''flex''), (''gap'', ''12''), (''justifyContent'', ''center''),
         (''flexWrap'', ''wrap''), (''marginBottom'', ''24'')]]
       (map (\<lambda>p. player_view p (g_activePlayerId g = Some (p_id p)) (myPlayerId = Some (p_id p))) (g_players g))] @
    (if (\<not> isDemo)
     then ((if g_phase g = GWaiting \<and> my \<noteq> None
       then [bet_panel (table_chips bal (the my)) (g_minBet g) (g_maxBet g) bet]
       else []) @
      (if isMyTurn isDemo myPlayerId my g \<and> is_playing my
       then [El ''div'' [Style [(''display'', ''flex''), (''gap'', ''8''),
           (''justifyContent'', ''center''), (''flexWrap'', ''wrap'')]]
           [action_button ''Hit'' ''#3182ce'' (Act Hit None) False None,
            action_button ''Stand'' ''#718096'' (Act Stand None) False None,
            action_button ''Double'' ''#d69e2e'' (Act Double None) (\<not> canDouble my) (if \<not> canDouble my then Some ''Insufficient chips to double'' else None),
            action_button ''Split'' ''#8b949e'' NoAction True (Some (if hasPair my
                then ''Split coming soon'' else ''Split requires a pair''))]]
       else []))
     else [])))"

section \<open>What the table offers\<close>

lemma clicks_map_none: "(\<And>x. clicks (f x) = []) \<Longrightarrow> clicks_all (map f xs) = []"
  by (simp add: clicks_all_map)

lemma clicks_card [simp]: "clicks (card_view sz c) = []"
  by (simp add: card_view_def)

lemma clicks_dealer [simp]: "clicks (dealer_view d) = []"
  by (simp add: dealer_view_def clicks_map_none)

lemma clicks_player [simp]: "clicks (player_view p a m) = []"
  by (simp add: player_view_def clicks_map_none)

lemma clicks_quick [simp]: "clicks (quick_button bet amount) = [SetBetAmount (Some amount)]"
  by (simp add: quick_button_def)

lemma clicks_bet_panel [simp]:
  "clicks (bet_panel chips minBet maxBet bet) =
     map (\<lambda>a. SetBetAmount (Some a)) (quickAmounts minBet chips) @
     (if num_less (Some 0) chips then [SetBetAmount (num_min chips (Some maxBet))] else []) @
     (if canBet minBet maxBet chips bet then [Act Bet (Some bet)] else [])"
  by (simp add: bet_panel_def clicks_all_map deal_click_def)

lemma clicks_action_button [simp]:
  "clicks (action_button label color msg disabled t) = (if disabled then [] else [msg])"
  by (simp add: action_button_def split: option.split)

lemma clicks_game_table:
  "clicks (game_table g me isDemo bal bet) =
     (case my_player isDemo me (g_players g) of
        None \<Rightarrow> []
      | Some p \<Rightarrow>
          if isDemo then []
          else (if g_phase g = GWaiting
                then clicks (bet_panel (table_chips bal p) (g_minBet g) (g_maxBet g) bet) else []) @
               (if isMyTurn isDemo me (Some p) g \<and> p_status p = PPlaying
                then [Act Hit None, Act Stand None] @ (if canDouble (Some p) then [Act Double None] else [])
                else []))"
  by (cases "my_player isDemo me (g_players g)")
    (simp_all add: game_table_def Let_def clicks_map_none is_playing_def)

text \<open>C33. What a player can do at the table. In the demonstration nothing; otherwise, in the waiting
  phase, bet the amount in the panel if it lies between the limits of the table and within the chips;
  and when it is the player's turn and the player is still playing, hit, stand, and double if the chips
  cover the bet. Split and insurance are never offered.\<close>

theorem table_offers_iff:
  "Act a amt \<in> set (clicks (game_table g me isDemo bal bet)) \<longleftrightarrow>
     \<not> isDemo \<and>
     (\<exists>p. my_player isDemo me (g_players g) = Some p \<and>
       (a = Bet \<and> g_phase g = GWaiting \<and> amt = Some bet \<and>
          (\<exists>x c. bet = Some x \<and> table_chips bal p = Some c \<and> g_minBet g \<le> x \<and> x \<le> min (g_maxBet g) c) \<or>
        amt = None \<and> p_status p = PPlaying \<and>
          (\<exists>i. g_activePlayerId g = Some i \<and> (me = Some i \<or> p_id p = i)) \<and>
          (a = Hit \<or> a = Stand \<or> a = Double \<and> p_currentBet p \<le> p_chips p)))"
  by (cases "my_player isDemo me (g_players g)")
    (auto simp: clicks_game_table canBet_def num_le_iff num_min_iff isMyTurn_def canDouble_def
      split: option.splits)

text \<open>A quick amount goes no further than the minimum and the chips: choosing one makes a bet
  possible exactly when it is also within the maximum of the table.\<close>

lemma quick_amount_bets_iff:
  assumes "a \<in> set (quickAmounts minBet chips)"
  shows "canBet minBet maxBet chips (bet_step (SetBetAmount (Some a)) bet) \<longleftrightarrow> a \<le> maxBet"
proof -
  have "minBet \<le> a" "num_le (Some a) chips"
    using assms unfolding quickAmounts_def set_filter mem_Collect_eq by blast+
  then show ?thesis by (auto simp: canBet_def num_le_iff num_min_iff)
qed

lemma quick_amount_bets_iff_witness:
  "canBet 10 100 (Some 500) (bet_step (SetBetAmount (Some 200)) (bet_start 100)) \<longleftrightarrow> (200 :: rat) \<le> 100"
  by (rule quick_amount_bets_iff) (simp add: quickAmounts_def)

end
