(* ===== verification/UiHistory.thy ===== *)
theory UiHistory
  imports UiTypes
begin

text \<open>
  The two event streams of the UI and the histories kept from them: the hook \<open>useGameState\<close>
  (\<open>ui/src/hooks/useGameState.ts\<close>), which keeps the last rounds, newest first, and the state of
  \<open>ObservabilityPanel\<close> (\<open>ui/src/components/ObservabilityPanel.tsx\<close>), which keeps the last calls, newest
  last. Both are bounded histories; the locale states what that means, and is interpreted for both.
\<close>

section \<open>Bounded histories\<close>

locale bounded_history =
  fixes push :: "'a \<Rightarrow> 'h \<Rightarrow> 'h"
    and newest_first :: "'h \<Rightarrow> 'a list"
    and start :: 'h
    and cap :: nat
  assumes start: "newest_first start = []"
    and push: "newest_first (push x h) = take cap (x # newest_first h)"
begin

lemma fold_push: "newest_first (fold push xs h) = take cap (rev xs @ newest_first h)"
  if "length (newest_first h) \<le> cap"
  using that
proof (induction xs arbitrary: h)
  case (Cons x xs)
  then show ?case
    by (cases cap) (simp_all add: push take_Cons' min_def)
qed simp

lemma latest: "newest_first (fold push xs start) = take cap (rev xs)"
  using fold_push [of start xs] by (simp add: start)

lemma bounded: "length (newest_first (fold push xs start)) \<le> cap"
  by (simp add: latest)

end

section \<open>The game stream\<close>

record snapshot =
  s_id :: string
  s_timestamp :: "json option"
  s_players :: "json option"
  s_dealer :: "json option"

record hook =
  h_gameState :: "json option"
  h_connected :: bool
  h_error :: "string option"
  h_rounds :: "snapshot list"
  h_lastPhase :: "json option"

definition hook_reset :: hook where
  "hook_reset = \<lparr>h_gameState = None, h_connected = False, h_error = None, h_rounds = [], h_lastPhase = None\<rparr>"

definition on_open :: "hook \<Rightarrow> hook" where
  "on_open h = h\<lparr>h_connected := True, h_error := None\<rparr>"

definition connection_lost :: string where
  "connection_lost = ''Connection lost '' @ utf8 8212 @ '' reconnecting...''"

definition on_error :: "hook \<Rightarrow> hook" where
  "on_error h = h\<lparr>h_connected := False, h_error := Some connection_lost\<rparr>"

definition add_round :: "snapshot \<Rightarrow> snapshot list \<Rightarrow> snapshot list" where
  "add_round s prev = take 20 (s # prev)"

text \<open>A property of a value that is not \<open>null\<close> can be read.\<close>

definition get_prop :: "json \<Rightarrow> string \<Rightarrow> json option" where
  "get_prop v k = (case js_prop v k of Inl _ \<Rightarrow> None | Inr p \<Rightarrow> p)"

definition truthy_at :: "json \<Rightarrow> string \<Rightarrow> bool" where
  "truthy_at v k = (case get_prop v k of Some p \<Rightarrow> js_truthy p | None \<Rightarrow> False)"

definition payout :: "json option" where
  "payout = Some (JStr ''payout'')"

definition snapshot_of :: "string \<Rightarrow> json \<Rightarrow> snapshot" where
  "snapshot_of i gs = \<lparr>s_id = i, s_timestamp = get_prop gs ''timestamp'',
     s_players = get_prop gs ''players'', s_dealer = get_prop gs ''dealer''\<rparr>"

text \<open>The identifier is made of the time and four random characters. What throws after the first
  two setters leaves their effect.\<close>

definition on_game_state :: "string \<Rightarrow> string \<Rightarrow> hook \<Rightarrow> hook" where
  "on_game_state i data h =
     (case JSON_parse data of
        None \<Rightarrow> h
      | Some event \<Rightarrow>
          (case js_prop event ''data'' of
             Inl _ \<Rightarrow> h
           | Inr gs \<Rightarrow>
               (let h1 = h\<lparr>h_gameState := gs, h_connected := True\<rparr>
                in case gs of
                     None \<Rightarrow> h1
                   | Some g \<Rightarrow>
                       (case js_prop g ''phase'' of
                          Inl _ \<Rightarrow> h1
                        | Inr phase \<Rightarrow>
                            (let h2 = (if phase = payout \<and> h_lastPhase h \<noteq> payout
                                       then h1\<lparr>h_rounds := add_round (snapshot_of i g) (h_rounds h1)\<rparr>
                                       else h1)
                             in h2\<lparr>h_lastPhase := phase\<rparr>)))))"

subsection \<open>Actions\<close>

record hook_config =
  hc_gateway :: string
  hc_tableId :: string
  hc_playerId :: "json option"
  hc_token :: "json option"

text \<open>\<open>token && token.length > 10\<close>.\<close>

definition long_token :: "json option \<Rightarrow> bool" where
  "long_token t =
     (case t of
        Some (JStr s) \<Rightarrow> 10 < length s
      | Some (JArr vs) \<Rightarrow> 10 < length vs
      | Some (JObj kvs) \<Rightarrow> num_less (Some 10) (js_to_number (map_of kvs ''length''))
      | _ \<Rightarrow> False)"

definition token_header :: "json option \<Rightarrow> (string \<times> string) list" where
  "token_header t = (if long_token t then bearer_header (js_to_string (the t)) else [])"

definition action_request :: "hook_config \<Rightarrow> player_action \<Rightarrow> jsnum option \<Rightarrow> fetch" where
  "action_request c a amount =
     \<lparr>f_method = ''POST'', f_url = hc_gateway c @ ''/api/game/'' @ hc_tableId c @ ''/action'',
      f_headers = content_json @ token_header (hc_token c),
      f_body = Some (jobj [(''playerId'', hc_playerId c), (''action'', Some (JStr (action_name a))),
                           (''amount'', map_option (\<lambda>n. case n of None \<Rightarrow> JNull | Some x \<Rightarrow> JNum x) amount)])\<rparr>"

definition err_message :: "browser_text \<Rightarrow> nat \<Rightarrow> string \<Rightarrow> string" where
  "err_message B st text =
     (let err = (case JSON_parse text of None \<Rightarrow> JObj [] | Some v \<Rightarrow> v)
      in case js_prop err ''message'' of
           Inl _ \<Rightarrow> bt_type_error B
         | Inr m \<Rightarrow>
             (case m of
                Some v \<Rightarrow> if js_truthy v then js_to_string v else ''Action failed: '' @ nat_to_string st
              | None \<Rightarrow> ''Action failed: '' @ nat_to_string st))"

definition action_reply :: "browser_text \<Rightarrow> response \<Rightarrow> hook \<Rightarrow> hook" where
  "action_reply B r h =
     (case r of
        NetworkError \<Rightarrow> h\<lparr>h_error := Some (bt_network B)\<rparr>
      | Answer st text \<Rightarrow>
          if \<not> resp_ok st \<and> st \<noteq> 202 then h\<lparr>h_error := Some (err_message B st text)\<rparr> else h)"

definition clear_error :: "hook \<Rightarrow> hook" where
  "clear_error h = h\<lparr>h_error := None\<rparr>"

subsection \<open>What happens to the hook while it watches one table\<close>

datatype hook_event =
    Opened
  | Failed
  | Message string string
  | Replied response
  | Cleared

fun hook_step :: "browser_text \<Rightarrow> hook_event \<Rightarrow> hook \<Rightarrow> hook" where
  "hook_step B Opened h = on_open h"
| "hook_step B Failed h = on_error h"
| "hook_step B (Message i data) h = on_game_state i data h"
| "hook_step B (Replied r) h = action_reply B r h"
| "hook_step B Cleared h = clear_error h"

text \<open>The abstract view of the stream: the phases and snapshots of the messages that carry a game
  state, and among them those where the phase becomes \<open>payout\<close>.\<close>

definition carried :: "hook_event \<Rightarrow> (json option \<times> snapshot) option" where
  "carried ev =
     (case ev of
        Message i data \<Rightarrow>
          (case JSON_parse data of
             Some (JObj kvs) \<Rightarrow>
               (case map_of kvs ''data'' of
                  None \<Rightarrow> None
                | Some JNull \<Rightarrow> None
                | Some g \<Rightarrow> Some (get_prop g ''phase'', snapshot_of i g))
           | _ \<Rightarrow> None)
      | _ \<Rightarrow> None)"

definition payouts :: "json option \<Rightarrow> (json option \<times> snapshot) list \<Rightarrow> snapshot list" where
  "payouts l vs =
     map (\<lambda>(prev, phase, s). s)
       (filter (\<lambda>(prev, phase, s). phase = payout \<and> prev \<noteq> payout) (zip (l # map fst vs) vs))"

lemma payouts_simps [simp]:
  "payouts l [] = []"
  "payouts l ((ph, s) # vs) = (if ph = payout \<and> l \<noteq> payout then s # payouts ph vs else payouts ph vs)"
  by (simp_all add: payouts_def)

lemma js_prop_nonnull: "g \<noteq> JNull \<Longrightarrow> js_prop g k = Inr (get_prop g k)"
  by (cases g) (simp_all add: get_prop_def)

lemma on_game_state_object:
  assumes "JSON_parse data = Some (JObj kvs)" "map_of kvs ''data'' = Some g" "g \<noteq> JNull"
  shows "on_game_state i data h =
     (let h1 = h\<lparr>h_gameState := Some g, h_connected := True\<rparr>;
          h2 = (if get_prop g ''phase'' = payout \<and> h_lastPhase h \<noteq> payout
                then h1\<lparr>h_rounds := add_round (snapshot_of i g) (h_rounds h)\<rparr> else h1)
      in h2\<lparr>h_lastPhase := get_prop g ''phase''\<rparr>)"
  using assms by (simp add: on_game_state_def js_prop_nonnull Let_def)

lemma on_game_state_other:
  assumes "carried (Message i data) = None"
  shows "h_rounds (on_game_state i data h) = h_rounds h \<and> h_lastPhase (on_game_state i data h) = h_lastPhase h"
proof (cases "JSON_parse data")
  case (Some event)
  show ?thesis
  proof (cases "js_prop event ''data''")
    case (Inr gs)
    have "gs = None \<or> gs = Some JNull"
    proof (cases event)
      case (JObj kvs)
      then have g: "gs = map_of kvs ''data''" using Inr by simp
      show ?thesis
      proof (cases "map_of kvs ''data''")
        case (Some v)
        then have "v = JNull" using assms \<open>JSON_parse data = Some event\<close> JObj
          by (cases v) (simp_all add: carried_def)
        then show ?thesis using Some g by simp
      qed (simp add: g)
    qed (use Inr in simp_all)
    then show ?thesis using Some Inr by (auto simp: on_game_state_def Let_def)
  qed (simp add: on_game_state_def Some)
qed (simp add: on_game_state_def)

lemma carried_Some:
  assumes "carried (Message i data) = Some (ph, s)"
  obtains kvs g where "JSON_parse data = Some (JObj kvs)" "map_of kvs ''data'' = Some g" "g \<noteq> JNull"
    "ph = get_prop g ''phase''" "s = snapshot_of i g"
  using assms by (auto simp: carried_def split: option.splits json.splits)

interpretation rounds: bounded_history add_round id "[]" 20
  by unfold_locales (simp_all add: add_round_def)

lemma hook_step_rounds:
  "h_rounds (hook_step B ev h) =
     (case carried ev of
        Some (ph, s) \<Rightarrow> if ph = payout \<and> h_lastPhase h \<noteq> payout then add_round s (h_rounds h) else h_rounds h
      | None \<Rightarrow> h_rounds h) \<and>
   h_lastPhase (hook_step B ev h) = (case carried ev of Some (ph, s) \<Rightarrow> ph | None \<Rightarrow> h_lastPhase h)"
proof (cases "\<exists>i data. ev = Message i data")
  case True
  then obtain i data where ev: "ev = Message i data" by blast
  show ?thesis
  proof (cases "carried ev")
    case None
    then show ?thesis using on_game_state_other [of i data h] by (simp add: ev)
  next
    case (Some v)
    then obtain ph s where v: "carried (Message i data) = Some (ph, s)" by (cases v) (simp add: ev)
    then show ?thesis
      by (rule carried_Some) (simp add: ev v on_game_state_object Let_def)
  qed
next
  case False
  then show ?thesis
    by (cases ev) (simp_all add: on_open_def on_error_def clear_error_def action_reply_def carried_def
        split: response.split)
qed

lemma run_rounds:
  "h_rounds (fold (hook_step B) evs h) =
     fold add_round (payouts (h_lastPhase h) (List.map_filter carried evs)) (h_rounds h)"
proof (induction evs arbitrary: h)
  case (Cons ev evs)
  then show ?case
    by (cases "carried ev") (auto simp: List.map_filter_simps hook_step_rounds)
qed (simp add: List.map_filter_simps)

text \<open>C32. The rounds shown while a table is watched are the twenty latest of all the states of the
  table, as the stream sent them, in which the phase had just become \<open>payout\<close>, newest first: no
  round is lost or shown twice, whatever else happens to the connection.\<close>

theorem rounds_are_latest_payouts:
  "h_rounds (fold (hook_step B) evs hook_reset) =
     take 20 (rev (payouts None (List.map_filter carried evs)))"
  using rounds.latest [of "payouts None (List.map_filter carried evs)"]
  by (simp add: run_rounds hook_reset_def id_def)

section \<open>The stream of service calls\<close>

record panel =
  pn_events :: "json list"
  pn_connected :: bool
  pn_expanded :: bool

definition panel_start :: panel where
  "panel_start = \<lparr>pn_events = [], pn_connected = False, pn_expanded = True\<rparr>"

definition slice_last :: "nat \<Rightarrow> 'a list \<Rightarrow> 'a list" where
  "slice_last n xs = drop (length xs - n) xs"

definition add_event :: "json \<Rightarrow> json list \<Rightarrow> json list" where
  "add_event e prev = slice_last 99 prev @ [e]"

datatype panel_event = PanelOpened | PanelFailed | ServiceCall string | ToggleExpanded

fun panel_step :: "panel_event \<Rightarrow> panel \<Rightarrow> panel" where
  "panel_step PanelOpened p = p\<lparr>pn_connected := True\<rparr>"
| "panel_step PanelFailed p = p\<lparr>pn_connected := False\<rparr>"
| "panel_step (ServiceCall data) p =
     (case JSON_parse data of None \<Rightarrow> p | Some e \<Rightarrow> p\<lparr>pn_events := add_event e (pn_events p)\<rparr>)"
| "panel_step ToggleExpanded p = p\<lparr>pn_expanded := \<not> pn_expanded p\<rparr>"

definition call_of :: "panel_event \<Rightarrow> json option" where
  "call_of ev = (case ev of ServiceCall data \<Rightarrow> JSON_parse data | _ \<Rightarrow> None)"

interpretation calls: bounded_history add_event rev "[]" 100
proof unfold_locales
  show "rev (add_event x h) = take 100 (x # rev h)" for x h
    using take_rev [of 99 h] by (simp add: add_event_def slice_last_def)
qed simp

lemma run_events:
  "pn_events (fold panel_step evs p) = fold add_event (List.map_filter call_of evs) (pn_events p)"
proof (induction evs arbitrary: p)
  case (Cons ev evs)
  then show ?case by (cases ev) (auto simp: List.map_filter_simps call_of_def split: option.split)
qed (simp add: List.map_filter_simps)

text \<open>The panel shows the hundred latest of the calls that the stream reported, in the order in
  which they came in; a message that does not parse leaves it as it is.\<close>

lemma panel_keeps_latest_calls:
  "pn_events (fold panel_step evs panel_start) = rev (take 100 (rev (List.map_filter call_of evs)))"
proof -
  have "rev (pn_events (fold panel_step evs panel_start)) = take 100 (rev (List.map_filter call_of evs))"
    using calls.latest [of "List.map_filter call_of evs"] by (simp add: run_events panel_start_def)
  then show ?thesis by (metis rev_rev_ident)
qed

end
