(* ===== verification/UiPanel.thy ===== *)
theory UiPanel
  imports UiHistory
begin

text \<open>
  The developer's view of the service calls: \<open>ObservabilityPanel\<close> and the drawer around it
  (\<open>ui/src/components/ObservabilityPanel.tsx\<close>, \<open>ObservabilityDrawer.tsx\<close>). The panel shows the calls of
  \<open>UiHistory\<close>; the format of a local time is a parameter.
\<close>

section \<open>One call\<close>

definition SERVICE_COLORS :: "(string \<times> string) list" where
  "SERVICE_COLORS =
     [(''gateway'', ''#4a9eff''), (''game-state'', ''#38a169''), (''deck-service'', ''#d69e2e''),
      (''hand-evaluator'', ''#a855f7''), (''dealer-ai'', ''#84cc16''), (''bank-service'', ''#ef4444''),
      (''auth-service'', ''#0ea5e9''), (''chat-service'', ''#e879f9''), (''email-service'', ''#6b7280'')]"

definition PROTOCOL_BADGES :: "(string \<times> string \<times> string) list" where
  "PROTOCOL_BADGES =
     [(''sse'', ''SSE'', ''#38a169''), (''websocket'', ''WS'', ''#d69e2e''),
      (''http'', ''HTTP'', ''#4a9eff''), (''mtls'', ''mTLS'', ''#a855f7'')]"

text \<open>A call is shown as the stream reports it. React shows texts and numbers, and nothing for absent
  values and truth values; an index of a table is converted to a text.\<close>

fun child_text :: "json option \<Rightarrow> string" where
  "child_text (Some (JStr s)) = s"
| "child_text (Some (JNum r)) = num_to_string r"
| "child_text _ = []"

definition index_text :: "json option \<Rightarrow> string" where
  "index_text v = (case v of None \<Rightarrow> ''undefined'' | Some w \<Rightarrow> js_to_string w)"

definition service_color :: "json option \<Rightarrow> string" where
  "service_color s = (case map_of SERVICE_COLORS (index_text s) of Some c \<Rightarrow> c | None \<Rightarrow> ''#718096'')"

definition badge :: "json option \<Rightarrow> string \<times> string" where
  "badge protocol =
     (case map_of PROTOCOL_BADGES (index_text protocol) of
        Some b \<Rightarrow> b
      | None \<Rightarrow> (child_text protocol, ''#718096''))"

definition status_color :: "json option \<Rightarrow> string" where
  "status_color st =
     (if num_le (Some 400) (js_to_number st) then ''#fc8181''
      else if num_le (Some 200) (js_to_number st) then ''#68d391''
      else ''#a0aec0'')"

definition event_row :: "(json option \<Rightarrow> string) \<Rightarrow> json \<Rightarrow> 'm view" where
  "event_row loc evt =
  El ''div'' [Style [(''display'', ''flex''), (''alignItems'', ''center''), (''gap'', ''8''),
    (''padding'', ''4px 0''), (''borderBottom'', ''1px solid rgba(255,255,255,0.05)''),
    (''fontSize'', ''0.7rem''), (''fontFamily'', ''monospace'')]]
    [El ''span'' [Style [(''color'', ''#4a5568''), (''minWidth'', ''60'')]]
       [Txt (loc (get_prop evt ''timestamp''))],
     El ''span'' [Style [(''color'', service_color (get_prop evt ''caller'')),
         (''minWidth'', ''90'')]]
       [Txt (child_text (get_prop evt ''caller''))],
     El ''span'' [Style [(''color'', ''#4a5568'')]]
       [Txt (utf8 8594)],
     El ''span'' [Style [(''color'', service_color (get_prop evt ''callee'')),
         (''minWidth'', ''100'')]]
       [Txt (child_text (get_prop evt ''callee''))],
     El ''span'' [Style ([(''background'', (snd (badge (get_prop evt ''protocol'')) @ ''22'')),
         (''color'', snd (badge (get_prop evt ''protocol''))),
         (''border'', (''1px solid '' @ snd (badge (get_prop evt ''protocol'')) @ ''44'')),
         (''borderRadius'', ''4''), (''padding'', ''0 4px''), (''fontSize'', ''0.6rem''),
         (''fontWeight'', ''700''), (''minWidth'', ''36''), (''textAlign'', ''center'')])]
       [Txt (fst (badge (get_prop evt ''protocol'')))],
     El ''span'' [Style [(''color'', ''#a0aec0''), (''flex'', ''1''), (''overflow'', ''hidden''),
         (''textOverflow'', ''ellipsis''), (''whiteSpace'', ''nowrap'')]]
       [Txt (child_text (get_prop evt ''method'')),
        Txt '' '',
        Txt (child_text (get_prop evt ''path''))],
     El ''span'' [Style [(''color'', status_color (get_prop evt ''statusCode'')),
         (''minWidth'', ''32''), (''textAlign'', ''right'')]]
       [Txt (child_text (get_prop evt ''statusCode''))],
     El ''span'' [Style [(''color'', ''#4a5568''), (''minWidth'', ''48''),
         (''textAlign'', ''right'')]]
       [Txt (child_text (get_prop evt ''latencyMs'')),
        Txt ''ms'']]"

section \<open>The panel\<close>

definition panel_view :: "(json option \<Rightarrow> string) \<Rightarrow> panel \<Rightarrow> panel_event view" where
  "panel_view loc p =
  El ''div'' [Style [(''background'', ''#0d1117''), (''border'', ''1px solid #21262d''),
    (''borderRadius'', ''8''), (''overflow'', ''hidden'')]]
    ([El ''div'' [On ''click'' ToggleExpanded,
        Style [(''display'', ''flex''), (''alignItems'', ''center''), (''gap'', ''8''),
            (''padding'', ''8px 12px''), (''background'', ''#161b22''), (''cursor'', ''pointer''),
            (''userSelect'', ''none'')]]
       [El ''div'' [Style ([(''width'', ''8''), (''height'', ''8''), (''borderRadius'', ''50%''),
           (''background'', (if pn_connected p then ''#38a169'' else ''#e53e3e''))]
           @ (if pn_connected p then [(''boxShadow'', ''0 0 6px #38a169'')] else []))]
          [],
        El ''span'' [Style [(''color'', ''#8b949e''), (''fontSize'', ''0.7rem''),
            (''letterSpacing'', ''2''), (''textTransform'', ''uppercase''), (''flex'', ''1'')]]
          [Txt (''TCA Activity '' @ utf8 8212 @ '' ''),
           Txt (nat_to_string (length (pn_events p))),
           Txt '' events''],
        El ''span'' [Style [(''color'', ''#4a5568''), (''fontSize'', ''0.7rem'')]]
          [Txt (if pn_expanded p then (utf8 9660) else (utf8 9654))]]] @
    (if pn_expanded p
     then [El ''div'' [Style [(''display'', ''flex''), (''gap'', ''8''), (''padding'', ''4px 8px''),
         (''background'', ''#0d1117''), (''fontSize'', ''0.6rem''), (''color'', ''#4a5568''),
         (''fontFamily'', ''monospace''), (''letterSpacing'', ''1''),
         (''textTransform'', ''uppercase''), (''borderBottom'', ''1px solid #21262d'')]]
         [El ''span'' [Style [(''minWidth'', ''60'')]]
            [Txt ''Time''],
          El ''span'' [Style [(''minWidth'', ''90'')]]
            [Txt ''Caller''],
          El ''span'' [Style [(''minWidth'', ''16'')]]
            [],
          El ''span'' [Style [(''minWidth'', ''100'')]]
            [Txt ''Callee''],
          El ''span'' [Style [(''minWidth'', ''36'')]]
            [Txt ''Proto''],
          El ''span'' [Style [(''flex'', ''1'')]]
            [Txt ''Path''],
          El ''span'' [Style [(''minWidth'', ''32''), (''textAlign'', ''right'')]]
            [Txt ''Status''],
          El ''span'' [Style [(''minWidth'', ''48''), (''textAlign'', ''right'')]]
            [Txt ''Latency'']],
       El ''div'' [Style [(''height'', ''200''), (''overflowY'', ''auto''), (''padding'', ''0 8px'')]]
         ((if pn_events p = []
          then [El ''div'' [Style [(''color'', ''#4a5568''), (''textAlign'', ''center''),
              (''padding'', ''20px 0''), (''fontSize'', ''0.75rem'')]]
              [Txt ''Waiting for TCA activity...'']]
          else (map (event_row loc) (pn_events p))) @
         [El ''div'' []
            []])]
     else []))"

section \<open>The drawer\<close>

definition LEGEND :: "(string \<times> string \<times> string) list" where
  "LEGEND =
     [(''Gateway'', ''Go'', ''#4a9eff''), (''Game State'', ''Go'', ''#38a169''), (''Deck'', ''Go'', ''#d69e2e''),
      (''Hand Eval'', ''Haskell'', ''#a855f7''), (''Dealer AI'', ''Python'', ''#84cc16''),
      (''Bank'', ''COBOL+Go'', ''#ef4444''), (''Auth'', ''TypeScript'', ''#0ea5e9''), (''Chat'', ''Elixir'', ''#e879f9'')]"

definition DRAWER_HEIGHT :: int where "DRAWER_HEIGHT = 280"
definition HEADER_HEIGHT :: int where "HEADER_HEIGHT = 34"

fun legend_entry :: "string \<times> string \<times> string \<Rightarrow> 'm view" where
  "legend_entry (name, lang, color) =
  El ''div'' [Style [(''display'', ''flex''), (''alignItems'', ''center''), (''gap'', ''4'')]]
    [El ''div'' [Style [(''width'', ''8''), (''height'', ''8''), (''borderRadius'', ''2''),
        (''background'', color)]]
       [],
     El ''span'' [Style [(''fontSize'', ''0.62rem''), (''color'', ''#8b949e'')]]
       [Txt name],
     El ''span'' [Style [(''fontSize'', ''0.58rem''), (''color'', ''#4a5568'')]]
       [Txt ''('',
        Txt lang,
        Txt '')'']]"

datatype drawer_event = SetOpen bool | PanelMsg panel_event

definition drawer_view :: "(json option \<Rightarrow> string) \<Rightarrow> bool \<Rightarrow> panel \<Rightarrow> drawer_event view list" where
  "drawer_view loc isopen p =
  ([El ''div'' [Style [(''position'', ''fixed''), (''left'', ''0''), (''right'', ''0''),
    (''bottom'', (if isopen then ''0'' else int_to_string (- (DRAWER_HEIGHT - HEADER_HEIGHT)))),
    (''height'', int_to_string DRAWER_HEIGHT), (''background'', ''#0d1117''),
    (''borderTop'', ''1px solid #21262d''), (''zIndex'', ''199''),
    (''transition'', ''bottom 0.25s ease''), (''boxShadow'', (if isopen
    then ''0 -4px 24px rgba(0,0,0,0.6)'' else ''none'')), (''display'', ''flex''),
    (''flexDirection'', ''column'')]]
     [El ''div'' [On ''click'' (SetOpen (\<not> isopen)),
         Style [(''display'', ''flex''), (''alignItems'', ''center''),
             (''justifyContent'', ''space-between''), (''padding'', ''6px 16px''),
             (''borderBottom'', ''1px solid #21262d''), (''cursor'', ''pointer''),
             (''userSelect'', ''none''), (''background'', ''#161b22''), (''flexShrink'', ''0'')]]
        [El ''div'' [Style [(''display'', ''flex''), (''alignItems'', ''center''), (''gap'', ''12'')]]
           [El ''span'' [Style [(''fontSize'', ''0.65rem''), (''color'', ''#8b949e''),
               (''letterSpacing'', ''2''), (''textTransform'', ''uppercase'')]]
              [Txt ''TCA Activity''],
            El ''div'' [Style [(''display'', ''flex''), (''gap'', ''10''), (''flexWrap'', ''wrap'')]]
              (map legend_entry LEGEND)],
         El ''span'' [Style [(''color'', ''#4a5568''), (''fontSize'', ''0.7rem'')]]
           [Txt (if isopen then (utf8 9660 @ '' close'') else (utf8 9650 @ '' TCA activity''))]],
      El ''div'' [Style [(''flex'', ''1''), (''overflowY'', ''auto''), (''padding'', ''0 12px'')]]
        [map_view PanelMsg (panel_view loc p)]],
   El ''div'' [Style [(''height'', ''32'')]]
     []] @
  (if isopen
   then [El ''div'' [On ''click'' (SetOpen False),
        Style [(''position'', ''fixed''), (''inset'', ''0''), (''zIndex'', ''198''),
            (''cursor'', ''pointer'')]]
       []]
   else []))"

fun drawer_step :: "drawer_event \<Rightarrow> bool \<times> panel \<Rightarrow> bool \<times> panel" where
  "drawer_step (SetOpen b) (isopen, p) = (b, p)"
| "drawer_step (PanelMsg e) (isopen, p) = (isopen, panel_step e p)"

end
