(* ===== verification/Digits.thy ===== *)
theory Digits
  imports Dom
begin

text \<open>
  Decimal texts: what \<open>nat_to_string\<close> writes is read back by the readers of numbers, those of the
  language (\<open>parseFloat\<close>) as well as that of \<open>JSON.parse\<close>.
\<close>

section \<open>Digits\<close>

definition digit :: "nat \<Rightarrow> char" where
  "digit d = char_of (48 + d)"

lemma of_digit: "d < 10 \<Longrightarrow> (of_char (digit d) :: nat) = 48 + d"
  by (simp add: digit_def of_char_of)

lemma is_digit_digit [simp]: "d < 10 \<Longrightarrow> is_digit (digit d)"
  by (simp add: is_digit_def of_digit)

lemma digit_eq_iff: "d < 10 \<Longrightarrow> e < 10 \<Longrightarrow> digit d = digit e \<longleftrightarrow> d = e"
  by (metis add_left_cancel of_digit)

lemma digit_0: "CHR ''0'' = digit 0"
proof -
  have "(of_char CHR ''0'' :: nat) = of_char (digit 0)" using of_digit [of 0] by simp
  then show ?thesis by (simp only: of_char_eq_iff)
qed

lemma is_digit_not: "is_digit c \<Longrightarrow> \<not> is_ws c \<and> \<not> json_ws c \<and> c \<noteq> CHR ''-'' \<and> c \<noteq> CHR ''+''"
  by (auto simp: is_digit_def is_ws_def json_ws_def)

lemma digits_value_two: "a < 10 \<Longrightarrow> b < 10 \<Longrightarrow> digits_value [digit a, digit b] = 10 * a + b"
  by (simp add: digits_value_def of_digit)

lemma nat_to_string_rec:
  "nat_to_string n = (if n < 10 then [digit n] else nat_to_string (n div 10) @ [digit (n mod 10)])"
  by (subst nat_to_string.simps) (simp add: digit_def)

lemma nat_to_string_nonempty [simp]: "nat_to_string n \<noteq> []"
  by (subst nat_to_string_rec) simp

lemma nat_to_string_digits: "list_all is_digit (nat_to_string n)"
proof (induction n rule: less_induct)
  case (less n)
  show ?case
  proof (cases "n < 10")
    case False
    then have "list_all is_digit (nat_to_string (n div 10))" using less by simp
    then show ?thesis using False by (subst nat_to_string_rec) simp
  qed (subst nat_to_string_rec, simp)
qed

lemma digits_value_append: "digits_value (a @ b) = digits_value a * 10 ^ length b + digits_value b"
proof -
  define f :: "nat \<Rightarrow> char \<Rightarrow> nat" where "f = (\<lambda>n d. 10 * n + (of_char d - 48))"
  have "foldl f m b = m * 10 ^ length b + foldl f 0 b" for m
  proof (induction b arbitrary: m)
    case (Cons c b)
    have "foldl f m (c # b) = f m c * 10 ^ length b + foldl f 0 b"
      using Cons.IH [of "f m c"] by simp
    moreover have "foldl f 0 (c # b) = f 0 c * 10 ^ length b + foldl f 0 b"
      using Cons.IH [of "f 0 c"] by simp
    moreover have "f m c = 10 * m + f 0 c" by (simp add: f_def)
    ultimately show ?case by (simp add: distrib_right del: foldl_Cons)
  qed simp
  then have "foldl f (foldl f 0 a) b = foldl f 0 a * 10 ^ length b + foldl f 0 b" by this
  then show ?thesis unfolding digits_value_def foldl_append f_def by this
qed

lemma digits_value_digit: "d < 10 \<Longrightarrow> digits_value [digit d] = d"
  by (simp add: digits_value_def of_digit)

lemma digits_value_nat_to_string [simp]: "digits_value (nat_to_string n) = n"
proof (induction n rule: less_induct)
  case (less n)
  show ?case
  proof (cases "n < 10")
    case True
    then show ?thesis by (subst nat_to_string_rec) (simp add: digits_value_digit)
  next
    case False
    then have "digits_value (nat_to_string (n div 10)) = n div 10" using less by simp
    then show ?thesis using False
      by (subst nat_to_string_rec) (simp add: digits_value_append digits_value_digit)
  qed
qed

text \<open>No leading zero: the first digit of a text of two digits or more is not zero.\<close>

lemma nat_to_string_hd: "10 \<le> n \<Longrightarrow> hd (nat_to_string n) \<noteq> digit 0"
proof (induction n rule: less_induct)
  case (less n)
  show ?case
  proof (cases "n < 100")
    case True
    then have "n div 10 < 10" "0 < n div 10" using less.prems by simp_all
    then show ?thesis using less.prems
      by (subst nat_to_string_rec) (simp add: nat_to_string_rec [of "n div 10"] digit_eq_iff)
  next
    case False
    then have "hd (nat_to_string (n div 10)) \<noteq> digit 0" using less by simp
    then show ?thesis using less.prems by (subst nat_to_string_rec) simp
  qed
qed

lemma nat_to_string_length: "10 ^ k \<le> n \<Longrightarrow> k < length (nat_to_string n)"
proof (induction k arbitrary: n)
  case (Suc k)
  then have "10 ^ k \<le> n div 10" "10 \<le> n" by (simp_all add: less_eq_div_iff_mult_less_eq)
      (meson Suc.prems le_trans one_le_power self_le_power zero_less_Suc one_le_numeral)
  then have "k < length (nat_to_string (n div 10))" using Suc.IH by simp
  then show ?case using \<open>10 \<le> n\<close> by (subst nat_to_string_rec) simp
qed simp

lemma takeWhile_digits [simp]:
  "\<not> is_digit c \<Longrightarrow> takeWhile is_digit (nat_to_string n @ c # r) = nat_to_string n"
  "takeWhile is_digit (nat_to_string n) = nat_to_string n"
  "\<not> is_digit c \<Longrightarrow> dropWhile is_digit (nat_to_string n @ c # r) = c # r"
  "dropWhile is_digit (nat_to_string n) = []"
  using nat_to_string_digits [of n] by (simp_all add: list_all_iff takeWhile_append2 dropWhile_append2)

section \<open>Amounts with two decimals\<close>

lemma pad_nat_two: "n < 100 \<Longrightarrow> pad_nat 2 n = [digit (n div 10), digit (n mod 10)]"
proof (cases "n < 10")
  case True
  then show ?thesis by (simp add: pad_nat_def nat_to_string_rec [of n] digit_0)
next
  case False
  assume "n < 100"
  then have "n div 10 < 10" by simp
  then show ?thesis using False
    by (simp add: pad_nat_def nat_to_string_rec [of n] nat_to_string_rec [of "n div 10"])
qed

lemma parseFloat_cents: "parseFloat (cents_text c) = Some (of_nat c / 100)"
proof -
  have first: "\<not> is_ws (hd (nat_to_string n)) \<and> hd (nat_to_string n) \<noteq> CHR ''-'' \<and> hd (nat_to_string n) \<noteq> CHR ''+''"
    for n using nat_to_string_digits [of n] is_digit_not [of "hd (nat_to_string n)"] by (auto simp: list_all_iff)
  let ?n = "nat_to_string (c div 100)"
  let ?p = "pad_nat 2 (c mod 100)"
  have p: "?p = [digit (c mod 100 div 10), digit (c mod 100 mod 10)]" by (rule pad_nat_two) simp
  have dig: "is_digit (digit (c mod 100 div 10))" "is_digit (digit (c mod 100 mod 10))"
    by (rule is_digit_digit; simp)+
  have v: "digits_value (?n @ ?p) = c"
  proof -
    have "digits_value ?p = 10 * (c mod 100 div 10) + c mod 100 mod 10"
      unfolding p by (rule digits_value_two) simp_all
    then have "digits_value ?p = c mod 100" by (simp only: mult_div_mod_eq)
    moreover have "length ?p = 2" by (simp add: p)
    ultimately show ?thesis by (simp only: digits_value_append digits_value_nat_to_string) simp
  qed
  have l: "js_trim_left (cents_text c) = cents_text c" "sign_of (cents_text c) = (1, cents_text c)"
  proof -
    obtain x xs where x: "?n = x # xs" by (cases ?n) simp_all
    then have "\<not> is_ws x" "x \<noteq> CHR ''-''" "x \<noteq> CHR ''+''" using first [of "c div 100"] by simp_all
    then show "js_trim_left (cents_text c) = cents_text c" "sign_of (cents_text c) = (1, cents_text c)"
      by (simp_all add: cents_text_def js_trim_left_def sign_of_def x)
  qed
  have d: "\<not> is_digit CHR ''.''" by (simp add: is_digit_def)
  have "unsigned_prefix (cents_text c) = Some (of_nat c / 100, [])"
    using d dig by (simp add: unsigned_prefix_def cents_text_def Let_def exponent_prefix_def parse_exponent_def)
      (simp add: p dig v [unfolded p])
  then show ?thesis by (simp add: parseFloat_def l)
qed

lemma toFixed2_cents: "c < 10 ^ 23 \<Longrightarrow> toFixed2 (Some (of_nat c / 100)) = cents_text c"
proof -
  assume "c < 10 ^ 23"
  then have "(of_nat c :: rat) < 10 ^ 23" by (metis of_nat_less_iff of_nat_numeral of_nat_power)
  then have "\<not> 10 ^ 21 \<le> \<bar>of_nat c / 100 :: rat\<bar>" by simp
  moreover have "\<lfloor>(of_nat c :: rat) + 1/2\<rfloor> = int c" by linarith
  ultimately show ?thesis by (simp add: toFixed2_def)
qed

end
