(* ===== verification/UiTransactions.thy ===== *)
theory UiTransactions
  imports UiTypes Digits
begin

text \<open>
  The list of transactions (\<open>ui/src/components/TransactionModal.tsx\<close>): its formatting, its states and
  its view. The answer of the bank has the type that the code declares for it; the format of a local
  time is a parameter.
\<close>

section \<open>Formatting\<close>

record transaction =
  t_id :: string
  t_type :: string
  t_amount :: string
  t_balanceBefore :: string
  t_balanceAfter :: string
  t_createdAt :: string

definition TYPE_COLORS :: "(string \<times> string) list" where
  "TYPE_COLORS =
     [(''bet'', ''#f59e0b''), (''payout_win'', ''#38a169''), (''payout_loss'', ''#fc8181''),
      (''payout_push'', ''#8b949e''), (''deposit'', ''#38a169''), (''withdrawal'', ''#fc8181'')]"

definition type_color :: "string \<Rightarrow> string" where
  "type_color t = (case map_of TYPE_COLORS t of Some c \<Rightarrow> c | None \<Rightarrow> ''#8b949e'')"

definition word_char :: "char \<Rightarrow> bool" where
  "word_char c \<longleftrightarrow>
     (let n = of_char c :: nat in
      48 \<le> n \<and> n \<le> 57 \<or> 65 \<le> n \<and> n \<le> 90 \<or> n = 95 \<or> 97 \<le> n \<and> n \<le> 122)"

text \<open>\<open>s.replace(/\b\w/g, c => c.toUpperCase())\<close>: the flag says whether a word character precedes.\<close>

fun capitalise :: "bool \<Rightarrow> string \<Rightarrow> string" where
  "capitalise w [] = []"
| "capitalise w (c # s) = (if word_char c \<and> \<not> w then upper_char c else c) # capitalise (word_char c) s"

definition typeLabel :: "string \<Rightarrow> string" where
  "typeLabel t = capitalise False (map (\<lambda>c. if c = CHR ''_'' then CHR '' '' else c) t)"

definition amount_prefix :: "string \<Rightarrow> string" where
  "amount_prefix t =
     (if t \<in> set [''payout_win'', ''deposit''] then ''+''
      else if t = ''payout_push'' then utf8 177
      else ''-'')"

definition formatAmount :: "string \<Rightarrow> string \<Rightarrow> string" where
  "formatAmount t amount =
     (let n = parseFloat amount
      in if num_eq n (Some 0) then utf8 8212 else amount_prefix t @ toFixed2 n)"

section \<open>States\<close>

record tx_state =
  t_transactions :: "transaction list"
  t_loading :: bool
  t_error :: "string option"
  t_downloading :: bool

definition tx_start :: tx_state where
  "tx_start = \<lparr>t_transactions = [], t_loading = True, t_error = None, t_downloading = False\<rparr>"

definition tx_auth :: "string \<Rightarrow> (string \<times> string) list" where
  "tx_auth accessToken = (if accessToken \<noteq> [] then bearer_header accessToken else [])"

definition tx_list_request :: "string \<Rightarrow> string \<Rightarrow> string \<Rightarrow> fetch" where
  "tx_list_request gw playerId accessToken =
     \<lparr>f_method = ''GET'',
      f_url = gw @ ''/api/bank/transactions?playerId='' @ encodeURIComponent playerId @ ''&limit=100'',
      f_headers = tx_auth accessToken, f_body = None\<rparr>"

text \<open>The declared answer is a list, or an object with an optional list.\<close>

datatype tx_data = TxArray "transaction list" | TxObject "transaction list option"

datatype tx_answer = TxAnswer nat "string + tx_data" | TxFailed string

definition tx_loaded :: "tx_answer \<Rightarrow> tx_state \<Rightarrow> tx_state" where
  "tx_loaded a st =
     (case a of
        TxFailed msg \<Rightarrow> st\<lparr>t_error := Some msg, t_loading := False\<rparr>
      | TxAnswer code d \<Rightarrow>
          if \<not> resp_ok code then st\<lparr>t_error := Some (nat_to_string code), t_loading := False\<rparr>
          else
            (case d of
               Inl msg \<Rightarrow> st\<lparr>t_error := Some msg, t_loading := False\<rparr>
             | Inr (TxArray txs) \<Rightarrow> st\<lparr>t_transactions := txs, t_loading := False\<rparr>
             | Inr (TxObject None) \<Rightarrow> st\<lparr>t_transactions := [], t_loading := False\<rparr>
             | Inr (TxObject (Some txs)) \<Rightarrow> st\<lparr>t_transactions := txs, t_loading := False\<rparr>))"

definition tx_export_request :: "string \<Rightarrow> string \<Rightarrow> string \<Rightarrow> fetch" where
  "tx_export_request gw playerId accessToken =
     \<lparr>f_method = ''GET'', f_url = gw @ ''/api/bank/export?playerId='' @ encodeURIComponent playerId,
      f_headers = tx_auth accessToken, f_body = None\<rparr>"

definition download_start :: "tx_state \<Rightarrow> tx_state" where
  "download_start st = st\<lparr>t_downloading := True\<rparr>"

definition download_name :: "int \<Rightarrow> string" where
  "download_name now = ''transactions-'' @ take 10 (toISOString now) @ ''.pdf''"

text \<open>How a download ends: the answer to the export and its bytes, or what was thrown, an error with
  its message or something else. The result is the file that is saved.\<close>

datatype export_answer = Exported nat string | ExportThrew "string option"

definition download_done :: "export_answer \<Rightarrow> int \<Rightarrow> tx_state \<Rightarrow> tx_state \<times> (string \<times> string) option" where
  "download_done a now st =
     (let fail = (\<lambda>msg. (st\<lparr>t_error := Some msg, t_downloading := False\<rparr>, None))
      in case a of
           ExportThrew (Some msg) \<Rightarrow> fail msg
         | ExportThrew None \<Rightarrow> fail ''Download failed''
         | Exported code blob \<Rightarrow>
             if \<not> resp_ok code then fail (''Export failed: '' @ nat_to_string code)
             else (st\<lparr>t_downloading := False\<rparr>, Some (download_name now, blob)))"

section \<open>View\<close>

datatype tx_msg = TxClose | TxDownload

definition tx_heading :: "string \<Rightarrow> tx_msg view" where
  "tx_heading h =
  El ''th'' [Style [(''padding'', ''8px 16px''), (''textAlign'', ''left''), (''color'', ''#8b949e''),
    (''fontWeight'', ''600''), (''fontSize'', ''0.65rem''), (''letterSpacing'', ''0.5''),
    (''borderBottom'', ''1px solid #21262d'')]]
    [Txt (js_upper h)]"

definition tx_row :: "(string \<Rightarrow> string) \<Rightarrow> nat \<Rightarrow> transaction \<Rightarrow> tx_msg view" where
  "tx_row loc i tx =
  El ''tr'' [Style [(''background'', (if i mod 2 = 0 then ''transparent'' else ''#0d111788'')),
    (''borderBottom'', ''1px solid #21262d20'')]]
    [El ''td'' [Style [(''padding'', ''8px 16px'')]]
       [El ''span'' [Style [(''color'', type_color (t_type tx)), (''fontWeight'', ''600''),
           (''fontSize'', ''0.72rem'')]]
          [Txt (typeLabel (t_type tx))]],
     El ''td'' [Style [(''padding'', ''8px 16px''),
         (''color'', (if starts_with ''+'' (formatAmount (t_type tx) (t_amount tx)) then ''#38a169''
         else (if formatAmount (t_type tx) (t_amount tx) = utf8 8212 then ''#8b949e''
         else ''#fc8181''))), (''fontWeight'', ''700''), (''fontFamily'', ''monospace'')]]
       [Txt (formatAmount (t_type tx) (t_amount tx))],
     El ''td'' [Style [(''padding'', ''8px 16px''), (''color'', ''#e2e8f0''),
         (''fontFamily'', ''monospace'')]]
       [Txt (toFixed2 (parseFloat (t_balanceAfter tx)))],
     El ''td'' [Style [(''padding'', ''8px 16px''), (''color'', ''#4a5568''),
         (''fontSize'', ''0.68rem'')]]
       [Txt (loc (t_createdAt tx))]]"

definition tx_footer :: "tx_state \<Rightarrow> tx_msg view" where
  "tx_footer st =
  El ''div'' [Style [(''padding'', ''12px 20px''), (''borderTop'', ''1px solid #21262d''),
    (''display'', ''flex''), (''justifyContent'', ''flex-end''), (''gap'', ''10''),
    (''flexShrink'', ''0'')]]
    [El ''button'' [On ''click'' TxClose,
        Style [(''padding'', ''7px 16px''), (''background'', ''none''),
            (''border'', ''1px solid #30363d''), (''borderRadius'', ''6''), (''color'', ''#8b949e''),
            (''fontSize'', ''0.75rem''), (''cursor'', ''pointer'')]]
       [Txt ''Close''],
     El ''button'' [On ''click'' TxDownload,
        Disabled (t_downloading st \<or> t_transactions st = []),
        Style [(''padding'', ''7px 16px''), (''background'', (if t_downloading st then ''#1f3050''
            else ''#1f6feb22'')), (''border'', ''1px solid #1f6feb''), (''borderRadius'', ''6''),
            (''color'', (if t_downloading st then ''#8b949e'' else ''#58a6ff'')),
            (''fontSize'', ''0.75rem''), (''fontWeight'', ''600''),
            (''cursor'', (if (t_downloading st \<or> t_transactions st = []) then ''not-allowed''
            else ''pointer'')), (''opacity'', (if t_transactions st = [] then ''0.5'' else ''1''))]]
       [Txt (if t_downloading st then ''Generating PDF...'' else (utf8 8595 @ '' Download PDF''))]]"

definition tx_view :: "(string \<Rightarrow> string) \<Rightarrow> bool \<Rightarrow> tx_state \<Rightarrow> tx_msg view" where
  "tx_view loc isDemo st =
  El ''div'' [On ''click'' TxClose,
     Style [(''position'', ''fixed''), (''inset'', ''0''), (''background'', ''rgba(0,0,0,0.65)''),
         (''zIndex'', ''2000''), (''display'', ''flex''), (''alignItems'', ''center''),
         (''justifyContent'', ''center''), (''padding'', ''24'')]]
    [El ''div'' [Style [(''background'', ''#161b22''), (''border'', ''1px solid #30363d''),
        (''borderRadius'', ''12''), (''width'', ''100%''), (''maxWidth'', ''680''),
        (''maxHeight'', ''80vh''), (''display'', ''flex''), (''flexDirection'', ''column''),
        (''boxShadow'', ''0 24px 64px rgba(0,0,0,0.7)'')]]
       ([El ''div'' [Style [(''padding'', ''16px 20px''), (''borderBottom'', ''1px solid #21262d''),
           (''display'', ''flex''), (''justifyContent'', ''space-between''),
           (''alignItems'', ''center''), (''flexShrink'', ''0'')]]
          [El ''div'' []
             [El ''div'' [Style [(''display'', ''flex''), (''alignItems'', ''center''),
                 (''gap'', ''8'')]]
                ([El ''div'' [Style [(''fontSize'', ''1rem''), (''fontWeight'', ''700''),
                    (''color'', ''#e6edf3'')]]
                   [Txt ''Transaction History'']] @
                (if isDemo
                 then [El ''span'' [Style [(''fontSize'', ''0.6rem''), (''fontWeight'', ''700''),
                     (''color'', ''#f59e0b''), (''background'', ''#f59e0b15''),
                     (''border'', ''1px solid #f59e0b44''), (''borderRadius'', ''4''),
                     (''padding'', ''2px 6px''), (''letterSpacing'', ''1'')]]
                     [Txt ''DEMO'']]
                 else [])),
              El ''div'' [Style [(''fontSize'', ''0.65rem''), (''color'', ''#8b949e''),
                  (''marginTop'', ''2'')]]
                [Txt (if t_loading st then ''Loading...''
                    else (nat_to_string (length (t_transactions st)) @ '' transaction''
                    @ (if length (t_transactions st) = 1 then [] else ''s'')))]],
           El ''button'' [On ''click'' TxClose,
              Style [(''background'', ''none''), (''border'', ''none''), (''cursor'', ''pointer''),
                  (''color'', ''#8b949e''), (''fontSize'', ''1.3rem''), (''lineHeight'', ''1''),
                  (''padding'', ''4'')]]
             [Txt (utf8 215)]],
        El ''div'' [Style [(''overflowY'', ''auto''), (''flex'', ''1'')]]
          ((if t_loading st
           then [El ''div'' [Style [(''padding'', ''32''), (''textAlign'', ''center''),
               (''color'', ''#8b949e''), (''fontSize'', ''0.8rem'')]]
               [Txt ''Loading transactions...'']]
           else []) @
          (if has_text (t_error st)
           then [El ''div'' [Style [(''padding'', ''24''), (''color'', ''#fc8181''),
               (''fontSize'', ''0.8rem''), (''textAlign'', ''center'')]]
               [Txt (the (t_error st))]]
           else []) @
          (if (((\<not> t_loading st) \<and> (\<not> has_text (t_error st))) \<and> t_transactions st = [])
           then [El ''div'' [Style [(''padding'', ''32''), (''textAlign'', ''center''),
               (''color'', ''#8b949e''), (''fontSize'', ''0.8rem'')]]
               [Txt ''No transactions yet.'']]
           else []) @
          (if ((\<not> t_loading st) \<and> t_transactions st \<noteq> [])
           then [El ''table'' [Style [(''width'', ''100%''), (''borderCollapse'', ''collapse''),
               (''fontSize'', ''0.75rem'')]]
               [El ''thead'' []
                  [El ''tr'' [Style [(''background'', ''#0d1117''), (''position'', ''sticky''),
                      (''top'', ''0'')]]
                     (map tx_heading [''Type'', ''Amount'', ''Balance'', ''Time''])],
                El ''tbody'' []
                  (map (\<lambda>(i, tx). tx_row loc i tx) (enumerate 0 (t_transactions st)))]]
           else []))] @
       ([tx_footer st]))]"

section \<open>Labels and amounts\<close>

definition capital :: "string \<Rightarrow> string" where
  "capital w = (case w of [] \<Rightarrow> [] | c # s \<Rightarrow> upper_char c # s)"

lemma word_space [simp]: "\<not> word_char CHR '' ''" "word_char CHR ''_''"
  by (simp_all add: word_char_def)

lemma capitalise_words:
  assumes "list_all word_char t"
  shows "capitalise True (map (\<lambda>c. if c = CHR ''_'' then CHR '' '' else c) t) =
           (case js_split CHR ''_'' t of w # ws \<Rightarrow> w @ concat (map (\<lambda>v. CHR '' '' # capital v) ws) | [] \<Rightarrow> [])"
    and "capitalise False (map (\<lambda>c. if c = CHR ''_'' then CHR '' '' else c) t) =
           (case js_split CHR ''_'' t of
              w # ws \<Rightarrow> capital w @ concat (map (\<lambda>v. CHR '' '' # capital v) ws) | [] \<Rightarrow> [])"
  using assms by (induction t) (auto simp: capital_def split: list.split)

lemma intercalate_concat: "intercalate '' '' (w # ws) = w @ concat (map (\<lambda>v. CHR '' '' # v) ws)"
  by (induction ws arbitrary: w) simp_all

text \<open>The label of a type of transaction is made of the words between the underscores, each with
  a capital, separated by blanks.\<close>

lemma typeLabel_words:
  assumes "list_all word_char t"
  shows "typeLabel t = intercalate '' '' (map capital (js_split CHR ''_'' t))"
  using capitalise_words(2) [OF assms]
  by (cases "js_split CHR ''_'' t") (simp_all add: typeLabel_def intercalate_concat comp_def)

lemma typeLabel_words_witness:
  "typeLabel ''payout_win'' = intercalate '' '' (map capital (js_split CHR ''_'' ''payout_win''))"
  by (rule typeLabel_words) (simp add: word_char_def)

text \<open>An amount is shown as the bank sent it: the text of an amount with two decimals is kept
  digit for digit behind its sign, and a zero amount is a dash.\<close>

lemma formatAmount_exact:
  assumes "c < 10 ^ 23"
  shows "formatAmount t (cents_text c) = (if c = 0 then utf8 8212 else amount_prefix t @ cents_text c)"
  using toFixed2_cents [OF assms] by (simp add: formatAmount_def parseFloat_cents num_eq_def)

lemma formatAmount_exact_witness:
  "formatAmount ''deposit'' (cents_text 100000) =
     (if (100000 :: nat) = 0 then utf8 8212 else amount_prefix ''deposit'' @ cents_text 100000)"
  by (rule formatAmount_exact) simp

lemma formatAmount_negative: "formatAmount ''withdrawal'' ''-5.00'' = ''--5.00''"
  by code_simp

end
