(* ===== verification/UiEnrollment.thy ===== *)
theory UiEnrollment
  imports Dom
begin

text \<open>
  The enrolment of a passkey (\<open>ui/src/components/EnrollmentModal.tsx\<close>): a state machine over what
  happens to the dialog. The handler is an asynchronous function: the stage says at which \<open>await\<close> it is
  suspended, and what it will continue with.
\<close>

section \<open>States\<close>

datatype enroll_state = Prompt | Enrolling | EnrollSuccess | EnrollError

datatype enroll_stage = Idle | AwaitBegin | AwaitCredential | AwaitComplete | AwaitClose json

record enroll =
  en_state :: enroll_state
  en_errMsg :: "string option"
  en_stage :: enroll_stage

definition enroll_start :: enroll where
  "enroll_start = \<lparr>en_state = Prompt, en_errMsg = None, en_stage = Idle\<rparr>"

datatype enroll_msg =
    Enroll
  | EnrollBegun response
  | EnrollCeremony webauthn
  | EnrollCompleted response
  | EnrollElapsed

text \<open>What the dialog does: a request, a call of the browser's registration, or the end.\<close>

datatype enroll_out = EnrollFetch fetch | StartRegistration json | Enrolled json

definition enroll_request :: "string \<Rightarrow> string \<Rightarrow> string \<Rightarrow> json \<Rightarrow> fetch" where
  "enroll_request gw token step body =
     \<lparr>f_method = ''POST'', f_url = gw @ ''/api/auth-ui/passkey/register/'' @ step,
      f_headers = content_json @ bearer_header token, f_body = Some body\<rparr>"

section \<open>Steps\<close>

definition enroll_fail :: "string \<Rightarrow> enroll \<Rightarrow> enroll \<times> enroll_out list" where
  "enroll_fail msg s = (s\<lparr>en_state := EnrollError, en_errMsg := Some msg, en_stage := Idle\<rparr>, [])"

definition required_message :: string where
  "required_message = ''Passkey enrollment is required to use TCA Blackjack. Please try again.''"

definition default_message :: string where
  "default_message = ''Enrollment failed '' @ utf8 8212 @ '' please try again''"

text \<open>The button is shown before the first attempt and after a failure. An answer that arrives while
  the handler does not wait for it belongs to none.\<close>

fun enroll_step ::
  "browser_text \<Rightarrow> string \<Rightarrow> string \<Rightarrow> enroll_msg \<Rightarrow> enroll \<Rightarrow> enroll \<times> enroll_out list" where
  "enroll_step B gw token Enroll s =
     (if en_state s = Prompt \<or> en_state s = EnrollError
      then (s\<lparr>en_state := Enrolling, en_errMsg := None, en_stage := AwaitBegin\<rparr>,
            [EnrollFetch (enroll_request gw token ''begin'' (JObj []))])
      else (s, []))"
| "enroll_step B gw token (EnrollBegun r) s =
     (if en_stage s \<noteq> AwaitBegin then (s, [])
      else case json_answer B ''Failed to start passkey registration'' r of
        Inl msg \<Rightarrow> enroll_fail msg s
      | Inr options \<Rightarrow> (s\<lparr>en_stage := AwaitCredential\<rparr>, [StartRegistration options]))"
| "enroll_step B gw token (EnrollCeremony w) s =
     (if en_stage s \<noteq> AwaitCredential then (s, [])
      else case w of
        NotAllowed \<Rightarrow> enroll_fail required_message s
      | WebauthnError None \<Rightarrow> enroll_fail default_message s
      | WebauthnError (Some msg) \<Rightarrow> enroll_fail msg s
      | Credential c \<Rightarrow>
          (s\<lparr>en_stage := AwaitComplete\<rparr>, [EnrollFetch (enroll_request gw token ''complete'' c)]))"
| "enroll_step B gw token (EnrollCompleted r) s =
     (if en_stage s \<noteq> AwaitComplete then (s, [])
      else case json_answer B ''Passkey enrollment failed'' r of
        Inl msg \<Rightarrow> enroll_fail msg s
      | Inr result \<Rightarrow> (s\<lparr>en_state := EnrollSuccess, en_stage := AwaitClose result\<rparr>, []))"
| "enroll_step B gw token EnrollElapsed s =
     (case en_stage s of
        AwaitClose result \<Rightarrow> (s\<lparr>en_stage := Idle\<rparr>, [Enrolled result])
      | _ \<Rightarrow> (s, []))"

definition enroll_run ::
  "browser_text \<Rightarrow> string \<Rightarrow> string \<Rightarrow> enroll_msg list \<Rightarrow> enroll \<times> enroll_out list" where
  "enroll_run B gw token msgs =
     fold (\<lambda>m (s, outs). let (s', o') = enroll_step B gw token m s in (s', outs @ o')) msgs (enroll_start, [])"

section \<open>View\<close>

definition enroll_backdrop :: "(string \<times> string) list" where
  "enroll_backdrop =
     [(''position'', ''fixed''), (''inset'', ''0''), (''background'', ''rgba(0,0,0,0.85)''),
         (''display'', ''flex''), (''alignItems'', ''center''), (''justifyContent'', ''center''),
         (''zIndex'', ''1000''), (''backdropFilter'', ''blur(6px)'')]"

definition enroll_modal :: "(string \<times> string) list" where
  "enroll_modal =
     [(''background'', ''#161b22''), (''border'', ''1px solid #30363d''), (''borderRadius'', ''16''),
         (''padding'', ''32px''), (''width'', ''100%''), (''maxWidth'', ''420''),
         (''boxShadow'', ''0 24px 48px rgba(0,0,0,0.7)'')]"

definition enroll_badge :: "string \<Rightarrow> enroll_msg view" where
  "enroll_badge label =
  El ''div'' [Style [(''fontSize'', ''0.68rem''), (''padding'', ''3px 10px''),
    (''background'', ''#0d2b1a''), (''border'', ''1px solid #2d6a4f''), (''borderRadius'', ''20''),
    (''color'', ''#52b788'')]]
    [Txt (utf8 10003 @ '' ''),
     Txt label]"

definition enroll_view :: "string \<Rightarrow> string \<Rightarrow> enroll \<Rightarrow> enroll_msg view" where
  "enroll_view playerName email s =
  El ''div'' [Style enroll_backdrop]
    [El ''div'' [Style enroll_modal]
       (if en_state s = EnrollSuccess
        then [El ''div'' [Style [(''textAlign'', ''center''), (''padding'', ''8px 0'')]]
            [El ''div'' [Style [(''fontSize'', ''3rem''), (''marginBottom'', ''16'')]]
               [Txt (utf8 10003)],
             El ''h2'' [Style [(''color'', ''#68d391''), (''margin'', ''0 0 8px''),
                 (''fontSize'', ''1.2rem'')]]
               [Txt ''Passkey registered''],
             El ''p'' [Style [(''color'', ''#8b949e''), (''margin'', ''0''),
                 (''fontSize'', ''0.85rem'')]]
               [Txt (''Signing you in'' @ utf8 8230)]]]
        else (if en_state s = Enrolling
          then [El ''div'' [Style [(''textAlign'', ''center''), (''padding'', ''8px 0'')]]
              [El ''div'' [Style [(''fontSize'', ''2.5rem''), (''marginBottom'', ''16'')]]
                 [Txt (utf8 128273)],
               El ''h2'' [Style [(''color'', ''#e6edf3''), (''margin'', ''0 0 12px''),
                   (''fontSize'', ''1.2rem'')]]
                 [Txt ''Waiting for passkey''],
               El ''p'' [Style [(''color'', ''#8b949e''), (''margin'', ''0''),
                   (''lineHeight'', ''1.6''), (''fontSize'', ''0.88rem'')]]
                 [Txt ''Approve the passkey prompt on your device to continue.'']]]
          else ([El ''div'' [Style [(''textAlign'', ''center''), (''marginBottom'', ''24'')]]
              [El ''div'' [Style [(''fontSize'', ''2.5rem''), (''marginBottom'', ''12'')]]
                 [Txt (utf8 128272)],
               El ''h2'' [Style [(''color'', ''#e6edf3''), (''margin'', ''0 0 8px''),
                   (''fontSize'', ''1.25rem'')]]
                 [Txt ''One more step, '',
                  Txt playerName],
               El ''p'' [Style [(''color'', ''#8b949e''), (''margin'', ''0''),
                   (''fontSize'', ''0.82rem''), (''lineHeight'', ''1.6'')]]
                 [Txt ''Email verified as '',
                  El ''strong'' [Style [(''color'', ''#58a6ff'')]]
                    [Txt email]]],
            El ''div'' [Style [(''background'', ''#0d1a2e''), (''border'', ''1px solid #1f4a7a''),
                (''borderRadius'', ''8''), (''padding'', ''14px 16px''), (''marginBottom'', ''20'')]]
              [El ''div'' [Style [(''color'', ''#7ab3e0''), (''fontSize'', ''0.8rem''),
                  (''fontWeight'', ''600''), (''marginBottom'', ''8'')]]
                 [Txt ''Why passkeys?''],
               El ''div'' [Style [(''color'', ''#8b949e''), (''fontSize'', ''0.78rem''),
                   (''lineHeight'', ''1.6'')]]
                 [Txt (''TCA Blackjack uses passkeys instead of passwords '' @ utf8 8212
                     @ '' your device'' @ [CHR 0x27]
                     @ ''s biometric (fingerprint, face, or PIN) is the key. No password to steal, no magic links to wait for. Once registered, signing in takes one tap.'')]],
            El ''div'' [Style [(''display'', ''flex''), (''gap'', ''12''), (''marginBottom'', ''20''),
                (''flexWrap'', ''wrap'')]]
              (map enroll_badge [''Phishing-resistant'', ''Device-bound'', ''No password''])] @
           (if en_state s = EnrollError \<and> has_text (en_errMsg s)
            then [El ''div'' [Style [(''background'', ''#2d1515''),
                (''border'', ''1px solid #e53e3e''), (''borderRadius'', ''8''),
                (''padding'', ''10px 14px''), (''color'', ''#fc8181''), (''fontSize'', ''0.8rem''),
                (''marginBottom'', ''16'')]]
                [Txt (the (en_errMsg s))]]
            else []) @
           [El ''button'' [On ''click'' Enroll,
               Style [(''display'', ''block''), (''width'', ''100%''), (''padding'', ''12px 0''),
                   (''background'', ''#1f6feb''), (''border'', ''1px solid #1f6feb''),
                   (''borderRadius'', ''8''), (''color'', ''#fff''), (''fontWeight'', ''700''),
                   (''fontSize'', ''0.95rem''), (''cursor'', ''pointer''),
                   (''letterSpacing'', ''0.5'')]]
              [Txt ''Register Passkey''],
            El ''p'' [Style [(''textAlign'', ''center''), (''color'', ''#4a5568''),
                (''fontSize'', ''0.7rem''), (''marginTop'', ''12''), (''marginBottom'', ''0'')]]
              [Txt ''This step is required. Your account is inactive until a passkey is registered.'']])))]"

section \<open>Enrolment cannot be skipped\<close>

lemma clicks_badge [simp]: "clicks (enroll_badge l) = []"
  by (simp add: enroll_badge_def)

text \<open>The dialog offers nothing but to register a passkey: no button closes it, and while an
  attempt is under way, or after it succeeded, there is no button at all.\<close>

lemma enroll_offers_only_enrolment:
  "clicks (enroll_view playerName email s) =
     (if en_state s = Prompt \<or> en_state s = EnrollError then [Enroll] else [])"
  by (cases "en_state s") (simp_all add: enroll_view_def clicks_all_map)

lemma enroll_run_snoc:
  "enroll_run B gw token (msgs @ [m]) =
     (let (s, outs) = enroll_run B gw token msgs; (s', o') = enroll_step B gw token m s in (s', outs @ o'))"
  by (simp add: enroll_run_def)

text \<open>What must have happened before the handler is suspended where it is.\<close>

definition enroll_past :: "enroll_stage \<Rightarrow> enroll_msg list \<Rightarrow> bool" where
  "enroll_past st msgs =
     (case st of
        Idle \<Rightarrow> True
      | AwaitBegin \<Rightarrow> subseq [Enroll] msgs
      | AwaitCredential \<Rightarrow> \<exists>c1 t1. resp_ok c1 \<and> subseq [Enroll, EnrollBegun (Answer c1 t1)] msgs
      | AwaitComplete \<Rightarrow> \<exists>c1 t1 cred. resp_ok c1 \<and>
          subseq [Enroll, EnrollBegun (Answer c1 t1), EnrollCeremony (Credential cred)] msgs
      | AwaitClose result \<Rightarrow> \<exists>c1 t1 cred c2 t2. resp_ok c1 \<and> resp_ok c2 \<and> JSON_parse t2 = Some result \<and>
          subseq [Enroll, EnrollBegun (Answer c1 t1), EnrollCeremony (Credential cred),
                  EnrollCompleted (Answer c2 t2)] msgs)"

definition enroll_done :: "json \<Rightarrow> enroll_msg list \<Rightarrow> bool" where
  "enroll_done result msgs \<longleftrightarrow>
     (\<exists>c1 t1 cred c2 t2. resp_ok c1 \<and> resp_ok c2 \<and> JSON_parse t2 = Some result \<and>
        subseq [Enroll, EnrollBegun (Answer c1 t1), EnrollCeremony (Credential cred),
                EnrollCompleted (Answer c2 t2), EnrollElapsed] msgs)"

lemma subseq_snoc: "subseq xs ys \<Longrightarrow> subseq (xs @ [z]) (ys @ [z])"
  by (simp add: list_emb_append_mono)

lemma subseq_later: "subseq xs ys \<Longrightarrow> subseq xs (ys @ zs)"
  by (simp add: subseq_order.trans [OF _ prefix_imp_subseq])

lemma enroll_past_later: "enroll_past st msgs \<Longrightarrow> enroll_past st (msgs @ [m])"
  unfolding enroll_past_def by (cases st) (simp_all, (blast intro: subseq_later)+)

lemma enroll_done_later: "enroll_done r msgs \<Longrightarrow> enroll_done r (msgs @ [m])"
  unfolding enroll_done_def by (blast intro: subseq_later)

lemma past_started: "enroll_past AwaitBegin (msgs @ [Enroll])"
  using subseq_snoc [of "[]" msgs Enroll] by (simp add: enroll_past_def)

lemma past_begun:
  "enroll_past AwaitBegin msgs \<Longrightarrow> json_answer B d r = Inr v \<Longrightarrow> enroll_past AwaitCredential (msgs @ [EnrollBegun r])"
  using subseq_snoc [of "[Enroll]" msgs "EnrollBegun r"] by (auto simp: enroll_past_def json_answer_Inr)

lemma past_credential:
  "enroll_past AwaitCredential msgs \<Longrightarrow> enroll_past AwaitComplete (msgs @ [EnrollCeremony (Credential c)])"
  using subseq_snoc [of "[Enroll, EnrollBegun (Answer c1 t1)]" msgs "EnrollCeremony (Credential c)" for c1 t1]
  by (simp add: enroll_past_def) blast

lemma past_completed:
  "enroll_past AwaitComplete msgs \<Longrightarrow> json_answer B d r = Inr v \<Longrightarrow>
    enroll_past (AwaitClose v) (msgs @ [EnrollCompleted r])"
  using subseq_snoc [of "[Enroll, EnrollBegun (Answer c1 t1), EnrollCeremony (Credential c)]" msgs
      "EnrollCompleted r" for c1 t1 c]
  by (simp add: enroll_past_def json_answer_Inr) blast

lemma past_elapsed: "enroll_past (AwaitClose v) msgs \<Longrightarrow> enroll_done v (msgs @ [EnrollElapsed])"
  using subseq_snoc [of "[Enroll, EnrollBegun (Answer c1 t1), EnrollCeremony (Credential c),
      EnrollCompleted (Answer c2 t2)]" msgs EnrollElapsed for c1 t1 c c2 t2]
  by (simp add: enroll_past_def enroll_done_def) blast

lemma past_idle [simp]: "enroll_past Idle msgs"
  by (simp add: enroll_past_def)

lemma enroll_step_past:
  assumes "enroll_past (en_stage s) msgs"
  shows "enroll_past (en_stage (fst (enroll_step B gw token m s))) (msgs @ [m]) \<and>
         (\<forall>result. Enrolled result \<in> set (snd (enroll_step B gw token m s)) \<longrightarrow> enroll_done result (msgs @ [m]))"
  using assms enroll_past_later [OF assms, of m]
  by (cases m) (auto simp: enroll_fail_def split: sum.split webauthn.split option.split enroll_stage.split
      intro: past_started past_begun past_credential past_completed past_elapsed)

lemma enroll_run_past:
  "enroll_past (en_stage (fst (enroll_run B gw token msgs))) msgs \<and>
   (\<forall>result. Enrolled result \<in> set (snd (enroll_run B gw token msgs)) \<longrightarrow> enroll_done result msgs)"
proof (induction msgs rule: rev_induct)
  case Nil
  show ?case by (simp add: enroll_run_def enroll_start_def enroll_past_def)
next
  case (snoc m msgs)
  then show ?case
    using enroll_step_past [of "fst (enroll_run B gw token msgs)" msgs B gw token m]
    by (auto simp: enroll_run_snoc Let_def split: prod.split intro: enroll_done_later)
qed

text \<open>C34. The dialog reports success only after the whole ceremony: the player started it, the service
  answered the begin request with success, the browser made a credential, and the service answered the
  completion with success; what is reported is that answer.\<close>

theorem enrolled_needs_ceremony:
  assumes "Enrolled result \<in> set (snd (enroll_run B gw token msgs))"
  shows "\<exists>c1 t1 cred c2 t2. resp_ok c1 \<and> resp_ok c2 \<and> JSON_parse t2 = Some result \<and>
     subseq [Enroll, EnrollBegun (Answer c1 t1), EnrollCeremony (Credential cred),
             EnrollCompleted (Answer c2 t2), EnrollElapsed] msgs"
  using enroll_run_past [of B gw token msgs] assms unfolding enroll_done_def by blast

definition ref_browser :: browser_text where
  "ref_browser = \<lparr>bt_network = ''Failed to fetch'', bt_type_error = ''TypeError'', bt_syntax_error = ''SyntaxError''\<rparr>"

definition enroll_demo :: "enroll_msg list" where
  "enroll_demo = [Enroll, EnrollBegun (Answer 200 ''{}''), EnrollCeremony (Credential (JObj [])),
     EnrollCompleted (Answer 200 ''true''), EnrollElapsed]"

lemma enrolled_needs_ceremony_witness:
  "\<exists>c1 t1 cred c2 t2. resp_ok c1 \<and> resp_ok c2 \<and> JSON_parse t2 = Some (JBool True) \<and>
     subseq [Enroll, EnrollBegun (Answer c1 t1), EnrollCeremony (Credential cred),
             EnrollCompleted (Answer c2 t2), EnrollElapsed] enroll_demo"
proof (rule enrolled_needs_ceremony)
  show "Enrolled (JBool True) \<in> set (snd (enroll_run ref_browser ''https://x'' ''tok'' enroll_demo))"
    by code_simp
qed

end
