(* ===== verification/UiAuthModal.thy ===== *)
theory UiAuthModal
  imports UiPanel "HOL-Library.AList"
begin

text \<open>
  The dialog to sign in and to register (\<open>ui/src/components/AuthModal.tsx\<close>): its state, its handlers as
  steps of a machine over what happens to it, and its views. An asynchronous handler that is suspended
  at an \<open>await\<close> is the stage of the machine. A step is followed by the effect that loads the fields of the
  form whenever the action or the page of the dialog has changed.
\<close>

section \<open>State\<close>

record form_field =
  fd_name :: string
  fd_label :: string
  fd_type :: string
  fd_required :: bool
  fd_placeholder :: string
  fd_maxLength :: "nat option"

record fields_response =
  fr_action :: string
  fr_title :: string
  fr_submit :: string
  fr_fields :: "form_field list"

datatype auth_action = Register | Login

datatype modal_page = FormPage | CheckEmail | PasskeyPending

datatype am_stage = AmIdle | AmRegistering string | AmBegin | AmCeremony | AmComplete

record auth_modal =
  am_action :: auth_action
  am_page :: modal_page
  am_registeredEmail :: string
  am_fieldDefs :: "fields_response option"
  am_values :: "(string \<times> string) list"
  am_fieldErrors :: "(string \<times> string) list"
  am_submitError :: "string option"
  am_loading :: bool
  am_stage :: am_stage

fun auth_action_name :: "auth_action \<Rightarrow> string" where
  "auth_action_name Register = ''register''"
| "auth_action_name Login = ''login''"

text \<open>\<open>values[k] ?? ''\<close>.\<close>

definition value_of :: "(string \<times> string) list \<Rightarrow> string \<Rightarrow> string" where
  "value_of vs k = (case map_of vs k of Some v \<Rightarrow> v | None \<Rightarrow> [])"

datatype am_msg =
    AmClose
  | AmSwitch auth_action
  | AmChange string string
  | AmSubmit
  | AmFields "fields_response option"
  | AmRegistered response
  | AmBegun response
  | AmSigned webauthn
  | AmCompleted response

text \<open>What the dialog does: a request, a call of the browser's authentication, a call of \<open>onSuccess\<close>, or
  of \<open>onClose\<close>.\<close>

datatype am_out = AmFetch fetch | StartAuthentication json | SignedIn json | Closed

definition auth_ui :: "string \<Rightarrow> string \<Rightarrow> json \<Rightarrow> fetch" where
  "auth_ui gw path body =
     \<lparr>f_method = ''POST'', f_url = gw @ ''/api/auth-ui'' @ path, f_headers = content_json, f_body = Some body\<rparr>"

definition fields_request :: "string \<Rightarrow> auth_action \<Rightarrow> fetch" where
  "fields_request gw a =
     \<lparr>f_method = ''GET'', f_url = gw @ ''/api/auth-ui/fields?action='' @ auth_action_name a, f_headers = [],
      f_body = None\<rparr>"

section \<open>Loading the fields\<close>

definition load_fields :: "string \<Rightarrow> auth_modal \<Rightarrow> auth_modal \<times> am_out list" where
  "load_fields gw s =
     (if am_page s \<noteq> FormPage then (s, [])
      else (s\<lparr>am_fieldDefs := None, am_values := [], am_fieldErrors := [], am_submitError := None\<rparr>,
            [AmFetch (fields_request gw (am_action s))]))"

definition fields_reply :: "fields_response option \<Rightarrow> auth_modal \<Rightarrow> auth_modal" where
  "fields_reply r s =
     (case r of
        None \<Rightarrow> s\<lparr>am_submitError := Some ''Could not reach auth service''\<rparr>
      | Some data \<Rightarrow>
          s\<lparr>am_fieldDefs := Some data,
            am_values := foldl (\<lambda>init f. AList.update (fd_name f) [] init) [] (fr_fields data)\<rparr>)"

section \<open>Signing in\<close>

definition login_submit :: "string \<Rightarrow> auth_modal \<Rightarrow> auth_modal \<times> am_out list" where
  "login_submit gw s =
     (let email = js_trim (value_of (am_values s) ''email'')
      in if email = [] then (s\<lparr>am_fieldErrors := [(''email'', ''Email address is required'')]\<rparr>, [])
         else (s\<lparr>am_loading := True, am_submitError := None, am_page := PasskeyPending, am_stage := AmBegin\<rparr>,
               [AmFetch (auth_ui gw ''/passkey/login/begin'' (JObj [(''email'', JStr email)]))]))"

definition login_fail :: "string \<Rightarrow> auth_modal \<Rightarrow> auth_modal \<times> am_out list" where
  "login_fail msg s =
     (s\<lparr>am_submitError := Some msg, am_page := FormPage, am_loading := False, am_stage := AmIdle\<rparr>, [])"

definition login_begun :: "browser_text \<Rightarrow> response \<Rightarrow> auth_modal \<Rightarrow> auth_modal \<times> am_out list" where
  "login_begun B r s =
     (case json_answer B ''Failed to start passkey login'' r of
        Inl msg \<Rightarrow> login_fail msg s
      | Inr options \<Rightarrow> (s\<lparr>am_stage := AmCeremony\<rparr>, [StartAuthentication options]))"

definition login_signed :: "string \<Rightarrow> webauthn \<Rightarrow> auth_modal \<Rightarrow> auth_modal \<times> am_out list" where
  "login_signed gw w s =
     (case w of
        NotAllowed \<Rightarrow> login_fail ''Passkey login cancelled.'' s
      | WebauthnError None \<Rightarrow> login_fail ''Passkey login failed'' s
      | WebauthnError (Some msg) \<Rightarrow> login_fail msg s
      | Credential c \<Rightarrow> (s\<lparr>am_stage := AmComplete\<rparr>, [AmFetch (auth_ui gw ''/passkey/login/complete'' c)]))"

text \<open>Reading the session out of \<open>null\<close> throws in \<open>onSuccess\<close>, which is called inside the \<open>try\<close>.\<close>

definition login_completed :: "browser_text \<Rightarrow> response \<Rightarrow> auth_modal \<Rightarrow> auth_modal \<times> am_out list" where
  "login_completed B r s =
     (case json_answer B ''Passkey verification failed'' r of
        Inl msg \<Rightarrow> login_fail msg s
      | Inr result \<Rightarrow>
          if result = JNull then login_fail (bt_type_error B) s
          else (s\<lparr>am_loading := False, am_stage := AmIdle\<rparr>, [SignedIn result]))"

section \<open>Registering\<close>

definition register_submit :: "string \<Rightarrow> auth_modal \<Rightarrow> auth_modal \<times> am_out list" where
  "register_submit gw s =
     (s\<lparr>am_submitError := None, am_fieldErrors := [], am_loading := True,
        am_stage := AmRegistering (value_of (am_values s) ''email'')\<rparr>,
      [AmFetch (auth_ui gw ''/submit''
         (JObj [(''action'', JStr ''register''),
                (''fields'', JObj (map (\<lambda>(k, v). (k, JStr v)) (am_values s)))]))])"

text \<open>The errors of single fields: an entry that is \<open>null\<close> throws. A message is kept as the text that
  React shows of it.\<close>

fun field_errors :: "json list \<Rightarrow> (string \<times> string) list \<Rightarrow> js_error + (string \<times> string) list" where
  "field_errors [] errs = Inr errs"
| "field_errors (e # es) errs =
     (if e = JNull then Inl TypeError
      else field_errors es
        (AList.update (index_text (get_prop e ''field'')) (child_text (get_prop e ''message'')) errs))"

definition network_message :: string where
  "network_message = ''Network error '' @ utf8 8212 @ '' is the auth service running?''"

definition register_result :: "string \<Rightarrow> nat \<Rightarrow> json \<Rightarrow> auth_modal \<Rightarrow> js_error + auth_modal" where
  "register_result email st data s =
     (let rest =
        (if \<not> resp_ok st then
           (case js_prop data ''error'' of
              Inl e \<Rightarrow> Inl e
            | Inr m \<Rightarrow> Inr (s\<lparr>am_submitError := Some (child_text (Some (js_nullish m (JStr ''Registration failed''))))\<rparr>))
         else Inr (s\<lparr>am_registeredEmail := email, am_page := CheckEmail\<rparr>))
      in if st = 422 then
           (case js_prop data ''fields'' of
              Inl e \<Rightarrow> Inl e
            | Inr None \<Rightarrow> rest
            | Inr (Some v) \<Rightarrow>
                if js_truthy v then
                  (case v of
                     JArr es \<Rightarrow> map_sum id (\<lambda>errs. s\<lparr>am_fieldErrors := errs\<rparr>) (field_errors es [])
                   | _ \<Rightarrow> Inl TypeError)
                else rest)
         else rest)"

definition register_reply :: "string \<Rightarrow> response \<Rightarrow> auth_modal \<Rightarrow> auth_modal" where
  "register_reply email r s =
     (let s0 = s\<lparr>am_loading := False, am_stage := AmIdle\<rparr>;
          failed = s0\<lparr>am_submitError := Some network_message\<rparr>
      in case r of
           NetworkError \<Rightarrow> failed
         | Answer st text \<Rightarrow>
             (case JSON_parse text of
                None \<Rightarrow> failed
              | Some data \<Rightarrow> (case register_result email st data s0 of Inl _ \<Rightarrow> failed | Inr s' \<Rightarrow> s')))"

section \<open>Steps\<close>

definition am_handle :: "browser_text \<Rightarrow> string \<Rightarrow> am_msg \<Rightarrow> auth_modal \<Rightarrow> auth_modal \<times> am_out list" where
  "am_handle B gw m s =
     (case m of
        AmClose \<Rightarrow> (s, [Closed])
      | AmSwitch a \<Rightarrow> (s\<lparr>am_action := a, am_page := FormPage, am_submitError := None\<rparr>, [])
      | AmChange k v \<Rightarrow> (s\<lparr>am_values := AList.update k v (am_values s)\<rparr>, [])
      | AmSubmit \<Rightarrow> (if am_action s = Register then register_submit gw s else login_submit gw s)
      | AmFields r \<Rightarrow> (fields_reply r s, [])
      | AmRegistered r \<Rightarrow>
          (case am_stage s of AmRegistering email \<Rightarrow> (register_reply email r s, []) | _ \<Rightarrow> (s, []))
      | AmBegun r \<Rightarrow> (if am_stage s = AmBegin then login_begun B r s else (s, []))
      | AmSigned w \<Rightarrow> (if am_stage s = AmCeremony then login_signed gw w s else (s, []))
      | AmCompleted r \<Rightarrow> (if am_stage s = AmComplete then login_completed B r s else (s, [])))"

definition am_step :: "browser_text \<Rightarrow> string \<Rightarrow> am_msg \<Rightarrow> auth_modal \<Rightarrow> auth_modal \<times> am_out list" where
  "am_step B gw m s =
     (let (s1, outs) = am_handle B gw m s
      in if am_action s1 \<noteq> am_action s \<or> am_page s1 \<noteq> am_page s
         then (let (s2, outs') = load_fields gw s1 in (s2, outs @ outs'))
         else (s1, outs))"

definition am_init :: auth_modal where
  "am_init = \<lparr>am_action = Login, am_page = FormPage, am_registeredEmail = [], am_fieldDefs = None, am_values = [],
     am_fieldErrors = [], am_submitError = None, am_loading = False, am_stage = AmIdle\<rparr>"

section \<open>Views\<close>

definition am_backdrop :: "(string \<times> string) list" where
  "am_backdrop =
     [(''position'', ''fixed''), (''inset'', ''0''), (''background'', ''rgba(0,0,0,0.7)''),
         (''display'', ''flex''), (''alignItems'', ''center''), (''justifyContent'', ''center''),
         (''zIndex'', ''1000''), (''backdropFilter'', ''blur(4px)'')]"

definition am_modal :: "(string \<times> string) list" where
  "am_modal =
     [(''background'', ''#161b22''), (''border'', ''1px solid #30363d''), (''borderRadius'', ''16''),
         (''padding'', ''28px 32px''), (''width'', ''100%''), (''maxWidth'', ''420''),
         (''boxShadow'', ''0 24px 48px rgba(0,0,0,0.6)'')]"

definition btn_primary :: "(string \<times> string) list" where
  "btn_primary =
     [(''display'', ''block''), (''width'', ''100%''), (''padding'', ''10px 32px''),
         (''background'', ''#1f6feb''), (''border'', ''1px solid #1f6feb''), (''borderRadius'', ''8''),
         (''color'', ''#fff''), (''fontWeight'', ''700''), (''fontSize'', ''0.9rem''),
         (''cursor'', ''pointer'')]"

definition btn_ghost :: "(string \<times> string) list" where
  "btn_ghost =
     [(''display'', ''block''), (''width'', ''100%''), (''marginTop'', ''10''),
         (''padding'', ''8px 0''), (''background'', ''none''), (''border'', ''none''),
         (''color'', ''#8b949e''), (''fontSize'', ''0.78rem''), (''cursor'', ''pointer'')]"

definition btn_cancel :: "(string \<times> string) list" where
  "btn_cancel =
     [(''flex'', ''1''), (''padding'', ''10px 0''), (''background'', ''none''),
         (''border'', ''1px solid #30363d''), (''borderRadius'', ''8''), (''color'', ''#8b949e''),
         (''cursor'', ''pointer''), (''fontSize'', ''0.85rem'')]"

definition pending_view :: "am_msg view" where
  "pending_view =
  El ''div'' [Style am_backdrop]
    [El ''div'' [Style am_modal]
       [El ''div'' [Style [(''textAlign'', ''center''), (''padding'', ''8px 0'')]]
          [El ''div'' [Style [(''fontSize'', ''2.5rem''), (''marginBottom'', ''16'')]]
             [Txt (utf8 128273)],
           El ''h2'' [Style [(''color'', ''#e6edf3''), (''margin'', ''0 0 12px''),
               (''fontSize'', ''1.2rem'')]]
             [Txt ''Waiting for passkey''],
           El ''p'' [Style [(''color'', ''#8b949e''), (''margin'', ''0''), (''lineHeight'', ''1.6''),
               (''fontSize'', ''0.88rem'')]]
             [Txt (''Check your device for the passkey prompt '' @ utf8 8212
                 @ '' approve it to sign in.'')]]]]"

text \<open>A click on the dialog itself does not reach the backdrop.\<close>

definition check_email_view :: "auth_modal \<Rightarrow> am_msg view" where
  "check_email_view s =
  El ''div'' [On ''click'' AmClose,
     Style am_backdrop]
    [El ''div'' [Style am_modal]
       [El ''div'' [Style [(''textAlign'', ''center''), (''padding'', ''8px 0'')]]
          [El ''div'' [Style [(''fontSize'', ''2.5rem''), (''marginBottom'', ''16'')]]
             [Txt (utf8 9993 @ utf8 65039)],
           El ''h2'' [Style [(''color'', ''#e6edf3''), (''margin'', ''0 0 12px''),
               (''fontSize'', ''1.2rem'')]]
             [Txt ''Check your email''],
           El ''p'' [Style [(''color'', ''#8b949e''), (''margin'', ''0 0 8px''),
               (''lineHeight'', ''1.6''), (''fontSize'', ''0.9rem'')]]
             [Txt ''We sent a verification link to:''],
           El ''p'' [Style [(''color'', ''#58a6ff''), (''margin'', ''0 0 20px''),
               (''fontWeight'', ''600''), (''fontSize'', ''0.95rem'')]]
             [Txt (am_registeredEmail s)],
           El ''p'' [Style [(''color'', ''#8b949e''), (''margin'', ''0 0 28px''),
               (''lineHeight'', ''1.6''), (''fontSize'', ''0.82rem'')]]
             [Txt ''Click the link to activate your account. After verifying, sign in with a passkey. Link expires in 24 hours.''],
           El ''button'' [On ''click'' AmClose,
              Style btn_primary]
             [Txt ''Got it''],
           El ''button'' [On ''click'' (AmSwitch Login),
              Style btn_ghost]
             [Txt ''Already verified? Sign in'']]]]"

definition am_tab :: "auth_modal \<Rightarrow> auth_action \<Rightarrow> am_msg view" where
  "am_tab s a =
  El ''button'' [On ''click'' (AmSwitch a),
     Style [(''flex'', ''1''), (''padding'', ''10px 0''), (''background'', ''none''),
         (''border'', ''none''), (''borderBottom'', (if am_action s = a then ''2px solid #58a6ff''
         else ''2px solid transparent'')), (''color'', (if am_action s = a then ''#58a6ff''
         else ''#8b949e'')), (''fontWeight'', (if am_action s = a then ''700'' else ''400'')),
         (''fontSize'', ''0.85rem''), (''cursor'', ''pointer''), (''textTransform'', ''uppercase''),
         (''letterSpacing'', ''1''), (''transition'', ''all 0.15s'')]]
    [Txt (if a = Register then ''Create Account'' else ''Sign In'')]"

definition am_field :: "auth_modal \<Rightarrow> form_field \<Rightarrow> am_msg view" where
  "am_field s f =
  El ''div'' [Style [(''marginBottom'', ''16'')]]
    ([El ''label'' [Style [(''display'', ''block''), (''fontSize'', ''0.75rem''),
        (''color'', ''#8b949e''), (''marginBottom'', ''6''), (''fontWeight'', ''600''),
        (''letterSpacing'', ''0.5''), (''textTransform'', ''uppercase'')]]
       ([Txt (fd_label f)] @
       (if fd_required f
        then [El ''span'' [Style [(''color'', ''#e53e3e''), (''marginLeft'', ''4'')]]
            [Txt ''*'']]
        else [])),
     El ''input'' ([Attr ''type'' (fd_type f),
        Attr ''value'' (value_of (am_values s) (fd_name f)),
        OnInput ''change'' (AmChange (fd_name f)),
        Attr ''placeholder'' (fd_placeholder f)] @
        opt_attr ''maxLength'' (map_option nat_to_string (fd_maxLength f)) @
        flag_attr ''required'' (fd_required f) @
        [Disabled (am_loading s),
        Style ([(''width'', ''100%''), (''padding'', ''10px 12px''), (''background'', ''#0d1117''),
            (''border'', (''1px solid '' @ (if has_text (map_of (am_fieldErrors s) (fd_name f))
            then ''#e53e3e'' else ''#30363d''))), (''borderRadius'', ''8''), (''color'', ''#e6edf3''),
            (''fontSize'', ''0.9rem''), (''outline'', ''none''), (''boxSizing'', ''border-box'')])])
       []] @
    (if has_text (map_of (am_fieldErrors s) (fd_name f))
     then [El ''div'' [Style [(''color'', ''#fc8181''), (''fontSize'', ''0.72rem''),
         (''marginTop'', ''4'')]]
         [Txt (the (map_of (am_fieldErrors s) (fd_name f)))]]
     else []))"

definition form_view :: "auth_modal \<Rightarrow> am_msg view" where
  "form_view s =
  El ''div'' [On ''click'' AmClose,
     Style am_backdrop]
    [El ''div'' [Style am_modal]
       ([El ''div'' [Style [(''display'', ''flex''), (''marginBottom'', ''24''),
           (''borderBottom'', ''1px solid #21262d'')]]
          (map (am_tab s) [Login, Register])] @
       (if am_fieldDefs s = None
        then [El ''div'' [Style [(''textAlign'', ''center''), (''padding'', ''24px 0''),
            (''color'', ''#8b949e''), (''fontSize'', ''0.8rem'')]]
            [Txt ''Loading...'']]
        else [El ''form'' [On ''submit'' AmSubmit]
            ((map (am_field s) (fr_fields (the (am_fieldDefs s)))) @
            (if am_action s = Login
             then [El ''div'' [Style [(''background'', ''#0d1a2e''),
                 (''border'', ''1px solid #1f4a7a''), (''borderRadius'', ''8''),
                 (''padding'', ''10px 14px''), (''marginBottom'', ''16''), (''fontSize'', ''0.78rem''),
                 (''color'', ''#7ab3e0''), (''display'', ''flex''), (''alignItems'', ''center''),
                 (''gap'', ''8'')]]
                 [El ''span'' []
                    [Txt (utf8 128273)],
                  El ''span'' []
                    [Txt ''Your device will prompt you to approve the sign-in with a passkey.'']]]
             else []) @
            (if has_text (am_submitError s)
             then [El ''div'' [Style [(''background'', ''#2d1515''),
                 (''border'', ''1px solid #e53e3e''), (''borderRadius'', ''8''),
                 (''padding'', ''10px 14px''), (''color'', ''#fc8181''), (''fontSize'', ''0.8rem''),
                 (''marginBottom'', ''16'')]]
                 [Txt (the (am_submitError s))]]
             else []) @
            [El ''div'' [Style [(''display'', ''flex''), (''gap'', ''10''), (''marginTop'', ''8'')]]
               [El ''button'' [Attr ''type'' ''button'',
                   On ''click'' AmClose,
                   Disabled (am_loading s),
                   Style btn_cancel]
                  [Txt ''Cancel''],
                El ''button'' [Attr ''type'' ''submit'',
                   Disabled (am_loading s),
                   Style (btn_primary @ [(''flex'', ''2''),
                       (''background'', (if am_loading s then ''#1f6feb55'' else ''#1f6feb'')),
                       (''cursor'', (if am_loading s then ''not-allowed'' else ''pointer'')),
                       (''opacity'', (if am_loading s then ''0.7'' else ''1''))])]
                  [Txt (if am_loading s then ''Working...''
                      else fr_submit (the (am_fieldDefs s)))]]])]))]"

definition am_view :: "auth_modal \<Rightarrow> am_msg view" where
  "am_view s =
     (case am_page s of
        PasskeyPending \<Rightarrow> pending_view
      | CheckEmail \<Rightarrow> check_email_view s
      | FormPage \<Rightarrow> form_view s)"

section \<open>What the dialog offers\<close>

definition am_offered :: "auth_modal \<Rightarrow> am_msg \<Rightarrow> bool" where
  "am_offered s m =
     (case m of
        AmClose \<Rightarrow> m \<in> set (clicks (am_view s))
      | AmSwitch a \<Rightarrow> m \<in> set (clicks (am_view s))
      | AmSubmit \<Rightarrow> m \<in> set (submits (am_view s))
      | AmChange k v \<Rightarrow> am_page s = FormPage \<and> am_fieldDefs s \<noteq> None
      | _ \<Rightarrow> True)"

lemma clicks_field [simp]: "clicks (am_field s f) = []"
  by (simp add: am_field_def opt_attr_def flag_attr_def split: option.split)

lemma submit_parts [simp]:
  "\<not> enabled_submit (am_field s f)" "submits (am_field s f) = []"
  "\<not> enabled_submit (am_tab s a)" "submits (am_tab s a) = []" "clicks (am_tab s a) = [AmSwitch a]"
  by (simp_all add: am_field_def am_tab_def)

lemma clicks_am_view:
  "set (clicks (am_view s)) =
     (case am_page s of
        PasskeyPending \<Rightarrow> {}
      | CheckEmail \<Rightarrow> {AmClose, AmSwitch Login}
      | FormPage \<Rightarrow> {AmClose, AmSwitch Login, AmSwitch Register})"
  by (cases "am_page s")
    (auto simp: am_view_def pending_view_def check_email_view_def form_view_def clicks_all_map)

lemma submits_am_view:
  "set (submits (am_view s)) =
     (if am_page s = FormPage \<and> am_fieldDefs s \<noteq> None \<and> \<not> am_loading s then {AmSubmit} else {})"
  by (cases "am_page s")
    (auto simp: am_view_def pending_view_def check_email_view_def form_view_def
      list_ex_iff)

section \<open>Reachable states\<close>

text \<open>A step: something that the dialog offers, or an answer.\<close>

inductive am_reachable :: "browser_text \<Rightarrow> string \<Rightarrow> auth_modal \<Rightarrow> bool" for B gw where
  init: "am_reachable B gw (fst (load_fields gw am_init))"
| step: "am_reachable B gw s \<Longrightarrow> am_offered s m \<Longrightarrow> am_reachable B gw (fst (am_step B gw m s))"

fun login_stage :: "am_stage \<Rightarrow> bool" where
  "login_stage AmBegin = True"
| "login_stage AmCeremony = True"
| "login_stage AmComplete = True"
| "login_stage _ = False"

definition am_inv :: "auth_modal \<Rightarrow> bool" where
  "am_inv s \<longleftrightarrow>
     (am_loading s \<longleftrightarrow> am_stage s \<noteq> AmIdle) \<and> (login_stage (am_stage s) \<longrightarrow> am_page s = PasskeyPending) \<and>
     (am_page s = PasskeyPending \<and> am_stage s \<noteq> AmIdle \<longrightarrow> login_stage (am_stage s))"

lemma load_fields_simps [simp]:
  "am_loading (fst (load_fields gw s)) = am_loading s" "am_stage (fst (load_fields gw s)) = am_stage s"
  "am_page (fst (load_fields gw s)) = am_page s" "am_action (fst (load_fields gw s)) = am_action s"
  by (simp_all add: load_fields_def)

lemma am_step_simps:
  "am_loading (fst (am_step B gw m s)) = am_loading (fst (am_handle B gw m s))"
  "am_stage (fst (am_step B gw m s)) = am_stage (fst (am_handle B gw m s))"
  "am_page (fst (am_step B gw m s)) = am_page (fst (am_handle B gw m s))"
  by (simp_all add: am_step_def Let_def case_prod_beta)

lemma register_result_frame:
  "register_result email st data s = Inr s' \<Longrightarrow>
    am_loading s' = am_loading s \<and> am_stage s' = am_stage s \<and> am_page s' \<in> {am_page s, CheckEmail}"
  by (auto simp: register_result_def Let_def map_sum_eq_Inr split: if_splits sum.splits option.splits json.splits)

lemma register_reply_frame:
  "\<not> am_loading (register_reply email r s) \<and> am_stage (register_reply email r s) = AmIdle"
  by (auto simp: register_reply_def Let_def dest: register_result_frame
      split: response.split option.split sum.split)

lemma am_inv_step: "am_inv s \<Longrightarrow> am_offered s m \<Longrightarrow> am_inv (fst (am_step B gw m s))"
proof (cases m)
  case AmSubmit
  assume "am_inv s" "am_offered s m"
  then have "am_page s = FormPage" "\<not> am_loading s" "am_stage s = AmIdle"
    using AmSubmit by (auto simp: am_offered_def submits_am_view am_inv_def split: if_splits)
  then show ?thesis
    by (simp add: AmSubmit am_inv_def am_step_simps am_handle_def register_submit_def login_submit_def Let_def)
next
  case (AmRegistered r)
  assume "am_inv s"
  then show ?thesis
    using register_reply_frame
    by (cases "am_stage s") (simp_all add: AmRegistered am_inv_def am_step_simps am_handle_def)
qed (auto simp: am_inv_def am_step_simps am_handle_def am_offered_def clicks_am_view fields_reply_def
    login_begun_def login_signed_def login_completed_def login_fail_def
    split: modal_page.splits option.split sum.split webauthn.split)

lemma am_reachable_inv: "am_reachable B gw s \<Longrightarrow> am_inv s"
proof (induction rule: am_reachable.induct)
  case init
  show ?case by (simp add: am_inv_def am_init_def)
qed (rule am_inv_step)

text \<open>C35. At most one handler of the dialog is under way: the dialog is marked as loading exactly while
  one is suspended, then the form cannot be sent, and while a player signs in nothing can be clicked.\<close>

theorem one_handler_at_a_time:
  assumes "am_reachable B gw s"
  shows "(am_loading s \<longleftrightarrow> am_stage s \<noteq> AmIdle) \<and>
    (am_stage s \<noteq> AmIdle \<longrightarrow> submits (am_view s) = []) \<and>
    (login_stage (am_stage s) \<longrightarrow> clicks (am_view s) = [])"
proof -
  have inv: "am_inv s" using assms by (rule am_reachable_inv)
  have "am_stage s \<noteq> AmIdle \<Longrightarrow> set (submits (am_view s)) = {}"
    using inv by (simp add: submits_am_view am_inv_def)
  moreover have "login_stage (am_stage s) \<Longrightarrow> set (clicks (am_view s)) = {}"
    using inv by (simp add: clicks_am_view am_inv_def)
  ultimately show ?thesis using inv by (auto simp: am_inv_def)
qed

text \<open>A state in which a player waits for the passkey dialog, reached by opening the dialog, typing an
  address and sending the form.\<close>

definition ref_modal_browser :: browser_text where
  "ref_modal_browser =
     \<lparr>bt_network = ''Failed to fetch'', bt_type_error = ''TypeError'', bt_syntax_error = ''SyntaxError''\<rparr>"

definition ref_fields :: fields_response where
  "ref_fields = \<lparr>fr_action = ''login'', fr_title = ''Sign in'', fr_submit = ''Sign in'',
     fr_fields = [\<lparr>fd_name = ''email'', fd_label = ''Email'', fd_type = ''email'', fd_required = True,
                   fd_placeholder = [], fd_maxLength = None\<rparr>]\<rparr>"

definition am_opened :: auth_modal where "am_opened = fst (load_fields ''gw'' am_init)"
definition am_with_form :: auth_modal where
  "am_with_form = fst (am_step ref_modal_browser ''gw'' (AmFields (Some ref_fields)) am_opened)"
definition am_typed :: auth_modal where
  "am_typed = fst (am_step ref_modal_browser ''gw'' (AmChange ''email'' ''ann@x.org'') am_with_form)"
definition am_sent :: auth_modal where
  "am_sent = fst (am_step ref_modal_browser ''gw'' AmSubmit am_typed)"
definition am_begun :: auth_modal where
  "am_begun = fst (am_step ref_modal_browser ''gw'' (AmBegun (Answer 200 ''{}'')) am_sent)"

lemma am_begun_reachable: "am_reachable ref_modal_browser ''gw'' am_begun"
proof -
  have "am_reachable ref_modal_browser ''gw'' am_opened"
    unfolding am_opened_def by (rule am_reachable.init)
  moreover have "am_offered am_opened (AmFields (Some ref_fields))" by (simp add: am_offered_def)
  ultimately have "am_reachable ref_modal_browser ''gw'' am_with_form"
    unfolding am_with_form_def by (rule am_reachable.step)
  moreover have "am_offered am_with_form (AmChange ''email'' ''ann@x.org'')" by code_simp
  ultimately have "am_reachable ref_modal_browser ''gw'' am_typed"
    unfolding am_typed_def by (rule am_reachable.step)
  moreover have "am_page am_typed = FormPage \<and> am_fieldDefs am_typed \<noteq> None \<and> \<not> am_loading am_typed"
    by code_simp
  then have "am_offered am_typed AmSubmit" by (simp add: am_offered_def submits_am_view)
  ultimately have "am_reachable ref_modal_browser ''gw'' am_sent"
    unfolding am_sent_def by (rule am_reachable.step)
  moreover have "am_offered am_sent (AmBegun (Answer 200 ''{}''))" by (simp add: am_offered_def)
  ultimately show ?thesis unfolding am_begun_def by (rule am_reachable.step)
qed

lemma am_begun_stage: "am_stage am_begun = AmCeremony"
  by code_simp

lemma one_handler_at_a_time_witness:
  "am_loading am_begun \<and> submits (am_view am_begun) = [] \<and> clicks (am_view am_begun) = []"
  using one_handler_at_a_time [OF am_begun_reachable] by (simp add: am_begun_stage)

section \<open>Failures to sign in\<close>

definition login_fails :: "browser_text \<Rightarrow> auth_modal \<Rightarrow> am_msg \<Rightarrow> bool" where
  "login_fails B s m =
     (case m of
        AmBegun r \<Rightarrow> am_stage s = AmBegin \<and> \<not> (\<exists>st text v. r = Answer st text \<and> resp_ok st \<and> JSON_parse text = Some v)
      | AmSigned w \<Rightarrow> am_stage s = AmCeremony \<and> \<not> (\<exists>c. w = Credential c)
      | AmCompleted r \<Rightarrow> am_stage s = AmComplete \<and>
          \<not> (\<exists>st text v. r = Answer st text \<and> resp_ok st \<and> JSON_parse text = Some v \<and> v \<noteq> JNull)
      | _ \<Rightarrow> False)"

lemma login_fails_handle:
  assumes "login_fails B s m"
  shows "\<exists>msg. am_handle B gw m s = login_fail msg s \<and> login_stage (am_stage s)"
proof (cases m)
  case (AmBegun r)
  then obtain msg where "json_answer B ''Failed to start passkey login'' r = Inl msg"
    using assms by (cases "json_answer B ''Failed to start passkey login'' r") (auto simp: login_fails_def json_answer_Inr)
  then show ?thesis using assms AmBegun by (auto simp: login_fails_def am_handle_def login_begun_def)
next
  case (AmSigned w)
  then show ?thesis using assms
    by (cases w) (auto simp: login_fails_def am_handle_def login_signed_def split: option.split)
next
  case (AmCompleted r)
  show ?thesis
  proof (cases "json_answer B ''Passkey verification failed'' r")
    case (Inl msg)
    then show ?thesis using assms AmCompleted by (auto simp: login_fails_def am_handle_def login_completed_def)
  next
    case (Inr v)
    then have "v = JNull" using assms AmCompleted by (auto simp: login_fails_def json_answer_Inr)
    then show ?thesis using assms AmCompleted Inr by (auto simp: login_fails_def am_handle_def login_completed_def)
  qed
qed (use assms in \<open>simp_all add: login_fails_def\<close>)

text \<open>A failure to sign in is not explained to the player: whatever fails, and although the handler
  sets a message, the dialog goes back to a form that is loading again, and the effect of that clears the
  message and the address that was typed.\<close>

lemma failed_login_shows_no_message:
  assumes "am_reachable B gw s" "login_fails B s m"
  shows "am_page (fst (am_step B gw m s)) = FormPage \<and> am_submitError (fst (am_step B gw m s)) = None \<and>
    am_values (fst (am_step B gw m s)) = [] \<and> am_fieldDefs (fst (am_step B gw m s)) = None \<and>
    snd (am_step B gw m s) = [AmFetch (fields_request gw (am_action s))]"
proof -
  obtain msg where h: "am_handle B gw m s = login_fail msg s" "login_stage (am_stage s)"
    using login_fails_handle [OF assms(2)] by blast
  then have "am_page s = PasskeyPending" using am_reachable_inv [OF assms(1)] by (simp add: am_inv_def)
  then show ?thesis using h by (simp add: am_step_def login_fail_def load_fields_def Let_def)
qed

lemma failed_login_shows_no_message_witness:
  "am_page (fst (am_step ref_modal_browser ''gw'' (AmSigned NotAllowed) am_begun)) = FormPage \<and>
   am_submitError (fst (am_step ref_modal_browser ''gw'' (AmSigned NotAllowed) am_begun)) = None \<and>
   am_values (fst (am_step ref_modal_browser ''gw'' (AmSigned NotAllowed) am_begun)) = [] \<and>
   am_fieldDefs (fst (am_step ref_modal_browser ''gw'' (AmSigned NotAllowed) am_begun)) = None \<and>
   snd (am_step ref_modal_browser ''gw'' (AmSigned NotAllowed) am_begun) =
     [AmFetch (fields_request ''gw'' (am_action am_begun))]"
  by (rule failed_login_shows_no_message [OF am_begun_reachable]) (simp add: login_fails_def am_begun_stage)

text \<open>Nor is the message shown when the fields could not be loaded: without fields the form has no place
  for it.\<close>

lemma message_needs_fields:
  "am_page s = FormPage \<Longrightarrow> am_fieldDefs s = None \<Longrightarrow> am_view (s\<lparr>am_submitError := e\<rparr>) = am_view s"
  by (simp add: am_view_def form_view_def am_tab_def)

end
