(* ===== verification/JsonRoundtrip.thy ===== *)
theory JsonRoundtrip
  imports Digits
begin

text \<open>
  What \<open>JSON.stringify\<close> writes, \<open>JSON.parse\<close> reads back: for values whose numbers are integers and
  whose objects have no key twice.
\<close>

section \<open>Strings\<close>

lemma hex_digit_hex_char: "n < 16 \<Longrightarrow> hex_digit (hex_char n) = Some n"
  by (simp add: hex_digit_def hex_char_def of_char_of)

lemma assemble_Unit: "n < 128 \<Longrightarrow> assemble (Unit n # ps) = char_of n # assemble ps"
  by (cases ps rule: assemble.cases) (simp_all add: utf8_def)

text \<open>A quoted byte is one piece.\<close>

definition piece_of :: "char \<Rightarrow> piece" where
  "piece_of c =
     (let n = of_char c :: nat in
      if n < 32 \<and> n \<notin> {8, 9, 10, 12, 13} then Unit n else Plain c)"

lemma assemble_piece_of: "assemble (piece_of c # ps) = c # assemble ps"
  by (simp add: piece_of_def Let_def assemble_Unit)

lemma special_codes:
  "(of_char c :: nat) = 34 \<longleftrightarrow> c = CHR 0x22" "(of_char c :: nat) = 92 \<longleftrightarrow> c = CHR 0x5C"
  "(of_char c :: nat) = 8 \<longleftrightarrow> c = CHR 0x08" "(of_char c :: nat) = 12 \<longleftrightarrow> c = CHR 0x0C"
  "(of_char c :: nat) = 10 \<longleftrightarrow> c = CHR 0x0A" "(of_char c :: nat) = 13 \<longleftrightarrow> c = CHR 0x0D"
  "(of_char c :: nat) = 9 \<longleftrightarrow> c = CHR 0x09"
  using of_char_eq_iff [of c "CHR 0x22", where ?'a = nat] of_char_eq_iff [of c "CHR 0x5C", where ?'a = nat]
    of_char_eq_iff [of c "CHR 0x08", where ?'a = nat] of_char_eq_iff [of c "CHR 0x0C", where ?'a = nat]
    of_char_eq_iff [of c "CHR 0x0A", where ?'a = nat] of_char_eq_iff [of c "CHR 0x0D", where ?'a = nat]
    of_char_eq_iff [of c "CHR 0x09", where ?'a = nat]
  by simp_all

lemma parse_quote_char:
  "parse_pieces (quote_char c @ s) = map_option (\<lambda>(ps, q). (piece_of c # ps, q)) (parse_pieces s)"
proof (cases "c \<in> {CHR 0x22, CHR 0x5C, CHR 0x08, CHR 0x0C, CHR 0x0A, CHR 0x0D, CHR 0x09}")
  case True
  then show ?thesis by (elim insertE emptyE) (simp_all add: quote_char_def piece_of_def Let_def escape_char_def)
next
  case False
  let ?n = "of_char c :: nat"
  have ne: "c \<noteq> CHR 0x22" "c \<noteq> CHR 0x5C" using False by simp_all
  show ?thesis
  proof (cases "?n < 32")
    case True
    then have "?n div 16 < 16" "?n mod 16 < 16" by simp_all
    then have h: "hex4 CHR ''0'' CHR ''0'' (hex_char (?n div 16)) (hex_char (?n mod 16)) = Some ?n"
      by (simp add: hex4_def hex_digit_hex_char) (simp add: hex_digit_def)
    have "quote_char c = [CHR 0x5C, CHR ''u'', CHR ''0'', CHR ''0'', hex_char (?n div 16), hex_char (?n mod 16)]"
      using True False by (simp add: quote_char_def Let_def special_codes)
    moreover have "piece_of c = Unit ?n"
      using True False by (simp add: piece_of_def Let_def special_codes)
    ultimately show ?thesis using h by simp
  next
    case f: False
    then have "quote_char c = [c]" "piece_of c = Plain c"
      using False by (simp_all add: quote_char_def piece_of_def Let_def special_codes)
    then show ?thesis using f ne by simp
  qed
qed

lemma parse_quoted:
  "parse_pieces (concat (map quote_char s) @ CHR 0x22 # r) = Some (map piece_of s, r)"
  by (induction s) (simp_all add: parse_quote_char)

lemma assemble_pieces: "assemble (map piece_of s) = s"
  by (induction s) (simp_all add: assemble_piece_of)

lemma parse_string_quote: "parse_string (concat (map quote_char s) @ CHR 0x22 # r) = Some (s, r)"
  by (simp add: parse_string_def parse_quoted assemble_pieces)

section \<open>Numbers\<close>

text \<open>What may follow a number.\<close>

definition ends_number :: "string \<Rightarrow> bool" where
  "ends_number r \<longleftrightarrow> r = [] \<or> \<not> is_digit (hd r) \<and> hd r \<notin> {CHR ''.'', CHR ''e'', CHR ''E''}"

lemma digits_before_rest:
  assumes "ends_number r"
  shows "takeWhile is_digit (nat_to_string n @ r) = nat_to_string n \<and> dropWhile is_digit (nat_to_string n @ r) = r"
  using assms by (cases r) (simp_all add: ends_number_def)

lemma no_fraction: "ends_number r \<Longrightarrow> parse_fraction r = Some ([], r)"
  by (cases r) (simp_all add: ends_number_def parse_fraction_def)

lemma no_exponent: "ends_number r \<Longrightarrow> parse_exponent r = Some (0, r)"
  by (cases r) (simp_all add: ends_number_def parse_exponent_def)

lemma nat_to_string_canonical: "\<not> (hd (nat_to_string n) = CHR ''0'' \<and> 1 < length (nat_to_string n))"
proof (cases "n < 10")
  case True
  then show ?thesis by (subst (2) nat_to_string_rec) simp
next
  case False
  then show ?thesis using nat_to_string_hd [of n] by (simp add: digit_0)
qed

lemma hd_nat_to_string: "is_digit (hd (nat_to_string n))"
  using nat_to_string_digits [of n] by (simp add: list_all_iff)

lemma parse_number_nat:
  assumes "ends_number r"
  shows "parse_number (nat_to_string n @ r) = Some (JNum (of_nat n), r)"
    and "parse_number (CHR ''-'' # nat_to_string n @ r) = Some (JNum (- of_nat n), r)"
proof -
  have "hd (nat_to_string n @ r) \<noteq> CHR ''-''"
    using is_digit_not [OF hd_nat_to_string [of n]] by simp
  then show "parse_number (nat_to_string n @ r) = Some (JNum (of_nat n), r)"
    using digits_before_rest [OF assms, of n] nat_to_string_canonical [of n]
    by (simp add: parse_number_def no_fraction [OF assms] no_exponent [OF assms] Let_def)
  show "parse_number (CHR ''-'' # nat_to_string n @ r) = Some (JNum (- of_nat n), r)"
    using digits_before_rest [OF assms, of n] nat_to_string_canonical [of n]
    by (simp add: parse_number_def no_fraction [OF assms] no_exponent [OF assms] Let_def)
qed

lemma num_to_string_int:
  "num_to_string (of_int i) = (if i < 0 then CHR ''-'' # nat_to_string (nat (- i)) else nat_to_string (nat i))"
  by (simp add: num_to_string_def Let_def int_to_string_def)

lemma parse_number_int:
  assumes "ends_number r"
  shows "parse_number (num_to_string (of_int i) @ r) = Some (JNum (of_int i), r)"
  using parse_number_nat [OF assms, of "nat i"] parse_number_nat [OF assms, of "nat (- i)"]
  by (simp add: num_to_string_int)

section \<open>Values\<close>

fun plain_json :: "json \<Rightarrow> bool" where
  "plain_json (JNum r) = (r = of_int \<lfloor>r\<rfloor>)"
| "plain_json (JArr vs) = list_all plain_json vs"
| "plain_json (JObj kvs) = (distinct (map fst kvs) \<and> list_all (\<lambda>(k, v). plain_json v) kvs)"
| "plain_json _ = True"

text \<open>A writer is given by how it writes the characters of a text between quotation marks. What it writes for
  a value is otherwise that of \<open>JSON.stringify\<close>.\<close>

definition quoted :: "(string \<Rightarrow> string) \<Rightarrow> string \<Rightarrow> string" where
  "quoted body s = CHR 0x22 # body s @ [CHR 0x22]"

fun stringify_with :: "(string \<Rightarrow> string) \<Rightarrow> json \<Rightarrow> string" where
  "stringify_with body JNull = ''null''"
| "stringify_with body (JBool b) = (if b then ''true'' else ''false'')"
| "stringify_with body (JNum r) = num_to_string r"
| "stringify_with body (JStr s) = quoted body s"
| "stringify_with body (JArr vs) = ''['' @ intercalate '','' (map (stringify_with body) vs) @ '']''"
| "stringify_with body (JObj kvs) =
     ''{'' @ intercalate '','' (map (\<lambda>(k, v). quoted body k @ '':'' @ stringify_with body v) kvs) @ ''}''"

definition read_back :: "(string \<Rightarrow> string) \<Rightarrow> json \<Rightarrow> bool" where
  "read_back body j \<longleftrightarrow>
     (\<forall>r f. ends_number r \<longrightarrow> 2 * length (stringify_with body j @ r) + 1 \<le> f \<longrightarrow>
        parse_value f (stringify_with body j @ r) = Some (j, r))"

definition member_text :: "(string \<Rightarrow> string) \<Rightarrow> string \<times> json \<Rightarrow> string" where
  "member_text body kv = quoted body (fst kv) @ '':'' @ stringify_with body (snd kv)"

lemma skip_ws_Cons [simp]: "\<not> json_ws c \<Longrightarrow> skip_ws (c # s) = c # s"
  by (simp add: skip_ws_def)

lemma not_ws [simp]:
  "\<not> json_ws CHR ''{''" "\<not> json_ws CHR ''}''" "\<not> json_ws CHR ''[''" "\<not> json_ws CHR '']''"
  "\<not> json_ws CHR '',''" "\<not> json_ws CHR '':''" "\<not> json_ws CHR 0x22" "\<not> json_ws CHR ''t''"
  "\<not> json_ws CHR ''f''" "\<not> json_ws CHR ''n''" "\<not> json_ws CHR ''-''"
  by (simp_all add: json_ws_def)

lemma ends_number_sep [simp]:
  "ends_number (CHR '','' # s)" "ends_number (CHR '']'' # s)" "ends_number (CHR ''}'' # s)" "ends_number []"
  by (simp_all add: ends_number_def is_digit_def)

lemma obj_put_new: "k \<notin> fst ` set kvs \<Longrightarrow> obj_put k v kvs = kvs @ [(k, v)]"
  by (induction kvs) auto

lemma obj_of_distinct: "distinct (map fst kvs) \<Longrightarrow> obj_of kvs = kvs"
proof -
  assume "distinct (map fst kvs)"
  then have "distinct (map fst (acc @ kvs)) \<Longrightarrow> foldl (\<lambda>acc (k, v). obj_put k v acc) acc kvs = acc @ kvs" for acc
  proof (induction kvs arbitrary: acc)
    case (Cons kv kvs)
    obtain k v where kv: "kv = (k, v)" by (cases kv)
    have "obj_put k v acc = acc @ [(k, v)]" using Cons.prems by (intro obj_put_new) (auto simp: kv)
    then show ?case using Cons.IH [of "acc @ [(k, v)]"] Cons.prems by (simp add: kv)
  qed simp
  from this [of "[]"] show ?thesis using \<open>distinct (map fst kvs)\<close> by (simp add: obj_of_def)
qed

text \<open>The contract of a writer: what it writes of a text, the parser reads back. Then so it is with every
  plain value.\<close>

locale json_writer =
  fixes body :: "string \<Rightarrow> string"
  assumes read_body: "parse_string (body s @ CHR 0x22 # r) = Some (s, r)"
begin

lemma read_backD:
  "read_back body j \<Longrightarrow> ends_number r \<Longrightarrow> 2 * length (stringify_with body j @ r) + 1 \<le> f \<Longrightarrow>
    parse_value f (stringify_with body j @ r) = Some (j, r)"
  by (simp add: read_back_def)

lemma stringify_hd: "\<exists>c cs. stringify_with body j = c # cs \<and> \<not> json_ws c \<and> c \<noteq> CHR '']''"
proof (cases j)
  case (JNum r)
  have "\<exists>c cs. nat_to_string n = c # cs \<and> \<not> json_ws c \<and> c \<noteq> CHR '']''" for n
  proof -
    obtain c cs where c: "nat_to_string n = c # cs" by (cases "nat_to_string n") simp_all
    then have "is_digit c" using hd_nat_to_string [of n] by simp
    then show ?thesis using c is_digit_not [of c] by (auto simp: is_digit_def)
  qed
  then show ?thesis using JNum
    by (auto simp: num_to_string_def Let_def int_to_string_def) (metis append_Cons)+
qed (simp_all add: quoted_def)

lemma read_elems:
  assumes "vs \<noteq> []" "list_all (read_back body) vs"
    "2 * length (intercalate '','' (map (stringify_with body) vs) @ CHR '']'' # r) + 2 \<le> f"
  shows "parse_elems f (intercalate '','' (map (stringify_with body) vs) @ CHR '']'' # r) = Some (vs, r)"
  using assms
proof (induction vs arbitrary: f rule: list_nonempty_induct)
  case (single v)
  then obtain g where f: "f = Suc g" by (cases f) simp_all
  have "parse_value g (stringify_with body v @ CHR '']'' # r) = Some (v, CHR '']'' # r)"
    using single by (intro read_backD) (simp_all add: f)
  then show ?case by (simp add: f del: parse_value.simps)
next
  case (cons v vs)
  then obtain g where f: "f = Suc g" by (cases f) simp_all
  let ?rest = "intercalate '','' (map (stringify_with body) vs) @ CHR '']'' # r"
  have s: "intercalate '','' (map (stringify_with body) (v # vs)) @ CHR '']'' # r = stringify_with body v @ CHR '','' # ?rest"
    using cons.hyps by (cases vs) simp_all
  have "parse_value g (stringify_with body v @ CHR '','' # ?rest) = Some (v, CHR '','' # ?rest)"
    using cons.prems unfolding s by (intro read_backD) (simp_all add: f)
  moreover have "parse_elems g ?rest = Some (vs, r)"
    using cons.prems unfolding s by (intro cons.IH) (simp_all add: f)
  ultimately show ?case unfolding s by (simp add: f del: parse_value.simps)
qed

lemma member_text_eq:
  "member_text body (k, v) @ r = CHR 0x22 # (body k @ CHR 0x22 # CHR '':'' # stringify_with body v @ r)"
  by (simp add: member_text_def quoted_def)

lemma read_members:
  assumes "kvs \<noteq> []" "list_all (\<lambda>(k, v). read_back body v) kvs"
    "2 * length (intercalate '','' (map (member_text body) kvs) @ CHR ''}'' # r) + 1 \<le> f"
  shows "parse_members f (intercalate '','' (map (member_text body) kvs) @ CHR ''}'' # r) = Some (kvs, r)"
  using assms
proof (induction kvs arbitrary: f rule: list_nonempty_induct)
  case (single kv)
  obtain k v where kv: "kv = (k, v)" by (cases kv)
  obtain g where f: "f = Suc g" using single by (cases f) simp_all
  have "parse_value g (stringify_with body v @ CHR ''}'' # r) = Some (v, CHR ''}'' # r)"
    using single by (intro read_backD) (simp_all add: f kv member_text_eq)
  then show ?case
    by (simp add: f kv member_text_eq read_body del: parse_value.simps)
next
  case (cons kv kvs)
  obtain k v where kv: "kv = (k, v)" by (cases kv)
  obtain g where f: "f = Suc g" using cons by (cases f) simp_all
  let ?rest = "intercalate '','' (map (member_text body) kvs) @ CHR ''}'' # r"
  have s: "intercalate '','' (map (member_text body) (kv # kvs)) @ CHR ''}'' # r =
      CHR 0x22 # (body k @ CHR 0x22 # CHR '':'' # stringify_with body v @ CHR '','' # ?rest)"
    using cons.hyps member_text_eq [of k v "CHR '','' # ?rest"] by (cases kvs) (simp_all add: kv)
  have "parse_value g (stringify_with body v @ CHR '','' # ?rest) = Some (v, CHR '','' # ?rest)"
    using cons.prems unfolding s by (intro read_backD) (simp_all add: f kv)
  moreover have "parse_members g ?rest = Some (kvs, r)"
    using cons.prems unfolding s by (intro cons.IH) (simp_all add: f kv)
  ultimately show ?case unfolding s
    by (simp add: f kv read_body del: parse_value.simps)
qed

lemma stringify_obj: "stringify_with body (JObj kvs) = ''{'' @ intercalate '','' (map (member_text body) kvs) @ ''}''"
  by (simp add: member_text_def [abs_def] case_prod_beta')

lemma read_atom:
  assumes "\<And>r g. ends_number r \<Longrightarrow> parse_value (Suc g) (stringify_with body j @ r) = Some (j, r)"
  shows "read_back body j"
  unfolding read_back_def
proof (intro allI impI)
  fix r f assume "ends_number r" "2 * length (stringify_with body j @ r) + 1 \<le> f"
  then show "parse_value f (stringify_with body j @ r) = Some (j, r)" using assms [of r "f - 1"] by (cases f) simp_all
qed

lemma plain_read_back: "plain_json j \<Longrightarrow> read_back body j"
proof (induction j)
  case JNull
  show ?case by (rule read_atom) (simp add: literal_def starts_with_def)
next
  case (JBool b)
  show ?case by (rule read_atom) (simp add: literal_def starts_with_def)
next
  case (JNum x)
  then obtain i where x: "x = of_int i" by (metis plain_json.simps(1))
  show ?case
  proof (rule read_atom)
    fix r :: string and g assume r: "ends_number r"
    obtain c cs where c: "stringify_with body (JNum x) = c # cs" "\<not> json_ws c" using stringify_hd by blast
    have "c = CHR ''-'' \<or> is_digit c"
      using c(1) hd_nat_to_string [of "nat i"] by (auto simp: x num_to_string_int split: if_splits)
    then have "c \<notin> {CHR ''{'', CHR ''['', CHR 0x22, CHR ''t'', CHR ''f'', CHR ''n''}"
      by (auto simp: is_digit_def)
    then have "parse_value (Suc g) (stringify_with body (JNum x) @ r) = parse_number (stringify_with body (JNum x) @ r)"
      using c by simp
    then show "parse_value (Suc g) (stringify_with body (JNum x) @ r) = Some (JNum x, r)"
      using parse_number_int [OF r, of i] by (simp add: x)
  qed
next
  case (JStr s)
  show ?case by (rule read_atom) (simp add: quoted_def read_body)
next
  case (JArr vs)
  show ?case
    unfolding read_back_def
  proof (intro allI impI)
    fix r f assume f: "2 * length (stringify_with body (JArr vs) @ r) + 1 \<le> f"
    then obtain g where g: "f = Suc g" by (cases f) simp_all
    show "parse_value f (stringify_with body (JArr vs) @ r) = Some (JArr vs, r)"
    proof (cases vs)
      case (Cons v ws)
      let ?s = "intercalate '','' (map (stringify_with body) vs) @ CHR '']'' # r"
      have "list_all (read_back body) vs" using JArr by (simp add: list_all_iff)
      then have e: "parse_elems g ?s = Some (vs, r)" using f Cons by (intro read_elems) (simp_all add: g)
      obtain c cs where c: "?s = c # cs" "\<not> json_ws c" "c \<noteq> CHR '']''"
        using stringify_hd [of v] by (cases ws) (auto simp: Cons)
      show ?thesis using e c by (simp add: g del: parse_elems.simps)
    qed (simp add: g)
  qed
next
  case (JObj kvs)
  show ?case
    unfolding read_back_def
  proof (intro allI impI)
    fix r f assume f: "2 * length (stringify_with body (JObj kvs) @ r) + 1 \<le> f"
    then obtain g where g: "f = Suc g" by (cases f) simp_all
    show "parse_value f (stringify_with body (JObj kvs) @ r) = Some (JObj kvs, r)"
    proof (cases kvs)
      case (Cons kv ws)
      let ?s = "intercalate '','' (map (member_text body) kvs) @ CHR ''}'' # r"
      have "list_all (\<lambda>(k, v). read_back body v) kvs" using JObj by (auto simp: list_all_iff)
      then have e: "parse_members g ?s = Some (kvs, r)"
        using f Cons unfolding stringify_obj by (intro read_members) (simp_all add: g)
      obtain cs where c: "?s = CHR 0x22 # cs"
        using member_text_eq [of "fst kv" "snd kv"] by (cases ws) (simp_all add: Cons)
      have "obj_of kvs = kvs" using JObj.prems by (simp add: obj_of_distinct)
      then show ?thesis using e c unfolding stringify_obj by (simp add: g del: parse_members.simps)
    qed (simp add: g)
  qed
qed

text \<open>The round trip.\<close>

lemma parse_written: "plain_json j \<Longrightarrow> JSON_parse (stringify_with body j) = Some j"
  using read_backD [OF plain_read_back [of j], of "[]" "2 * length (stringify_with body j) + 2"]
  by (simp add: JSON_parse_def skip_ws_def del: parse_value.simps)

end

text \<open>\<open>JSON.stringify\<close> is such a writer.\<close>

interpretation js_writer: json_writer "\<lambda>s. concat (map quote_char s)"
  by unfold_locales (rule parse_string_quote)

lemma stringify_js: "JSON_stringify j = stringify_with (\<lambda>s. concat (map quote_char s)) j"
proof (induction j)
  case (JArr vs)
  then have "map JSON_stringify vs = map (stringify_with (\<lambda>s. concat (map quote_char s))) vs" by simp
  then show ?case by (simp only: JSON_stringify.simps stringify_with.simps)
next
  case (JObj kvs)
  then have "map (\<lambda>(k, v). JSON_quote k @ '':'' @ JSON_stringify v) kvs =
      map (\<lambda>(k, v). quoted (\<lambda>s. concat (map quote_char s)) k @ '':'' @ stringify_with (\<lambda>s. concat (map quote_char s)) v) kvs"
    by (auto simp: JSON_quote_def quoted_def)
  then show ?case by (simp only: JSON_stringify.simps stringify_with.simps)
qed (simp_all add: JSON_quote_def quoted_def)

lemma parse_stringify: "plain_json j \<Longrightarrow> JSON_parse (JSON_stringify j) = Some j"
  unfolding stringify_js by (rule js_writer.parse_written)

end
