(* ===== verification/UiSession.thy ===== *)
theory UiSession
  imports UiHistory JsonRoundtrip
begin

text \<open>
  The session of the UI and its copy in the browser's storage (\<open>loadSession\<close>, \<open>saveSession\<close> in
  \<open>ui/src/App.tsx\<close>). The values of a session come from answers of the auth service and from the
  storage, so they may be any JSON value; of \<open>expiresAt\<close> the code uses only the number it converts to.
\<close>

section \<open>Session\<close>

record session =
  se_accessToken :: "json option"
  se_playerId :: "json option"
  se_playerName :: "json option"
  se_email :: "json option"
  se_expiresAt :: jsnum

record auth_result =
  ar_accessToken :: "json option"
  ar_expiresIn :: jsnum
  ar_playerId :: "json option"
  ar_playerName :: "json option"
  ar_email :: "json option"

definition auth_result_of :: "json \<Rightarrow> auth_result" where
  "auth_result_of j =
     \<lparr>ar_accessToken = get_prop j ''accessToken'', ar_expiresIn = js_to_number (get_prop j ''expiresIn''),
      ar_playerId = get_prop j ''playerId'', ar_playerName = get_prop j ''playerName'',
      ar_email = get_prop j ''email''\<rparr>"

definition session_of :: "json \<Rightarrow> session" where
  "session_of j =
     \<lparr>se_accessToken = get_prop j ''accessToken'', se_playerId = get_prop j ''playerId'',
      se_playerName = get_prop j ''playerName'', se_email = get_prop j ''email'',
      se_expiresAt = js_to_number (get_prop j ''expiresAt'')\<rparr>"

section \<open>The storage\<close>

text \<open>The value under the key of the session, if there is one. A value that is not truthy counts as
  no session; \<open>null\<close> makes the check of the expiry throw, which is caught.\<close>

definition loadSession :: "int \<Rightarrow> string option \<Rightarrow> session option \<times> string option" where
  "loadSession now storage =
     (case storage of
        None \<Rightarrow> (None, storage)
      | Some raw \<Rightarrow>
          if raw = [] then (None, storage)
          else
            (case JSON_parse raw of
               None \<Rightarrow> (None, storage)
             | Some s \<Rightarrow>
                 if s = JNull then (None, storage)
                 else if num_less (se_expiresAt (session_of s)) (Some (of_int now)) then (None, None)
                 else (if js_truthy s then Some (session_of s) else None, storage)))"

definition num_json :: "jsnum \<Rightarrow> json" where
  "num_json n = (case n of None \<Rightarrow> JNull | Some x \<Rightarrow> JNum x)"

definition session_json :: "session \<Rightarrow> json" where
  "session_json s =
     jobj [(''accessToken'', se_accessToken s), (''playerId'', se_playerId s),
           (''playerName'', se_playerName s), (''email'', se_email s),
           (''expiresAt'', Some (num_json (se_expiresAt s)))]"

definition saveSession :: "int \<Rightarrow> auth_result \<Rightarrow> session \<times> string" where
  "saveSession now d =
     (let s = \<lparr>se_accessToken = ar_accessToken d, se_playerId = ar_playerId d,
               se_playerName = ar_playerName d, se_email = ar_email d,
               se_expiresAt = map_option (\<lambda>e. of_int now + e * 1000) (ar_expiresIn d)\<rparr>
      in (s, JSON_stringify (session_json s)))"

section \<open>Round trip\<close>

definition is_text :: "json option \<Rightarrow> bool" where
  "is_text v = (case v of Some (JStr s) \<Rightarrow> True | _ \<Rightarrow> False)"

definition is_int :: "jsnum \<Rightarrow> bool" where
  "is_int n = (case n of Some x \<Rightarrow> x = of_int \<lfloor>x\<rfloor> | None \<Rightarrow> False)"

text \<open>The values the type \<open>AuthResult\<close> declares, with a whole number of seconds.\<close>

definition typed_result :: "auth_result \<Rightarrow> bool" where
  "typed_result d \<longleftrightarrow>
     is_text (ar_accessToken d) \<and> is_text (ar_playerId d) \<and> is_text (ar_playerName d) \<and>
     is_text (ar_email d) \<and> is_int (ar_expiresIn d)"

definition typed_session :: "session \<Rightarrow> bool" where
  "typed_session s \<longleftrightarrow>
     is_text (se_accessToken s) \<and> is_text (se_playerId s) \<and> is_text (se_playerName s) \<and>
     is_text (se_email s) \<and> is_int (se_expiresAt s)"

lemma is_textE: "is_text v \<Longrightarrow> (\<And>s. v = Some (JStr s) \<Longrightarrow> P) \<Longrightarrow> P"
  by (auto simp: is_text_def split: option.splits json.splits)

lemma is_intE: "is_int n \<Longrightarrow> (\<And>i. n = Some (of_int i) \<Longrightarrow> P) \<Longrightarrow> P"
  by (auto simp: is_int_def split: option.splits)

lemma typed_saved: "typed_result d \<Longrightarrow> typed_session (fst (saveSession now d))"
proof -
  assume d: "typed_result d"
  then obtain i where "ar_expiresIn d = Some (of_int i)" unfolding typed_result_def by (blast elim: is_intE)
  then have "map_option (\<lambda>e. of_int now + e * 1000) (ar_expiresIn d) = Some (of_int (now + i * 1000))" by simp
  then have "is_int (map_option (\<lambda>e. of_int now + e * 1000) (ar_expiresIn d))" by (simp only: is_int_def) simp
  then show ?thesis using d by (simp add: typed_session_def typed_result_def saveSession_def Let_def)
qed

lemma typed_session_json:
  assumes "typed_session s"
  obtains a p n m e where
    "session_json s = JObj [(''accessToken'', JStr a), (''playerId'', JStr p), (''playerName'', JStr n),
       (''email'', JStr m), (''expiresAt'', JNum (of_int e))]"
    "s = \<lparr>se_accessToken = Some (JStr a), se_playerId = Some (JStr p), se_playerName = Some (JStr n),
       se_email = Some (JStr m), se_expiresAt = Some (of_int e)\<rparr>"
proof -
  obtain a p n m e where s: "se_accessToken s = Some (JStr a)" "se_playerId s = Some (JStr p)"
    "se_playerName s = Some (JStr n)" "se_email s = Some (JStr m)" "se_expiresAt s = Some (of_int e)"
    using assms unfolding typed_session_def by (meson is_intE is_textE)
  show ?thesis
    using s by (intro that) (simp_all add: session_json_def jobj_def num_json_def List.map_filter_simps,
      cases s, simp)
qed

lemma JSON_stringify_obj_nonempty: "JSON_stringify (JObj kvs) \<noteq> []"
  by simp

lemma loadSession_typed:
  assumes "typed_session s"
  shows "loadSession now (Some (JSON_stringify (session_json s))) =
     (if num_less (se_expiresAt s) (Some (of_int now)) then (None, None)
      else (Some s, Some (JSON_stringify (session_json s))))"
proof -
  obtain a p n m e where j: "session_json s = JObj [(''accessToken'', JStr a), (''playerId'', JStr p),
       (''playerName'', JStr n), (''email'', JStr m), (''expiresAt'', JNum (of_int e))]"
    and s: "s = \<lparr>se_accessToken = Some (JStr a), se_playerId = Some (JStr p), se_playerName = Some (JStr n),
       se_email = Some (JStr m), se_expiresAt = Some (of_int e)\<rparr>"
    using assms by (rule typed_session_json)
  have "JSON_parse (JSON_stringify (session_json s)) = Some (session_json s)"
    by (rule parse_stringify) (simp add: j)
  moreover have "session_of (session_json s) = s"
    unfolding j using s by (simp add: session_of_def get_prop_def)
  moreover have "JSON_stringify (session_json s) \<noteq> []"
    unfolding j by (rule JSON_stringify_obj_nonempty)
  moreover have "session_json s \<noteq> JNull" "js_truthy (session_json s)" by (simp_all add: j)
  ultimately show ?thesis by (simp add: loadSession_def)
qed

text \<open>C36. A session saved when a player signs in is found again, unchanged, by every load until the time
  at which its token expires; after that time a load finds none and clears the storage.\<close>

theorem session_roundtrip:
  assumes "typed_result d" "ar_expiresIn d = Some secs"
  shows "loadSession later (Some (snd (saveSession now d))) =
     (if of_int now + secs * 1000 < of_int later then (None, None)
      else (Some (fst (saveSession now d)), Some (snd (saveSession now d))))"
  using loadSession_typed [OF typed_saved [OF assms(1), of now], of later] assms(2)
  by (simp add: saveSession_def Let_def num_less_def)

definition ref_result :: auth_result where
  "ref_result = \<lparr>ar_accessToken = Some (JStr ''tok''), ar_expiresIn = Some 3600, ar_playerId = Some (JStr ''p1''),
     ar_playerName = Some (JStr ''Ann''), ar_email = Some (JStr ''ann@x.org'')\<rparr>"

lemma session_roundtrip_witness:
  "loadSession 3000000 (Some (snd (saveSession 5 ref_result))) =
     (if of_int 5 + 3600 * 1000 < (of_int 3000000 :: rat) then (None, None)
      else (Some (fst (saveSession 5 ref_result)), Some (snd (saveSession 5 ref_result))))"
  by (rule session_roundtrip) (simp_all add: ref_result_def typed_result_def is_text_def is_int_def)

end
