(* ===== verification/UiApp.thy ===== *)
theory UiApp
  imports UiTable UiPanel UiTransactions UiEnrollment UiAuthModal UiSession "HOL-Library.Word"
begin

text \<open>
  The application (\<open>ui/src/App.tsx\<close>): its state, with those of the components it shows, its handlers and
  effects, and its view. A step handles one message: a click, an answer, an event of a stream or a timer.
  Then the effects whose dependencies have changed run; they may change the state once more, which is
  why there are two rounds of them. A suspended handler continues with the message of its answer.
\<close>

section \<open>State\<close>

record enrollment =
  ep_bootstrapToken :: "json option"
  ep_playerId :: "json option"
  ep_playerName :: "json option"
  ep_email :: "json option"

text \<open>\<open>a_playerTable\<close> is \<open>Some JNull\<close> for \<open>null\<close>, and \<open>None\<close> for \<open>undefined\<close>.\<close>

record app =
  a_session :: "session option"
  a_storage :: "string option"
  a_modal :: "auth_modal option"
  a_enrollment :: "(enrollment \<times> enroll) option"
  a_tx :: "tx_state option"
  a_balance :: "jsnum option"
  a_demoToken :: json
  a_playerTable :: "json option"
  a_showRestock :: bool
  a_restocking :: bool
  a_demoPaused :: bool
  a_hook :: hook
  a_timer :: "int option"
  a_bet :: "jsnum option"
  a_history :: bool
  a_drawer :: "bool \<times> panel"

record app_config =
  u_gateway :: string
  u_browser :: browser_text

definition DEMO_TABLE_ID :: string where
  "DEMO_TABLE_ID = ''demo-table-00000000-0000-0000-0000-000000000001''"

definition DEMO_PLAYER :: json where
  "DEMO_PLAYER = JStr ''player-00000000-0000-0000-0000-000000000001''"

subsection \<open>Derived values\<close>

definition app_tableId :: "app \<Rightarrow> string" where
  "app_tableId a = js_to_string (js_nullish (a_playerTable a) (JStr DEMO_TABLE_ID))"

definition app_isDemo :: "app \<Rightarrow> bool" where
  "app_isDemo a \<longleftrightarrow> a_playerTable a = Some JNull"

definition session_playerId :: "app \<Rightarrow> json option" where
  "session_playerId a = (case a_session a of None \<Rightarrow> None | Some s \<Rightarrow> se_playerId s)"

definition session_token :: "app \<Rightarrow> json option" where
  "session_token a = (case a_session a of None \<Rightarrow> None | Some s \<Rightarrow> se_accessToken s)"

definition app_playerId :: "app \<Rightarrow> json" where
  "app_playerId a = (if app_isDemo a then DEMO_PLAYER else js_nullish (session_playerId a) DEMO_PLAYER)"

definition app_token :: "app \<Rightarrow> json option" where
  "app_token a = (if app_isDemo a then Some (a_demoToken a) else session_token a)"

definition app_hook_config :: "app_config \<Rightarrow> app \<Rightarrow> hook_config" where
  "app_hook_config c a =
     \<lparr>hc_gateway = u_gateway c, hc_tableId = app_tableId a, hc_playerId = Some (app_playerId a), hc_token = app_token a\<rparr>"

text \<open>The state of the game, if there is one of the declared type.\<close>

definition app_game :: "app \<Rightarrow> game_state option" where
  "app_game a = Option.bind (h_gameState (a_hook a)) game_state_of"

definition app_me :: "app \<Rightarrow> string option" where
  "app_me a =
     (if app_isDemo a then None else (case session_playerId a of Some (JStr i) \<Rightarrow> Some i | _ \<Rightarrow> None))"

definition app_bank :: "app \<Rightarrow> jsnum option" where
  "app_bank a = (if app_isDemo a then None else a_balance a)"

section \<open>Messages\<close>

datatype app_msg =
    DrawerM drawer_event
  | HistoryM history_msg
  | TableM table_msg
  | ModalM am_msg
  | EnrollM enroll_msg
  | TxM tx_msg
  | ToggleDemo
  | DevReset bool
  | OpenTx
  | OpenModal
  | StartGame
  | BackToDemo
  | SignOut
  | Restock
  | DismissRestock
  | HookM hook_event
  | GotDemoToken response
  | GotBalance response
  | GotBalanceUpdate string
  | GotExchange response
  | GotGame response
  | GotRestock response
  | GotPause response
  | GotReset response
  | GotTransactions tx_answer
  | GotExport export_answer
  | ExpiryTimer

datatype app_cmd =
    DoFetch fetch
  | DoRegister json
  | DoAuthenticate json
  | DoSave "string \<times> string"

section \<open>Requests\<close>

definition demo_token_request :: "app_config \<Rightarrow> fetch" where
  "demo_token_request c =
     \<lparr>f_method = ''GET'', f_url = u_gateway c @ ''/dev/demo-token'', f_headers = [], f_body = None\<rparr>"

text \<open>\<open>fetchBalance\<close>: nothing without a player.\<close>

definition balance_player :: "app \<Rightarrow> json option" where
  "balance_player a = (if app_isDemo a then Some DEMO_PLAYER else session_playerId a)"

definition balance_request :: "app_config \<Rightarrow> app \<Rightarrow> app_cmd list" where
  "balance_request c a =
     (case balance_player a of
        None \<Rightarrow> []
      | Some p \<Rightarrow>
          if \<not> js_truthy p then []
          else [DoFetch \<lparr>f_method = ''GET'',
                  f_url = u_gateway c @ ''/api/bank/balance?playerId='' @ encodeURIComponent (js_to_string p),
                  f_headers = token_header (app_token a), f_body = None\<rparr>])"

definition session_bearer :: "session \<Rightarrow> (string \<times> string) list" where
  "session_bearer s = bearer_header (index_text (se_accessToken s))"

definition create_request :: "app_config \<Rightarrow> session \<Rightarrow> fetch" where
  "create_request c s =
     \<lparr>f_method = ''POST'', f_url = u_gateway c @ ''/api/game/create'',
      f_headers = content_json @ session_bearer s,
      f_body = Some (jobj [(''playerId'', se_playerId s), (''playerName'', se_playerName s)])\<rparr>"

definition deposit_request :: "app_config \<Rightarrow> session \<Rightarrow> fetch" where
  "deposit_request c s =
     \<lparr>f_method = ''POST'', f_url = u_gateway c @ ''/api/bank/deposit'',
      f_headers = content_json @ session_bearer s,
      f_body = Some (jobj [(''playerId'', se_playerId s), (''amount'', Some (JStr ''1000.00''))])\<rparr>"

definition exchange_request :: "string \<Rightarrow> fetch" where
  "exchange_request code =
     \<lparr>f_method = ''POST'', f_url = ''/api/auth/exchange'', f_headers = content_json,
      f_body = Some (JObj [(''code'', JStr code)])\<rparr>"

definition post_empty :: "string \<Rightarrow> fetch" where
  "post_empty url = \<lparr>f_method = ''POST'', f_url = url, f_headers = [], f_body = None\<rparr>"

definition tx_player :: "app \<Rightarrow> json" where
  "tx_player a = (if app_isDemo a then DEMO_PLAYER else js_nullish (session_playerId a) (JStr []))"

definition tx_token :: "app \<Rightarrow> string" where
  "tx_token a =
     js_to_string (if app_isDemo a then a_demoToken a else js_nullish (session_token a) (JStr []))"

section \<open>Handlers\<close>

text \<open>\<open>setSession(saveSession(data))\<close>.\<close>

definition sign_in :: "int \<Rightarrow> json \<Rightarrow> app \<Rightarrow> app" where
  "sign_in now result a =
     (let (s, raw) = saveSession now (auth_result_of result)
      in a\<lparr>a_session := Some s, a_storage := Some raw\<rparr>)"

definition open_modal :: "app_config \<Rightarrow> app \<Rightarrow> app \<times> app_cmd list" where
  "open_modal c a =
     (case a_modal a of
        Some _ \<Rightarrow> (a, [])
      | None \<Rightarrow> (a\<lparr>a_modal := Some (fst (load_fields (u_gateway c) am_init))\<rparr>,
                 [DoFetch (fields_request (u_gateway c) Login)]))"

fun modal_out :: "int \<Rightarrow> am_out \<Rightarrow> app \<times> app_cmd list \<Rightarrow> app \<times> app_cmd list" where
  "modal_out now (AmFetch f) (a, cs) = (a, cs @ [DoFetch f])"
| "modal_out now (StartAuthentication j) (a, cs) = (a, cs @ [DoAuthenticate j])"
| "modal_out now (SignedIn result) (a, cs) = ((sign_in now result a)\<lparr>a_modal := None\<rparr>, cs)"
| "modal_out now Closed (a, cs) = (a\<lparr>a_modal := None\<rparr>, cs)"

definition handle_modal :: "app_config \<Rightarrow> int \<Rightarrow> am_msg \<Rightarrow> app \<Rightarrow> app \<times> app_cmd list" where
  "handle_modal c now m a =
     (case a_modal a of
        None \<Rightarrow> (a, [])
      | Some s \<Rightarrow>
          (let (s', outs) = am_step (u_browser c) (u_gateway c) m s
           in fold (modal_out now) outs (a\<lparr>a_modal := Some s'\<rparr>, [])))"

text \<open>The end of the enrolment closes the dialog before it reads the answer.\<close>

fun enroll_out :: "int \<Rightarrow> enroll_out \<Rightarrow> app \<times> app_cmd list \<Rightarrow> app \<times> app_cmd list" where
  "enroll_out now (EnrollFetch f) (a, cs) = (a, cs @ [DoFetch f])"
| "enroll_out now (StartRegistration j) (a, cs) = (a, cs @ [DoRegister j])"
| "enroll_out now (Enrolled result) (a, cs) =
     (let a1 = a\<lparr>a_enrollment := None\<rparr> in (if result = JNull then a1 else sign_in now result a1, cs))"

definition handle_enroll :: "app_config \<Rightarrow> int \<Rightarrow> enroll_msg \<Rightarrow> app \<Rightarrow> app \<times> app_cmd list" where
  "handle_enroll c now m a =
     (case a_enrollment a of
        None \<Rightarrow> (a, [])
      | Some (ep, s) \<Rightarrow>
          (let (s', outs) = enroll_step (u_browser c) (u_gateway c) (index_text (ep_bootstrapToken ep)) m s
           in fold (enroll_out now) outs (a\<lparr>a_enrollment := Some (ep, s')\<rparr>, [])))"

definition got_exchange :: "int \<Rightarrow> response \<Rightarrow> app \<Rightarrow> app" where
  "got_exchange now r a =
     (case r of
        NetworkError \<Rightarrow> a
      | Answer st text \<Rightarrow>
          (case JSON_parse text of
             None \<Rightarrow> a
           | Some data \<Rightarrow>
               if data = JNull then a
               else if truthy_at data ''requiresEnrollment'' \<and> truthy_at data ''bootstrapToken'' then
                 (let ep = \<lparr>ep_bootstrapToken = get_prop data ''bootstrapToken'',
                            ep_playerId = get_prop data ''playerId'', ep_playerName = get_prop data ''playerName'',
                            ep_email = get_prop data ''email''\<rparr>
                  in a\<lparr>a_enrollment := Some (ep, case a_enrollment a of None \<Rightarrow> enroll_start | Some (_, s) \<Rightarrow> s)\<rparr>)
               else if truthy_at data ''accessToken'' then sign_in now data a
               else a))"

definition got_demo_token :: "response \<Rightarrow> app \<Rightarrow> app" where
  "got_demo_token r a =
     (case ok_json r of
        None \<Rightarrow> a
      | Some d \<Rightarrow>
          (case get_prop d ''accessToken'' of
             Some t \<Rightarrow> if js_truthy t then a\<lparr>a_demoToken := t\<rparr> else a
           | None \<Rightarrow> a))"

definition got_balance :: "response \<Rightarrow> app \<Rightarrow> app" where
  "got_balance r a =
     (case ok_json r of
        None \<Rightarrow> a
      | Some d \<Rightarrow>
          (case get_prop d ''balance'' of
             None \<Rightarrow> a
           | Some b \<Rightarrow> a\<lparr>a_balance := Some (js_to_number (Some b))\<rparr>))"

text \<open>The stream of balances is watched for the player of the view; an event of another player is
  ignored.\<close>

definition strict_eq :: "json option \<Rightarrow> json option \<Rightarrow> bool" where
  "strict_eq x y \<longleftrightarrow> x = y \<and> (case x of Some (JArr _) \<Rightarrow> False | Some (JObj _) \<Rightarrow> False | _ \<Rightarrow> True)"

definition got_balance_update :: "string \<Rightarrow> app \<Rightarrow> app" where
  "got_balance_update data a =
     (case balance_player a of
        None \<Rightarrow> a
      | Some p \<Rightarrow>
          if \<not> js_truthy p then a
          else
            (case JSON_parse data of
               None \<Rightarrow> a
             | Some evt \<Rightarrow>
                 if evt = JNull then a
                 else if strict_eq (get_prop evt ''playerId'') (Some p)
                   then a\<lparr>a_balance := Some (js_to_number (get_prop evt ''balance''))\<rparr>
                 else a))"

definition got_game :: "response \<Rightarrow> app \<Rightarrow> app" where
  "got_game r a =
     (case ok_json r of
        None \<Rightarrow> a
      | Some d \<Rightarrow>
          if d = JNull then a else a\<lparr>a_playerTable := get_prop d ''tableId'', a_showRestock := False\<rparr>)"

text \<open>Any answer counts as a deposit.\<close>

definition got_restock :: "response \<Rightarrow> app \<Rightarrow> app" where
  "got_restock r a =
     (case r of
        NetworkError \<Rightarrow> a\<lparr>a_restocking := False\<rparr>
      | Answer st text \<Rightarrow> a\<lparr>a_showRestock := False, a_balance := Some (Some 1000), a_restocking := False\<rparr>)"

definition got_pause :: "response \<Rightarrow> app \<Rightarrow> app" where
  "got_pause r a =
     (case any_json r of
        None \<Rightarrow> a
      | Some d \<Rightarrow> if d = JNull then a else a\<lparr>a_demoPaused := truthy_at d ''paused''\<rparr>)"

definition got_reset :: "response \<Rightarrow> app \<Rightarrow> app" where
  "got_reset r a =
     (case any_json r of
        None \<Rightarrow> a
      | Some d \<Rightarrow> a\<lparr>a_storage := None, a_session := None, a_enrollment := None, a_playerTable := Some JNull\<rparr>)"

definition handle_tx :: "app_config \<Rightarrow> tx_msg \<Rightarrow> app \<Rightarrow> app \<times> app_cmd list" where
  "handle_tx c m a =
     (case a_tx a of
        None \<Rightarrow> (a, [])
      | Some s \<Rightarrow>
          (case m of
             TxClose \<Rightarrow> (a\<lparr>a_tx := None\<rparr>, [])
           | TxDownload \<Rightarrow>
               (a\<lparr>a_tx := Some (download_start s)\<rparr>,
                [DoFetch (tx_export_request (u_gateway c) (js_to_string (tx_player a)) (tx_token a))])))"

definition open_tx :: "app_config \<Rightarrow> app \<Rightarrow> app \<times> app_cmd list" where
  "open_tx c a =
     (case a_tx a of
        Some _ \<Rightarrow> (a, [])
      | None \<Rightarrow> (a\<lparr>a_tx := Some tx_start\<rparr>,
                 [DoFetch (tx_list_request (u_gateway c) (js_to_string (tx_player a)) (tx_token a))]))"

definition handle_table :: "app_config \<Rightarrow> table_msg \<Rightarrow> app \<Rightarrow> app \<times> app_cmd list" where
  "handle_table c m a =
     (case m of
        Act act amount \<Rightarrow> (a, [DoFetch (action_request (app_hook_config c a) act amount)])
      | _ \<Rightarrow> (a\<lparr>a_bet := map_option (bet_step m) (a_bet a)\<rparr>, []))"

fun app_handle :: "app_config \<Rightarrow> int \<Rightarrow> app_msg \<Rightarrow> app \<Rightarrow> app \<times> app_cmd list" where
  "app_handle c now (DrawerM e) a = (a\<lparr>a_drawer := drawer_step e (a_drawer a)\<rparr>, [])"
| "app_handle c now (HistoryM (HistoryOpen b)) a = (a\<lparr>a_history := b\<rparr>, [])"
| "app_handle c now (TableM m) a = handle_table c m a"
| "app_handle c now (ModalM m) a = handle_modal c now m a"
| "app_handle c now (EnrollM m) a = handle_enroll c now m a"
| "app_handle c now (TxM m) a = handle_tx c m a"
| "app_handle c now ToggleDemo a = (a, [DoFetch (post_empty (u_gateway c @ ''/api/game/demo/pause''))])"
| "app_handle c now (DevReset confirmed) a = (a, if confirmed then [DoFetch (post_empty ''/dev/reset'')] else [])"
| "app_handle c now OpenTx a = open_tx c a"
| "app_handle c now OpenModal a = open_modal c a"
| "app_handle c now StartGame a =
     (a, case a_session a of None \<Rightarrow> [] | Some s \<Rightarrow> [DoFetch (create_request c s)])"
| "app_handle c now BackToDemo a = (a\<lparr>a_playerTable := Some JNull, a_showRestock := False\<rparr>, [])"
| "app_handle c now SignOut a = (a\<lparr>a_storage := None, a_session := None, a_playerTable := Some JNull\<rparr>, [])"
| "app_handle c now Restock a =
     (case a_session a of
        None \<Rightarrow> (a, [])
      | Some s \<Rightarrow> (a\<lparr>a_restocking := True\<rparr>, [DoFetch (deposit_request c s)]))"
| "app_handle c now DismissRestock a = (a\<lparr>a_showRestock := False\<rparr>, [])"
| "app_handle c now (HookM e) a = (a\<lparr>a_hook := hook_step (u_browser c) e (a_hook a)\<rparr>, [])"
| "app_handle c now (GotDemoToken r) a = (got_demo_token r a, [])"
| "app_handle c now (GotBalance r) a = (got_balance r a, [])"
| "app_handle c now (GotBalanceUpdate d) a = (got_balance_update d a, [])"
| "app_handle c now (GotExchange r) a = (got_exchange now r a, [])"
| "app_handle c now (GotGame r) a = (got_game r a, [])"
| "app_handle c now (GotRestock r) a = (got_restock r a, [])"
| "app_handle c now (GotPause r) a = (got_pause r a, [])"
| "app_handle c now (GotReset r) a = (got_reset r a, [])"
| "app_handle c now (GotTransactions r) a = (a\<lparr>a_tx := map_option (tx_loaded r) (a_tx a)\<rparr>, [])"
| "app_handle c now (GotExport r) a =
     (case a_tx a of
        None \<Rightarrow> (a, [])
      | Some s \<Rightarrow>
          (let (s', file) = download_done r now s
           in (a\<lparr>a_tx := Some s'\<rparr>, case file of None \<Rightarrow> [] | Some f \<Rightarrow> [DoSave f])))"
| "app_handle c now ExpiryTimer a =
     (case a_timer a of
        Some d \<Rightarrow> if d \<le> now then (a\<lparr>a_session := None\<rparr>, []) else (a, [])
      | None \<Rightarrow> (a, []))"

section \<open>Effects\<close>

text \<open>The phase of the game, as the effect of the restock depends on it.\<close>

definition app_phase :: "app \<Rightarrow> json option" where
  "app_phase a = (case h_gameState (a_hook a) of None \<Rightarrow> None | Some g \<Rightarrow> get_prop g ''phase'')"

definition hook_effect :: "app \<Rightarrow> app \<Rightarrow> app" where
  "hook_effect old a = (if app_tableId old \<noteq> app_tableId a then a\<lparr>a_hook := hook_reset\<rparr> else a)"

text \<open>\<open>setTimeout\<close> takes its delay modulo \<open>2 ^ 32\<close>, as a signed number; a negative delay is none.\<close>

definition timer_delay :: "rat \<Rightarrow> int" where
  "timer_delay ms = max 0 (sint (word_of_int \<lfloor>ms\<rfloor> :: 32 word))"

definition expiry :: "int \<Rightarrow> app \<Rightarrow> app" where
  "expiry now a =
     (case a_session a of
        None \<Rightarrow> a\<lparr>a_timer := None\<rparr>
      | Some s \<Rightarrow>
          (case se_expiresAt s of
             None \<Rightarrow> a\<lparr>a_timer := Some now\<rparr>
           | Some e \<Rightarrow>
               if e - of_int now \<le> 0 then a\<lparr>a_session := None, a_timer := None\<rparr>
               else a\<lparr>a_timer := Some (now + timer_delay (e - of_int now))\<rparr>))"

definition expiry_effect :: "int \<Rightarrow> app \<Rightarrow> app \<Rightarrow> app" where
  "expiry_effect now old a = (if a_session old \<noteq> a_session a then expiry now a else a)"

definition out_of_chips :: "app \<Rightarrow> bool" where
  "out_of_chips a \<longleftrightarrow>
     \<not> app_isDemo a \<and> app_phase a = Some (JStr ''waiting'') \<and>
     (case a_balance a of Some b \<Rightarrow> num_le b (Some 0) | None \<Rightarrow> False)"

definition restock_effect :: "app \<Rightarrow> app \<Rightarrow> app \<Rightarrow> app" where
  "restock_effect old new a =
     (if (app_phase old, app_isDemo old, a_balance old) \<noteq> (app_phase new, app_isDemo new, a_balance new) \<and>
         out_of_chips new
      then a\<lparr>a_showRestock := True\<rparr> else a)"

definition balance_effect :: "app_config \<Rightarrow> app \<Rightarrow> app \<Rightarrow> app_cmd list" where
  "balance_effect c old a =
     (if (a_session old, a_playerTable old, app_isDemo old, app_token old) \<noteq>
         (a_session a, a_playerTable a, app_isDemo a, app_token a)
      then balance_request c a else [])"

definition tx_effect :: "app_config \<Rightarrow> app \<Rightarrow> app \<Rightarrow> app_cmd list" where
  "tx_effect c old a =
     (if a_tx old \<noteq> None \<and> a_tx a \<noteq> None \<and> tx_player old \<noteq> tx_player a
      then [DoFetch (tx_list_request (u_gateway c) (js_to_string (tx_player a)) (tx_token a))] else [])"

text \<open>The bet panel is there while a game of one's own waits for a bet.\<close>

definition bet_sync :: "app \<Rightarrow> app" where
  "bet_sync a =
     (case app_game a of
        Some g \<Rightarrow>
          if \<not> app_isDemo a \<and> g_phase g = GWaiting \<and> my_player False (app_me a) (g_players g) \<noteq> None
          then (case a_bet a of None \<Rightarrow> a\<lparr>a_bet := Some (bet_start (g_maxBet g))\<rparr> | Some _ \<Rightarrow> a)
          else a\<lparr>a_bet := None\<rparr>
      | None \<Rightarrow> a\<lparr>a_bet := None\<rparr>)"

definition effects :: "app_config \<Rightarrow> int \<Rightarrow> app \<Rightarrow> app \<Rightarrow> app \<times> app_cmd list" where
  "effects c now old a =
     (restock_effect old a (expiry_effect now old (hook_effect old a)),
      tx_effect c old a @ balance_effect c old a)"

definition app_step :: "app_config \<Rightarrow> int \<Rightarrow> app_msg \<Rightarrow> app \<Rightarrow> app \<times> app_cmd list" where
  "app_step c now m a =
     (let (a1, cs1) = app_handle c now m a; (a2, cs2) = effects c now a a1; (a3, cs3) = effects c now a1 a2
      in (bet_sync a3, cs1 @ cs2 @ cs3))"

section \<open>Start\<close>

definition app_init :: "session option \<Rightarrow> string option \<Rightarrow> app" where
  "app_init s storage =
     \<lparr>a_session = s, a_storage = storage, a_modal = None, a_enrollment = None, a_tx = None, a_balance = None,
      a_demoToken = JStr [], a_playerTable = Some JNull, a_showRestock = False, a_restocking = False,
      a_demoPaused = False, a_hook = hook_reset, a_timer = None, a_bet = None, a_history = False,
      a_drawer = (False, panel_start)\<rparr>"

definition app_boot :: "app_config \<Rightarrow> int \<Rightarrow> string option \<Rightarrow> string option \<Rightarrow> app \<times> app_cmd list" where
  "app_boot c now storage code =
     (let (s, storage') = loadSession now storage;
          a0 = app_init s storage'; a1 = expiry now a0; (a2, cs) = effects c now a0 a1
      in (a2, [DoFetch (demo_token_request c)] @ balance_request c a0 @
              (case code of None \<Rightarrow> [] | Some x \<Rightarrow> if x = [] then [] else [DoFetch (exchange_request x)]) @ cs))"

section \<open>View\<close>

text \<open>The formats of the browser's locale.\<close>

record locale_text =
  u_number :: "jsnum \<Rightarrow> string"
  u_time :: "string \<Rightarrow> string"
  u_hour :: "string \<Rightarrow> string"
  u_date :: "string \<Rightarrow> string"
  u_time_json :: "json option \<Rightarrow> string"

definition session_text :: "(session \<Rightarrow> json option) \<Rightarrow> app \<Rightarrow> string" where
  "session_text f a = (case a_session a of None \<Rightarrow> [] | Some s \<Rightarrow> child_text (f s))"

definition app_table :: "app \<Rightarrow> table_msg view" where
  "app_table a =
     game_table (the (app_game a)) (app_me a) (app_isDemo a) (app_bank a)
       (case a_bet a of Some b \<Rightarrow> b | None \<Rightarrow> None)"

definition app_enroll_view :: "enrollment \<times> enroll \<Rightarrow> enroll_msg view" where
  "app_enroll_view e = enroll_view (child_text (ep_playerName (fst e))) (child_text (ep_email (fst e))) (snd e)"

definition round_of :: "snapshot \<Rightarrow> round_snapshot option" where
  "round_of s =
     Option.bind (Option.bind (s_players s) (\<lambda>j. case j of JArr vs \<Rightarrow> all_some (map player_of vs) | _ \<Rightarrow> None)) (\<lambda>ps.
     Option.bind (Option.bind (s_dealer s) dealer_of) (\<lambda>d.
       Some \<lparr>r_id = s_id s, r_timestamp = child_text (s_timestamp s), r_players = ps, r_dealer = d\<rparr>))"

definition app_rounds :: "app \<Rightarrow> round_snapshot list" where
  "app_rounds a = List.map_filter round_of (h_rounds (a_hook a))"

definition app_header :: "locale_text \<Rightarrow> app \<Rightarrow> app_msg view" where
  "app_header U a =
  El ''div'' [Style [(''display'', ''flex''), (''alignItems'', ''center''),
    (''justifyContent'', ''space-between'')]]
    [El ''div'' []
       [El ''h1'' [Style [(''margin'', ''0''), (''fontSize'', ''1.4rem''), (''color'', ''#58a6ff''),
           (''letterSpacing'', ''2''), (''textTransform'', ''uppercase'')]]
          [Txt ''TCA Blackjack''],
        El ''div'' [Style [(''fontSize'', ''0.65rem''), (''color'', ''#8b949e''),
            (''letterSpacing'', ''1'')]]
          [Txt (''Polyglot Microservices '' @ utf8 183 @ '' Zero Trust '' @ utf8 183 @ '' PoC'')]],
     El ''div'' [Style [(''display'', ''flex''), (''alignItems'', ''center''), (''gap'', ''12'')]]
       ([El ''div'' [Style [(''display'', ''flex''), (''alignItems'', ''center''), (''gap'', ''6'')]]
          [El ''div'' [Style ([(''width'', ''8''), (''height'', ''8''), (''borderRadius'', ''50%''),
              (''background'', (if h_connected (a_hook a) then ''#38a169'' else ''#e53e3e''))]
              @ (if h_connected (a_hook a) then [(''boxShadow'', ''0 0 8px #38a169'')] else []))]
             [],
           El ''span'' [Style [(''fontSize'', ''0.7rem''), (''color'', ''#8b949e'')]]
             [Txt (if h_connected (a_hook a) then ''Connected'' else ''Connecting...'')]],
        El ''button'' [On ''click'' ToggleDemo,
           Attr ''title'' ''Pause/resume demo loop'',
           Style ([(''padding'', ''5px 10px''), (''background'', ''none''),
               (''border'', (''1px solid '' @ (if a_demoPaused a then ''#2d5a27'' else ''#1a3a2a''))),
               (''borderRadius'', ''6''), (''color'', (if a_demoPaused a then ''#68d391''
               else ''#4a6a5a'')), (''fontSize'', ''0.68rem''), (''cursor'', ''pointer'')])]
          [Txt (if a_demoPaused a then (utf8 9654 @ '' Demo'') else (utf8 9208 @ '' Demo''))],
        El ''button'' [On ''click'' (DevReset True),
           Attr ''title'' ''DEV: wipe all accounts'',
           Style [(''padding'', ''5px 10px''), (''background'', ''none''),
               (''border'', ''1px solid #4a1515''), (''borderRadius'', ''6''),
               (''color'', ''#6b2929''), (''fontSize'', ''0.68rem''), (''cursor'', ''pointer'')]]
          [Txt (utf8 9888 @ '' Reset DB'')]] @
       (if a_session a \<noteq> None
        then [El ''div'' [Style [(''display'', ''flex''), (''alignItems'', ''center''),
            (''gap'', ''10'')]]
            ([El ''div'' [Style ([(''display'', ''flex''), (''alignItems'', ''center''),
                (''gap'', ''6''), (''background'', ''#1a2535''),
                (''border'', (''1px solid '' @ (if app_isDemo a then ''#f59e0b44''
                else ''#1f6feb44''))), (''borderRadius'', ''8''), (''padding'', ''5px 12px'')])]
               ([El ''span'' [Style [(''fontSize'', ''0.9rem'')]]
                  [Txt (utf8 129689)],
                El ''span'' [Style [(''fontSize'', ''0.85rem''), (''fontWeight'', ''700''),
                    (''color'', (if a_balance a \<noteq> None then ''#ecc94b'' else ''#4a5568'')),
                    (''fontFamily'', ''monospace''), (''letterSpacing'', ''0.5'')]]
                  [Txt (if a_balance a \<noteq> None then u_number U (the (a_balance a))
                      else (utf8 183 @ utf8 183 @ utf8 183))]] @
               (if app_isDemo a
                then [El ''span'' [Style [(''fontSize'', ''0.55rem''), (''fontWeight'', ''700''),
                    (''color'', ''#f59e0b''), (''letterSpacing'', ''1''), (''marginLeft'', ''2'')]]
                    [Txt ''DEMO'']]
                else [])),
             El ''button'' [On ''click'' OpenTx,
                Style [(''padding'', ''5px 10px''), (''background'', ''none''),
                    (''border'', ''1px solid #30363d''), (''borderRadius'', ''6''),
                    (''color'', ''#8b949e''), (''fontSize'', ''0.72rem''), (''cursor'', ''pointer'')]]
               [Txt ''Transactions'']] @
            (if app_isDemo a
             then [El ''button'' [On ''click'' StartGame,
                  Style [(''padding'', ''6px 14px''),
                      (''background'', ''linear-gradient(135deg, #1f6feb22, #38a16922)''),
                      (''border'', ''1px solid #38a169''), (''borderRadius'', ''6''),
                      (''color'', ''#68d391''), (''fontSize'', ''0.75rem''), (''fontWeight'', ''700''),
                      (''cursor'', ''pointer''), (''letterSpacing'', ''0.5''),
                      (''whiteSpace'', ''nowrap'')]]
                 [Txt (utf8 9654 @ '' Start Your Game'')]]
             else [El ''button'' [On ''click'' BackToDemo,
                  Style [(''padding'', ''6px 14px''), (''background'', ''none''),
                      (''border'', ''1px solid #38a169''), (''borderRadius'', ''6''),
                      (''color'', ''#38a169''), (''fontSize'', ''0.72rem''),
                      (''cursor'', ''pointer'')]]
                 [Txt (utf8 9679 @ '' YOUR GAME'')]]) @
            [El ''div'' [Style [(''textAlign'', ''right'')]]
               [El ''div'' [Style [(''fontSize'', ''0.78rem''), (''color'', ''#e2e8f0''),
                   (''fontWeight'', ''600'')]]
                  [Txt (session_text se_playerName a)],
                El ''div'' [Style [(''fontSize'', ''0.65rem''), (''color'', ''#8b949e'')]]
                  [Txt (session_text se_email a)]],
             El ''button'' [On ''click'' SignOut,
                Style [(''padding'', ''5px 12px''), (''background'', ''none''),
                    (''border'', ''1px solid #30363d''), (''borderRadius'', ''6''),
                    (''color'', ''#8b949e''), (''fontSize'', ''0.72rem''), (''cursor'', ''pointer'')]]
               [Txt ''Sign out'']])]
        else [El ''button'' [On ''click'' OpenModal,
             Style [(''padding'', ''7px 16px''), (''background'', ''#1f6feb22''),
                 (''border'', ''1px solid #1f6feb''), (''borderRadius'', ''8''),
                 (''color'', ''#58a6ff''), (''fontWeight'', ''600''), (''fontSize'', ''0.8rem''),
                 (''cursor'', ''pointer''), (''letterSpacing'', ''0.5'')]]
            [Txt ''Login / Register'']]))]"

definition app_restock :: "app \<Rightarrow> app_msg view" where
  "app_restock a =
  El ''div'' [Style [(''position'', ''fixed''), (''inset'', ''0''),
    (''background'', ''rgba(0,0,0,0.75)''), (''display'', ''flex''), (''alignItems'', ''center''),
    (''justifyContent'', ''center''), (''zIndex'', ''500'')]]
    [El ''div'' [Style [(''background'', ''#161b22''), (''border'', ''1px solid #30363d''),
        (''borderRadius'', ''16''), (''padding'', ''32px 40px''), (''textAlign'', ''center''),
        (''maxWidth'', ''360'')]]
       [El ''div'' [Style [(''fontSize'', ''2rem''), (''marginBottom'', ''12'')]]
          [Txt (utf8 129689)],
        El ''div'' [Style [(''fontSize'', ''1.1rem''), (''fontWeight'', ''700''),
            (''color'', ''#e2e8f0''), (''marginBottom'', ''8'')]]
          [Txt ''Out of chips!''],
        El ''div'' [Style [(''fontSize'', ''0.85rem''), (''color'', ''#8b949e''),
            (''marginBottom'', ''24'')]]
          [Txt ''Get $1,000 in chips to keep playing.''],
        El ''div'' [Style [(''display'', ''flex''), (''gap'', ''10''),
            (''justifyContent'', ''center'')]]
          [El ''button'' [On ''click'' Restock,
              Disabled (a_restocking a),
              Style [(''padding'', ''10px 24px''),
                  (''background'', ''linear-gradient(135deg, #1f6feb22, #38a16922)''),
                  (''border'', ''1px solid #38a169''), (''borderRadius'', ''8''),
                  (''color'', ''#68d391''), (''fontWeight'', ''700''), (''cursor'', ''pointer''),
                  (''fontSize'', ''0.9rem'')]]
             [Txt (if a_restocking a then ''Getting chips...'' else ''Get $1,000'')],
           El ''button'' [On ''click'' DismissRestock,
              Style [(''padding'', ''10px 24px''), (''background'', ''none''),
                  (''border'', ''1px solid #30363d''), (''borderRadius'', ''8''),
                  (''color'', ''#8b949e''), (''cursor'', ''pointer''), (''fontSize'', ''0.9rem'')]]
             [Txt ''Not now'']]]]"

definition app_view :: "locale_text \<Rightarrow> app \<Rightarrow> app_msg view" where
  "app_view U a =
  El ''div'' [Style ([(''minHeight'', ''100vh''), (''background'', ''#0d1117''),
    (''color'', ''#e6edf3''), (''fontFamily'', ([CHR 0x27] @ ''Segoe UI'' @ [CHR 0x27]
    @ '', system-ui, sans-serif'')), (''padding'', ''16px''), (''display'', ''flex''),
    (''flexDirection'', ''column''), (''gap'', ''16''), (''maxWidth'', ''960''),
    (''margin'', ''0 auto'')])]
    ((map (map_view DrawerM) (drawer_view (u_time_json U) (fst (a_drawer a)) (snd (a_drawer a)))) @
    ([app_header U a]) @
    (if has_text (h_error (a_hook a))
     then [El ''div'' [Style [(''background'', ''#fc818144''), (''color'', ''#fc8181''),
         (''border'', ''1px solid #fc818166''), (''padding'', ''8px 16px''), (''borderRadius'', ''6''),
         (''fontSize'', ''0.8rem''), (''fontWeight'', ''600'')]]
         [Txt (the (h_error (a_hook a)))]]
     else []) @
    (if app_game a \<noteq> None
     then [map_view TableM (app_table a)]
     else [El ''div'' [Style [(''background'',
         ''radial-gradient(ellipse at center, #1a4731 0%, #0d2818 100%)''), (''borderRadius'', ''24''),
         (''padding'', ''48''), (''textAlign'', ''center''),
         (''border'', ''3px solid rgba(255,255,255,0.1)'')]]
         [El ''div'' [Style [(''color'', ''#68d391''), (''fontSize'', ''1.5rem''),
             (''marginBottom'', ''8'')]]
            [Txt (utf8 10227)],
          El ''div'' [Style [(''color'', ''#a0aec0'')]]
            [Txt ''Connecting to game state service...'']]]) @
    (if app_game a \<noteq> None
     then [El ''div'' [Style [(''display'', ''flex''), (''gap'', ''16''), (''fontSize'', ''0.65rem''),
         (''color'', ''#4a5568''), (''fontFamily'', ''monospace''), (''flexWrap'', ''wrap'')]]
         ([El ''span'' []
            [Txt ''Table: '',
             Txt (take 16 (g_tableId (the (app_game a)))),
             Txt ''...''],
          El ''span'' []
            [Txt ''Phase: '',
             Txt (phase_name (g_phase (the (app_game a))))],
          El ''span'' []
            [Txt ''By: '',
             El ''strong'' [Style [(''color'', ''#38a169'')]]
               [Txt (g_handledBy (the (app_game a)))]],
          El ''span'' []
            [Txt (u_time U (g_timestamp (the (app_game a))))]] @
         (if ((\<not> app_isDemo a) \<and> a_session a \<noteq> None)
          then [El ''span'' [Style [(''color'', ''#58a6ff'')]]
              [Txt (utf8 9679 @ '' ''),
               Txt (session_text se_playerName a)]]
          else []))]
     else []) @
    (if a_modal a \<noteq> None
     then [map_view ModalM (am_view (the (a_modal a)))]
     else []) @
    (if a_enrollment a \<noteq> None
     then [map_view EnrollM (app_enroll_view (the (a_enrollment a)))]
     else []) @
    (if a_tx a \<noteq> None
     then [map_view TxM (tx_view (u_date U) (app_isDemo a) (the (a_tx a)))]
     else []) @
    (if a_showRestock a \<and> a_session a \<noteq> None then [app_restock a] else []) @
    (map (map_view HistoryM) (history_view (u_hour U) (a_history a) (app_isDemo a) (app_rounds a))))"

end
