(* ===== verification/UiAppProps.thy ===== *)
theory UiAppProps
  imports UiApp
begin

text \<open>
  Properties of the application as a whole: its effects settle, the session in memory and the one in the
  storage agree, the session ends when its token does, and what a click at the table sends.
\<close>

section \<open>Effects\<close>

lemma effect_frames [simp]:
  "a_session (hook_effect old a) = a_session a" "a_storage (hook_effect old a) = a_storage a"
  "a_timer (hook_effect old a) = a_timer a" "a_playerTable (hook_effect old a) = a_playerTable a"
  "a_balance (hook_effect old a) = a_balance a" "a_demoToken (hook_effect old a) = a_demoToken a"
  "a_tx (hook_effect old a) = a_tx a" "a_enrollment (hook_effect old a) = a_enrollment a"
  "a_session (restock_effect old new a) = a_session a" "a_storage (restock_effect old new a) = a_storage a"
  "a_timer (restock_effect old new a) = a_timer a" "a_playerTable (restock_effect old new a) = a_playerTable a"
  "a_balance (restock_effect old new a) = a_balance a" "a_demoToken (restock_effect old new a) = a_demoToken a"
  "a_tx (restock_effect old new a) = a_tx a" "a_enrollment (restock_effect old new a) = a_enrollment a"
  "a_hook (restock_effect old new a) = a_hook a"
  by (simp_all add: hook_effect_def restock_effect_def)

lemma expiry_frames [simp]:
  "a_storage (expiry now a) = a_storage a" "a_playerTable (expiry now a) = a_playerTable a"
  "a_balance (expiry now a) = a_balance a" "a_demoToken (expiry now a) = a_demoToken a"
  "a_tx (expiry now a) = a_tx a" "a_enrollment (expiry now a) = a_enrollment a"
  "a_hook (expiry now a) = a_hook a" "a_showRestock (expiry now a) = a_showRestock a"
  by (simp_all add: expiry_def split: option.split)

lemma expiry_session: "a_session (expiry now a) = a_session a \<or> a_session (expiry now a) = None"
  by (simp add: expiry_def split: option.split)

lemma expiry_effect_frames [simp]:
  "a_storage (expiry_effect now old a) = a_storage a" "a_playerTable (expiry_effect now old a) = a_playerTable a"
  "a_balance (expiry_effect now old a) = a_balance a" "a_demoToken (expiry_effect now old a) = a_demoToken a"
  "a_tx (expiry_effect now old a) = a_tx a" "a_enrollment (expiry_effect now old a) = a_enrollment a"
  "a_hook (expiry_effect now old a) = a_hook a" "a_showRestock (expiry_effect now old a) = a_showRestock a"
  by (simp_all add: expiry_effect_def)

lemma bet_sync_frames [simp]:
  "a_session (bet_sync a) = a_session a" "a_storage (bet_sync a) = a_storage a" "a_timer (bet_sync a) = a_timer a"
  "a_playerTable (bet_sync a) = a_playerTable a" "a_enrollment (bet_sync a) = a_enrollment a"
  "a_balance (bet_sync a) = a_balance a" "a_showRestock (bet_sync a) = a_showRestock a"
  "a_demoToken (bet_sync a) = a_demoToken a" "a_hook (bet_sync a) = a_hook a"
  by (simp_all add: bet_sync_def split: option.split)

lemma derived_cong:
  assumes "a_playerTable a = a_playerTable b"
  shows "app_tableId a = app_tableId b" "app_isDemo a = app_isDemo b"
  using assms by (simp_all add: app_tableId_def app_isDemo_def)

lemma effects_none:
  assumes "a_session a = a_session b" "a_playerTable a = a_playerTable b" "a_demoToken a = a_demoToken b"
    "a_balance a = a_balance b" "app_phase a = app_phase b"
  shows "effects c now a b = (b, [])"
  using assms derived_cong [OF assms(2)]
  by (simp add: effects_def hook_effect_def expiry_effect_def restock_effect_def tx_effect_def balance_effect_def
      app_token_def session_token_def tx_player_def session_playerId_def)

lemma effects_fst_frames [simp]:
  "a_storage (fst (effects c now old a)) = a_storage a"
  "a_playerTable (fst (effects c now old a)) = a_playerTable a"
  "a_balance (fst (effects c now old a)) = a_balance a"
  "a_demoToken (fst (effects c now old a)) = a_demoToken a"
  "a_enrollment (fst (effects c now old a)) = a_enrollment a"
  by (simp_all add: effects_def)

lemma effects_session: "a_session (fst (effects c now old a)) = a_session a \<or> a_session (fst (effects c now old a)) = None"
  using expiry_session [of now "hook_effect old a"] by (auto simp: effects_def expiry_effect_def)

lemma expiry_None: "a_session a = None \<Longrightarrow> a_session (expiry now a) = None"
  by (simp add: expiry_def)

lemma effects_hook:
  "a_hook (fst (effects c now old a)) = (if app_tableId old \<noteq> app_tableId a then hook_reset else a_hook a)"
  by (simp add: effects_def hook_effect_def)


section \<open>What a click at the table sends\<close>

lemma table_act:
  assumes "Act act amount \<in> set (clicks (game_table g me isDemo bal bet))"
  obtains p where "\<not> isDemo" "my_player isDemo me (g_players g) = Some p"
    "act = Bet \<longrightarrow> (\<exists>x k. amount = Some (Some x) \<and> table_chips bal p = Some k \<and>
       g_minBet g \<le> x \<and> x \<le> g_maxBet g \<and> x \<le> k)"
proof (cases "my_player isDemo me (g_players g)")
  case (Some p)
  then show ?thesis using assms that [of p]
    by (auto simp: clicks_game_table canBet_def num_le_iff num_min_iff split: if_splits)
qed (use assms in \<open>simp add: clicks_game_table\<close>)


text \<open>A table that waits for the bet of its player, with 50 in the panel.\<close>

definition ref_game :: json where
  "ref_game = JObj [(''tableId'', JStr ''t1''), (''phase'', JStr ''waiting''),
     (''players'', JArr [JObj [(''id'', JStr ''p1''), (''name'', JStr ''Ann''), (''chips'', JNum 500),
        (''currentBet'', JNum 0), (''hand'', JArr []), (''handValue'', JNum 0), (''isSoftHand'', JBool False),
        (''status'', JStr ''waiting'')]]),
     (''dealer'', JObj [(''hand'', JArr []), (''handValue'', JNum 0), (''isRevealed'', JBool False)]),
     (''activePlayerId'', JNull), (''minBet'', JNum 10), (''maxBet'', JNum 100), (''handledBy'', JStr ''h''),
     (''timestamp'', JStr ''t'')]"

definition ref_betting :: app where
  "ref_betting = (app_init None None)\<lparr>a_playerTable := Some (JStr ''t1''), a_balance := Some (Some 80),
     a_bet := Some (Some 50), a_hook := hook_reset\<lparr>h_gameState := Some ref_game\<rparr>\<rparr>"

lemma ref_betting_game:
  "app_game ref_betting = Some \<lparr>g_tableId = ''t1'', g_phase = GWaiting,
     g_players = [\<lparr>p_id = ''p1'', p_name = ''Ann'', p_chips = 500, p_currentBet = 0, p_hand = [], p_handValue = 0,
                   p_isSoftHand = False, p_status = PWaiting\<rparr>],
     g_dealer = \<lparr>d_hand = [], d_handValue = 0, d_isRevealed = False\<rparr>, g_activePlayerId = None,
     g_minBet = 10, g_maxBet = 100, g_handledBy = ''h'', g_timestamp = ''t''\<rparr>"
  by code_simp

lemma ref_betting_offers: "Act Bet (Some (Some 50)) \<in> set (clicks (app_table ref_betting))"
  by (simp add: app_table_def ref_betting_game clicks_game_table)
    (simp add: ref_betting_def app_init_def app_isDemo_def app_me_def session_playerId_def my_player_def
      nth_opt_def canBet_def table_chips_def app_bank_def num_min_def num_le_def)


section \<open>The session and its copy in the storage\<close>

text \<open>Answers that sign a player in have the type that the auth service gives them; \<open>EndToEnd\<close> proves it of
  the service.\<close>

definition typed_answer :: "string \<Rightarrow> bool" where
  "typed_answer text \<longleftrightarrow>
     (case JSON_parse text of
        None \<Rightarrow> True
      | Some j \<Rightarrow> truthy_at j ''accessToken'' \<longrightarrow> typed_result (auth_result_of j))"

definition session_answer :: "string \<Rightarrow> bool" where
  "session_answer text \<longleftrightarrow>
     (case JSON_parse text of None \<Rightarrow> True | Some j \<Rightarrow> j = JNull \<or> typed_result (auth_result_of j))"

fun typed_msg :: "app_msg \<Rightarrow> bool" where
  "typed_msg (GotExchange (Answer st text)) = typed_answer text"
| "typed_msg (ModalM (AmCompleted (Answer st text))) = (resp_ok st \<longrightarrow> session_answer text)"
| "typed_msg (EnrollM (EnrollCompleted (Answer st text))) = (resp_ok st \<longrightarrow> session_answer text)"
| "typed_msg _ = True"

inductive app_reachable :: "app_config \<Rightarrow> app \<Rightarrow> bool" for c where
  boot: "app_reachable c (fst (app_boot c now storage code))"
| step: "app_reachable c a \<Longrightarrow> typed_msg m \<Longrightarrow> app_reachable c (fst (app_step c now m a))"

definition expired :: "session \<Rightarrow> int \<Rightarrow> bool" where
  "expired s now \<longleftrightarrow> num_less (se_expiresAt s) (Some (of_int now))"

definition keeps_session :: "app \<Rightarrow> bool" where
  "keeps_session a \<longleftrightarrow>
     (\<forall>s later. a_session a = Some s \<and> \<not> expired s later \<longrightarrow> loadSession later (a_storage a) = (Some s, a_storage a))"

definition timer_ok :: "app \<Rightarrow> bool" where
  "timer_ok a \<longleftrightarrow>
     (\<forall>s. a_session a = Some s \<longrightarrow>
        (\<exists>d. a_timer a = Some d \<and> (\<forall>e. se_expiresAt s = Some e \<longrightarrow> of_int d \<le> e)))"

definition enroll_typed :: "app \<Rightarrow> bool" where
  "enroll_typed a \<longleftrightarrow>
     (\<forall>ep s r. a_enrollment a = Some (ep, s) \<and> en_stage s = AwaitClose r \<longrightarrow>
        r = JNull \<or> typed_result (auth_result_of r))"

text \<open>What a handler may do to the session: nothing, end it, or start a new one, saved.\<close>

definition session_change :: "app \<Rightarrow> app \<Rightarrow> bool" where
  "session_change a b \<longleftrightarrow>
     a_session b = a_session a \<and> a_storage b = a_storage a \<or> a_session b = None \<or>
     (\<exists>now r. typed_result (auth_result_of r) \<and>
        a_session b = Some (fst (saveSession now (auth_result_of r))) \<and>
        a_storage b = Some (snd (saveSession now (auth_result_of r))))"

lemma session_change_same [simp]:
  "a_session b = a_session a \<Longrightarrow> a_storage b = a_storage a \<Longrightarrow> session_change a b"
  "a_session b = None \<Longrightarrow> session_change a b"
  by (simp_all add: session_change_def)

lemma session_change_keeps:
  assumes "session_change a b" "keeps_session a"
  shows "keeps_session b"
  using assms(1) unfolding session_change_def
proof (elim disjE exE conjE)
  fix now r
  assume t: "typed_result (auth_result_of r)" and s: "a_session b = Some (fst (saveSession now (auth_result_of r)))"
    and raw: "a_storage b = Some (snd (saveSession now (auth_result_of r)))"
  have "snd (saveSession now (auth_result_of r)) = JSON_stringify (session_json (fst (saveSession now (auth_result_of r))))"
    by (simp add: saveSession_def Let_def)
  then show ?thesis using loadSession_typed [OF typed_saved [OF t, of now]] s raw
    by (simp add: keeps_session_def expired_def)
qed (use assms(2) in \<open>simp_all add: keeps_session_def\<close>)

lemma sign_in_change: "typed_result (auth_result_of r) \<Longrightarrow> session_change a (sign_in now r b)"
  unfolding session_change_def sign_in_def by (auto simp: case_prod_beta)

lemma sign_in_frames [simp]:
  "a_timer (sign_in now r a) = a_timer a" "a_enrollment (sign_in now r a) = a_enrollment a"
  "a_modal (sign_in now r a) = a_modal a"
  by (simp_all add: sign_in_def case_prod_beta)

lemma session_change_update [simp]:
  "session_change a (b\<lparr>a_modal := x\<rparr>) = session_change a b"
  "session_change a (b\<lparr>a_enrollment := y\<rparr>) = session_change a b"
  by (simp_all add: session_change_def)

subsection \<open>The dialogs\<close>

lemma load_fields_out: "SignedIn r \<notin> set (snd (load_fields gw s))"
  by (simp add: load_fields_def)

lemma am_step_signed:
  assumes "SignedIn r \<in> set (snd (am_step B gw m s))"
  shows "\<exists>st text. m = AmCompleted (Answer st text) \<and> resp_ok st \<and> JSON_parse text = Some r \<and> r \<noteq> JNull"
proof -
  have "SignedIn r \<in> set (snd (am_handle B gw m s))"
    using assms load_fields_out by (auto simp: am_step_def Let_def case_prod_beta split: if_splits)
  then show ?thesis
    by (cases m) (auto simp: am_handle_def register_submit_def login_submit_def login_begun_def login_signed_def
        login_completed_def login_fail_def Let_def json_answer_Inr
        split: if_splits sum.splits option.splits webauthn.splits am_stage.splits)
qed

lemma modal_outs:
  assumes "\<forall>r. SignedIn r \<in> set outs \<longrightarrow> typed_result (auth_result_of r)" "session_change a (fst st)"
  shows "session_change a (fst (fold (modal_out now) outs st)) \<and>
    a_timer (fst (fold (modal_out now) outs st)) = a_timer (fst st) \<and>
    a_enrollment (fst (fold (modal_out now) outs st)) = a_enrollment (fst st)"
  using assms
proof (induction outs arbitrary: st)
  case (Cons out outs)
  obtain b cs where st: "st = (b, cs)" by (cases st)
  have "session_change a (fst (modal_out now out st)) \<and> a_timer (fst (modal_out now out st)) = a_timer (fst st) \<and>
      a_enrollment (fst (modal_out now out st)) = a_enrollment (fst st)"
    using Cons.prems by (cases out) (simp_all add: st sign_in_change)
  then show ?case using Cons.IH [of "modal_out now out st"] Cons.prems(1) by simp
qed simp

lemma handle_modal_frame:
  assumes "typed_msg (ModalM m)"
  shows "session_change a (fst (handle_modal c now m a)) \<and> a_timer (fst (handle_modal c now m a)) = a_timer a \<and>
    a_enrollment (fst (handle_modal c now m a)) = a_enrollment a"
proof (cases "a_modal a")
  case (Some s)
  let ?r = "am_step (u_browser c) (u_gateway c) m s"
  have "\<forall>r. SignedIn r \<in> set (snd ?r) \<longrightarrow> typed_result (auth_result_of r)"
    using assms am_step_signed by (fastforce simp: session_answer_def)
  from modal_outs [OF this, of a "(a\<lparr>a_modal := Some (fst ?r)\<rparr>, [])" now]
  show ?thesis by (simp add: handle_modal_def Some case_prod_beta)
qed (simp add: handle_modal_def)

lemma enroll_step_out:
  "Enrolled r \<in> set (snd (enroll_step B gw tok m s)) \<Longrightarrow> en_stage s = AwaitClose r"
  by (cases m) (auto simp: enroll_fail_def split: if_splits sum.splits webauthn.splits option.splits enroll_stage.splits)

lemma enroll_step_close:
  "en_stage (fst (enroll_step B gw tok m s)) = AwaitClose r \<Longrightarrow>
    en_stage s = AwaitClose r \<or> (\<exists>st text. m = EnrollCompleted (Answer st text) \<and> resp_ok st \<and> JSON_parse text = Some r)"
  by (cases m) (auto simp: enroll_fail_def json_answer_Inr
      split: if_splits sum.splits webauthn.splits option.splits enroll_stage.splits)

lemma enroll_outs:
  assumes "\<forall>r. Enrolled r \<in> set outs \<longrightarrow> r = JNull \<or> typed_result (auth_result_of r)" "session_change a (fst st)"
  shows "session_change a (fst (fold (enroll_out now) outs st)) \<and>
    a_timer (fst (fold (enroll_out now) outs st)) = a_timer (fst st) \<and>
    a_enrollment (fst (fold (enroll_out now) outs st)) \<in> {a_enrollment (fst st), None}"
  using assms
proof (induction outs arbitrary: st)
  case (Cons out outs)
  obtain b cs where st: "st = (b, cs)" by (cases st)
  have "session_change a (fst (enroll_out now out st)) \<and> a_timer (fst (enroll_out now out st)) = a_timer (fst st) \<and>
      a_enrollment (fst (enroll_out now out st)) \<in> {a_enrollment (fst st), None}"
    using Cons.prems by (cases out) (auto simp: st sign_in_change Let_def)
  then show ?case using Cons.IH [of "enroll_out now out st"] Cons.prems(1) by auto
qed simp

lemma handle_enroll_frame:
  assumes "typed_msg (EnrollM m)" "enroll_typed a"
  shows "session_change a (fst (handle_enroll c now m a)) \<and> a_timer (fst (handle_enroll c now m a)) = a_timer a \<and>
    enroll_typed (fst (handle_enroll c now m a))"
proof (cases "a_enrollment a")
  case (Some es)
  obtain ep s where es: "es = (ep, s)" by (cases es)
  let ?r = "enroll_step (u_browser c) (u_gateway c) (index_text (ep_bootstrapToken ep)) m s"
  let ?b = "a\<lparr>a_enrollment := Some (ep, fst ?r)\<rparr>"
  have "\<forall>r. Enrolled r \<in> set (snd ?r) \<longrightarrow> r = JNull \<or> typed_result (auth_result_of r)"
    using assms(2) enroll_step_out Some es by (fastforce simp: enroll_typed_def)
  note outs = enroll_outs [OF this, of a "(?b, [])" now, simplified]
  have "enroll_typed ?b"
    using assms enroll_step_close [of "u_browser c" "u_gateway c" "index_text (ep_bootstrapToken ep)" m s] Some es
    by (fastforce simp: enroll_typed_def session_answer_def)
  then show ?thesis using outs
    by (auto simp: handle_enroll_def Some es case_prod_beta enroll_typed_def)
qed (use assms in \<open>simp add: handle_enroll_def\<close>)

subsection \<open>Handlers and steps\<close>

definition handler_ok :: "app \<Rightarrow> app \<Rightarrow> bool" where
  "handler_ok a b \<longleftrightarrow> session_change a b \<and> a_timer b = a_timer a \<and> enroll_typed b"

lemma handler_ok_same:
  "a_session b = a_session a \<Longrightarrow> a_storage b = a_storage a \<Longrightarrow> a_timer b = a_timer a \<Longrightarrow>
    a_enrollment b = a_enrollment a \<Longrightarrow> enroll_typed a \<Longrightarrow> handler_ok a b"
  by (simp add: handler_ok_def enroll_typed_def)

lemma got_exchange_ok:
  assumes "typed_msg (GotExchange r)" "enroll_typed a"
  shows "handler_ok a (got_exchange now r a)"
proof (cases r)
  case (Answer st body)
  show ?thesis
  proof (cases "JSON_parse body")
    case (Some data)
    have "truthy_at data ''accessToken'' \<Longrightarrow> handler_ok a (sign_in now data a)"
      using assms Answer Some sign_in_change [of data a now a]
      by (simp add: handler_ok_def typed_answer_def enroll_typed_def)
    moreover have "enroll_typed (a\<lparr>a_enrollment := Some (ep, case a_enrollment a of None \<Rightarrow> enroll_start | Some (_, s) \<Rightarrow> s)\<rparr>)"
      for ep using assms(2) by (auto simp: enroll_typed_def enroll_start_def split: option.split)
    ultimately show ?thesis using assms(2)
      by (simp add: got_exchange_def Answer Some Let_def) (simp add: handler_ok_def)
  qed (simp add: got_exchange_def Answer handler_ok_same assms(2))
qed (simp add: got_exchange_def handler_ok_same assms(2))

lemma app_handle_ok:
  assumes "typed_msg m" "enroll_typed a"
  shows "handler_ok a (fst (app_handle c now m a))"
proof (cases m)
  case (ModalM x)
  then show ?thesis using handle_modal_frame [of x a c now] assms
    by (simp add: handler_ok_def enroll_typed_def)
next
  case (EnrollM x)
  then show ?thesis using handle_enroll_frame [of x a c now] assms by (simp add: handler_ok_def)
next
  case (GotExchange r)
  then show ?thesis using got_exchange_ok assms by simp
next
  case (GotReset r)
  then show ?thesis using assms
    by (auto simp: got_reset_def handler_ok_def enroll_typed_def split: option.split)
next
  case SignOut
  then show ?thesis using assms by (simp add: handler_ok_def enroll_typed_def)
next
  case ExpiryTimer
  then show ?thesis using assms by (auto simp: handler_ok_def enroll_typed_def split: option.split)
next
  case (HistoryM h)
  then show ?thesis using assms by (cases h) (simp add: handler_ok_same)
next
  case (TableM x)
  then show ?thesis using assms by (cases x) (simp_all add: handle_table_def handler_ok_same)
qed (use assms in \<open>auto intro!: handler_ok_same simp: handle_tx_def open_tx_def open_modal_def got_demo_token_def
    got_balance_def got_balance_update_def got_game_def got_restock_def got_pause_def Let_def case_prod_beta
    split: option.split tx_msg.split response.split\<close>)

section \<open>The timer\<close>

lemma sint_le: "0 \<le> k \<Longrightarrow> sint (word_of_int k :: 32 word) \<le> k"
  by (simp add: signed_take_bit_int_less_eq_self_iff sint_sbintrunc')

lemma timer_delay_le: "0 < ms \<Longrightarrow> of_int (timer_delay ms) \<le> ms"
proof -
  assume "0 < ms"
  then have "0 \<le> \<lfloor>ms\<rfloor>" by simp
  then have "timer_delay ms \<le> \<lfloor>ms\<rfloor>" using sint_le [of "\<lfloor>ms\<rfloor>"] by (simp add: timer_delay_def)
  then show ?thesis by (simp add: le_floor_iff)
qed

lemma timer_delay_exact:
  assumes "0 < ms" "ms < 2 ^ 31"
  shows "timer_delay ms = \<lfloor>ms\<rfloor>"
proof -
  have "0 \<le> \<lfloor>ms\<rfloor>" "\<lfloor>ms\<rfloor> < 2 ^ 31" using assms by (simp_all add: floor_less_iff)
  then have "sint (word_of_int \<lfloor>ms\<rfloor> :: 32 word) = \<lfloor>ms\<rfloor>"
    by (simp add: sint_sbintrunc' signed_take_bit_int_eq_self)
  then show ?thesis using \<open>0 \<le> \<lfloor>ms\<rfloor>\<close> by (simp add: timer_delay_def)
qed

lemma expiry_timer_ok: "timer_ok (expiry now a)"
proof (cases "a_session a")
  case (Some s)
  show ?thesis
  proof (cases "se_expiresAt s")
    case e: (Some e)
    show ?thesis
    proof (cases "e - of_int now \<le> 0")
      case False
      then have "of_int (now + timer_delay (e - of_int now)) \<le> e"
        using timer_delay_le [of "e - of_int now"] by simp
      then show ?thesis using False by (simp add: expiry_def Some e timer_ok_def)
    qed (simp add: expiry_def Some e timer_ok_def)
  qed (simp add: expiry_def Some timer_ok_def)
qed (simp add: expiry_def timer_ok_def)

lemma timer_ok_cong: "a_session a = a_session b \<Longrightarrow> a_timer a = a_timer b \<Longrightarrow> timer_ok a = timer_ok b"
  by (simp add: timer_ok_def)

lemma effects_timer_ok:
  assumes "a_session a = a_session old \<Longrightarrow> timer_ok a"
  shows "timer_ok (fst (effects c now old a))"
proof (cases "a_session old = a_session a")
  case True
  then show ?thesis using assms
    by (simp add: effects_def expiry_effect_def timer_ok_def)
next
  case False
  then show ?thesis using expiry_timer_ok [of now "hook_effect old a"]
    by (simp add: effects_def expiry_effect_def timer_ok_def)
qed

lemma effects_keeps: "keeps_session a \<Longrightarrow> keeps_session (fst (effects c now old a))"
  using effects_session [of c now old a] by (auto simp: keeps_session_def)

definition app_inv :: "app \<Rightarrow> bool" where
  "app_inv a \<longleftrightarrow> keeps_session a \<and> timer_ok a \<and> enroll_typed a"

lemma app_step_fst:
  "fst (app_step c now m a) =
     (let a1 = fst (app_handle c now m a)
      in bet_sync (fst (effects c now a1 (fst (effects c now a a1)))))"
  by (simp add: app_step_def Let_def case_prod_beta)

lemma app_inv_step:
  assumes "app_inv a" "typed_msg m"
  shows "app_inv (fst (app_step c now m a))"
proof -
  define a1 where "a1 = fst (app_handle c now m a)"
  define a2 where "a2 = fst (effects c now a a1)"
  define a3 where "a3 = fst (effects c now a1 a2)"
  have h: "handler_ok a a1" using app_handle_ok assms by (simp add: a1_def app_inv_def)
  then have "keeps_session a1" using assms session_change_keeps [of a a1] by (simp add: handler_ok_def app_inv_def)
  then have k: "keeps_session a3" by (simp add: a2_def a3_def effects_keeps)
  have "timer_ok a2" unfolding a2_def
  proof (rule effects_timer_ok)
    assume "a_session a1 = a_session a"
    then show "timer_ok a1" using h assms timer_ok_cong [of a1 a] by (simp add: handler_ok_def app_inv_def)
  qed
  then have "timer_ok a3" unfolding a3_def by (rule effects_timer_ok)
  moreover have "enroll_typed a3"
  proof -
    have "a_enrollment a3 = a_enrollment a1" by (simp add: a2_def a3_def)
    then show ?thesis using h unfolding handler_ok_def enroll_typed_def by auto
  qed
  moreover have "fst (app_step c now m a) = bet_sync a3" by (simp add: app_step_fst Let_def a1_def a2_def a3_def)
  ultimately show ?thesis using k by (simp add: app_inv_def keeps_session_def timer_ok_def enroll_typed_def)
qed

lemma loadSession_again:
  assumes "loadSession now storage = (Some s, storage')" "\<not> expired s later"
  shows "loadSession later storage' = (Some s, storage')"
  using assms by (auto simp: loadSession_def expired_def split: option.splits if_splits)

lemma app_inv_boot: "app_inv (fst (app_boot c now storage code))"
proof -
  obtain s storage' where l: "loadSession now storage = (s, storage')" by (cases "loadSession now storage")
  let ?a0 = "app_init s storage'"
  have "keeps_session ?a0"
    using loadSession_again [of now storage _ storage'] l by (auto simp: keeps_session_def app_init_def)
  then have "keeps_session (expiry now ?a0)"
    using expiry_session [of now ?a0] by (auto simp: keeps_session_def)
  moreover have "timer_ok (fst (effects c now ?a0 (expiry now ?a0)))"
    by (rule effects_timer_ok) (rule expiry_timer_ok)
  moreover have "enroll_typed (fst (effects c now ?a0 (expiry now ?a0)))"
    by (simp add: enroll_typed_def app_init_def)
  ultimately show ?thesis
    using effects_keeps [of "expiry now ?a0" c now ?a0] by (simp add: app_boot_def l case_prod_beta Let_def app_inv_def)
qed

lemma app_reachable_inv: "app_reachable c a \<Longrightarrow> app_inv a"
  by (induction rule: app_reachable.induct) (rule app_inv_boot, rule app_inv_step)

section \<open>Sessions\<close>

text \<open>A browser in which a player has just come back from the verification link with a session.\<close>

definition ref_config :: app_config where
  "ref_config = \<lparr>u_gateway = ''https://gw'', u_browser = ref_browser\<rparr>"

definition ref_booted :: app where
  "ref_booted = fst (app_boot ref_config 1000 None (Some ''code''))"

definition ref_answer :: json where
  "ref_answer = JObj [(''accessToken'', JStr ''token-of-ann''), (''expiresIn'', JNum 60), (''playerId'', JStr ''p1''),
     (''playerName'', JStr ''Ann''), (''email'', JStr ''a@x.org'')]"

definition ref_exchange :: app_msg where
  "ref_exchange = GotExchange (Answer 200 (JSON_stringify ref_answer))"

definition ref_signed_in :: app where
  "ref_signed_in = fst (app_step ref_config 2000 ref_exchange ref_booted)"

lemma ref_answer_parsed: "JSON_parse (JSON_stringify ref_answer) = Some ref_answer"
  by (rule parse_stringify) (simp add: ref_answer_def)

lemma ref_answer_fields:
  "auth_result_of ref_answer = \<lparr>ar_accessToken = Some (JStr ''token-of-ann''), ar_expiresIn = Some 60,
     ar_playerId = Some (JStr ''p1''), ar_playerName = Some (JStr ''Ann''), ar_email = Some (JStr ''a@x.org'')\<rparr>"
  by (simp add: auth_result_of_def ref_answer_def get_prop_def)

lemma ref_exchange_typed: "typed_msg ref_exchange"
  by (simp add: ref_exchange_def typed_answer_def ref_answer_parsed ref_answer_fields typed_result_def is_text_def is_int_def)

lemma ref_signed_in_reachable: "app_reachable ref_config ref_signed_in"
  unfolding ref_signed_in_def ref_booted_def
  by (rule app_reachable.step [OF app_reachable.boot ref_exchange_typed])

definition ref_session :: session where
  "ref_session = \<lparr>se_accessToken = Some (JStr ''token-of-ann''), se_playerId = Some (JStr ''p1''),
     se_playerName = Some (JStr ''Ann''), se_email = Some (JStr ''a@x.org''), se_expiresAt = Some 62000\<rparr>"

lemma ref_session_expiry: "se_expiresAt ref_session = Some 62000"
  by (simp add: ref_session_def)

lemma ref_booted_parts: "a_session ref_booted = None" "a_playerTable ref_booted = Some JNull" "a_enrollment ref_booted = None"
  by (simp_all add: ref_booted_def app_boot_def loadSession_def app_init_def expiry_def effects_def Let_def expiry_effect_def)

lemma ref_exchange_handled:
  "app_handle ref_config 2000 ref_exchange ref_booted = (sign_in 2000 ref_answer ref_booted, [])"
proof -
  have "\<not> truthy_at ref_answer ''requiresEnrollment''" "truthy_at ref_answer ''accessToken''" "ref_answer \<noteq> JNull"
    by (simp_all add: truthy_at_def get_prop_def ref_answer_def)
  then show ?thesis by (simp add: ref_exchange_def got_exchange_def ref_answer_parsed)
qed

lemma ref_sign_in: "a_session (sign_in 2000 ref_answer ref_booted) = Some ref_session"
  by (simp add: sign_in_def ref_answer_fields saveSession_def ref_session_def Let_def)

lemma ref_signed_in_session: "a_session ref_signed_in = Some ref_session"
proof -
  let ?a1 = "sign_in 2000 ref_answer ref_booted"
  have "a_session (fst (effects ref_config 2000 ref_booted ?a1)) = Some ref_session"
    by (simp add: effects_def expiry_effect_def ref_booted_parts ref_sign_in expiry_def ref_session_expiry)
  then show ?thesis
    by (simp add: ref_signed_in_def app_step_fst ref_exchange_handled Let_def)
      (simp add: effects_def expiry_effect_def ref_sign_in)
qed

text \<open>C39. A reload keeps the player signed in: in every state the application can reach, the session in
  memory is the one that a load finds in the storage, for as long as it has not expired.\<close>

theorem reload_keeps_session:
  assumes "app_reachable c a" "a_session a = Some s" "\<not> expired s later"
  shows "loadSession later (a_storage a) = (Some s, a_storage a)"
  using app_reachable_inv [OF assms(1)] assms(2,3) by (simp add: app_inv_def keeps_session_def)

lemma reload_keeps_session_witness:
  "loadSession 61000 (a_storage ref_signed_in) = (Some ref_session, a_storage ref_signed_in)"
  by (rule reload_keeps_session [OF ref_signed_in_reachable ref_signed_in_session])
    (simp add: expired_def num_less_def ref_session_def)

text \<open>C40. A session ends in time: in every reachable state with a session a timer is set, not after the expiry
  the session was saved with, and once it is due it ends the session. The delay of the timer is
  taken modulo \<open>2 ^ 32\<close>, which can only bring it forward.\<close>

theorem session_ends_with_token:
  assumes "app_reachable c a" "a_session a = Some s" "se_expiresAt s = Some e"
  shows "\<exists>d. a_timer a = Some d \<and> of_int d \<le> e \<and>
    (\<forall>now. d \<le> now \<longrightarrow> a_session (fst (app_step c now ExpiryTimer a)) = None)"
proof -
  obtain d where d: "a_timer a = Some d" "of_int d \<le> e"
    using app_reachable_inv [OF assms(1)] assms(2,3) by (auto simp: app_inv_def timer_ok_def)
  have "a_session (fst (app_step c now ExpiryTimer a)) = None" if "d \<le> now" for now
  proof -
    define a1 where "a1 = a\<lparr>a_session := None\<rparr>"
    define a2 where "a2 = fst (effects c now a a1)"
    have "a_session a2 = None" using effects_session [of c now a a1] by (auto simp: a1_def a2_def)
    then have "a_session (fst (effects c now a1 a2)) = None" using effects_session [of c now a1 a2] by auto
    then show ?thesis using d(1) that by (simp add: app_step_fst Let_def a1_def a2_def)
  qed
  then show ?thesis using d by blast
qed

lemma session_ends_with_token_witness:
  "\<exists>d. a_timer ref_signed_in = Some d \<and> of_int d \<le> (62000 :: rat) \<and>
    (\<forall>now. d \<le> now \<longrightarrow> a_session (fst (app_step ref_config now ExpiryTimer ref_signed_in)) = None)"
  by (rule session_ends_with_token [OF ref_signed_in_reachable ref_signed_in_session]) (simp add: ref_session_def)

section \<open>Two flaws\<close>

text \<open>When the session ends at a table of one's own, the table stays, and the actions of the player
  are sent for the demonstration player, without a token.\<close>

lemma expiry_leaves_table:
  assumes "a_playerTable a \<noteq> Some JNull" "a_timer a = Some d" "d \<le> now"
  shows "(let b = fst (app_step c now ExpiryTimer a) in
     a_playerTable b = a_playerTable a \<and> \<not> app_isDemo b \<and>
     app_hook_config c b = \<lparr>hc_gateway = u_gateway c, hc_tableId = app_tableId a,
       hc_playerId = Some DEMO_PLAYER, hc_token = None\<rparr>)"
proof -
  define a1 where "a1 = a\<lparr>a_session := None\<rparr>"
  define a2 where "a2 = fst (effects c now a a1)"
  define a3 where "a3 = fst (effects c now a1 a2)"
  have "a_session a2 = None" using effects_session [of c now a a1] by (auto simp: a1_def a2_def)
  then have s: "a_session a3 = None" using effects_session [of c now a1 a2] by (auto simp: a3_def)
  have t: "a_playerTable a3 = a_playerTable a" by (simp add: a1_def a2_def a3_def)
  have "fst (app_step c now ExpiryTimer a) = bet_sync a3"
    using assms(2,3) by (simp add: app_step_fst Let_def a1_def a2_def a3_def)
  then show ?thesis using s t assms(1) derived_cong(1) [of "bet_sync a3" a]
    by (simp add: Let_def app_isDemo_def app_hook_config_def app_playerId_def app_token_def
        session_playerId_def session_token_def)
qed

definition ref_at_table :: app where
  "ref_at_table = (app_init (Some ref_session) None)\<lparr>a_playerTable := Some (JStr ''t1''), a_timer := Some 62000\<rparr>"

lemma expiry_leaves_table_witness:
  "(let b = fst (app_step ref_config 62000 ExpiryTimer ref_at_table) in
     a_playerTable b = a_playerTable ref_at_table \<and> \<not> app_isDemo b \<and>
     app_hook_config ref_config b = \<lparr>hc_gateway = u_gateway ref_config, hc_tableId = app_tableId ref_at_table,
       hc_playerId = Some DEMO_PLAYER, hc_token = None\<rparr>)"
  by (rule expiry_leaves_table [where d = 62000]) (simp_all add: ref_at_table_def)

lemma restock_shown_none: "\<not> out_of_chips b \<Longrightarrow> a_showRestock (restock_effect a b d) = a_showRestock d"
  by (simp add: restock_effect_def)

lemma effects_restock:
  "\<not> out_of_chips a \<Longrightarrow> a_showRestock (fst (effects c now old a)) = a_showRestock a"
  by (simp add: effects_def restock_shown_none hook_effect_def)

text \<open>Any answer to the request for more chips counts as a success, also a refusal: the balance shown
  is 1000, and the offer is gone.\<close>

lemma restock_ignores_answer:
  "(let b = fst (app_step c now (GotRestock (Answer st body)) a) in
     a_balance b = Some (Some 1000) \<and> \<not> a_showRestock b \<and> \<not> a_restocking (got_restock (Answer st body) a))"
proof -
  define a1 where "a1 = got_restock (Answer st body) a"
  define a2 where "a2 = fst (effects c now a a1)"
  have b: "a_balance a1 = Some (Some 1000)" "\<not> a_showRestock a1" "\<not> a_restocking a1"
    by (simp_all add: a1_def got_restock_def)
  then have n: "\<not> out_of_chips a1" by (simp add: out_of_chips_def num_le_def)
  have b2: "a_balance a2 = Some (Some 1000)" by (simp add: a2_def b)
  then have n2: "\<not> out_of_chips a2" by (simp add: out_of_chips_def num_le_def)
  have "\<not> a_showRestock (fst (effects c now a1 a2))"
    using effects_restock [OF n2] effects_restock [OF n, of c now a] b by (simp add: a2_def)
  then show ?thesis using b b2 by (simp add: app_step_fst Let_def a1_def [symmetric] a2_def [symmetric])
qed

end
