(* ===== verification/GoJson.thy ===== *)
theory GoJson
  imports JsonRoundtrip "HOL-Library.AList"
begin

text \<open>
  JSON as Go's \<open>encoding/json\<close> writes and reads it, for the services between the UI and the auth service. It
  writes \<open><\<close>, \<open>>\<close>, \<open>&\<close> and the two line separators of Unicode as escapes; otherwise it is a writer like
  \<open>JSON.stringify\<close>, and reading is the same, except that a decoder stops after the first value. Texts are
  valid UTF-8, and an object that is read has no key twice (the reader keeps the last).
\<close>

section \<open>Writing\<close>

text \<open>The separators U+2028 and U+2029 have three bytes, of which the first two are E2 80.\<close>

fun go_chars :: "string \<Rightarrow> string" where
  "go_chars [] = []"
| "go_chars (c # cs) =
     (if c = CHR ''<'' then [CHR 0x5C] @ ''u003c'' @ go_chars cs
      else if c = CHR ''>'' then [CHR 0x5C] @ ''u003e'' @ go_chars cs
      else if c = CHR ''&'' then [CHR 0x5C] @ ''u0026'' @ go_chars cs
      else if c = CHR 0xE2 \<and> take 2 cs = [CHR 0x80, CHR 0xA8] then [CHR 0x5C] @ ''u2028'' @ go_chars (drop 2 cs)
      else if c = CHR 0xE2 \<and> take 2 cs = [CHR 0x80, CHR 0xA9] then [CHR 0x5C] @ ''u2029'' @ go_chars (drop 2 cs)
      else quote_char c @ go_chars cs)"

text \<open>\<open>json.Marshal\<close>, and \<open>Encode\<close>, which ends with a line feed.\<close>

definition go_marshal :: "json \<Rightarrow> string" where
  "go_marshal = stringify_with go_chars"

definition go_encode :: "json \<Rightarrow> string" where
  "go_encode j = go_marshal j @ [CHR 0x0A]"

section \<open>Reading\<close>

text \<open>\<open>json.Unmarshal\<close> wants one value, a decoder reads the first.\<close>

definition go_unmarshal :: "string \<Rightarrow> json option" where
  "go_unmarshal s = JSON_parse s"

definition go_decode :: "string \<Rightarrow> json option" where
  "go_decode s = map_option fst (parse_value (2 * length s + 2) s)"

text \<open>A value for a variable of type \<open>string\<close> that holds \<open>old\<close>: \<open>null\<close> leaves it alone.\<close>

fun go_string :: "string \<Rightarrow> json \<Rightarrow> string option" where
  "go_string old (JStr s) = Some s"
| "go_string old JNull = Some old"
| "go_string old v = None"

text \<open>The entries for a \<open>map[string]string\<close>, put into the map \<open>m\<close>. An entry of another type is an error.\<close>

fun go_entries :: "(string \<times> json) list \<Rightarrow> (string \<times> string) list \<Rightarrow> (string \<times> string) list option" where
  "go_entries [] m = Some m"
| "go_entries ((k, v) # kvs) m =
     Option.bind (go_string [] v) (\<lambda>t. go_entries kvs (AList.update k t m))"

text \<open>Looking a key up in a \<open>map[string]string\<close>: one that is missing has the empty text.\<close>

definition map_get :: "(string \<times> string) list \<Rightarrow> string \<Rightarrow> string" where
  "map_get m k = (case map_of m k of Some v \<Rightarrow> v | None \<Rightarrow> [])"

text \<open>A key meets the field of a struct up to case, where the long s and the Kelvin sign are an s and a k.\<close>

fun fold_key :: "string \<Rightarrow> string" where
  "fold_key [] = []"
| "fold_key (c # cs) =
     (if c = CHR 0xC5 \<and> take 1 cs = [CHR 0xBF] then CHR ''s'' # fold_key (drop 1 cs)
      else if c = CHR 0xE2 \<and> take 2 cs = [CHR 0x84, CHR 0xAA] then CHR ''k'' # fold_key (drop 2 cs)
      else lower_char c # fold_key cs)"

section \<open>Round trips\<close>

lemma parse_escape:
  "hex4 w x y z = Some n \<Longrightarrow>
    parse_pieces (CHR 0x5C # CHR ''u'' # w # x # y # z # s) = map_option (\<lambda>(ps, q). (Unit n # ps, q)) (parse_pieces s)"
  by simp

lemma assemble_Unit_bmp:
  "\<not> (55296 \<le> n \<and> n < 56320) \<Longrightarrow> assemble (Unit n # ps) = utf8 n @ assemble ps"
  by (cases ps rule: assemble.cases) auto

lemma parse_go_chars:
  "\<exists>ps. parse_pieces (go_chars s @ CHR 0x22 # r) = Some (ps, r) \<and> assemble ps = s"
proof (induction s rule: go_chars.induct)
  case (2 c cs)
  have esc: "\<exists>ps. parse_pieces (CHR 0x5C # CHR ''u'' # w # x # y # z # go_chars t @ CHR 0x22 # r) = Some (ps, r) \<and>
      assemble ps = utf8 n @ t"
    if "hex4 w x y z = Some n" "\<not> (55296 \<le> n \<and> n < 56320)"
      "\<exists>ps. parse_pieces (go_chars t @ CHR 0x22 # r) = Some (ps, r) \<and> assemble ps = t" for w x y z n t
    using that by (auto simp: parse_escape assemble_Unit_bmp simp del: parse_pieces.simps)
  have hex: "hex4 CHR ''0'' CHR ''0'' CHR ''3'' CHR ''c'' = Some 60" "hex4 CHR ''0'' CHR ''0'' CHR ''3'' CHR ''e'' = Some 62"
    "hex4 CHR ''0'' CHR ''0'' CHR ''2'' CHR ''6'' = Some 38" "hex4 CHR ''2'' CHR ''0'' CHR ''2'' CHR ''8'' = Some 8232"
    "hex4 CHR ''2'' CHR ''0'' CHR ''2'' CHR ''9'' = Some 8233"
    by (simp_all add: hex4_def hex_digit_def)
  have utf: "utf8 60 = ''<''" "utf8 62 = ''>''" "utf8 38 = ''&''" "utf8 8232 = [CHR 0xE2, CHR 0x80, CHR 0xA8]"
    "utf8 8233 = [CHR 0xE2, CHR 0x80, CHR 0xA9]"
    by (simp_all add: utf8_def char_of_eq_iff)
  consider "c = CHR ''<''" | "c = CHR ''>''" | "c = CHR ''&''"
    | "c = CHR 0xE2" "take 2 cs = [CHR 0x80, CHR 0xA8]" | "c = CHR 0xE2" "take 2 cs = [CHR 0x80, CHR 0xA9]"
    | "c \<notin> {CHR ''<'', CHR ''>'', CHR ''&''}"
      "\<not> (c = CHR 0xE2 \<and> take 2 cs = [CHR 0x80, CHR 0xA8])" "\<not> (c = CHR 0xE2 \<and> take 2 cs = [CHR 0x80, CHR 0xA9])"
    by blast
  then show ?case
  proof cases
    case 1
    show ?thesis using esc [OF hex(1) _ 2(1)] 1 utf by (simp del: parse_pieces.simps)
  next
    case c: 2
    show ?thesis using esc [OF hex(2) _ 2(2)] c utf by (simp del: parse_pieces.simps)
  next
    case c: 3
    show ?thesis using esc [OF hex(3) _ 2(3)] c utf by (simp del: parse_pieces.simps)
  next
    case c: 4
    have "CHR 0x80 # CHR 0xA8 # drop 2 cs = cs" using c(2) append_take_drop_id [of 2 cs] by simp
    then show ?thesis using esc [OF hex(4) _ 2(4)] c utf by (simp del: parse_pieces.simps)
  next
    case c: 5
    have "CHR 0x80 # CHR 0xA9 # drop 2 cs = cs" using c(2) append_take_drop_id [of 2 cs] by simp
    then show ?thesis using esc [OF hex(5) _ 2(5)] c utf by (simp del: parse_pieces.simps)
  next
    case c: 6
    then obtain ps where "parse_pieces (go_chars cs @ CHR 0x22 # r) = Some (ps, r)" "assemble ps = cs"
      using 2(6) by auto
    then have "parse_pieces (quote_char c @ go_chars cs @ CHR 0x22 # r) = Some (piece_of c # ps, r)"
      "assemble (piece_of c # ps) = c # cs"
      by (simp_all add: parse_quote_char assemble_piece_of)
    moreover have "go_chars (c # cs) = quote_char c @ go_chars cs" using c by auto
    ultimately show ?thesis by (metis append_assoc)
  qed
qed simp

interpretation go_writer: json_writer go_chars
proof
  show "parse_string (go_chars s @ CHR 0x22 # r) = Some (s, r)" for s r
    using parse_go_chars [of s r] by (auto simp: parse_string_def)
qed

lemma go_unmarshal_marshal: "plain_json j \<Longrightarrow> go_unmarshal (go_marshal j) = Some j"
  unfolding go_unmarshal_def go_marshal_def by (rule go_writer.parse_written)

lemma parse_marshal: "plain_json j \<Longrightarrow> JSON_parse (go_marshal j) = Some j"
  using go_unmarshal_marshal by (simp add: go_unmarshal_def)

lemma parse_encode: "plain_json j \<Longrightarrow> JSON_parse (go_encode j) = Some j"
  using go_writer.read_backD [OF go_writer.plain_read_back [of j], of "[CHR 0x0A]"
      "2 * length (go_marshal j @ [CHR 0x0A]) + 2"]
  by (simp add: JSON_parse_def go_encode_def go_marshal_def skip_ws_def json_ws_def ends_number_def is_digit_def
      del: parse_value.simps)

lemma go_entries_strings:
  "go_entries (map (\<lambda>(k, v). (k, JStr v)) kvs) m = Some (foldl (\<lambda>m (k, v). AList.update k v m) m kvs)"
  by (induction kvs arbitrary: m) auto

lemma map_of_updates:
  "distinct (map fst kvs) \<Longrightarrow> map_of (foldl (\<lambda>m (k, v). AList.update k v m) m kvs) = map_of m ++ map_of kvs"
proof (induction kvs arbitrary: m)
  case (Cons kv kvs)
  obtain k v where kv: "kv = (k, v)" by (cases kv)
  have "map_of kvs k = None" using Cons.prems kv by (simp add: map_of_eq_None_iff)
  then have "(map_of m)(k \<mapsto> v) ++ map_of kvs = map_of m ++ (map_of kvs)(k \<mapsto> v)"
    by (auto simp: map_add_def fun_eq_iff split: option.split)
  moreover have "map_of (foldl (\<lambda>m (k, v). AList.update k v m) m (kv # kvs)) = map_of (AList.update k v m) ++ map_of kvs"
    using Cons by (simp add: kv)
  ultimately show ?case by (simp only: kv update_conv' map_of.simps fst_conv snd_conv)
qed simp

lemma map_get_entries:
  assumes "distinct (map fst kvs)"
  shows "\<exists>m. go_entries (map (\<lambda>(k, v). (k, JStr v)) kvs) [] = Some m \<and> map_get m = map_get kvs"
  using assms by (simp add: go_entries_strings map_get_def map_of_updates fun_eq_iff)

lemma decode_stringify: "plain_json j \<Longrightarrow> go_decode (JSON_stringify j) = Some j"
  using parse_stringify [of j] by (auto simp: go_decode_def JSON_parse_def split: option.splits if_splits)

end
