(* ===== verification/Gateway.thy ===== *)
theory Gateway
  imports AuthService Dom GoJson
begin

text \<open>
  What the gateway (\<open>gateway/main.go\<close>) does with a call of the UI: the path it is forwarded with
  (\<open>instrumentedProxyWithRewrite\<close>), and the answers it makes itself. Also the URL of a call, and how a Go service
  writes an answer.
\<close>

section \<open>URLs\<close>

definition url_path :: "string \<Rightarrow> string" where
  "url_path u = takeWhile (\<lambda>c. c \<noteq> CHR ''?'') u"

text \<open>\<open>url.QueryUnescape\<close>: \<open>None\<close> for an incomplete escape.\<close>

fun query_unescape :: "string \<Rightarrow> string option" where
  "query_unescape [] = Some []"
| "query_unescape (c # cs) =
     (if c = CHR ''+'' then map_option ((#) CHR '' '') (query_unescape cs)
      else if c = CHR ''%'' then
        (case cs of
           x # y # r \<Rightarrow>
             (case (hex_digit x, hex_digit y) of
                (Some m, Some n) \<Rightarrow> map_option ((#) (char_of (m * 16 + n))) (query_unescape r)
              | _ \<Rightarrow> None)
         | _ \<Rightarrow> None)
      else map_option ((#) c) (query_unescape cs))"

text \<open>\<open>url.ParseQuery\<close>, where parts that are empty, malformed or hold a semicolon are left out.\<close>

definition parse_pair :: "string \<Rightarrow> (string \<times> string) option" where
  "parse_pair t =
     (if t = [] \<or> CHR '';'' \<in> set t then None
      else case (query_unescape (takeWhile (\<lambda>c. c \<noteq> CHR ''='') t),
                 query_unescape (drop 1 (dropWhile (\<lambda>c. c \<noteq> CHR ''='') t))) of
             (Some k, Some v) \<Rightarrow> Some (k, v)
           | _ \<Rightarrow> None)"

definition url_query :: "string \<Rightarrow> (string \<times> string) list" where
  "url_query u = List.map_filter parse_pair (js_split CHR ''&'' (drop 1 (dropWhile (\<lambda>c. c \<noteq> CHR ''?'') u)))"

section \<open>Forwarding\<close>

text \<open>\<open>strings.TrimPrefix\<close>.\<close>

definition trim_prefix :: "string \<Rightarrow> string \<Rightarrow> string" where
  "trim_prefix p s = (if starts_with p s then drop (length p) s else s)"

definition rewrite_path :: "string \<Rightarrow> string \<Rightarrow> string \<Rightarrow> string" where
  "rewrite_path strip add path = add @ trim_prefix strip path"

text \<open>The URL of a call to the gateway at \<open>gw\<close>, without the origin; a relative one is for the origin of the UI,
  which passes it to the gateway.\<close>

definition gateway_path :: "string \<Rightarrow> string \<Rightarrow> string" where
  "gateway_path gw url = (if starts_with ''/'' url then url else trim_prefix gw url)"

text \<open>The request that goes on: method and body as they are.\<close>

definition upstream :: "string \<Rightarrow> string option \<Rightarrow> fetch \<Rightarrow> request" where
  "upstream url auth f =
     \<lparr>rq_method = f_method f, rq_path = url_path url, rq_query = url_query url, rq_authorization = auth,
      rq_body = (case f_body f of None \<Rightarrow> [] | Some j \<Rightarrow> JSON_stringify j)\<rparr>"

fun body_string :: "body \<Rightarrow> string" where
  "body_string (JsonBody j) = JSON_stringify j"
| "body_string (HtmlBody h) = h"
| "body_string NoBody = []"

section \<open>Answers\<close>

text \<open>A \<open>map[string]string\<close> as Go's encoder writes it, with its keys sorted.\<close>

definition text_object :: "(string \<times> string) list \<Rightarrow> json" where
  "text_object kvs = JObj (map (\<lambda>(k, v). (k, JStr v)) kvs)"

definition write_json :: "nat \<Rightarrow> json \<Rightarrow> response" where
  "write_json st j = Answer st (go_encode j)"

text \<open>The answer of the auth service through the gateway. A rejected promise ends the auth service, so that the
  connection breaks.\<close>

fun gateway_answer :: "reply \<Rightarrow> response" where
  "gateway_answer (Reply st hs b) = Answer st (body_string b)"
| "gateway_answer (Rejected e) =
     write_json 502 (text_object [(''code'', ''upstream_error''), (''message'', ''auth service unavailable'')])"

text \<open>What the gateway finds in the claims of a token, whose signature it does not check: it is a parameter of
  a call, and may refuse anything.\<close>

datatype scope_check = Passes | NoClaims | WrongScope

fun scope_error :: "scope_check \<Rightarrow> response" where
  "scope_error NoClaims =
     write_json 401 (text_object [(''code'', ''auth_required''), (''message'', ''authentication required'')])"
| "scope_error _ =
     write_json 403 (text_object [(''code'', ''wrong_token_scope''), (''message'', ''enroll or session token required'')])"

section \<open>Lemmas\<close>

lemma trim_prefix_append [simp]: "trim_prefix p (p @ s) = s"
  by (simp add: trim_prefix_def)

lemma gateway_path_relative [simp]: "gateway_path gw (CHR ''/'' # r) = CHR ''/'' # r"
  by (simp add: gateway_path_def starts_with_def)

lemma gateway_path_absolute [simp]:
  assumes "\<not> starts_with ''/'' gw"
  shows "gateway_path gw (gw @ CHR ''/'' # r) = CHR ''/'' # r"
proof (cases gw)
  case (Cons c cs)
  then have "\<not> starts_with ''/'' (gw @ CHR ''/'' # r)" using assms by (simp add: starts_with_def)
  then show ?thesis by (simp add: gateway_path_def)
qed simp

lemma no_query [simp]:
  assumes "CHR ''?'' \<notin> set u"
  shows "url_path u = u" and "url_query u = []"
proof -
  show "url_path u = u" unfolding url_path_def using assms by (intro takeWhile_eq_all_conv [THEN iffD2]) auto
  have e: "dropWhile (\<lambda>c. c \<noteq> CHR ''?'') u = []" using assms by (auto simp: dropWhile_eq_Nil_conv)
  show "url_query u = []" unfolding url_query_def e by (simp add: parse_pair_def List.map_filter_def)
qed

lemma text_object_parsed:
  "distinct (map fst kvs) \<Longrightarrow> JSON_parse (go_encode (text_object kvs)) = Some (text_object kvs)"
  by (intro parse_encode) (auto simp: text_object_def comp_def case_prod_unfold list_all_iff)

end
