(* ===== verification/AuthUiService.thy ===== *)
theory AuthUiService
  imports Gateway
begin

text \<open>
  The auth-ui service (\<open>auth-ui-service/main.go\<close>), between the dialogs of the UI and the auth service: the
  definitions of the forms, the checks of a submitted one and its forwarding, the passing on of passkey requests.
  The auth service is a parameter, what it answers to a request in a state of its own.
\<close>

type_synonym 's upstream_service = "request \<Rightarrow> 's \<Rightarrow> reply \<times> 's"

section \<open>Field definitions\<close>

record field =
  fi_name :: string
  fi_label :: string
  fi_type :: string
  fi_required :: bool
  fi_placeholder :: string
  fi_maxLength :: nat

record fieldsResponse =
  fo_action :: string
  fo_title :: string
  fo_submit :: string
  fo_fields :: "field list"

definition email_field :: field where
  "email_field =
     \<lparr>fi_name = ''email'', fi_label = ''Email Address'', fi_type = ''email'', fi_required = True,
      fi_placeholder = ''you@example.com'', fi_maxLength = 255\<rparr>"

definition registerFields :: fieldsResponse where
  "registerFields =
     \<lparr>fo_action = ''register'', fo_title = ''Create Account'', fo_submit = ''Register'',
      fo_fields =
        [\<lparr>fi_name = ''name'', fi_label = ''Display Name'', fi_type = ''text'', fi_required = True,
           fi_placeholder = ''How should we call you?'', fi_maxLength = 50\<rparr>,
         email_field]\<rparr>"

definition loginFields :: fieldsResponse where
  "loginFields =
     \<lparr>fo_action = ''login'', fo_title = ''Sign In'', fo_submit = ''Sign In with Passkey'', fo_fields = [email_field]\<rparr>"

text \<open>As the encoder writes them: \<open>omitempty\<close> leaves out a length of zero.\<close>

definition field_json :: "field \<Rightarrow> json" where
  "field_json f =
     JObj ([(''name'', JStr (fi_name f)), (''label'', JStr (fi_label f)), (''type'', JStr (fi_type f)),
            (''required'', JBool (fi_required f)), (''placeholder'', JStr (fi_placeholder f))] @
           (if fi_maxLength f = 0 then [] else [(''maxLength'', JNum (of_nat (fi_maxLength f)))]))"

definition fields_json :: "fieldsResponse \<Rightarrow> json" where
  "fields_json r =
     JObj [(''action'', JStr (fo_action r)), (''title'', JStr (fo_title r)), (''submit'', JStr (fo_submit r)),
           (''fields'', JArr (map field_json (fo_fields r)))]"

section \<open>Validation\<close>

text \<open>The class of Go's patterns has no vertical tab.\<close>

definition go_email_char :: "char \<Rightarrow> bool" where
  "go_email_char c \<longleftrightarrow> of_char c \<notin> {9, 10, 12, 13, 32 :: nat} \<and> c \<noteq> CHR ''@''"

definition go_class_plus :: "string \<Rightarrow> bool" where
  "go_class_plus s \<longleftrightarrow> s \<noteq> [] \<and> list_all go_email_char s"

definition emailRegex :: "string \<Rightarrow> bool" where
  "emailRegex s \<longleftrightarrow>
     list_ex (\<lambda>i. s ! i = CHR ''@'' \<and> go_class_plus (take i s) \<and>
       list_ex (\<lambda>j. s ! j = CHR ''.'' \<and> go_class_plus (drop (i + 1) (take j s)) \<and> go_class_plus (drop (j + 1) s))
         [i + 1 ..< length s])
       [0 ..< length s]"

record submitRequest =
  sr_action :: string
  sr_fields :: "(string \<times> string) list"

record validationError =
  ve_field :: string
  ve_message :: string

definition email_errors :: "(string \<times> string) list \<Rightarrow> validationError list" where
  "email_errors fs =
     (let email = js_trim (map_get fs ''email'')
      in if email = [] then [\<lparr>ve_field = ''email'', ve_message = ''Email address is required''\<rparr>]
         else if \<not> emailRegex email
         then [\<lparr>ve_field = ''email'', ve_message = ''Please enter a valid email address''\<rparr>]
         else [])"

text \<open>\<open>len\<close> counts the bytes of a text.\<close>

definition validateRegister :: "(string \<times> string) list \<Rightarrow> validationError list" where
  "validateRegister fs =
     (let name = js_trim (map_get fs ''name'')
      in (if name = [] then [\<lparr>ve_field = ''name'', ve_message = ''Display name is required''\<rparr>]
          else if 50 < length name
          then [\<lparr>ve_field = ''name'', ve_message = ''Display name must be 50 characters or less''\<rparr>]
          else []) @ email_errors fs)"

text \<open>Nothing calls this one: a login has no form to submit.\<close>

definition validateLogin :: "(string \<times> string) list \<Rightarrow> validationError list" where
  "validateLogin fs = email_errors fs"

definition error_json :: "validationError \<Rightarrow> json" where
  "error_json e = text_object [(''field'', ve_field e), (''message'', ve_message e)]"

section \<open>Forwarding a form\<close>

record authResult =
  re_accessToken :: string
  re_expiresIn :: int
  re_playerId :: string
  re_playerName :: string
  re_email :: string

text \<open>An integer that fits the type \<open>int\<close> of 64 bits.\<close>

fun go_int :: "int \<Rightarrow> json \<Rightarrow> int option" where
  "go_int old (JNum r) = (if r = of_int \<lfloor>r\<rfloor> \<and> - (2 ^ 63) \<le> r \<and> r < 2 ^ 63 then Some \<lfloor>r\<rfloor> else None)"
| "go_int old JNull = Some old"
| "go_int old v = None"

definition result_entry :: "string \<Rightarrow> json \<Rightarrow> authResult \<Rightarrow> authResult option" where
  "result_entry k v r =
     (let f = fold_key k
      in if f = ''accesstoken'' then map_option (\<lambda>t. r\<lparr>re_accessToken := t\<rparr>) (go_string (re_accessToken r) v)
         else if f = ''expiresin'' then map_option (\<lambda>n. r\<lparr>re_expiresIn := n\<rparr>) (go_int (re_expiresIn r) v)
         else if f = ''playerid'' then map_option (\<lambda>t. r\<lparr>re_playerId := t\<rparr>) (go_string (re_playerId r) v)
         else if f = ''playername'' then map_option (\<lambda>t. r\<lparr>re_playerName := t\<rparr>) (go_string (re_playerName r) v)
         else if f = ''email'' then map_option (\<lambda>t. r\<lparr>re_email := t\<rparr>) (go_string (re_email r) v)
         else Some r)"

fun result_entries :: "(string \<times> json) list \<Rightarrow> authResult \<Rightarrow> authResult option" where
  "result_entries [] r = Some r"
| "result_entries ((k, v) # kvs) r = Option.bind (result_entry k v r) (result_entries kvs)"

fun result_of_json :: "json \<Rightarrow> authResult option" where
  "result_of_json (JObj kvs) =
     result_entries kvs
       \<lparr>re_accessToken = [], re_expiresIn = 0, re_playerId = [], re_playerName = [], re_email = []\<rparr>"
| "result_of_json JNull =
     Some \<lparr>re_accessToken = [], re_expiresIn = 0, re_playerId = [], re_playerName = [], re_email = []\<rparr>"
| "result_of_json j = None"

text \<open>\<open>errResp["error"]\<close>, after reading the body into a map, whose errors are ignored: an entry of another type
  is empty.\<close>

definition error_message :: "string \<Rightarrow> string" where
  "error_message body =
     (case go_unmarshal body of
        Some (JObj kvs) \<Rightarrow> (case map_of kvs ''error'' of Some (JStr m) \<Rightarrow> m | _ \<Rightarrow> [])
      | _ \<Rightarrow> [])"

definition register_payload :: "(string \<times> string) list \<Rightarrow> json" where
  "register_payload fs =
     text_object [(''email'', js_trim (js_lower (map_get fs ''email''))), (''name'', js_trim (map_get fs ''name''))]"

definition register_request :: "(string \<times> string) list \<Rightarrow> request" where
  "register_request fs =
     \<lparr>rq_method = ''POST'', rq_path = ''/register'', rq_query = [], rq_authorization = None,
      rq_body = go_marshal (register_payload fs)\<rparr>"

text \<open>What is made of the answer: a result with its status, or a status and a message. No route called answers
  with a redirect.\<close>

fun auth_answer :: "reply \<Rightarrow> (nat \<times> string) + (nat \<times> authResult)" where
  "auth_answer (Rejected e) = Inl (503, ''authentication service unavailable'')"
| "auth_answer (Reply st hs b) =
     (if st = 409 then Inl (409, ''that email address is already registered'')
      else if st = 401 then Inl (401, ''email not found '' @ utf8 8212 @ '' have you registered?'')
      else if st \<noteq> 200 \<and> st \<noteq> 201 then
        (let msg = error_message (body_string b)
         in Inl (st, if msg = [] then ''authentication failed'' else msg))
      else
        (case Option.bind (go_unmarshal (body_string b)) result_of_json of
           None \<Rightarrow> Inl (500, ''unexpected response from auth service'')
         | Some r \<Rightarrow> Inr (st, r)))"

definition forwardToAuth ::
  "'s upstream_service \<Rightarrow> string \<Rightarrow> (string \<times> string) list \<Rightarrow> 's \<Rightarrow> ((nat \<times> string) + (nat \<times> authResult)) \<times> 's" where
  "forwardToAuth auth action fs s =
     (if action = ''register'' then map_prod auth_answer id (auth (register_request fs) s)
      else (Inl (400, ''unknown action''), s))"

section \<open>Passing requests on\<close>

definition passkey_path :: "string \<Rightarrow> string" where
  "passkey_path path = ''/passkey'' @ trim_prefix ''/passkey'' path"

definition error_object :: "string \<Rightarrow> json" where
  "error_object msg = text_object [(''error'', msg)]"

text \<open>The answer through the service.\<close>

fun auth_ui_answer :: "reply \<Rightarrow> response" where
  "auth_ui_answer (Reply st hs b) = Answer st (body_string b)"
| "auth_ui_answer (Rejected e) = write_json 503 (error_object ''authentication service unavailable'')"

definition proxyToAuth :: "'s upstream_service \<Rightarrow> string \<Rightarrow> request \<Rightarrow> 's \<Rightarrow> response \<times> 's" where
  "proxyToAuth auth authPath rq s =
     map_prod auth_ui_answer id
       (auth (rq\<lparr>rq_path := authPath, rq_query := [],
                 rq_authorization :=
                   (case rq_authorization rq of None \<Rightarrow> None | Some h \<Rightarrow> if h = [] then None else Some h)\<rparr>) s)"

section \<open>Handlers\<close>

definition fieldsHandler :: "request \<Rightarrow> response" where
  "fieldsHandler rq =
     (if rq_method rq = ''OPTIONS'' then Answer 204 []
      else if rq_method rq \<noteq> ''GET'' then write_json 405 (error_object ''method not allowed'')
      else if map_get (rq_query rq) ''action'' = ''register'' then write_json 200 (fields_json registerFields)
      else if map_get (rq_query rq) ''action'' = ''login'' then write_json 200 (fields_json loginFields)
      else write_json 400 (error_object (''action must be '' @ [CHR 0x27] @ ''register'' @ [CHR 0x27] @ '' or '' @
             [CHR 0x27] @ ''login'' @ [CHR 0x27])))"

text \<open>The body as a \<open>SubmitRequest\<close>; a map that is \<open>null\<close> is empty afterwards.\<close>

fun fields_entry :: "json \<Rightarrow> (string \<times> string) list \<Rightarrow> (string \<times> string) list option" where
  "fields_entry (JObj kvs) m = go_entries kvs m"
| "fields_entry JNull m = Some []"
| "fields_entry v m = None"

definition submit_entry :: "string \<Rightarrow> json \<Rightarrow> submitRequest \<Rightarrow> submitRequest option" where
  "submit_entry k v r =
     (let f = fold_key k
      in if f = ''action'' then map_option (\<lambda>t. r\<lparr>sr_action := t\<rparr>) (go_string (sr_action r) v)
         else if f = ''fields'' then map_option (\<lambda>m. r\<lparr>sr_fields := m\<rparr>) (fields_entry v (sr_fields r))
         else Some r)"

fun submit_entries :: "(string \<times> json) list \<Rightarrow> submitRequest \<Rightarrow> submitRequest option" where
  "submit_entries [] r = Some r"
| "submit_entries ((k, v) # kvs) r = Option.bind (submit_entry k v r) (submit_entries kvs)"

fun decode_submit :: "json \<Rightarrow> submitRequest option" where
  "decode_submit (JObj kvs) = submit_entries kvs \<lparr>sr_action = [], sr_fields = []\<rparr>"
| "decode_submit JNull = Some \<lparr>sr_action = [], sr_fields = []\<rparr>"
| "decode_submit j = None"

definition result_json :: "authResult \<Rightarrow> json" where
  "result_json r =
     JObj [(''accessToken'', JStr (re_accessToken r)), (''email'', JStr (re_email r)),
           (''expiresIn'', JNum (of_int (re_expiresIn r))), (''playerId'', JStr (re_playerId r)),
           (''playerName'', JStr (re_playerName r))]"

definition submit_register :: "'s upstream_service \<Rightarrow> (string \<times> string) list \<Rightarrow> 's \<Rightarrow> response \<times> 's" where
  "submit_register auth fs s =
     (let errs = validateRegister fs
      in if errs \<noteq> [] then
           (write_json 422 (JObj [(''error'', JStr ''validation failed''), (''fields'', JArr (map error_json errs))]), s)
         else case forwardToAuth auth ''register'' fs s of
           (Inl (st, msg), s') \<Rightarrow> (write_json st (error_object msg), s')
         | (Inr (st, r), s') \<Rightarrow> (write_json st (result_json r), s'))"

definition submitHandler :: "'s upstream_service \<Rightarrow> request \<Rightarrow> 's \<Rightarrow> response \<times> 's" where
  "submitHandler auth rq s =
     (if rq_method rq = ''OPTIONS'' then (Answer 204 [], s)
      else if rq_method rq \<noteq> ''POST'' then (write_json 405 (error_object ''method not allowed''), s)
      else case Option.bind (go_decode (rq_body rq)) decode_submit of
        None \<Rightarrow> (write_json 400 (error_object ''invalid JSON''), s)
      | Some req \<Rightarrow>
          if sr_action req = ''register'' then submit_register auth (sr_fields req) s
          else if sr_action req = ''login'' then
            (write_json 400 (error_object
               (''login requires passkey ceremony '' @ utf8 8212 @ '' use /passkey/login/begin'')), s)
          else (write_json 400 (error_object (''action must be '' @ [CHR 0x27] @ ''register'' @ [CHR 0x27] @ '' or '' @
                  [CHR 0x27] @ ''login'' @ [CHR 0x27])), s))"

definition passkeyHandler :: "'s upstream_service \<Rightarrow> request \<Rightarrow> 's \<Rightarrow> response \<times> 's" where
  "passkeyHandler auth rq s =
     (if rq_method rq = ''OPTIONS'' then (Answer 204 [], s)
      else if rq_method rq \<noteq> ''POST'' then (write_json 405 (error_object ''method not allowed''), s)
      else proxyToAuth auth (passkey_path (rq_path rq)) rq s)"

fun healthy :: "reply \<Rightarrow> bool" where
  "healthy (Reply st hs b) = (st = 200)"
| "healthy (Rejected e) = False"

definition healthHandler :: "'s upstream_service \<Rightarrow> 's \<Rightarrow> response \<times> 's" where
  "healthHandler auth s =
     (let (rep, s') = auth \<lparr>rq_method = ''GET'', rq_path = ''/health'', rq_query = [], rq_authorization = None,
                            rq_body = []\<rparr> s
      in (write_json 200
            (JObj [(''actions'', JArr (map JStr [''register'', ''login'', ''passkey/register'', ''passkey/login''])),
                   (''auth_service'', JStr (if healthy rep then ''reachable'' else ''unreachable'')),
                   (''container'', JStr ''scratch''), (''language'', JStr ''Go''),
                   (''service'', JStr ''auth-ui-service''), (''status'', JStr ''healthy'')]), s'))"

text \<open>The routes of \<open>main\<close>, for paths that need no cleaning: any other path is answered by \<open>ServeMux\<close>, which
  redirects the root of a subtree without its slash.\<close>

definition auth_ui_service :: "'s upstream_service \<Rightarrow> request \<Rightarrow> 's \<Rightarrow> response \<times> 's" where
  "auth_ui_service auth rq s =
     (if rq_path rq = ''/fields'' then (fieldsHandler rq, s)
      else if rq_path rq = ''/submit'' then submitHandler auth rq s
      else if starts_with ''/passkey/'' (rq_path rq) then passkeyHandler auth rq s
      else if rq_path rq = ''/health'' then healthHandler auth s
      else if rq_path rq = ''/passkey'' then
        (Answer 301 (if rq_method rq = ''GET''
                     then ''<a href='' @ [CHR 0x22] @ ''/passkey/'' @ [CHR 0x22] @ ''>Moved Permanently</a>.'' @ [CHR 0x0A, CHR 0x0A]
                     else []), s)
      else (Answer 404 (''404 page not found'' @ [CHR 0x0A]), s))"

end
