(* ===== verification/EndToEnd.thy ===== *)
theory EndToEnd
  imports AuthLogin UiAppProps AuthUiService
begin

text \<open>
  The UI and the auth service together. Between them are the gateway, which rewrites the path, and the
  auth-ui service, which passes a passkey request on and hands back status and body. The answers that the UI gets this way have the type it expects, and a login
  that the auth service grants signs the player in, with a token that validates.
\<close>

section \<open>Calls\<close>

text \<open>A call of the UI to the gateway at \<open>gw\<close>, where it goes to the auth service or the auth-ui service
  (\<open>main\<close> in \<open>gateway/main.go\<close>). The result is \<open>None\<close> for the routes of other services.\<close>

definition call ::
  "'r platform \<Rightarrow> config \<Rightarrow> (string option \<Rightarrow> scope_check) \<Rightarrow> int \<Rightarrow> 'r auth_state \<Rightarrow> string \<Rightarrow> fetch
    \<Rightarrow> (response \<times> 'r auth_state) option" where
  "call P cfg gate now s gw f =
     (let url = gateway_path gw (f_url f); auth = map_of (f_headers f) ''Authorization'' in
      if f_method f = ''OPTIONS'' then Some (Answer 204 [], s)
      else if starts_with ''/api/auth/'' url then
        Some (map_prod gateway_answer id
          (requestHandler P cfg now (upstream (rewrite_path ''/api/auth/'' ''/'' url) auth f) s))
      else if starts_with ''/api/auth-ui/passkey/register/'' url \<and> gate auth \<noteq> Passes then
        Some (scope_error (gate auth), s)
      else if starts_with ''/api/auth-ui/'' url then
        Some (auth_ui_service (requestHandler P cfg now)
          (upstream (rewrite_path ''/api/auth-ui/'' ''/'' url) auth f) s)
      else None)"

section \<open>The answers of the auth service\<close>

lemma session_result:
  "auth_result_of (JObj ([(''accessToken'', JStr tok), (''expiresIn'', JNum (of_int JWT_EXPIRES_IN)),
      (''playerId'', JStr (player.p_id p)), (''playerName'', JStr (player.p_name p)), (''email'', JStr (player.p_email p))])) =
    \<lparr>ar_accessToken = Some (JStr tok), ar_expiresIn = Some 3600, ar_playerId = Some (JStr (player.p_id p)),
     ar_playerName = Some (JStr (player.p_name p)), ar_email = Some (JStr (player.p_email p))\<rparr>"
  "auth_result_of (JObj ((''verified'', JBool True) # [(''accessToken'', JStr tok),
      (''expiresIn'', JNum (of_int JWT_EXPIRES_IN)), (''playerId'', JStr (player.p_id p)),
      (''playerName'', JStr (player.p_name p)), (''email'', JStr (player.p_email p))])) =
    \<lparr>ar_accessToken = Some (JStr tok), ar_expiresIn = Some 3600, ar_playerId = Some (JStr (player.p_id p)),
     ar_playerName = Some (JStr (player.p_name p)), ar_email = Some (JStr (player.p_email p))\<rparr>"
  by (simp_all add: auth_result_of_def get_prop_def JWT_EXPIRES_IN_def)

definition session_body :: "(string \<times> json) list \<Rightarrow> string \<Rightarrow> player \<Rightarrow> json" where
  "session_body extra tok p =
     JObj (extra @ [(''accessToken'', JStr tok), (''expiresIn'', JNum (of_int JWT_EXPIRES_IN)),
              (''playerId'', JStr (player.p_id p)), (''playerName'', JStr (player.p_name p)),
              (''email'', JStr (player.p_email p))])"

lemma session_reply_body: "\<exists>hs. session_reply extra tok p = Reply 200 hs (JsonBody (session_body extra tok p))"
  by (simp add: session_reply_def jsonResponse_def session_body_def)

definition session_extra :: "(string \<times> json) list \<Rightarrow> bool" where
  "session_extra extra \<longleftrightarrow> extra = [] \<or> extra = [(''verified'', JBool True)]"

lemma session_body_parsed:
  assumes "session_extra extra"
  shows "JSON_parse (JSON_stringify (session_body extra tok p)) = Some (session_body extra tok p)"
  using assms by (intro parse_stringify) (auto simp: session_extra_def session_body_def JWT_EXPIRES_IN_def)

lemma session_body_result:
  assumes "session_extra extra"
  shows "auth_result_of (session_body extra tok p) =
    \<lparr>ar_accessToken = Some (JStr tok), ar_expiresIn = Some 3600, ar_playerId = Some (JStr (player.p_id p)),
     ar_playerName = Some (JStr (player.p_name p)), ar_email = Some (JStr (player.p_email p))\<rparr>"
  using assms session_result [of tok p] by (auto simp: session_extra_def session_body_def)

lemma session_body_answer: "session_extra extra \<Longrightarrow> session_answer (JSON_stringify (session_body extra tok p))"
  by (simp add: session_answer_def session_body_parsed session_body_result typed_result_def is_text_def is_int_def)

text \<open>Successful answers of the two routes that sign in.\<close>

lemma login_answer:
  assumes "fst (handle_passkey_login_complete P cfg now rq s) = Reply st hs b" and "resp_ok st"
  shows "\<exists>tok p. b = JsonBody (session_body [] tok p)"
  using assms
  by (auto simp: handle_passkey_login_complete_def await_def complete_login_def session_reply_def jsonResponse_def
      session_body_def error_reply_def resp_ok_def Let_def split_beta
      split: option.splits sum.splits if_splits auth_outcome.splits)

lemma registration_answer:
  assumes "fst (complete_registration P cfg now (Some ''enroll'') p cr resp ch s) = Reply st hs b" and "resp_ok st"
  shows "\<exists>tok. b = JsonBody (session_body [(''verified'', JBool True)] tok p)"
  using assms
  by (auto simp: complete_registration_def session_reply_def jsonResponse_def session_body_def error_reply_def
      resp_ok_def Let_def split_beta split: option.splits sum.splits if_splits reg_outcome.splits)

lemma guard_passed:
  assumes "fst (require_enroll_scope P cfg now rq s k) = Reply st hs b" and "resp_ok st"
    and "Option.bind (getBearerToken rq) (verifyJWT P cfg now) = Some c"
  shows "\<exists>p. fst (k (cl_scope c) p) = Reply st hs b"
  using assms
  by (auto simp: require_enroll_scope_def await_def error_reply_def jsonResponse_def resp_ok_def
      split: option.splits sum.splits if_splits bind_splits)

lemma enrolment_answer:
  assumes "fst (handle_passkey_register_complete P cfg now rq s) = Reply st hs b" and "resp_ok st"
    and "Option.bind (getBearerToken rq) (verifyJWT P cfg now) = Some c" and "cl_scope c = Some ''enroll''"
  shows "\<exists>tok p. b = JsonBody (session_body [(''verified'', JBool True)] tok p)"
  using guard_passed [OF assms(1) [unfolded handle_passkey_register_complete_def] assms(2,3)] assms(2)
  by (elim exE)
    (auto simp: assms(4) await_def jsonResponse_def error_reply_def resp_ok_def Let_def split_beta
      split: option.splits sum.splits if_splits dest!: registration_answer [OF _ assms(2)])

text \<open>An exchange never answers with a session.\<close>

lemma exchange_answer:
  assumes "fst (handle_exchange P cfg now rq s) = Reply st hs b"
  shows "\<exists>j. b = JsonBody j \<and> plain_json j \<and> \<not> truthy_at j ''accessToken''"
  using assms
  by (auto simp: handle_exchange_def await_def jsonResponse_def error_reply_def truthy_at_def get_prop_def
      Let_def split_beta split: option.splits sum.splits if_splits)

lemma gateway_error_typed:
  "typed_answer (go_encode (text_object [(''code'', ''upstream_error''), (''message'', ''auth service unavailable'')]))"
  by (simp add: typed_answer_def text_object_parsed) (simp add: text_object_def truthy_at_def get_prop_def)

section \<open>Typed answers\<close>

text \<open>A passkey request arrives as it was sent.\<close>

lemma passed_on:
  assumes "p = ''/passkey/'' @ q" and "CHR ''?'' \<notin> set q" and "f_method f = ''POST''" and "a \<noteq> Some []"
  shows "auth_ui_service auth (upstream p a f) s = map_prod auth_ui_answer id (auth (upstream p a f) s)"
proof -
  have p: "url_path p = p" "url_query p = []" using assms(1,2) no_query [of p] by simp_all
  have "passkey_path p = p" unfolding assms(1) by (simp add: passkey_path_def trim_prefix_def starts_with_def)
  moreover have "p \<noteq> ''/fields''" "p \<noteq> ''/submit''" "starts_with ''/passkey/'' p"
    by (simp_all add: assms(1) starts_with_def)
  ultimately show ?thesis using assms(3,4)
    by (auto simp: auth_ui_service_def passkeyHandler_def proxyToAuth_def upstream_def p split: option.splits)
qed

lemma calls:
  assumes "\<not> starts_with ''/'' gw"
  shows "call P cfg gate now s gw (exchange_request code) =
     Some (map_prod gateway_answer id
       (handle_exchange P cfg now (upstream ''/exchange'' None (exchange_request code)) s))"
  and "call P cfg gate now s gw (auth_ui gw ''/passkey/login/complete'' cr) =
     Some (map_prod auth_ui_answer id
       (handle_passkey_login_complete P cfg now
          (upstream ''/passkey/login/complete'' None (auth_ui gw ''/passkey/login/complete'' cr)) s))"
  and "call P cfg gate now s gw (enroll_request gw tok ''complete'' cr) =
     Some (if gate (Some (''Bearer '' @ tok)) \<noteq> Passes then (scope_error (gate (Some (''Bearer '' @ tok))), s)
           else map_prod auth_ui_answer id
             (handle_passkey_register_complete P cfg now
                (upstream ''/passkey/register/complete'' (Some (''Bearer '' @ tok))
                   (enroll_request gw tok ''complete'' cr)) s))"
proof -
  have dispatch: "posts ''/exchange'' (upstream ''/exchange'' a (exchange_request code))"
    "posts ''/passkey/login/complete'' (upstream ''/passkey/login/complete'' a (auth_ui gw p cr))"
    "posts ''/passkey/register/complete'' (upstream ''/passkey/register/complete'' a (enroll_request gw tok x cr))" for a p x
    by (simp_all add: posts_def upstream_def exchange_request_def auth_ui_def enroll_request_def)
  show "call P cfg gate now s gw (exchange_request code) =
     Some (map_prod gateway_answer id
       (handle_exchange P cfg now (upstream ''/exchange'' None (exchange_request code)) s))"
    unfolding dispatch(1) [THEN AuthClaims.dispatch(1), symmetric]
    by (simp add: call_def exchange_request_def starts_with_def trim_prefix_def rewrite_path_def content_json_def)
  show "call P cfg gate now s gw (auth_ui gw ''/passkey/login/complete'' cr) =
     Some (map_prod auth_ui_answer id
       (handle_passkey_login_complete P cfg now
          (upstream ''/passkey/login/complete'' None (auth_ui gw ''/passkey/login/complete'' cr)) s))"
    unfolding dispatch(2) [THEN AuthClaims.dispatch(5), symmetric]
    by (simp add: call_def auth_ui_def assms Let_def)
      (simp add: starts_with_def trim_prefix_def rewrite_path_def content_json_def passed_on)
  show "call P cfg gate now s gw (enroll_request gw tok ''complete'' cr) =
     Some (if gate (Some (''Bearer '' @ tok)) \<noteq> Passes then (scope_error (gate (Some (''Bearer '' @ tok))), s)
           else map_prod auth_ui_answer id
             (handle_passkey_register_complete P cfg now
                (upstream ''/passkey/register/complete'' (Some (''Bearer '' @ tok))
                   (enroll_request gw tok ''complete'' cr)) s))"
    unfolding dispatch(3) [THEN AuthClaims.dispatch(6), symmetric]
    by (simp add: call_def enroll_request_def assms Let_def)
      (simp add: starts_with_def trim_prefix_def rewrite_path_def content_json_def bearer_header_def passed_on)
qed

lemma typed_login:
  "typed_msg (ModalM (AmCompleted (auth_ui_answer (fst (handle_passkey_login_complete P cfg now rq s)))))"
proof (cases "fst (handle_passkey_login_complete P cfg now rq s)")
  case (Reply st hs b)
  then show ?thesis using login_answer [OF Reply] session_body_answer [of "[]"] by (auto simp: session_extra_def)
next
  case (Rejected e)
  then show ?thesis by (simp add: write_json_def resp_ok_def)
qed

lemma typed_enrolment:
  assumes "Option.bind (getBearerToken rq) (verifyJWT P cfg now) = Some c" and "cl_scope c = Some ''enroll''"
  shows "typed_msg (EnrollM (EnrollCompleted (auth_ui_answer (fst (handle_passkey_register_complete P cfg now rq s)))))"
proof (cases "fst (handle_passkey_register_complete P cfg now rq s)")
  case (Reply st hs b)
  then show ?thesis using enrolment_answer [OF Reply _ assms] session_body_answer [of "[(''verified'', JBool True)]"]
    by (auto simp: session_extra_def)
next
  case (Rejected e)
  then show ?thesis by (simp add: write_json_def resp_ok_def)
qed

lemma typed_exchange: "typed_msg (GotExchange (gateway_answer (fst (handle_exchange P cfg now rq s))))"
proof (cases "fst (handle_exchange P cfg now rq s)")
  case (Reply st hs b)
  then obtain j where "b = JsonBody j" "plain_json j" "\<not> truthy_at j ''accessToken''"
    using exchange_answer by blast
  then show ?thesis by (simp add: Reply typed_answer_def parse_stringify)
next
  case (Rejected e)
  then show ?thesis by (simp add: write_json_def gateway_error_typed)
qed

lemma typed_refusal: "g \<noteq> Passes \<Longrightarrow> typed_msg (EnrollM (EnrollCompleted (scope_error g)))"
  by (cases g) (simp_all add: write_json_def resp_ok_def)

text \<open>C21. What the UI takes for granted of the answers that sign a player in holds of the auth service, in
  every state of it and also when the gateway refuses a call or the service breaks down: the answers to an
  exchange, to the end of a login, and to the end of an enrolment with a bootstrap token are typed the way
  the reachable states of the UI assume.\<close>

theorem auth_answers_typed:
  assumes "\<not> starts_with ''/'' gw"
    and "call P cfg gate now s gw (exchange_request code) = Some (r1, s1)"
    and "call P cfg gate now s gw (auth_ui gw ''/passkey/login/complete'' cr) = Some (r2, s2)"
    and "call P cfg gate now s gw (enroll_request gw tok ''complete'' cr') = Some (r3, s3)"
    and "verifyJWT P cfg now tok = Some c" and "cl_scope c = Some ''enroll''"
  shows "typed_msg (GotExchange r1) \<and> typed_msg (ModalM (AmCompleted r2)) \<and>
    typed_msg (EnrollM (EnrollCompleted r3))"
proof -
  have b: "Option.bind (getBearerToken (upstream p (Some (''Bearer '' @ tok)) f)) (verifyJWT P cfg now) = Some c" for p f
    using assms(5) by (simp add: getBearerToken_def upstream_def starts_with_def)
  have "typed_msg (GotExchange r1)"
    using assms(2) by (auto simp: calls [OF assms(1)] map_prod_def split_beta intro: typed_exchange)
  moreover have "typed_msg (ModalM (AmCompleted r2))"
    using assms(3) by (auto simp: calls [OF assms(1)] map_prod_def split_beta intro: typed_login)
  moreover have "typed_msg (EnrollM (EnrollCompleted r3))"
    using assms(4) typed_refusal typed_enrolment [OF b assms(6)]
    by (auto simp: calls [OF assms(1)] map_prod_def split_beta split: if_splits)
  ultimately show ?thesis by simp
qed

definition demo_call :: "fetch \<Rightarrow> (response \<times> ttl_store auth_state) option" where
  "demo_call = call ref_platform demo_cfg (\<lambda>auth. Passes) 3000 (svc challenged) ''https://gw''"

lemma auth_answers_typed_witness:
  "typed_msg (GotExchange (fst (the (demo_call (exchange_request ''c''))))) \<and>
   typed_msg (ModalM (AmCompleted (fst (the (demo_call (auth_ui ''https://gw'' ''/passkey/login/complete'' JNull)))))) \<and>
   typed_msg (EnrollM (EnrollCompleted
     (fst (the (demo_call (enroll_request ''https://gw'' demo_bootstrap ''complete'' JNull))))))"
proof -
  have gw: "\<not> starts_with ''/'' ''https://gw''" by (simp add: starts_with_def)
  have ex: "demo_call (exchange_request ''c'') \<noteq> None"
    "demo_call (auth_ui ''https://gw'' ''/passkey/login/complete'' JNull) \<noteq> None"
    "demo_call (enroll_request ''https://gw'' demo_bootstrap ''complete'' JNull) \<noteq> None"
    by (simp_all add: demo_call_def calls [OF gw])
  have b: "verifyJWT ref_platform demo_cfg 3000 demo_bootstrap = Some
     \<lparr>cl_sub = Some ''uuid-'', cl_email = Some ''ann@example.com'', cl_name = Some ''Ann'',
      cl_scope = Some ''enroll'', cl_sessionId = None, cl_iss = Some ''tca-blackjack'', cl_exp = Some 303\<rparr>"
    by code_simp
  show ?thesis
    using ex auth_answers_typed [OF gw _ _ _ b, of "\<lambda>auth. Passes" "svc challenged" "''c''" _ _ JNull _ _ JNull]
    by (auto simp: demo_call_def)
qed

section \<open>A login\<close>

text \<open>The last two calls of the UI: the ceremony hands over a credential, and the answer signs in.\<close>

definition login_call :: "string \<Rightarrow> json \<Rightarrow> fetch" where
  "login_call gw cr = auth_ui gw ''/passkey/login/complete'' cr"

lemma effects_keep_live:
  assumes "a_session a = Some s" and "se_expiresAt s = Some e" and "of_int now < e"
  shows "a_session (fst (effects c now old a)) = Some s"
  using assms by (simp add: effects_def expiry_effect_def expiry_def)

lemma step_keeps_live:
  assumes "a_session (fst (app_handle c now m a)) = Some s" and "se_expiresAt s = Some e" and "of_int now < e"
  shows "a_session (fst (app_step c now m a)) = Some s"
  using effects_keep_live [OF effects_keep_live [OF assms] assms(2,3)] by (simp add: app_step_fst Let_def)

lemma modal_frames [simp]:
  "a_modal (hook_effect old a) = a_modal a" "a_modal (expiry now a) = a_modal a"
  "a_modal (restock_effect old new a) = a_modal a" "a_modal (bet_sync a) = a_modal a"
  by (simp_all add: hook_effect_def expiry_def restock_effect_def bet_sync_def split: option.split)

lemma effects_modal [simp]: "a_modal (fst (effects c now old a)) = a_modal a"
  by (simp add: effects_def expiry_effect_def)

lemma step_modal: "a_modal (fst (app_step c now m a)) = a_modal (fst (app_handle c now m a))"
  by (simp add: app_step_fst Let_def)

lemma ceremony_step:
  assumes "a_modal a = Some m" and "am_stage m = AmCeremony"
  shows "app_handle c now (ModalM (AmSigned (Credential cr))) a =
    (a\<lparr>a_modal := Some (m\<lparr>am_stage := AmComplete\<rparr>)\<rparr>, [DoFetch (login_call (u_gateway c) cr)])"
  using assms by (simp add: handle_modal_def am_step_def am_handle_def login_signed_def login_call_def)

lemma completed_step:
  assumes "a_modal a = Some m" and "am_stage m = AmComplete" and "resp_ok st"
    and "JSON_parse body = Some j" and "j \<noteq> JNull"
  shows "a_modal (fst (app_handle c now (ModalM (AmCompleted (Answer st body))) a)) = None \<and>
    a_session (fst (app_handle c now (ModalM (AmCompleted (Answer st body))) a)) =
      Some (fst (saveSession now (auth_result_of j)))"
  using assms by (simp add: handle_modal_def am_step_def am_handle_def login_completed_def json_answer_def
      sign_in_def split_beta)

text \<open>What a granted login answers, as the UI gets it.\<close>

lemma granted_call:
  assumes "platform_ok P" and "reachable P cfg y" and "clock y \<le> t" and "\<not> starts_with ''/'' gw"
    and "login_grant P cfg t (upstream ''/passkey/login/complete'' None (login_call gw cr)) (db (svc y)) j ch cred n"
    and "call P cfg gate t (svc y) gw (login_call gw cr) = Some (r, s')"
  obtains p tok where "player.p_id p = c_playerId cred"
    and "r = Answer 200 (JSON_stringify (session_body [] tok p))"
    and "tok \<in> set (reply_tokens (fst (requestHandler P cfg t
           (upstream ''/passkey/login/complete'' None (login_call gw cr)) (svc y))))"
proof -
  let ?rq = "upstream ''/passkey/login/complete'' None (login_call gw cr)"
  have po: "posts ''/passkey/login/complete'' ?rq" by (simp add: posts_def upstream_def login_call_def auth_ui_def)
  have i: "auth_inv P t (svc y)"
    using good_refl [OF _ assms(3), of True P "svc y"] reachable_inv [OF assms(2,1)]
    by (simp add: sys_inv_def good_def)
  obtain rep s1 where h: "handle_passkey_login_complete P cfg t ?rq (svc y) = (rep, s1)" by fastforce
  obtain p where p: "player.p_id p = c_playerId cred"
    and rep: "rep = session_reply [] (issueSessionJWT P cfg t p (randomUUID P (rand (svc y)))) p"
    by (rule login_outcome [OF assms(1) i assms(5) h])
  let ?tok = "issueSessionJWT P cfg t p (randomUUID P (rand (svc y)))"
  have "r = auth_ui_answer rep"
    using assms(6) h by (simp add: login_call_def calls [OF assms(4)])
  moreover have "?tok \<in> set (reply_tokens (fst (requestHandler P cfg t ?rq (svc y))))"
    by (simp add: AuthClaims.dispatch(5) [OF po] h rep session_reply_def jsonResponse_def List.map_filter_def)
  ultimately show ?thesis
    using p session_reply_body [of "[]" ?tok p] by (intro that [of p ?tok]) (auto simp: rep)
qed

text \<open>C3. A login from end to end. When the ceremony hands the dialog a credential, the UI calls
  \<open>/passkey/login/complete\<close> with it; when the auth service grants the login, its answer closes the dialog
  and signs in the owner of the credential, for an hour from the arrival of the answer; and the token the
  UI now holds is accepted by \<open>/validate\<close> until it expires, whatever the service does in between short of a
  reset.\<close>

theorem login_end_to_end:
  assumes "platform_ok P" and "reachable P cfg y" and "clock y \<le> t" and "\<not> starts_with ''/'' (u_gateway c)"
    and "a_modal a = Some m" and "am_stage m = AmCeremony"
    and "login_grant P cfg t (upstream ''/passkey/login/complete'' None (login_call (u_gateway c) cr))
           (db (svc y)) j ch cred n"
    and "call P cfg gate t (svc y) (u_gateway c) (login_call (u_gateway c) cr) = Some (r, s')"
  shows "DoFetch (login_call (u_gateway c) cr) \<in> set (snd (app_step c t0 (ModalM (AmSigned (Credential cr))) a)) \<and>
    (\<exists>(p :: player) tok b. player.p_id p = c_playerId cred \<and>
       b = fst (app_step c u (ModalM (AmCompleted r)) (fst (app_step c t0 (ModalM (AmSigned (Credential cr))) a))) \<and>
       a_modal b = None \<and>
       a_session b = Some \<lparr>se_accessToken = Some (JStr tok), se_playerId = Some (JStr (player.p_id p)),
         se_playerName = Some (JStr (player.p_name p)), se_email = Some (JStr (player.p_email p)),
         se_expiresAt = Some (of_int (u + 3600 * 1000))\<rparr> \<and>
       (\<forall>y' t' rq'.
          undisturbed P cfg (serve P cfg t (upstream ''/passkey/login/complete'' None (login_call (u_gateway c) cr)) y) y' \<longrightarrow>
          clock y' \<le> t' \<longrightarrow> t' div 1000 < t div 1000 + 3600 \<longrightarrow>
          posts ''/validate'' rq' \<longrightarrow> validate_token rq' = Some tok \<longrightarrow>
          status (fst (requestHandler P cfg t' rq' (svc y'))) = Some 200))"
proof -
  let ?rq = "upstream ''/passkey/login/complete'' None (login_call (u_gateway c) cr)"
  let ?a1 = "fst (app_step c t0 (ModalM (AmSigned (Credential cr))) a)"
  obtain p tok where p: "player.p_id p = c_playerId cred"
    and r: "r = Answer 200 (JSON_stringify (session_body [] tok p))"
    and tok: "tok \<in> set (reply_tokens (fst (requestHandler P cfg t ?rq (svc y))))"
    by (rule granted_call [OF assms(1-4,7,8)])
  let ?m = "ModalM (AmCompleted r)" and ?b = "fst (app_step c u (ModalM (AmCompleted r)) ?a1)"
  let ?s = "fst (saveSession u (auth_result_of (session_body [] tok p)))"
  have body: "JSON_parse (JSON_stringify (session_body [] tok p)) = Some (session_body [] tok p)"
    by (rule session_body_parsed) (simp add: session_extra_def)
  have ok: "session_body [] tok p \<noteq> JNull" "resp_ok 200" by (simp_all add: session_body_def resp_ok_def)
  have a1: "a_modal ?a1 = Some (m\<lparr>am_stage := AmComplete\<rparr>)"
    unfolding step_modal ceremony_step [OF assms(5,6)] by simp
  have stage: "am_stage (m\<lparr>am_stage := AmComplete\<rparr>) = AmComplete" by simp
  have finished: "a_modal (fst (app_handle c u ?m ?a1)) = None" "a_session (fst (app_handle c u ?m ?a1)) = Some ?s"
    unfolding r using completed_step [OF a1 stage ok(2) body ok(1), of c u] by blast+
  have s: "?s = \<lparr>se_accessToken = Some (JStr tok), se_playerId = Some (JStr (player.p_id p)),
     se_playerName = Some (JStr (player.p_name p)), se_email = Some (JStr (player.p_email p)),
     se_expiresAt = Some (of_int (u + 3600 * 1000))\<rparr>"
    by (simp add: saveSession_def session_body_result session_extra_def Let_def)
  have live: "(of_int u :: rat) < of_int (u + 3600 * 1000)" by (subst of_int_less_iff) simp
  have "a_session ?b = Some ?s"
    unfolding s by (rule step_keeps_live [OF finished(2) [unfolded s] _ live]) simp
  moreover have "a_modal ?b = None" unfolding step_modal by (rule finished(1))
  moreover have "DoFetch (login_call (u_gateway c) cr) \<in> set (snd (app_step c t0 (ModalM (AmSigned (Credential cr))) a))"
    by (simp add: app_step_def ceremony_step [OF assms(5,6)] split_beta Let_def del: app_handle.simps)
  moreover have "status (fst (requestHandler P cfg t' rq' (svc y'))) = Some 200"
    if "undisturbed P cfg (serve P cfg t ?rq y) y'" "clock y' \<le> t'" "t' div 1000 < t div 1000 + 3600"
      "posts ''/validate'' rq'" "validate_token rq' = Some tok" for y' t' rq'
  proof -
    have "unforged P cfg t ?rq y" "posts ''/passkey/login/complete'' ?rq"
      by (simp_all add: unforged_def upstream_def getBearerToken_def starts_with_def posts_def login_call_def auth_ui_def)
    from session_lives [OF assms(1-3) this assms(7) tok that] show ?thesis by auto
  qed
  ultimately show ?thesis
    unfolding s using p by (intro conjI exI [of _ p] exI [of _ tok] exI [of _ ?b]) blast+
qed

definition demo_credential_json :: json where
  "demo_credential_json = passkey ''eyJjaGFsbGVuZ2UiOiJsbGxsbGwifQ''"

definition demo_dialog :: app where
  "demo_dialog = ref_booted\<lparr>a_modal := Some am_begun\<rparr>"

lemma login_end_to_end_witness:
  "\<exists>r s' (p :: player) tok.
     call ref_platform demo_cfg (\<lambda>auth. Passes) 7000 (svc challenged) (u_gateway ref_config)
       (login_call (u_gateway ref_config) demo_credential_json) = Some (r, s') \<and>
     player.p_id p = ''uuid-'' \<and>
     a_session (fst (app_step ref_config 8000 (ModalM (AmCompleted r))
       (fst (app_step ref_config 6500 (ModalM (AmSigned (Credential demo_credential_json))) demo_dialog)))) =
       Some \<lparr>se_accessToken = Some (JStr tok), se_playerId = Some (JStr (player.p_id p)),
         se_playerName = Some (JStr (player.p_name p)), se_email = Some (JStr (player.p_email p)),
         se_expiresAt = Some (of_int (8000 + 3600 * 1000))\<rparr>"
proof -
  have gw: "\<not> starts_with ''/'' (u_gateway ref_config)" by (simp add: ref_config_def starts_with_def)
  have m: "a_modal demo_dialog = Some am_begun" "am_stage am_begun = AmCeremony"
    by (simp_all add: demo_dialog_def am_begun_stage)
  have rq: "upstream ''/passkey/login/complete'' None (login_call (u_gateway ref_config) demo_credential_json) =
      login_complete_req"
    by (simp add: upstream_def login_call_def auth_ui_def login_complete_req_def post_req_def demo_credential_json_def)
  have c: "c_playerId (rowToCredential (demo_credential 0)) = ''uuid-''"
    by (simp add: rowToCredential_def demo_credential_def)
  have t: "clock challenged \<le> 7000" by (simp add: challenged_def)
  obtain r s' where call: "call ref_platform demo_cfg (\<lambda>auth. Passes) 7000 (svc challenged) (u_gateway ref_config)
      (login_call (u_gateway ref_config) demo_credential_json) = Some (r, s')"
    by (simp add: login_call_def calls [OF gw] prod_eq_iff)
  show ?thesis
    using login_end_to_end [OF ref_platform_ok reach_challenged t gw m demo_grant [folded rq] call, of 6500 8000]
      call unfolding c by blast
qed

end
