(* ===== verification/Registration.thy ===== *)
theory Registration
  imports EndToEnd AuthRegister
begin

text \<open>
  A registration from end to end: the form of the sign-in dialog, the gateway, the auth-ui service that checks
  the form, and the auth service that stores the player. When the dialog ends on its page "check your email",
  and what the services keep then and otherwise.
\<close>

section \<open>The form at the auth-ui service\<close>

lemma map_get_value_of: "map_get = value_of"
  by (simp add: fun_eq_iff map_get_def value_of_def)

lemma submit_register_cong:
  assumes "map_get m = map_get m'"
  shows "submit_register auth m s = submit_register auth m' s"
  unfolding submit_register_def forwardToAuth_def register_request_def register_payload_def validateRegister_def
    email_errors_def assms ..

text \<open>The body that the dialog sends, and how it is read.\<close>

definition form_json :: "(string \<times> string) list \<Rightarrow> json" where
  "form_json vs = JObj [(''action'', JStr ''register''), (''fields'', JObj (map (\<lambda>(k, v). (k, JStr v)) vs))]"

lemma key_folds:
  "fold_key ''action'' = ''action''" "fold_key ''fields'' = ''fields''" "fold_key ''email'' = ''email''"
  "fold_key ''registered'' = ''registered''" "fold_key ''message'' = ''message''"
  by (simp_all add: lower_char_def)

lemma form_read:
  assumes "distinct (map fst vs)"
  shows "\<exists>m. Option.bind (go_decode (JSON_stringify (form_json vs))) decode_submit =
    Some \<lparr>sr_action = ''register'', sr_fields = m\<rparr> \<and> map_get m = map_get vs"
proof -
  have "plain_json (form_json vs)"
    using assms by (auto simp: form_json_def comp_def case_prod_unfold list_all_iff)
  moreover obtain m where "go_entries (map (\<lambda>(k, v). (k, JStr v)) vs) [] = Some m" "map_get m = map_get vs"
    using map_get_entries [OF assms] by blast
  ultimately show ?thesis
    by (simp add: decode_stringify) (simp add: form_json_def submit_entry_def key_folds del: fold_key.simps)
qed

lemma submitHandler_form:
  assumes "distinct (map fst vs)"
  shows "submitHandler auth \<lparr>rq_method = ''POST'', rq_path = p, rq_query = q, rq_authorization = a,
      rq_body = JSON_stringify (form_json vs)\<rparr> s = submit_register auth vs s"
proof -
  obtain m where m: "Option.bind (go_decode (JSON_stringify (form_json vs))) decode_submit =
      Some \<lparr>sr_action = ''register'', sr_fields = m\<rparr>" "map_get m = map_get vs"
    using form_read [OF assms] by blast
  show ?thesis
    using submit_register_cong [OF m(2), of auth s] by (simp add: submitHandler_def m(1))
qed

lemma submit_call:
  assumes "\<not> starts_with ''/'' gw" and "distinct (map fst vs)"
  shows "call P cfg gate now s gw (auth_ui gw ''/submit'' (form_json vs)) =
    Some (submit_register (requestHandler P cfg now) vs s)"
  using submitHandler_form [OF assms(2)]
  by (simp add: call_def auth_ui_def assms Let_def)
    (simp add: starts_with_def trim_prefix_def rewrite_path_def upstream_def auth_ui_service_def content_json_def)

section \<open>The two checks of an address\<close>

lemma lower_char_eq:
  assumes "of_char d < (65 :: nat)"
  shows "lower_char c = d \<longleftrightarrow> c = d"
proof -
  have "(of_char (lower_char c) :: nat) = (if 65 \<le> (of_char c :: nat) \<and> (of_char c :: nat) \<le> 90 then of_char c + 32 else of_char c)"
    by (simp add: lower_char_def of_char_of)
  then show ?thesis
    using assms of_char_eq_iff [of "lower_char c" d, where ?'a = nat] of_char_eq_iff [of c d, where ?'a = nat]
    by (auto split: if_splits)
qed

lemma lower_marks [simp]: "lower_char c = CHR ''@'' \<longleftrightarrow> c = CHR ''@''" "lower_char c = CHR ''.'' \<longleftrightarrow> c = CHR ''.''"
  by (simp_all add: lower_char_eq)

lemma email_char_lower [simp]: "email_char (lower_char c) = email_char c"
  by (simp add: email_char_def)

lemma class_plus_lower [simp]: "class_plus (js_lower s) = class_plus s"
  by (simp add: class_plus_def js_lower_def list_all_iff)

lemma class_plus_go: "class_plus s \<Longrightarrow> go_class_plus s"
  by (auto simp: class_plus_def go_class_plus_def email_char_def go_email_char_def is_ws_def list_all_iff)

lemma email_regex_lower: "email_regex (js_lower s) = email_regex s"
proof -
  have l: "take i (js_lower t) = js_lower (take i t)" "drop i (js_lower t) = js_lower (drop i t)"
    "length (js_lower t) = length t" "i < length t \<Longrightarrow> js_lower t ! i = lower_char (t ! i)" for i t
    by (simp_all add: js_lower_def take_map drop_map)
  show ?thesis by (auto simp: email_regex_def list_ex_iff l)
qed

lemma email_regex_go: "email_regex s \<Longrightarrow> emailRegex s"
  by (fastforce simp: email_regex_def emailRegex_def list_ex_iff dest: class_plus_go)

lemma email_regex_Nil [simp]: "\<not> email_regex []"
  by (simp add: email_regex_def)

text \<open>What the form holds, normalised.\<close>

definition form_email :: "(string \<times> string) list \<Rightarrow> string" where
  "form_email vs = js_lower (js_trim (value_of vs ''email''))"

definition form_name :: "(string \<times> string) list \<Rightarrow> string" where
  "form_name vs = js_trim (value_of vs ''name'')"

lemma form_valid:
  "validateRegister vs = [] \<longleftrightarrow>
    form_name vs \<noteq> [] \<and> length (form_name vs) \<le> 50 \<and> js_trim (value_of vs ''email'') \<noteq> [] \<and>
    emailRegex (js_trim (value_of vs ''email''))"
  by (auto simp: validateRegister_def email_errors_def form_name_def map_get_value_of Let_def)

lemma registrable_valid:
  assumes "email_regex (form_email vs)" and "form_name vs \<noteq> []"
  shows "validateRegister vs = [] \<longleftrightarrow> length (form_name vs) \<le> 50"
proof -
  have e: "email_regex (js_trim (value_of vs ''email''))"
    using assms(1) by (simp add: form_email_def email_regex_lower)
  then have "js_trim (value_of vs ''email'') \<noteq> []" by auto
  then show ?thesis using e assms(2) email_regex_go by (simp add: form_valid)
qed

section \<open>The form that is filled\<close>

fun form_of :: "auth_action \<Rightarrow> fieldsResponse" where
  "form_of Register = registerFields"
| "form_of Login = loginFields"

text \<open>The dialog asks for the form of its action, and gets it.\<close>

lemma form_served:
  assumes "\<not> starts_with ''/'' gw"
  shows "call P cfg gate now s gw (fields_request gw a) = Some (write_json 200 (fields_json (form_of a)), s)"
proof -
  have u: "url_path ''/fields?action=register'' = ''/fields''" "url_path ''/fields?action=login'' = ''/fields''"
    "url_query ''/fields?action=register'' = [(''action'', ''register'')]"
    "url_query ''/fields?action=login'' = [(''action'', ''login'')]"
    by (simp_all add: url_path_def url_query_def parse_pair_def List.map_filter_def)
  have "auth_ui_service (requestHandler P cfg now)
      (upstream (''/fields?action='' @ auth_action_name a) None (fields_request gw a)) s =
    (write_json 200 (fields_json (form_of a)), s)"
    by (cases a) (simp_all add: auth_ui_service_def upstream_def u fieldsHandler_def map_get_def fields_request_def)
  then show ?thesis
    by (simp add: call_def fields_request_def assms Let_def)
      (simp add: starts_with_def trim_prefix_def rewrite_path_def)
qed

lemma form_read_back: "JSON_parse (go_encode (fields_json (form_of a))) = Some (fields_json (form_of a))"
  by (rule parse_encode)
    (cases a; simp add: fields_json_def registerFields_def loginFields_def field_json_def email_field_def)

text \<open>In every state of the dialog, no field has two values.\<close>

lemma updates_distinct:
  "distinct (map fst acc) \<Longrightarrow> distinct (map fst (foldl (\<lambda>acc f. AList.update (k f) (v f) acc) acc fs))"
  by (induction fs arbitrary: acc) (simp_all add: distinct_update)

lemma register_result_values: "register_result email st data s = Inr s' \<Longrightarrow> am_values s' = am_values s"
  by (auto simp: register_result_def Let_def map_sum_def split: if_splits sum.splits option.splits json.splits)

lemma register_reply_values: "am_values (register_reply email r s) = am_values s"
  by (auto simp: register_reply_def Let_def dest: register_result_values split: response.split option.split sum.split)

lemma login_values [simp]:
  "am_values (fst (login_fail msg s)) = am_values s" "am_values (fst (login_begun B r s)) = am_values s"
  "am_values (fst (login_signed gw w s)) = am_values s" "am_values (fst (login_completed B r s)) = am_values s"
  "am_values (fst (login_submit gw s)) = am_values s" "am_values (fst (register_submit gw s)) = am_values s"
  by (simp_all add: login_fail_def login_begun_def login_signed_def login_completed_def login_submit_def
      register_submit_def Let_def split: sum.split webauthn.split option.split)

lemma handle_distinct:
  "distinct (map fst (am_values s)) \<Longrightarrow> distinct (map fst (am_values (fst (am_handle B gw m s))))"
  by (simp add: am_handle_def fields_reply_def register_reply_values distinct_update updates_distinct
      split: am_msg.split option.split am_stage.split)

lemma am_reachable_distinct: "am_reachable B gw m \<Longrightarrow> distinct (map fst (am_values m))"
proof (induction rule: am_reachable.induct)
  case (step s m)
  then show ?case
    using handle_distinct [of s B gw m] by (simp add: am_step_def load_fields_def split_beta)
qed (simp add: load_fields_def am_init_def)

section \<open>The auth service behind it\<close>

lemma register_request_reads: "registration (register_request vs) = Some (form_email vs, form_name vs)"
proof -
  have "parse_body (go_marshal (register_payload vs)) = Some (register_payload vs)"
    by (simp add: parse_body_def register_payload_def text_object_def parse_marshal)
      (simp add: go_marshal_def)
  then show ?thesis
    by (simp add: registration_def body_text_def register_request_def)
      (simp add: register_payload_def text_object_def map_get_value_of form_email_def form_name_def js_lower_trim)
qed

lemma register_dispatch:
  "requestHandler P cfg now (register_request vs) s = register_decision P cfg now (form_email vs) (form_name vs) s"
proof -
  have "posts ''/register'' (register_request vs)" by (simp add: posts_def register_request_def)
  from dispatch(4) [OF this, of P cfg now s] show ?thesis
    using register_unfold [OF register_request_reads, of P cfg now vs s] by simp
qed

lemma submit_valid:
  assumes "validateRegister vs = []"
  shows "submit_register (requestHandler P cfg now) vs s =
    (let (rep, s') = register_decision P cfg now (form_email vs) (form_name vs) s
     in case auth_answer rep of
          Inl (st, msg) \<Rightarrow> (write_json st (error_object msg), s')
        | Inr (st, r) \<Rightarrow> (write_json st (result_json r), s'))"
  by (simp add: submit_register_def assms forwardToAuth_def register_dispatch split_beta map_prod_def
      split: sum.split)

lemma created_answer:
  "auth_answer (jsonResponse 201
     (JObj [(''registered'', JBool True), (''message'', JStr m), (''email'', JStr e)])) =
   Inr (201, \<lparr>re_accessToken = [], re_expiresIn = 0, re_playerId = [], re_playerName = [], re_email = e\<rparr>)"
  by (simp add: jsonResponse_def go_unmarshal_def parse_stringify del: JSON_stringify.simps)
    (simp add: result_entry_def key_folds del: fold_key.simps)

lemma refused_answer:
  assumes "\<not> registrable e n (db s)" and "uuid_laws P" and "auth_inv P now s" 
  obtains st msg where "auth_answer (fst (register_decision P cfg now e n s)) = Inl (st, msg)"
    and "st = 503 \<longleftrightarrow> (\<exists>err. fst (register_decision P cfg now e n s) = Rejected err)"
    and "st \<in> {400, 409, 503}"
proof -
  let ?r = "fst (register_decision P cfg now e n s)"
  have "(\<exists>err. ?r = Rejected err) \<or> (\<exists>m. ?r = error_reply 400 m) \<or> (\<exists>m. ?r = error_reply 409 m)"
    using register_unregistrable [OF assms(2,3,1), of cfg]
    by (auto simp: register_decision_def await_def Let_def jsonResponse_def split: if_splits sum.splits)
  then show ?thesis
    by (elim disjE exE) (auto intro!: that simp: error_reply_def jsonResponse_def Let_def)
qed

text \<open>The answer to a form that gets a player stored, and to any other.\<close>

definition refusal :: "response \<Rightarrow> bool" where
  "refusal r \<longleftrightarrow>
     (\<exists>errs. errs \<noteq> [] \<and> r = write_json 422 (JObj [(''error'', JStr ''validation failed''), (''fields'', JArr (map error_json errs))])) \<or>
     (\<exists>st msg. st \<in> {400, 409, 503} \<and> r = write_json st (error_object msg))"

lemma form_granted:
  assumes "uuid_laws P" and "auth_inv P now s" and "registrable (form_email vs) (form_name vs) (db s)"
    and "length (form_name vs) \<le> 50" and "submit_register (requestHandler P cfg now) vs s = (r, s')"
  shows "(\<exists>x. r = write_json 201 (result_json x)) \<and>
    snd (register_decision P cfg now (form_email vs) (form_name vs) s) = s'"
proof -
  obtain rep t where d: "register_decision P cfg now (form_email vs) (form_name vs) s = (rep, t)" by fastforce
  have "validateRegister vs = []"
    using registrable_valid [of vs] assms(3,4) by (simp add: registrable_def)
  from submit_valid [OF this, of P cfg now s] show ?thesis
    using assms(5) by (simp add: d registered_state(1) [OF assms(1-3) d] created_answer) blast
qed

lemma form_refused:
  assumes "uuid_laws P" and "auth_inv P now s"
    and "\<not> (registrable (form_email vs) (form_name vs) (db s) \<and> length (form_name vs) \<le> 50)"
    and "submit_register (requestHandler P cfg now) vs s = (r, s')"
  shows "refusal r \<and> db s' = db s \<and> redis s' = redis s \<and> outbox s' = outbox s"
proof (cases "validateRegister vs = []")
  case False
  then have "s' = s" "refusal r"
    using assms(4) unfolding refusal_def by (auto simp: submit_register_def)
  then show ?thesis by simp
next
  case True
  let ?d = "register_decision P cfg now (form_email vs) (form_name vs) s"
  have n: "\<not> registrable (form_email vs) (form_name vs) (db s)" using True assms(3) by (simp add: form_valid)
  obtain st msg where a: "auth_answer (fst ?d) = Inl (st, msg)" "st \<in> {400, 409, 503}"
    by (rule refused_answer [OF n assms(1,2), of cfg])
  have "r = write_json st (error_object msg)" "s' = snd ?d"
    using submit_valid [OF True, of P cfg now s] assms(4) a(1) by (simp_all add: split_beta Let_def)
  then show ?thesis
    using register_unregistrable [OF assms(1,2) n, of cfg] a(2) unfolding refusal_def by auto
qed

section \<open>The dialog\<close>

lemma error_shown:
  assumes "st \<noteq> 422" and "\<not> resp_ok st"
  shows "register_reply email (write_json st (error_object msg)) s =
    s\<lparr>am_loading := False, am_stage := AmIdle, am_submitError := Some msg\<rparr>"
  by (simp add: register_reply_def write_json_def error_object_def text_object_parsed)
    (simp add: register_result_def text_object_def assms)

lemma field_errors_shown:
  "field_errors (map error_json errs) acc =
    Inr (foldl (\<lambda>acc e. AList.update (ve_field e) (ve_message e) acc) acc errs)"
  by (induction errs arbitrary: acc)
    (simp_all add: error_json_def text_object_def index_text_def get_prop_def)

lemma updates_nonempty: "acc \<noteq> [] \<Longrightarrow> foldl (\<lambda>acc e. AList.update (f e) (g e) acc) acc es \<noteq> []"
proof (induction es arbitrary: acc)
  case (Cons e es)
  have "AList.update (f e) (g e) acc \<noteq> []" by (cases acc) auto
  then show ?case using Cons by simp
qed simp

lemma errors_shown:
  assumes "errs \<noteq> []"
  shows "\<exists>es. es \<noteq> [] \<and>
    register_reply email
      (write_json 422 (JObj [(''error'', JStr ''validation failed''), (''fields'', JArr (map error_json errs))])) s =
    s\<lparr>am_loading := False, am_stage := AmIdle, am_fieldErrors := es\<rparr>"
proof -
  let ?j = "JObj [(''error'', JStr ''validation failed''), (''fields'', JArr (map error_json errs))]"
  let ?es = "foldl (\<lambda>acc e. AList.update (ve_field e) (ve_message e) acc) [] errs"
  have "JSON_parse (go_encode ?j) = Some ?j"
    by (rule parse_encode) (simp add: list_all_iff error_json_def text_object_def)
  moreover have "?es \<noteq> []" using assms by (cases errs) (simp_all add: updates_nonempty)
  ultimately show ?thesis
    by (intro exI [of _ ?es]) (simp add: register_reply_def write_json_def register_result_def field_errors_shown)
qed

lemma success_shown:
  "register_reply email (write_json 201 (result_json x)) s =
    s\<lparr>am_loading := False, am_stage := AmIdle, am_registeredEmail := email, am_page := CheckEmail\<rparr>"
  by (simp add: register_reply_def write_json_def parse_encode result_json_def)
    (simp add: register_result_def resp_ok_def)

lemma submit_step:
  assumes "am_action m = Register"
  shows "am_step B gw AmSubmit m =
    (m\<lparr>am_submitError := None, am_fieldErrors := [], am_loading := True,
       am_stage := AmRegistering (value_of (am_values m) ''email'')\<rparr>,
     [AmFetch (auth_ui gw ''/submit'' (form_json (am_values m)))])"
  by (simp add: am_step_def am_handle_def register_submit_def form_json_def assms)

lemma registered_step:
  assumes "am_stage m = AmRegistering email" and "register_reply email r m = x"
    and "am_action x = am_action m" and "am_page x = am_page m \<or> am_page x = CheckEmail"
  shows "fst (am_step B gw (AmRegistered r) m) = x"
  using assms(3,4) by (auto simp: am_step_def am_handle_def assms(1,2) load_fields_def)

lemma refusal_shown:
  assumes "refusal r" and "am_stage m = AmRegistering email"
  obtains x where "fst (am_step B gw (AmRegistered r) m) = x" and "am_page x = am_page m" and "\<not> am_loading x"
    and "am_submitError x \<noteq> None \<or> am_fieldErrors x \<noteq> []"
  using assms(1) unfolding refusal_def
proof (elim disjE exE conjE)
  fix errs assume "errs \<noteq> []" and r: "r = write_json 422 (JObj [(''error'', JStr ''validation failed''), (''fields'', JArr (map error_json errs))])"
  then obtain es where "es \<noteq> []" "register_reply email r m = m\<lparr>am_loading := False, am_stage := AmIdle, am_fieldErrors := es\<rparr>"
    using errors_shown by blast
  with registered_step [OF assms(2) this(2), of B gw] show ?thesis
    by (intro that [of "m\<lparr>am_loading := False, am_stage := AmIdle, am_fieldErrors := es\<rparr>"]) simp_all
next
  fix st :: nat and msg assume st: "st \<in> {400, 409, 503}" and r: "r = write_json st (error_object msg)"
  have "register_reply email r m = m\<lparr>am_loading := False, am_stage := AmIdle, am_submitError := Some msg\<rparr>"
    unfolding r by (rule error_shown) (use st in \<open>auto simp: resp_ok_def\<close>)
  with registered_step [OF assms(2) this, of B gw] show ?thesis
    by (intro that [of "m\<lparr>am_loading := False, am_stage := AmIdle, am_submitError := Some msg\<rparr>"]) simp_all
qed


definition filled_dialog :: auth_modal where
  "filled_dialog = am_init\<lparr>am_action := Register, am_values := [(''name'', ''Ann''), (''email'', '' Ann@Example.com '')]\<rparr>"


section \<open>Long addresses\<close>

lemma register_crash_iff:
  assumes "uuid_laws P" and "auth_inv P now s"
  shows "(\<exists>err. fst (register_decision P cfg now e n s) = Rejected err) \<longleftrightarrow>
    n \<noteq> [] \<and> email_regex e \<and> (\<forall>row \<in> set (players (db s)). r_email row \<noteq> e) \<and> (255 < chars e \<or> 50 < chars n)"
proof -
  let ?c = "createPlayer (uuid_in P) now (randomUUID P (rand s)) e n (db s)"
  have c: "(\<exists>p d. ?c = Inr (p, d)) \<longleftrightarrow> chars e \<le> 255 \<and> chars n \<le> 50" if "\<forall>row \<in> set (players (db s)). r_email row \<noteq> e"
    using createPlayer_Inr [OF assms(1), of now "rand s" e n "db s"] next_id_free [OF assms] that by auto
  have "e \<noteq> []" if "email_regex e" using that by auto
  then show ?thesis
    using c by (cases ?c)
      (auto simp: register_decision_def await_def findPlayerByEmail_None error_reply_def jsonResponse_def)
qed


definition long_email :: string where
  "long_email = replicate 250 CHR ''a'' @ ''@example.com''"

definition long_dialog :: auth_modal where
  "long_dialog = am_init\<lparr>am_action := Register, am_values := [(''name'', ''Ann''), (''email'', long_email)]\<rparr>"


end
